(* ===== verification/Prelude.thy ===== *)
theory Prelude
  imports Main "HOL-Library.AList" "HOL-Library.List_Lexorder" "HOL-Library.Char_ord"
begin

text \<open>
  Shared vocabulary of the development.  A Go \<open>string\<close> and a Go \<open>[]byte\<close> are both
  sequences of bytes and are both modelled as \<open>char list\<close>, so the conversions between
  them are the identity.  A Go \<open>map\<close> is an association list with distinct keys: the
  order of the list stands for the (unspecified) order in which Go iterates, so a statement
  about every list is a statement about every iteration order.  Fixed-width integers are
  \<open>int\<close> with the wrap-around written out by \<open>wrap32\<close> and \<open>wrap64\<close>.
\<close>

type_synonym bytes = "char list"
type_synonym ('k, 'v) gomap = "('k \<times> 'v) list"
type_synonym time = int  \<comment> \<open>nanoseconds since Go's zero time; \<open>t.IsZero()\<close> is \<open>t = 0\<close>\<close>

named_theorems gomap_simps \<open>rewriting of lookups in updated and deleted Go maps\<close>

section \<open>Go maps\<close>

definition gm_get :: "('k, 'v) gomap \<Rightarrow> 'k \<Rightarrow> 'v option" where
  "gm_get m k = map_of m k"

definition gm_put :: "('k, 'v) gomap \<Rightarrow> 'k \<Rightarrow> 'v \<Rightarrow> ('k, 'v) gomap" where
  "gm_put m k v = AList.update k v m"

definition gm_del :: "('k, 'v) gomap \<Rightarrow> 'k \<Rightarrow> ('k, 'v) gomap" where
  "gm_del m k = AList.delete k m"

definition gm_wf :: "('k, 'v) gomap \<Rightarrow> bool" where
  "gm_wf m \<longleftrightarrow> distinct (map fst m)"

text \<open>Deleting, inside a \<open>range\<close> loop, every entry that satisfies a condition.\<close>

definition gm_drop :: "('v \<Rightarrow> bool) \<Rightarrow> ('k, 'v) gomap \<Rightarrow> ('k, 'v) gomap" where
  "gm_drop p m = filter (\<lambda>(k, v). \<not> p v) m"

definition gm_sum :: "('v \<Rightarrow> int) \<Rightarrow> ('k, 'v) gomap \<Rightarrow> int" where
  "gm_sum f m = sum_list (map (\<lambda>(k, v). f v) m)"

lemma gm_get_Nil [simp, gomap_simps]: "gm_get [] k = None"
  by (simp add: gm_get_def)

lemma gm_get_put [simp, gomap_simps]:
  "gm_get (gm_put m k v) j = (if j = k then Some v else gm_get m j)"
  by (simp add: gm_get_def gm_put_def update_conv)

lemma gm_get_del [simp, gomap_simps]:
  "gm_get (gm_del m k) j = (if j = k then None else gm_get m j)"
  by (simp add: gm_get_def gm_del_def delete_conv)

lemma gm_wf_Nil [simp]: "gm_wf []"
  by (simp add: gm_wf_def)

lemma gm_wf_put [simp, intro]: "gm_wf m \<Longrightarrow> gm_wf (gm_put m k v)"
  by (simp add: gm_wf_def gm_put_def distinct_update)

lemma gm_wf_del [simp, intro]: "gm_wf m \<Longrightarrow> gm_wf (gm_del m k)"
  by (simp add: gm_wf_def gm_del_def distinct_delete)

lemma gm_wf_drop [simp, intro]: "gm_wf m \<Longrightarrow> gm_wf (gm_drop p m)"
  by (simp add: gm_wf_def gm_drop_def distinct_map_filter)

lemma gm_get_in_set: "gm_wf m \<Longrightarrow> gm_get m k = Some v \<longleftrightarrow> (k, v) \<in> set m"
  by (simp add: gm_wf_def gm_get_def)

lemma gm_get_drop [gomap_simps]:
  "gm_wf m \<Longrightarrow> gm_get (gm_drop p m) k = (case gm_get m k of None \<Rightarrow> None
     | Some v \<Rightarrow> if p v then None else Some v)"
  by (cases "gm_get m k")
    (auto simp: gm_get_def gm_drop_def gm_wf_def map_of_eq_None_iff
      map_of_eq_Some_iff [OF distinct_map_filter] map_of_eq_Some_iff
      dest: eq_key_imp_eq_value split: option.splits)

lemma gm_sum_Nil [simp]: "gm_sum f [] = 0"
  by (simp add: gm_sum_def)

lemma gm_sum_Cons [simp]: "gm_sum f ((k, v) # m) = f v + gm_sum f m"
  by (simp add: gm_sum_def)

lemma gm_del_notin: "gm_get m k = None \<Longrightarrow> gm_del m k = m"
  by (simp add: gm_get_def gm_del_def AList.delete_eq map_of_eq_None_iff filter_id_conv)
    (auto simp: image_iff)

lemma gm_sum_del:
  "gm_wf m \<Longrightarrow> gm_get m k = Some v \<Longrightarrow> gm_sum f (gm_del m k) = gm_sum f m - f v"
proof (induction m)
  case (Cons p m)
  obtain j w where p: "p = (j, w)" by (cases p)
  show ?case
  proof (cases "j = k")
    case True
    with Cons.prems p have "gm_get m k = None" and "w = v"
      by (auto simp: gm_get_def gm_wf_def map_of_eq_None_iff)
    with True p show ?thesis
      using gm_del_notin [of m k] by (simp add: gm_del_def)
  next
    case False
    with Cons p show ?thesis by (simp add: gm_del_def gm_get_def gm_wf_def)
  qed
qed simp

lemma gm_sum_put_new:
  "gm_get m k = None \<Longrightarrow> gm_sum f (gm_put m k v) = gm_sum f m + f v"
  by (induction m) (auto simp: gm_get_def gm_put_def)

lemma gm_sum_put_old:
  "gm_wf m \<Longrightarrow> gm_get m k = Some w \<Longrightarrow> gm_sum f (gm_put m k v) = gm_sum f m - f w + f v"
proof (induction m)
  case (Cons p m)
  obtain j u where p: "p = (j, u)" by (cases p)
  with Cons show ?case
    by (cases "j = k") (auto simp: gm_get_def gm_put_def gm_wf_def)
qed simp

lemma gm_sum_nonneg: "(\<And>v. 0 \<le> f v) \<Longrightarrow> 0 \<le> gm_sum f m"
  by (induction m) auto

lemma gm_del_length: "gm_get m k = Some v \<Longrightarrow> length (gm_del m k) < length m"
proof (induction m)
  case (Cons p m)
  obtain j w where p: "p = (j, w)" by (cases p)
  show ?case
    using Cons p AList.length_delete_le [of k m]
    by (cases "j = k") (auto simp: gm_del_def gm_get_def less_Suc_eq_le)
qed simp

lemma gm_get_keys: "k \<in> fst ` set m \<longleftrightarrow> gm_get m k \<noteq> None"
  by (simp add: gm_get_def map_of_eq_None_iff)

lemma gm_put_set: "(k, v) \<in> set (gm_put m j w) \<Longrightarrow> gm_wf m \<Longrightarrow> (k = j \<and> v = w) \<or> (k, v) \<in> set m"
  using gm_wf_put [of m j w] by (simp only: gm_get_in_set [symmetric] gm_get_put split: if_splits) auto

lemma gm_del_set: "(k, v) \<in> set (gm_del m j) \<Longrightarrow> (k, v) \<in> set m"
  by (induction m) (auto simp: gm_del_def split: if_splits)

lemma gm_del_put [simp, gomap_simps]: "gm_del (gm_put m k v) k = gm_del m k"
  by (induction m) (auto simp: gm_del_def gm_put_def)

lemma gm_keys_put [gomap_simps]: "fst ` set (gm_put m k v) = insert k (fst ` set m)"
  by (simp add: gm_put_def dom_update)

lemma gm_del_subset: "set (gm_del m k) \<subseteq> set m"
  by (auto dest: gm_del_set)

lemma gm_put_subset: "gm_wf m \<Longrightarrow> set (gm_put m k v) \<subseteq> insert (k, v) (set m)"
  by (auto dest: gm_put_set)

lemma gm_drop_subset: "set (gm_drop p m) \<subseteq> set m"
  by (auto simp: gm_drop_def)

lemma gm_sum_drop: "gm_sum f (gm_drop p m) = gm_sum f m - gm_sum (\<lambda>e. if p e then f e else 0) m"
  by (induction m) (auto simp: gm_drop_def)

section \<open>Fixed-width integers\<close>

definition wrap32 :: "int \<Rightarrow> int" where
  "wrap32 x = (x + 2 ^ 31) mod 2 ^ 32 - 2 ^ 31"

definition wrap64 :: "int \<Rightarrow> int" where
  "wrap64 x = (x + 2 ^ 63) mod 2 ^ 64 - 2 ^ 63"

definition int32_range :: "int \<Rightarrow> bool" where
  "int32_range x \<longleftrightarrow> - (2 ^ 31) \<le> x \<and> x < 2 ^ 31"

definition int64_range :: "int \<Rightarrow> bool" where
  "int64_range x \<longleftrightarrow> - (2 ^ 63) \<le> x \<and> x < 2 ^ 63"

lemma wrap32_id [simp]: "int32_range x \<Longrightarrow> wrap32 x = x"
  by (simp add: wrap32_def int32_range_def)

lemma wrap64_id [simp]: "int64_range x \<Longrightarrow> wrap64 x = x"
  by (simp add: wrap64_def int64_range_def)

lemma wrap32_range [simp]: "int32_range (wrap32 x)"
  using pos_mod_bound [of "2 ^ 32" "x + 2 ^ 31"] pos_mod_sign [of "2 ^ 32" "x + 2 ^ 31"]
  by (simp add: wrap32_def int32_range_def)

lemma wrap64_range [simp]: "int64_range (wrap64 x)"
  using pos_mod_bound [of "2 ^ 64" "x + 2 ^ 63"] pos_mod_sign [of "2 ^ 64" "x + 2 ^ 63"]
  by (simp add: wrap64_def int64_range_def)

lemma wrap64_succ: "0 \<le> x \<Longrightarrow> x < 2 ^ 63 - 1 \<Longrightarrow> wrap64 (x + 1) = x + 1"
  by (simp add: int64_range_def)

end
