(* ===== verification/Go_Lang.thy ===== *)
theory Go_Lang
  imports Prelude Complex_Main
begin

text \<open>
  What the program uses of the Go language and its standard library: slicing and indexing
  with their run-time panic, \<open>strings.HasPrefix/HasSuffix/ToLower/TrimSpace\<close>,
  \<open>strconv\<close>/\<open>fmt\<close> decimal formatting, \<open>encoding/hex\<close>, \<open>encoding/binary\<close>
  little-endian integers, \<open>float64\<close> values and their conversion to integers.

  \<open>strings.ToLower\<close> maps every rune; the program only ever compares its result with
  ASCII constants or stores it for such a name, and exactly two non-ASCII runes have an
  ASCII lower case (U+0130 to \<open>i\<close>, U+212A to \<open>k\<close>), so \<open>to_lower\<close> maps
  those two and ASCII letters and leaves the bytes of other runes unchanged.
\<close>

section \<open>Slices\<close>

datatype panic = SliceOutOfRange | NilDereference

definition go_index :: "'e \<Rightarrow> 'a list \<Rightarrow> nat \<Rightarrow> 'e + 'a" where
  "go_index panic xs i = (if i < length xs then Inr (xs ! i) else Inl panic)"

definition go_slice :: "'e \<Rightarrow> 'a list \<Rightarrow> nat \<Rightarrow> nat \<Rightarrow> 'e + 'a list" where
  "go_slice panic xs i j =
     (if i \<le> j \<and> j \<le> length xs then Inr (take (j - i) (drop i xs)) else Inl panic)"

lemma go_slice_ok [simp]:
  "i \<le> j \<Longrightarrow> j \<le> length xs \<Longrightarrow> go_slice p xs i j = Inr (take (j - i) (drop i xs))"
  by (simp add: go_slice_def)

lemma go_index_ok [simp]: "i < length xs \<Longrightarrow> go_index p xs i = Inr (xs ! i)"
  by (simp add: go_index_def)

section \<open>Strings\<close>

definition has_prefix :: "bytes \<Rightarrow> bytes \<Rightarrow> bool" where
  "has_prefix s p \<longleftrightarrow> take (length p) s = p"

definition has_suffix :: "bytes \<Rightarrow> bytes \<Rightarrow> bool" where
  "has_suffix s p \<longleftrightarrow> length p \<le> length s \<and> drop (length s - length p) s = p"

lemma has_prefix_iff: "has_prefix s p \<longleftrightarrow> (\<exists>t. s = p @ t)"
  unfolding has_prefix_def by (metis append_eq_conv_conj append_take_drop_id)

lemma has_suffix_iff: "has_suffix s p \<longleftrightarrow> (\<exists>t. s = t @ p)"
  unfolding has_suffix_def by (metis append_eq_conv_conj append_take_drop_id le_add2
      length_append diff_add_inverse2 add_diff_cancel_right')

definition ascii_lower :: "char \<Rightarrow> char" where
  "ascii_lower c =
     (if of_char c \<ge> (65::nat) \<and> of_char c \<le> (90::nat) then char_of (of_char c + 32 :: nat) else c)"

fun to_lower :: "bytes \<Rightarrow> bytes" where
  "to_lower [] = []"
| "to_lower (c # cs) =
     (if c = CHR 0xC4 \<and> take 1 cs = [CHR 0xB0] then CHR ''i'' # to_lower (drop 1 cs)
      else if c = CHR 0xE2 \<and> take 2 cs = [CHR 0x84, CHR 0xAA]
      then CHR ''k'' # to_lower (drop 2 cs)
      else ascii_lower c # to_lower cs)"

text \<open>
  \<open>strings.EqualFold\<close>: equality under simple case folding, which for ASCII letters also
  identifies U+212A with \<open>k\<close> and U+017F with \<open>s\<close>; other runes are compared as they are.
\<close>

fun fold_case :: "bytes \<Rightarrow> bytes" where
  "fold_case [] = []"
| "fold_case (c # cs) =
     (if c = CHR 0xE2 \<and> take 2 cs = [CHR 0x84, CHR 0xAA] then CHR ''k'' # fold_case (drop 2 cs)
      else if c = CHR 0xC5 \<and> take 1 cs = [CHR 0xBF] then CHR ''s'' # fold_case (drop 1 cs)
      else ascii_lower c # fold_case cs)"

definition equal_fold :: "bytes \<Rightarrow> bytes \<Rightarrow> bool" where
  "equal_fold s t \<longleftrightarrow> fold_case s = fold_case t"

text \<open>The UTF-8 encodings of the runes for which \<open>unicode.IsSpace\<close> holds.\<close>

definition unicode_spaces :: "bytes list" where
  "unicode_spaces =
     [[CHR 0x09], [CHR 0x0A], [CHR 0x0B], [CHR 0x0C], [CHR 0x0D], [CHR 0x20],
      [CHR 0xC2, CHR 0x85], [CHR 0xC2, CHR 0xA0], [CHR 0xE1, CHR 0x9A, CHR 0x80]]
     @ map (\<lambda>n. [CHR 0xE2, CHR 0x80, char_of (0x80 + n :: nat)]) [0..<11]
     @ [[CHR 0xE2, CHR 0x80, CHR 0xA8], [CHR 0xE2, CHR 0x80, CHR 0xA9],
        [CHR 0xE2, CHR 0x80, CHR 0xAF], [CHR 0xE2, CHR 0x81, CHR 0x9F],
        [CHR 0xE3, CHR 0x80, CHR 0x80]]"

fun strip_any :: "bytes list \<Rightarrow> bytes \<Rightarrow> bytes option" where
  "strip_any [] s = None"
| "strip_any (p # ps) s =
     (if p \<noteq> [] \<and> take (length p) s = p then Some (drop (length p) s) else strip_any ps s)"

lemma strip_any_less: "strip_any ps s = Some t \<Longrightarrow> length t < length s"
proof (induction ps)
  case (Cons p ps)
  have "s \<noteq> []" if "p \<noteq> []" "take (length p) s = p" using that by auto
  with Cons show ?case by (auto split: if_splits)
qed simp

function trim_front :: "bytes list \<Rightarrow> bytes \<Rightarrow> bytes" where
  "trim_front ps s = (case strip_any ps s of None \<Rightarrow> s | Some t \<Rightarrow> trim_front ps t)"
  by pat_completeness auto
termination
  by (relation "measure (\<lambda>(ps, s). length s)") (auto dest: strip_any_less)

declare trim_front.simps [simp del]

definition trim_space :: "bytes \<Rightarrow> bytes" where
  "trim_space s = rev (trim_front (map rev unicode_spaces) (rev (trim_front unicode_spaces s)))"

text \<open>\<open>strings.Split\<close> and \<open>bytes.Split\<close> at a one-byte separator.\<close>

fun split_on :: "char \<Rightarrow> bytes \<Rightarrow> bytes list" where
  "split_on sep [] = [[]]"
| "split_on sep (c # cs) = (if c = sep then [] # split_on sep cs
     else (case split_on sep cs of [] \<Rightarrow> [[c]] | p # ps \<Rightarrow> (c # p) # ps))"

lemma split_on_nonempty [simp]: "split_on sep s \<noteq> []"
  by (cases s) (auto split: list.splits)

lemma split_on_last [simp]: "sep \<notin> set s \<Longrightarrow> split_on sep s = [s]"
  by (induction s) auto

lemma split_on_append [simp]: "sep \<notin> set s \<Longrightarrow> split_on sep (s @ sep # t) = s # split_on sep t"
  by (induction s) auto

lemma split_first:
  "c \<notin> set xs \<Longrightarrow> c \<notin> set ys \<Longrightarrow> xs @ c # as = ys @ c # bs \<longleftrightarrow> xs = ys \<and> as = bs"
proof (induction xs arbitrary: ys)
  case Nil
  then show ?case by (cases ys) auto
next
  case (Cons a xs)
  then show ?case by (cases ys) auto
qed

lemma split_last:
  assumes "c \<notin> set as" and "c \<notin> set bs"
  shows "xs @ c # as = ys @ c # bs \<longleftrightarrow> xs = ys \<and> as = bs"
proof -
  have "xs @ c # as = ys @ c # bs \<longleftrightarrow> rev as @ c # rev xs = rev bs @ c # rev ys"
    by (metis append_assoc append_Cons append_Nil rev.simps(2) rev_append rev_rev_ident)
  thus ?thesis using assms by (auto simp: split_first)
qed

section \<open>Decimal and hexadecimal text\<close>

definition digit :: "nat \<Rightarrow> char" where
  "digit n = char_of (48 + n)"

fun nat_dec :: "nat \<Rightarrow> bytes" where
  "nat_dec n = (if n < 10 then [digit n] else nat_dec (n div 10) @ [digit (n mod 10)])"

declare nat_dec.simps [simp del]

definition itoa :: "int \<Rightarrow> bytes" where
  "itoa i = (if i < 0 then ''-'' @ nat_dec (nat (- i)) else nat_dec (nat i))"

definition hex_digit :: "nat \<Rightarrow> char" where
  "hex_digit n = (if n < 10 then char_of (48 + n) else char_of (87 + n))"

definition hex_encode :: "bytes \<Rightarrow> bytes" where
  "hex_encode s = concat (map (\<lambda>c. let n = of_char c :: nat
     in [hex_digit (n div 16), hex_digit (n mod 16)]) s)"

definition is_digit :: "char \<Rightarrow> bool" where
  "is_digit c \<longleftrightarrow> of_char c \<ge> (48::nat) \<and> of_char c \<le> (57::nat)"

lemma of_char_digit: "n < 10 \<Longrightarrow> of_char (digit n) = 48 + n"
  by (simp add: digit_def)

lemma digit_is_digit [simp]: "n < 10 \<Longrightarrow> is_digit (digit n)"
  by (simp add: is_digit_def of_char_digit)

lemma nat_dec_digits: "\<forall>c \<in> set (nat_dec n). is_digit c"
proof (induction n rule: nat_dec.induct)
  case (1 n)
  then show ?case by (subst nat_dec.simps) auto
qed

lemma nat_dec_nonempty [simp]: "nat_dec n \<noteq> []"
  by (subst nat_dec.simps) simp

fun dec_val :: "bytes \<Rightarrow> nat \<Rightarrow> nat" where
  "dec_val [] a = a"
| "dec_val (c # cs) a = dec_val cs (10 * a + (of_char c - 48))"

lemma dec_val_append: "dec_val (xs @ ys) a = dec_val ys (dec_val xs a)"
  by (induction xs arbitrary: a) auto

lemma dec_val_nat_dec: "dec_val (nat_dec n) 0 = n"
proof (induction n rule: nat_dec.induct)
  case (1 n)
  show ?case
  proof (cases "n < 10")
    case True
    then show ?thesis by (subst nat_dec.simps) (simp add: of_char_digit)
  next
    case False
    with 1 have "dec_val (nat_dec (n div 10)) 0 = n div 10" by simp
    with False show ?thesis
      by (subst nat_dec.simps) (simp add: dec_val_append of_char_digit)
  qed
qed

lemma nat_dec_inj: "nat_dec m = nat_dec n \<longleftrightarrow> m = n"
  by (metis dec_val_nat_dec)

lemma nat_dec_no_minus: "nat_dec n \<noteq> CHR ''-'' # s"
  using nat_dec_digits [of n] by (auto simp: is_digit_def)

lemma itoa_inj [simp]: "itoa i = itoa j \<longleftrightarrow> i = j"
  by (auto simp: itoa_def nat_dec_inj nat_dec_no_minus nat_dec_no_minus [symmetric]
      eq_nat_nat_iff split: if_splits)

lemma itoa_chars: "c \<in> set (itoa i) \<Longrightarrow> is_digit c \<or> c = CHR ''-''"
  using nat_dec_digits by (auto simp: itoa_def split: if_splits)

lemma hex_digit_inj: "m < 16 \<Longrightarrow> n < 16 \<Longrightarrow> hex_digit m = hex_digit n \<longleftrightarrow> m = n"
proof -
  assume a: "m < 16" "n < 16"
  have "hex_digit m = hex_digit n \<longleftrightarrow> (of_char (hex_digit m) :: nat) = of_char (hex_digit n)"
    by (simp add: of_char_eq_iff)
  with a show ?thesis by (auto simp: hex_digit_def split: if_splits)
qed

lemma hex_encode_Nil [simp]: "hex_encode [] = []"
  by (simp add: hex_encode_def)

lemma hex_encode_Cons:
  "hex_encode (c # cs) = hex_digit (of_char c div 16) # hex_digit (of_char c mod 16) # hex_encode cs"
  by (simp add: hex_encode_def Let_def)

lemma hex_encode_length [simp]: "length (hex_encode s) = 2 * length s"
  by (induction s) (auto simp: hex_encode_Cons)

lemma int_of_char_bounds [simp]: "0 \<le> (of_char c :: int)" "(of_char c :: int) < 256"
  using pos_mod_sign [of 256 "of_char c :: int"] pos_mod_bound [of 256 "of_char c :: int"]
  by simp_all

lemma hex_digit_not_nul: "n < 16 \<Longrightarrow> hex_digit n \<noteq> CHR 0x00"
proof -
  assume "n < 16"
  hence "(of_char (hex_digit n) :: nat) \<noteq> of_char (CHR 0x00)" by (auto simp: hex_digit_def split: if_splits)
  thus ?thesis by metis
qed

lemma hex_encode_no_nul: "CHR 0x00 \<notin> set (hex_encode s)"
proof (induction s)
  case (Cons c s)
  have "of_char c div 16 < (16::nat)"
    using nat_of_char_less_256 [of c] by (simp add: less_mult_imp_div_less)
  hence "hex_digit (of_char c div 16) \<noteq> CHR 0x00" by (rule hex_digit_not_nul)
  moreover have "hex_digit (of_char c mod 16) \<noteq> CHR 0x00" by (rule hex_digit_not_nul) simp
  ultimately show ?case using Cons by (simp only: hex_encode_Cons set_simps insert_iff) metis
qed simp

lemma hex_encode_inj: "hex_encode s = hex_encode t \<longleftrightarrow> s = t"
proof (induction s arbitrary: t)
  case Nil
  then show ?case by (cases t) (auto simp: hex_encode_Cons)
next
  case (Cons c s)
  have eq: "c = d" if "of_char c div 16 = (of_char d div 16 :: nat)"
      "of_char c mod 16 = (of_char d mod 16 :: nat)" for d :: char
    using that by (metis div_mult_mod_eq of_char_eq_iff)
  have lt: "of_char d div 16 < (16::nat)" for d :: char
    using nat_of_char_less_256 [of d] by (simp add: less_mult_imp_div_less)
  show ?case
    by (cases t) (use Cons eq lt in \<open>auto simp: hex_encode_Cons hex_digit_inj\<close>)
qed

section \<open>Little-endian integers\<close>

text \<open>\<open>binary.LittleEndian.Uint32\<close> of a four-byte slice, and \<open>PutUint32\<close>.\<close>

definition le_u32 :: "bytes \<Rightarrow> int" where
  "le_u32 b = (case b of
      [b0, b1, b2, b3] \<Rightarrow> of_char b0 + 256 * of_char b1 + 65536 * of_char b2
         + 16777216 * of_char b3
    | _ \<Rightarrow> 0)"

definition put_u32 :: "int \<Rightarrow> bytes" where
  "put_u32 x = (let u = x mod 2 ^ 32 in
     [char_of (u mod 256), char_of (u div 256 mod 256), char_of (u div 65536 mod 256),
      char_of (u div 16777216 mod 256)])"

lemma put_u32_length [simp]: "length (put_u32 x) = 4"
  by (simp add: put_u32_def Let_def)

lemma le_u32_nonneg [simp]: "0 \<le> le_u32 b"
  by (auto simp: le_u32_def split: list.splits)

lemma base256_digits:
  fixes u :: int
  assumes "0 \<le> u" and "u < 4294967296"
  shows "u mod 256 + 256 * (u div 256 mod 256) + 65536 * (u div 65536 mod 256)
      + 16777216 * (u div 16777216 mod 256) = u"
proof -
  define a b c where "a = u div 256" and "b = a div 256" and "c = b div 256"
  have ab: "u div 65536 = b" and c: "u div 16777216 = c"
    by (simp_all add: a_def b_def c_def flip: zdiv_zmult2_eq)
  have "c mod 256 = c" using assms c by (intro mod_pos_pos_trivial) auto
  moreover have "u = 256 * a + u mod 256" "a = 256 * b + a mod 256" "b = 256 * c + b mod 256"
    by (simp_all add: a_def b_def c_def)
  ultimately show ?thesis unfolding ab c a_def [symmetric] by linarith
qed

lemma le_u32_digits:
  "0 \<le> u \<Longrightarrow> u < 4294967296 \<Longrightarrow>
   le_u32 [char_of (u mod 256), char_of (u div 256 mod 256), char_of (u div 65536 mod 256),
      char_of (u div 16777216 mod 256)] = u"
  using base256_digits [of u] by (simp only: le_u32_def of_char_of mod_mod_trivial list.case)

lemma le_u32_put [simp]: "le_u32 (put_u32 x) = x mod 2 ^ 32"
  unfolding put_u32_def Let_def by (rule le_u32_digits) simp_all

lemma wrap32_mod: "wrap32 (x mod 2 ^ 32) = wrap32 x"
  by (simp add: wrap32_def mod_add_left_eq)

section \<open>Floating-point values\<close>

text \<open>
  A \<open>float64\<close> is a rational number, a NaN or an infinity (every finite double is one of
  these rationals).  Converting a value outside the target's range to an integer is
  implementation-dependent in Go, so the conversion takes that behaviour as a parameter.
\<close>

datatype f64 = F64 rat | F64_NaN | F64_Inf bool

definition f64_trunc :: "rat \<Rightarrow> int" where
  "f64_trunc q = (if q < 0 then - \<lfloor>- q\<rfloor> else \<lfloor>q\<rfloor>)"

definition f64_int64 :: "(f64 \<Rightarrow> int) \<Rightarrow> f64 \<Rightarrow> int" where
  "f64_int64 impl f = (case f of
      F64 q \<Rightarrow> if int64_range (f64_trunc q) then f64_trunc q else wrap64 (impl f)
    | _ \<Rightarrow> wrap64 (impl f))"

definition f64_int32 :: "(f64 \<Rightarrow> int) \<Rightarrow> f64 \<Rightarrow> int" where
  "f64_int32 impl f = (case f of
      F64 q \<Rightarrow> if int32_range (f64_trunc q) then f64_trunc q else wrap32 (impl f)
    | _ \<Rightarrow> wrap32 (impl f))"

lemma f64_int64_range [simp]: "int64_range (f64_int64 impl f)"
  by (simp add: f64_int64_def split: f64.splits)

lemma f64_int32_range [simp]: "int32_range (f64_int32 impl f)"
  by (simp add: f64_int32_def split: f64.splits)

end
