(* ===== verification/Sha256.thy ===== *)
theory Sha256
  imports Go_Lang "HOL-Library.Word"
begin

text \<open>
  The standard library's \<open>crypto/sha256.Sum256\<close> (FIPS 180-4) on byte strings.  The
  program uses it to digest normalised commands for cache keys and to fingerprint access
  tokens.  Nothing here assumes the hash to be injective: theorems about keys and tokens
  conclude equality of digests.
\<close>

unbundle bit_operations_syntax

type_synonym u32 = "32 word"

definition rotr32 :: "nat \<Rightarrow> u32 \<Rightarrow> u32" where
  "rotr32 n x = drop_bit n x OR push_bit (32 - n) x"

text \<open>
  The constants are the first 32 bits of the fractional parts of the cube roots of the first
  64 primes, and of the square roots of the first 8, in decimal.
\<close>

definition sha_K :: "u32 list" where
  "sha_K = map of_int [
    1116352408, 1899447441, 3049323471, 3921009573, 961987163, 1508970993, 2453635748,
    2870763221, 3624381080, 310598401, 607225278, 1426881987, 1925078388, 2162078206,
    2614888103, 3248222580, 3835390401, 4022224774, 264347078, 604807628, 770255983,
    1249150122, 1555081692, 1996064986, 2554220882, 2821834349, 2952996808, 3210313671,
    3336571891, 3584528711, 113926993, 338241895, 666307205, 773529912, 1294757372,
    1396182291, 1695183700, 1986661051, 2177026350, 2456956037, 2730485921, 2820302411,
    3259730800, 3345764771, 3516065817, 3600352804, 4094571909, 275423344, 430227734,
    506948616, 659060556, 883997877, 958139571, 1322822218, 1537002063, 1747873779,
    1955562222, 2024104815, 2227730452, 2361852424, 2428436474, 2756734187, 3204031479,
    3329325298]"

definition sha_H0 :: "u32 list" where
  "sha_H0 = map of_int [1779033703, 3144134277, 1013904242, 2773480762,
    1359893119, 2600822924, 528734635, 1541459225]"

definition be_word :: "bytes \<Rightarrow> u32" where
  "be_word b = fold (\<lambda>c w. push_bit 8 w + of_nat (of_char c)) b 0"

definition word_be :: "u32 \<Rightarrow> bytes" where
  "word_be w = map (\<lambda>s. char_of (unat (drop_bit s w))) [24, 16, 8, 0]"

text \<open>Padding: a \<open>1\<close> bit, zeros, and the bit length as a 64-bit big-endian integer.\<close>

definition sha_pad :: "bytes \<Rightarrow> bytes" where
  "sha_pad m = m @ [CHR 0x80] @ replicate ((119 - length m mod 64) mod 64) (CHR 0x00)
     @ map (\<lambda>s. char_of (8 * length m div 2 ^ s)) [56, 48, 40, 32, 24, 16, 8, 0]"

fun chunks :: "nat \<Rightarrow> nat \<Rightarrow> 'a list \<Rightarrow> 'a list list" where
  "chunks 0 k xs = []"
| "chunks (Suc n) k xs = take k xs # chunks n k (drop k xs)"

text \<open>The message schedule, most recent word first while it is built.\<close>

fun sha_schedule :: "nat \<Rightarrow> u32 list \<Rightarrow> u32 list" where
  "sha_schedule 0 ws = ws"
| "sha_schedule (Suc n) ws =
     (let w15 = ws ! 14; w2 = ws ! 1;
          s0 = (rotr32 7 w15 XOR rotr32 18 w15) XOR drop_bit 3 w15;
          s1 = (rotr32 17 w2 XOR rotr32 19 w2) XOR drop_bit 10 w2
      in sha_schedule n ((ws ! 15 + s0 + ws ! 6 + s1) # ws))"

fun sha_rounds :: "(u32 \<times> u32) list \<Rightarrow> u32 list \<Rightarrow> u32 list" where
  "sha_rounds ((k, w) # kws) [a, b, c, d, e, f, g, h] =
     (let S1 = (rotr32 6 e XOR rotr32 11 e) XOR rotr32 25 e;
          ch = (e AND f) XOR (NOT e AND g);
          t1 = h + S1 + ch + k + w;
          S0 = (rotr32 2 a XOR rotr32 13 a) XOR rotr32 22 a;
          maj = ((a AND b) XOR (a AND c)) XOR (b AND c)
      in sha_rounds kws [t1 + (S0 + maj), a, b, c, d + t1, e, f, g])"
| "sha_rounds kws st = st"

definition sha_block :: "bytes \<Rightarrow> u32 list \<Rightarrow> u32 list" where
  "sha_block blk st =
     (let ws = rev (sha_schedule 48 (rev (map be_word (chunks 16 4 blk))))
      in map2 (+) st (sha_rounds (zip sha_K ws) st))"

definition sha256 :: "bytes \<Rightarrow> bytes" where
  "sha256 m = (let p = sha_pad m
     in concat (map word_be (fold sha_block (chunks (length p div 64) 64 p) sha_H0)))"

lemma sha_rounds_length [simp]: "length (sha_rounds kws st) = length st"
  by (induction kws st rule: sha_rounds.induct) (auto simp: Let_def)

lemma sha_block_length [simp]: "length (sha_block blk st) = length st"
  by (simp add: sha_block_def Let_def)

lemma fold_sha_block_length [simp]: "length (fold sha_block bs st) = length st"
  by (induction bs arbitrary: st) auto

lemma concat_map_word_be_length: "length (concat (map word_be ws)) = 4 * length ws"
  by (induction ws) (auto simp: word_be_def)

lemma sha256_length [simp]: "length (sha256 m) = 32"
  by (simp add: sha256_def Let_def concat_map_word_be_length sha_H0_def)

end
