(* ===== verification/Bson.thy ===== *)
theory Bson
  imports Go_Lang
begin

text \<open>
  The data the program exchanges with \<open>go.mongodb.org/mongo-driver/bson\<close>, which is not
  under src/.  \<open>bval\<close> lists the dynamic Go types the program distinguishes in its type
  switches on decoded documents; \<open>rawval\<close> lists the element types it distinguishes
  through the \<open>...OK\<close> accessors of \<open>bson.RawValue\<close>.  The codec itself is a parameter:
  the record \<open>bson_lib\<close> holds the functions of the package the program calls, with their
  Go results (a value and an error).  \<open>bson_ok\<close> names the documented behaviour that some
  theorems rely on.
\<close>

datatype bval =
    BD "(bytes \<times> bval) list"      \<comment> \<open>\<open>bson.D\<close>: ordered document\<close>
  | BM "(bytes \<times> bval) list"      \<comment> \<open>\<open>bson.M\<close>: a Go map, listed in iteration order\<close>
  | BMapAny "(bytes \<times> bval) list" \<comment> \<open>\<open>map[string]any\<close>\<close>
  | BA "bval list"                \<comment> \<open>\<open>bson.A\<close>\<close>
  | BSliceAny "bval list"         \<comment> \<open>\<open>[]any\<close>\<close>
  | BRaw bytes                    \<comment> \<open>\<open>bson.Raw\<close>\<close>
  | BStr bytes
  | BInt32 int
  | BInt64 int
  | BInt int
  | BF64 f64
  | BF32 f64
  | BBool bool
  | BTime time
  | BOther nat                    \<comment> \<open>any other dynamic type (ObjectID, Decimal128, ...)\<close>

type_synonym doc = "(bytes \<times> bval) list"

datatype rawval =
    RString bytes
  | RInt32 int
  | RInt64 int
  | RDouble f64
  | RArray bytes
  | RDocument bytes
  | RBinary nat bytes
  | ROther nat

section \<open>Accessors of RawValue\<close>

definition StringValueOK :: "rawval \<Rightarrow> bytes option" where
  "StringValueOK v = (case v of RString s \<Rightarrow> Some s | _ \<Rightarrow> None)"

definition Int32OK :: "rawval \<Rightarrow> int option" where
  "Int32OK v = (case v of RInt32 i \<Rightarrow> Some i | _ \<Rightarrow> None)"

definition Int64OK :: "rawval \<Rightarrow> int option" where
  "Int64OK v = (case v of RInt64 i \<Rightarrow> Some i | _ \<Rightarrow> None)"

definition DoubleOK :: "rawval \<Rightarrow> f64 option" where
  "DoubleOK v = (case v of RDouble f \<Rightarrow> Some f | _ \<Rightarrow> None)"

definition ArrayOK :: "rawval \<Rightarrow> bytes option" where
  "ArrayOK v = (case v of RArray b \<Rightarrow> Some b | _ \<Rightarrow> None)"

definition DocumentOK :: "rawval \<Rightarrow> bytes option" where
  "DocumentOK v = (case v of RDocument b \<Rightarrow> Some b | _ \<Rightarrow> None)"

definition BinaryOK :: "rawval \<Rightarrow> (nat \<times> bytes) option" where
  "BinaryOK v = (case v of RBinary t b \<Rightarrow> Some (t, b) | _ \<Rightarrow> None)"

lemmas rawval_ok_defs = StringValueOK_def Int32OK_def Int64OK_def DoubleOK_def ArrayOK_def
  DocumentOK_def BinaryOK_def

section \<open>The codec\<close>

text \<open>The payload the proxy keeps in the cache (\<open>cache.CachedResult\<close> in result.go).\<close>

record CachedResult =
  cr_NS :: bytes
  cr_Docs :: "bytes list"
  cr_Cmd :: bytes

record bson_lib =
  bl_Elements :: "bytes \<Rightarrow> (bytes \<times> rawval) list \<times> bytes option"  \<comment> \<open>\<open>Raw.Elements\<close>\<close>
  bl_Values :: "bytes \<Rightarrow> bytes + rawval list"                 \<comment> \<open>\<open>Raw.Values\<close>\<close>
  bl_LookupErr :: "bytes \<Rightarrow> bytes \<Rightarrow> bytes + rawval"            \<comment> \<open>\<open>Raw.LookupErr\<close>\<close>
  bl_UnmarshalD :: "bytes \<Rightarrow> bytes + doc"                     \<comment> \<open>\<open>Unmarshal\<close> into \<open>bson.D\<close>\<close>
  bl_UnmarshalM :: "bytes \<Rightarrow> bytes + doc"                     \<comment> \<open>\<open>Unmarshal\<close> into \<open>bson.M\<close>\<close>
  bl_Marshal :: "bval \<Rightarrow> bytes + bytes"
  bl_MarshalCR :: "CachedResult \<Rightarrow> bytes + bytes"
  bl_UnmarshalCR :: "bytes \<Rightarrow> bytes + CachedResult"
  bl_f64conv :: "f64 \<Rightarrow> int"  \<comment> \<open>implementation-dependent float conversions\<close>

text \<open>
  Documented behaviour of the package: \<open>LookupErr\<close> returns the first element with the key
  of a well-formed document; \<open>Unmarshal\<close> inverts \<open>Marshal\<close> on the cached-result
  structure.
\<close>

definition bson_ok :: "bson_lib \<Rightarrow> bool" where
  "bson_ok L \<longleftrightarrow>
     (\<forall>raw els k. bl_Elements L raw = (els, None) \<longrightarrow>
        (case map_of els k of Some v \<Rightarrow> bl_LookupErr L raw k = Inr v
         | None \<Rightarrow> \<exists>e. bl_LookupErr L raw k = Inl e)) \<and>
     (\<forall>cr b. bl_MarshalCR L cr = Inr b \<longrightarrow> bl_UnmarshalCR L b = Inr cr)"

lemma bson_ok_lookup:
  "bson_ok L \<Longrightarrow> bl_Elements L raw = (els, None) \<Longrightarrow> map_of els k = Some v \<Longrightarrow>
   bl_LookupErr L raw k = Inr v"
  by (force simp: bson_ok_def split: option.splits)

lemma bson_ok_lookup_none:
  "bson_ok L \<Longrightarrow> bl_Elements L raw = (els, None) \<Longrightarrow> map_of els k = None \<Longrightarrow>
   \<exists>e. bl_LookupErr L raw k = Inl e"
  by (force simp: bson_ok_def split: option.splits)

lemma bson_ok_cr: "bson_ok L \<Longrightarrow> bl_MarshalCR L cr = Inr b \<Longrightarrow> bl_UnmarshalCR L b = Inr cr"
  by (simp add: bson_ok_def)

definition has_key :: "bson_lib \<Rightarrow> bytes \<Rightarrow> bytes \<Rightarrow> bool" where
  "has_key L raw k = (case bl_LookupErr L raw k of Inl _ \<Rightarrow> False | Inr _ \<Rightarrow> True)"

end
