(* ===== verification/Wire.thy ===== *)
theory Wire
  imports Bson
begin

text \<open>
  internal/proxy/wire: the 16-byte message header (header.go), OP_MSG decoding and encoding
  and the helpers on command documents (msg.go).  A reader is the byte sequence it will
  deliver before end of file; a writer is the bytes written so far and the number of further
  \<open>Write\<close> calls that succeed.  Every slice expression that could panic is a
  \<open>go_slice\<close> whose failure is the error \<open>Panicked\<close>.
\<close>

section \<open>Readers and writers\<close>

datatype wire_err =
    EOF | UnexpectedEOF | WriteFailed | Panicked
  | BadMessageLength int | WrongOpcode int | BodyTooShort int | ChecksumTooShort
  | TruncatedKind0 | BadKind0Length int | TruncatedKind1 | BadKind1Size int
  | MissingIdentTerminator | BadKind1DocLength int | UnsupportedKind nat | MissingBody

text \<open>\<open>io.ReadFull\<close>: exactly \<open>n\<close> bytes, or \<open>io.EOF\<close> when none could be read, or
  \<open>io.ErrUnexpectedEOF\<close>.\<close>

definition ReadFull :: "bytes \<Rightarrow> nat \<Rightarrow> wire_err + bytes \<times> bytes" where
  "ReadFull r n = (if n \<le> length r then Inr (take n r, drop n r)
     else if r = [] then Inl EOF else Inl UnexpectedEOF)"

record writer =
  w_out :: bytes
  w_quota :: nat

definition Write :: "writer \<Rightarrow> bytes \<Rightarrow> wire_err + writer" where
  "Write w b = (case w_quota w of 0 \<Rightarrow> Inl WriteFailed
     | Suc n \<Rightarrow> Inr (w\<lparr>w_out := w_out w @ b, w_quota := n\<rparr>))"

section \<open>Opcodes and header\<close>

definition OpReply :: int where "OpReply = 1"
definition OpQuery :: int where "OpQuery = 2004"
definition OpMsg :: int where "OpMsg = 2013"
definition MsgHeaderSize :: nat where "MsgHeaderSize = 16"

record Header =
  MessageLength :: int
  RequestID :: int
  ResponseTo :: int
  OpCode :: int

definition ReadHeader :: "bytes \<Rightarrow> wire_err + Header \<times> bytes" where
  "ReadHeader r = (case ReadFull r MsgHeaderSize of
      Inl e \<Rightarrow> Inl e
    | Inr (buf, r') \<Rightarrow>
        Inr (\<lparr>MessageLength = wrap32 (le_u32 (take 4 buf)),
              RequestID = wrap32 (le_u32 (take 4 (drop 4 buf))),
              ResponseTo = wrap32 (le_u32 (take 4 (drop 8 buf))),
              OpCode = wrap32 (le_u32 (take 4 (drop 12 buf)))\<rparr>, r'))"

definition WriteHeader :: "writer \<Rightarrow> Header \<Rightarrow> wire_err + writer" where
  "WriteHeader w h = Write w (put_u32 (MessageLength h) @ put_u32 (RequestID h)
     @ put_u32 (ResponseTo h) @ put_u32 (OpCode h))"

definition BodyLength :: "Header \<Rightarrow> wire_err + nat" where
  "BodyLength h = (if MessageLength h < int MsgHeaderSize then Inl (BadMessageLength (MessageLength h))
     else Inr (nat (MessageLength h - int MsgHeaderSize)))"

section \<open>OP_MSG\<close>

record DocumentSequence =
  Identifier :: bytes
  Documents :: "bytes list"

record Msg =
  MsgHeader :: Header
  FlagBits :: int
  Body :: bytes
  Sequences :: "DocumentSequence list"
  Checksum :: "int option"

text \<open>The documents of a Kind 1 section, from \<open>offset\<close> up to \<open>secEnd\<close>.\<close>

function read_seq_docs :: "bytes \<Rightarrow> nat \<Rightarrow> nat \<Rightarrow> bytes list \<Rightarrow> wire_err + bytes list" where
  "read_seq_docs body offset secEnd docs =
     (if offset < secEnd then
        if offset + 4 > secEnd then Inr docs
        else case go_slice Panicked body offset (offset + 4) of
          Inl e \<Rightarrow> Inl e
        | Inr lb \<Rightarrow>
            let dlen = nat (le_u32 lb) in
            if dlen < 5 \<or> offset + dlen > secEnd then Inl (BadKind1DocLength (int dlen))
            else case go_slice Panicked body offset (offset + dlen) of
              Inl e \<Rightarrow> Inl e
            | Inr d \<Rightarrow> read_seq_docs body (offset + dlen) secEnd (docs @ [d])
      else Inr docs)"
  by pat_completeness auto
termination
  by (relation "measure (\<lambda>(body, offset, secEnd, docs). secEnd - offset)") auto

declare read_seq_docs.simps [simp del]

text \<open>\<open>bytes.IndexByte\<close>.\<close>

fun IndexByte :: "bytes \<Rightarrow> char \<Rightarrow> nat option" where
  "IndexByte [] c = None"
| "IndexByte (x # xs) c = (if x = c then Some 0 else map_option Suc (IndexByte xs c))"

text \<open>One Kind 0 section: the new offset and the message with its body replaced.\<close>

definition read_kind0 :: "bytes \<Rightarrow> nat \<Rightarrow> nat \<Rightarrow> Msg \<Rightarrow> wire_err + nat \<times> Msg" where
  "read_kind0 body offset payloadEnd msg =
     (if offset + 4 > payloadEnd then Inl TruncatedKind0
      else case go_slice Panicked body offset (offset + 4) of
        Inl e \<Rightarrow> Inl e
      | Inr lb \<Rightarrow>
          let docLen = nat (le_u32 lb) in
          if docLen < 5 \<or> offset + docLen > payloadEnd then Inl (BadKind0Length (int docLen))
          else case go_slice Panicked body offset (offset + docLen) of
            Inl e \<Rightarrow> Inl e
          | Inr d \<Rightarrow> Inr (offset + docLen, msg\<lparr>Body := d\<rparr>))"

text \<open>One Kind 1 section.\<close>

definition read_kind1 :: "bytes \<Rightarrow> nat \<Rightarrow> nat \<Rightarrow> Msg \<Rightarrow> wire_err + nat \<times> Msg" where
  "read_kind1 body offset payloadEnd msg =
     (if offset + 4 > payloadEnd then Inl TruncatedKind1
      else case go_slice Panicked body offset (offset + 4) of
        Inl e \<Rightarrow> Inl e
      | Inr lb \<Rightarrow>
          let secSize = nat (le_u32 lb) in
          if secSize < 5 \<or> offset + secSize > payloadEnd then Inl (BadKind1Size (int secSize))
          else
            let secEnd = offset + secSize; off1 = offset + 4 in
            case go_slice Panicked body off1 secEnd of
              Inl e \<Rightarrow> Inl e
            | Inr sec \<Rightarrow>
                (case IndexByte sec (CHR 0x00) of
                  None \<Rightarrow> Inl MissingIdentTerminator
                | Some idEnd \<Rightarrow>
                    (case go_slice Panicked body off1 (off1 + idEnd) of
                      Inl e \<Rightarrow> Inl e
                    | Inr ident \<Rightarrow>
                        (case read_seq_docs body (off1 + idEnd + 1) secEnd [] of
                          Inl e \<Rightarrow> Inl e
                        | Inr docs \<Rightarrow>
                            Inr (secEnd, msg\<lparr>Sequences := Sequences msg
                                 @ [\<lparr>Identifier = ident, Documents = docs\<rparr>]\<rparr>)))))"

lemma read_kind0_progress: "read_kind0 body offset pe msg = Inr (o', m') \<Longrightarrow> offset < o' \<and> o' \<le> pe"
  by (auto simp: read_kind0_def Let_def split: if_splits sum.splits)

lemma read_kind1_progress: "read_kind1 body offset pe msg = Inr (o', m') \<Longrightarrow> offset < o' \<and> o' \<le> pe"
  by (auto simp: read_kind1_def Let_def split: if_splits sum.splits option.splits)

function read_sections :: "bytes \<Rightarrow> nat \<Rightarrow> nat \<Rightarrow> Msg \<Rightarrow> wire_err + Msg" where
  "read_sections body offset payloadEnd msg =
     (if offset < payloadEnd then
        case go_index Panicked body offset of
          Inl e \<Rightarrow> Inl e
        | Inr kind \<Rightarrow>
            (case (if kind = CHR 0x00 then read_kind0 body (offset + 1) payloadEnd msg
                   else if kind = CHR 0x01 then read_kind1 body (offset + 1) payloadEnd msg
                   else Inl (UnsupportedKind (of_char kind))) of
               Inl e \<Rightarrow> Inl e
             | Inr (offset', msg') \<Rightarrow> read_sections body offset' payloadEnd msg')
      else Inr msg)"
  by pat_completeness auto
termination
  by (relation "measure (\<lambda>(body, offset, payloadEnd, msg). payloadEnd - offset)")
    (auto split: if_splits dest!: read_kind0_progress read_kind1_progress)

declare read_sections.simps [simp del]

definition ReadMsg :: "bytes \<Rightarrow> Header \<Rightarrow> wire_err + Msg \<times> bytes" where
  "ReadMsg r h =
     (if OpCode h \<noteq> OpMsg then Inl (WrongOpcode (OpCode h))
      else case BodyLength h of
        Inl e \<Rightarrow> Inl e
      | Inr bodyLen \<Rightarrow>
          if bodyLen < 4 then Inl (BodyTooShort (int bodyLen))
          else case ReadFull r bodyLen of
            Inl e \<Rightarrow> Inl e
          | Inr (body, r') \<Rightarrow>
              (case go_slice Panicked body 0 4 of
                Inl e \<Rightarrow> Inl e
              | Inr fb \<Rightarrow>
                  let flags = le_u32 fb;
                      msg = \<lparr>MsgHeader = h, FlagBits = flags, Body = [], Sequences = [],
                             Checksum = None\<rparr> in
                  (case (if odd flags then
                           if length body < 8 then Inl ChecksumTooShort
                           else case go_slice Panicked body (length body - 4) (length body) of
                                  Inl e \<Rightarrow> Inl e
                                | Inr cb \<Rightarrow> Inr (length body - 4, msg\<lparr>Checksum := Some (le_u32 cb)\<rparr>)
                         else Inr (length body, msg)) of
                     Inl e \<Rightarrow> Inl e
                   | Inr (payloadEnd, msg1) \<Rightarrow>
                       (case read_sections body 4 payloadEnd msg1 of
                         Inl e \<Rightarrow> Inl e
                       | Inr msg2 \<Rightarrow>
                           if Body msg2 = [] then Inl MissingBody else Inr (msg2, r')))))"

definition WriteMsg :: "writer \<Rightarrow> int \<Rightarrow> int \<Rightarrow> bytes \<Rightarrow> wire_err + writer" where
  "WriteMsg w requestID responseTo body =
     (let payloadLen = 4 + 1 + length body; totalLen = MsgHeaderSize + payloadLen;
          h = \<lparr>MessageLength = wrap32 (int totalLen), RequestID = requestID,
               ResponseTo = responseTo, OpCode = OpMsg\<rparr> in
      case WriteHeader w h of
        Inl e \<Rightarrow> Inl e
      | Inr w1 \<Rightarrow>
          (case Write w1 [CHR 0x00, CHR 0x00, CHR 0x00, CHR 0x00] of
             Inl e \<Rightarrow> Inl e
           | Inr w2 \<Rightarrow>
               (case Write w2 [CHR 0x00] of
                  Inl e \<Rightarrow> Inl e
                | Inr w3 \<Rightarrow> Write w3 body)))"

section \<open>Helpers on command documents\<close>

definition EncodeBody :: "bson_lib \<Rightarrow> bval \<Rightarrow> bytes + bytes" where
  "EncodeBody L v = bl_Marshal L v"

definition isMetaCommandKey :: "bytes \<Rightarrow> bool" where
  "isMetaCommandKey key \<longleftrightarrow> List.member
     [''$db'', ''$clusterTime'', ''$readPreference'', ''$configTime'', ''$topologyVersion'',
      ''lsid'', ''txnNumber'', ''autocommit'', ''startTransaction'', ''readConcern'', ''writeConcern'',
      ''maxTimeMS'', ''comment'', ''apiVersion'', ''apiStrict'', ''apiDeprecationErrors'',
      ''$audit'', ''$client'', ''$configServerState'', ''databaseVersion'', ''shardVersion''] key"

fun first_command_key :: "(bytes \<times> rawval) list \<Rightarrow> bytes + bytes" where
  "first_command_key [] = Inl ''no command name in document''"
| "first_command_key ((key, v) # els) =
     (if isMetaCommandKey key then first_command_key els else Inr key)"

definition CommandName :: "bson_lib \<Rightarrow> bytes \<Rightarrow> bytes + bytes" where
  "CommandName L raw = (case bl_Elements L raw of
      (elems, Some err) \<Rightarrow> Inl err
    | (elems, None) \<Rightarrow> first_command_key elems)"

definition LookupString :: "bson_lib \<Rightarrow> bytes \<Rightarrow> bytes \<Rightarrow> bytes" where
  "LookupString L raw key = (case bl_LookupErr L raw key of
      Inl _ \<Rightarrow> ''''
    | Inr val \<Rightarrow> (case StringValueOK val of Some s \<Rightarrow> s | None \<Rightarrow> ''''))"

definition LookupInt32 :: "bson_lib \<Rightarrow> bytes \<Rightarrow> bytes \<Rightarrow> int" where
  "LookupInt32 L raw key = (case bl_LookupErr L raw key of
      Inl _ \<Rightarrow> 0
    | Inr val \<Rightarrow> (case Int32OK val of Some i \<Rightarrow> wrap32 i
        | None \<Rightarrow> (case Int64OK val of Some i \<Rightarrow> wrap32 i
        | None \<Rightarrow> (case DoubleOK val of Some f \<Rightarrow> f64_int32 (bl_f64conv L) f
        | None \<Rightarrow> 0))))"

definition LookupInt64 :: "bson_lib \<Rightarrow> bytes \<Rightarrow> bytes \<Rightarrow> int" where
  "LookupInt64 L raw key = (case bl_LookupErr L raw key of
      Inl _ \<Rightarrow> 0
    | Inr val \<Rightarrow> (case Int64OK val of Some i \<Rightarrow> wrap64 i
        | None \<Rightarrow> (case Int32OK val of Some i \<Rightarrow> wrap64 i
        | None \<Rightarrow> (case DoubleOK val of Some f \<Rightarrow> f64_int64 (bl_f64conv L) f
        | None \<Rightarrow> 0))))"

fun strip_loop :: "doc \<Rightarrow> bytes \<Rightarrow> doc \<Rightarrow> doc \<times> bytes" where
  "strip_loop [] dbName out = (out, dbName)"
| "strip_loop ((k, v) # m) dbName out =
     (if k = ''$db'' then strip_loop m (case v of BStr s \<Rightarrow> s | _ \<Rightarrow> dbName) out
      else if k = ''$readPreference'' \<or> k = ''$clusterTime'' \<or> k = ''$configTime'' \<or>
              k = ''$topologyVersion'' \<or> k = ''$audit'' \<or> k = ''$client'' \<or>
              k = ''$configServerState''
      then strip_loop m dbName out
      else strip_loop m dbName (out @ [(k, v)]))"

definition StripForRunCommand :: "bson_lib \<Rightarrow> bytes \<Rightarrow> bytes + doc \<times> bytes" where
  "StripForRunCommand L raw = (case bl_UnmarshalD L raw of
      Inl err \<Rightarrow> Inl err
    | Inr m \<Rightarrow> Inr (strip_loop m '''' []))"

section \<open>Reading is safe: no slice is ever out of range\<close>

lemma ReadFull_length: "ReadFull r n = Inr (b, r') \<Longrightarrow> length b = n \<and> r = b @ r'"
  by (auto simp: ReadFull_def split: if_splits)

lemma read_seq_docs_no_panic:
  "secEnd \<le> length body \<Longrightarrow> read_seq_docs body offset secEnd docs \<noteq> Inl Panicked"
proof (induction body offset secEnd docs rule: read_seq_docs.induct)
  case (1 body offset secEnd docs)
  then show ?case
    by (subst read_seq_docs.simps) (auto simp: Let_def split: sum.splits)
qed

lemma read_kind0_no_panic: "pe \<le> length body \<Longrightarrow> read_kind0 body offset pe msg \<noteq> Inl Panicked"
  by (auto simp: read_kind0_def Let_def)

lemma IndexByte_less: "IndexByte xs c = Some i \<Longrightarrow> i < length xs"
  by (induction xs arbitrary: i) (auto split: if_splits)

lemma read_kind1_no_panic: "pe \<le> length body \<Longrightarrow> read_kind1 body offset pe msg \<noteq> Inl Panicked"
  by (auto simp: read_kind1_def Let_def read_seq_docs_no_panic dest!: IndexByte_less
      split: sum.splits option.splits)

lemma read_sections_no_panic:
  "pe \<le> length body \<Longrightarrow> read_sections body offset pe msg \<noteq> Inl Panicked"
proof (induction body offset pe msg rule: read_sections.induct)
  case (1 body offset pe msg)
  show ?case
    using 1 read_kind0_no_panic read_kind1_no_panic
    by (subst read_sections.simps) (auto split: sum.splits if_splits prod.splits)
qed

section \<open>The OP_MSG layout, and decoding as its inverse\<close>

text \<open>
  The sections of a message as MongoDB lays them out on the wire; this is the specification
  \<open>ReadMsg\<close> is compared with, not code of the program.
\<close>

datatype msg_section = SecBody bytes | SecDocs bytes "bytes list"

definition valid_doc :: "bytes \<Rightarrow> bool" where
  "valid_doc d \<longleftrightarrow> 5 \<le> length d \<and> le_u32 (take 4 d) = int (length d)"

definition seq_size :: "bytes \<Rightarrow> bytes list \<Rightarrow> nat" where
  "seq_size ident ds = 5 + length ident + length (concat ds)"

fun enc_section :: "msg_section \<Rightarrow> bytes" where
  "enc_section (SecBody d) = CHR 0x00 # d"
| "enc_section (SecDocs ident ds) =
     CHR 0x01 # put_u32 (int (seq_size ident ds)) @ ident @ [CHR 0x00] @ concat ds"

fun valid_section :: "msg_section \<Rightarrow> bool" where
  "valid_section (SecBody d) \<longleftrightarrow> valid_doc d"
| "valid_section (SecDocs ident ds) \<longleftrightarrow> CHR 0x00 \<notin> set ident \<and> list_all valid_doc ds
     \<and> seq_size ident ds < 2 ^ 32"

fun apply_section :: "msg_section \<Rightarrow> Msg \<Rightarrow> Msg" where
  "apply_section (SecBody d) m = m\<lparr>Body := d\<rparr>"
| "apply_section (SecDocs ident ds) m =
     m\<lparr>Sequences := Sequences m @ [\<lparr>Identifier = ident, Documents = ds\<rparr>]\<rparr>"

definition enc_sections :: "msg_section list \<Rightarrow> bytes" where
  "enc_sections secs = concat (map enc_section secs)"

lemma slice_at:
  "body = pre @ d @ post \<Longrightarrow> n \<le> length d \<Longrightarrow>
   go_slice p body (length pre) (length pre + n) = Inr (take n d)"
  by simp

lemma read_kind0_enc:
  assumes "valid_doc d" and "body = pre @ d @ post" and "length pre + length d \<le> pe"
  shows "read_kind0 body (length pre) pe m = Inr (length pre + length d, m\<lparr>Body := d\<rparr>)"
  using assms by (simp add: read_kind0_def valid_doc_def Let_def)

lemma read_seq_docs_enc:
  "list_all valid_doc ds \<Longrightarrow> body = pre @ concat ds @ post \<Longrightarrow>
   secEnd = length pre + length (concat ds) \<Longrightarrow>
   read_seq_docs body (length pre) secEnd acc = Inr (acc @ ds)"
proof (induction ds arbitrary: pre acc)
  case Nil
  then show ?case by (subst read_seq_docs.simps) simp
next
  case (Cons d ds)
  have d: "5 \<le> length d" "le_u32 (take 4 d) = int (length d)"
    using Cons.prems by (simp_all add: valid_doc_def)
  then have ne: "d \<noteq> []" by auto
  have "read_seq_docs body (length pre) secEnd acc
      = read_seq_docs body (length (pre @ d)) secEnd (acc @ [d])"
    using Cons.prems d ne by (subst read_seq_docs.simps) (simp add: Let_def)
  also have "\<dots> = Inr ((acc @ [d]) @ ds)"
    using Cons.prems by (intro Cons.IH) simp_all
  finally show ?case by simp
qed

lemma IndexByte_append: "c \<notin> set xs \<Longrightarrow> IndexByte (xs @ c # ys) c = Some (length xs)"
  by (induction xs) auto

lemma read_kind1_enc:
  fixes ident ds
  defines "sec \<equiv> put_u32 (int (seq_size ident ds)) @ ident @ [CHR 0x00] @ concat ds"
  assumes v: "valid_section (SecDocs ident ds)" and body: "body = pre @ sec @ post"
    and pe: "length pre + length sec \<le> pe"
  shows "read_kind1 body (length pre) pe m
     = Inr (length pre + length sec, apply_section (SecDocs ident ds) m)"
proof -
  let ?sz = "seq_size ident ds"
  have len: "length sec = ?sz" and ge: "5 \<le> ?sz" by (simp_all add: sec_def seq_size_def)
  have lt: "int ?sz mod 4294967296 = int ?sz" using v by simp
  have lb: "le_u32 (take 4 (drop (length pre) body)) = int ?sz"
    using lt by (simp add: body sec_def)
  have sl: "go_slice Panicked body (length pre + 4) (length pre + ?sz)
      = Inr (ident @ CHR 0x00 # concat ds)"
    by (simp add: body sec_def seq_size_def)
  have idx: "IndexByte (ident @ CHR 0x00 # concat ds) (CHR 0x00) = Some (length ident)"
    using v by (simp add: IndexByte_append)
  have id_sl: "go_slice Panicked body (length pre + 4) (length pre + 4 + length ident) = Inr ident"
    by (simp add: body sec_def)
  have "read_seq_docs body (length (pre @ put_u32 (int ?sz) @ ident @ [CHR 0x00]))
      (length pre + ?sz) [] = Inr ([] @ ds)"
    using v by (intro read_seq_docs_enc [where post = post]) (simp_all add: body sec_def seq_size_def)
  then have docs: "read_seq_docs body (5 + (length pre + length ident)) (length pre + ?sz) [] = Inr ds"
    by (simp add: algebra_simps)
  have four: "go_slice Panicked body (length pre) (length pre + 4)
      = Inr (take 4 (drop (length pre) body))"
    by (simp add: body sec_def)
  show ?thesis
    using pe ge unfolding read_kind1_def len four
    by (simp add: lb sl idx id_sl docs Let_def del: go_slice_ok)
qed

lemma read_sections_enc:
  "list_all valid_section secs \<Longrightarrow> body = pre @ enc_sections secs @ post \<Longrightarrow>
   pe = length pre + length (enc_sections secs) \<Longrightarrow>
   read_sections body (length pre) pe m = Inr (fold apply_section secs m)"
proof (induction secs arbitrary: pre m)
  case Nil
  then show ?case by (subst read_sections.simps) (simp add: enc_sections_def)
next
  case (Cons s secs)
  let ?rest = "enc_sections secs"
  have enc: "enc_sections (s # secs) = enc_section s @ ?rest" by (simp add: enc_sections_def)
  have step: "read_sections body (length pre) pe m
      = read_sections body (length (pre @ enc_section s)) pe (apply_section s m)"
  proof (cases s)
    case (SecBody d)
    have "read_kind0 body (length (pre @ [CHR 0x00])) pe m
        = Inr (length (pre @ [CHR 0x00]) + length d, m\<lparr>Body := d\<rparr>)"
      using Cons.prems SecBody enc
      by (intro read_kind0_enc [where post = "?rest @ post"]) simp_all
    then show ?thesis
      using Cons.prems SecBody enc by (subst read_sections.simps) simp
  next
    case (SecDocs ident ds)
    have "read_kind1 body (length (pre @ [CHR 0x01])) pe m
        = Inr (length (pre @ [CHR 0x01]) + seq_size ident ds, apply_section s m)"
      using Cons.prems SecDocs enc
        read_kind1_enc [of ident ds body "pre @ [CHR 0x01]" "?rest @ post" pe m]
      by (simp add: algebra_simps seq_size_def)
    then show ?thesis
      using Cons.prems SecDocs enc
      by (subst read_sections.simps) (simp add: algebra_simps seq_size_def)
  qed
  also have "\<dots> = Inr (fold apply_section secs (apply_section s m))"
    using Cons.prems enc by (intro Cons.IH) simp_all
  finally show ?case by simp
qed

section \<open>What an accepted message satisfies\<close>

definition msg_ok :: "Msg \<Rightarrow> bool" where
  "msg_ok m \<longleftrightarrow> (Body m = [] \<or> valid_doc (Body m))
     \<and> list_all (\<lambda>s. list_all valid_doc (Documents s)) (Sequences m)"

lemma valid_doc_slice:
  "go_slice p body off (off + n) = Inr d \<Longrightarrow> go_slice p body off (off + 4) = Inr lb \<Longrightarrow>
   n = nat (le_u32 lb) \<Longrightarrow> 5 \<le> n \<Longrightarrow> valid_doc d"
  by (auto simp: go_slice_def valid_doc_def min_def split: if_splits)

lemma read_seq_docs_valid:
  "read_seq_docs body offset secEnd docs = Inr ds \<Longrightarrow> list_all valid_doc docs \<Longrightarrow>
   list_all valid_doc ds"
proof (induction body offset secEnd docs rule: read_seq_docs.induct)
  case (1 body offset secEnd docs)
  note eq = "1.prems"(1) [unfolded read_seq_docs.simps [of body offset secEnd docs]]
  show ?case
    using eq "1.prems"(2)
    by (auto simp: Let_def split: if_splits sum.splits
        intro!: "1.IH" dest: valid_doc_slice [where p = Panicked])
qed

lemma read_kind0_ok: "read_kind0 body off pe m = Inr (off', m') \<Longrightarrow> msg_ok m \<Longrightarrow> msg_ok m'"
  by (auto simp: read_kind0_def Let_def msg_ok_def split: if_splits sum.splits
      dest: valid_doc_slice [where p = Panicked])

lemma read_kind1_ok: "read_kind1 body off pe m = Inr (off', m') \<Longrightarrow> msg_ok m \<Longrightarrow> msg_ok m'"
  by (auto simp: read_kind1_def Let_def msg_ok_def split: if_splits sum.splits option.splits
      dest: read_seq_docs_valid)

lemma read_sections_ok: "read_sections body off pe m = Inr m' \<Longrightarrow> msg_ok m \<Longrightarrow> msg_ok m'"
proof (induction body off pe m rule: read_sections.induct)
  case (1 body off pe m)
  note eq = "1.prems"(1) [unfolded read_sections.simps [of body off pe m]]
  show ?case
    using eq "1.prems"(2)
    by (auto split: if_splits sum.splits intro: "1.IH" dest: read_kind0_ok read_kind1_ok)
qed

lemmas ReadMsg_unfold = ReadMsg_def Let_def

text \<open>
  C24. Decoding a message is memory-safe and framed for every header and every byte sequence
  a client can send: no slice or index expression of \<open>ReadMsg\<close> is ever out of range (the
  connection goroutine cannot panic there), and an accepted message consumes exactly the
  bytes its header announces, so the next header is read at the right place; its body and
  all its sequence documents carry a length prefix equal to their actual length.
\<close>

theorem ReadMsg_safe:
  "case ReadMsg r h of
     Inl e \<Rightarrow> e \<noteq> Panicked
   | Inr (m, r') \<Rightarrow> valid_doc (Body m)
        \<and> list_all (\<lambda>s. list_all valid_doc (Documents s)) (Sequences m)
        \<and> length (take (nat (MessageLength h - 16)) r) = nat (MessageLength h - 16)
        \<and> r' = drop (nat (MessageLength h - 16)) r"
proof (cases "ReadMsg r h")
  case (Inl e)
  then show ?thesis
    using read_sections_no_panic
    by (auto simp: ReadMsg_unfold BodyLength_def ReadFull_def go_slice_def
        split: if_splits sum.splits)
next
  case (Inr p)
  obtain m r' where p: "p = (m, r')" by (cases p)
  from Inr p have "msg_ok m" "Body m \<noteq> []"
    by (auto simp: ReadMsg_unfold split: if_splits sum.splits
        dest!: read_sections_ok simp: msg_ok_def)
  with Inr p show ?thesis
    by (auto simp: ReadMsg_unfold BodyLength_def MsgHeaderSize_def ReadFull_def msg_ok_def
        split: if_splits sum.splits)
qed

lemma fold_apply_frame:
  "Checksum (fold apply_section secs m) = Checksum m \<and> FlagBits (fold apply_section secs m) = FlagBits m
   \<and> MsgHeader (fold apply_section secs m) = MsgHeader m"
proof (induction secs arbitrary: m)
  case (Cons s secs)
  then show ?case by (cases s) simp_all
qed simp

lemma fold_apply_body:
  "list_all valid_section secs \<Longrightarrow> Body m \<noteq> [] \<or> (\<exists>d. SecBody d \<in> set secs) \<Longrightarrow>
   Body (fold apply_section secs m) \<noteq> []"
proof (induction secs arbitrary: m)
  case (Cons s secs)
  show ?case
  proof (cases s)
    case (SecBody d)
    with Cons.prems have "d \<noteq> []" by (auto simp: valid_doc_def)
    with Cons.IH [of "m\<lparr>Body := d\<rparr>"] Cons.prems SecBody show ?thesis by simp
  next
    case (SecDocs ident ds)
    with Cons show ?thesis by auto
  qed
qed simp

lemma ReadMsg_layout:
  assumes secs: "list_all valid_section secs" and body: "SecBody d \<in> set secs"
    and flags: "0 \<le> flags" "flags < 2 ^ 32"
    and trailer: "length trailer = (if odd flags then 4 else 0)"
    and h: "OpCode h = OpMsg"
      "MessageLength h = int (20 + length (enc_sections secs) + length trailer)"
  shows "ReadMsg (put_u32 flags @ enc_sections secs @ trailer @ rest) h
    = Inr (fold apply_section secs
         \<lparr>MsgHeader = h, FlagBits = flags, Body = [], Sequences = [],
          Checksum = (if odd flags then Some (le_u32 trailer) else None)\<rparr>, rest)"
proof -
  let ?e = "enc_sections secs"
  let ?cs = "if odd flags then Some (le_u32 trailer) else None"
  let ?m = "\<lparr>MsgHeader = h, FlagBits = flags, Body = [], Sequences = [], Checksum = ?cs\<rparr>"
  define b where "b = put_u32 flags @ ?e @ trailer"
  have lb: "length b = 4 + length ?e + length trailer" by (simp add: b_def)
  have bl: "BodyLength h = Inr (length b)"
    using h by (simp add: BodyLength_def MsgHeaderSize_def lb)
  have rf: "ReadFull (put_u32 flags @ ?e @ trailer @ rest) (length b) = Inr (b, rest)"
    by (simp add: ReadFull_def b_def)
  have fb: "go_slice Panicked b 0 4 = Inr (put_u32 flags)"
    by (simp add: b_def)
  have fl: "le_u32 (put_u32 flags) = flags" using flags by simp
  have cb: "go_slice Panicked b (length b - 4) (length b) = Inr trailer" if "odd flags"
    using that trailer by (simp add: b_def)
  have rs: "read_sections b 4 (4 + length ?e) ?m = Inr (fold apply_section secs ?m)"
    using read_sections_enc [OF secs, of b "put_u32 flags" trailer "4 + length ?e" ?m]
    by (simp add: b_def)
  have ne: "Body (fold apply_section secs ?m) \<noteq> []"
    using secs body by (intro fold_apply_body) auto
  show ?thesis
    unfolding ReadMsg_def bl h(1) rf sum.case prod.case fb fl
    using trailer rs ne cb lb by (cases "odd flags") (simp_all add: Let_def del: go_slice_ok)
qed

text \<open>
  C23. \<open>ReadMsg\<close> is the inverse of the OP_MSG layout: for any flag bits and any sequence of
  well-formed Kind 0 and Kind 1 sections with at least one body, followed by an optional
  checksum and by the bytes of later messages, it returns the last body, the document
  sequences in order with their identifiers, the checksum exactly when flag bit 0 is set,
  and leaves the reader at the later bytes.
\<close>

theorem ReadMsg_decodes_layout:
  assumes secs: "list_all valid_section secs" and body: "SecBody d \<in> set secs"
    and flags: "0 \<le> flags" "flags < 2 ^ 32"
    and trailer: "length trailer = (if odd flags then 4 else 0)"
    and h: "OpCode h = OpMsg"
      "MessageLength h = int (20 + length (enc_sections secs) + length trailer)"
  shows "ReadMsg (put_u32 flags @ enc_sections secs @ trailer @ rest) h
    = Inr (fold apply_section secs
         \<lparr>MsgHeader = h, FlagBits = flags, Body = [], Sequences = [],
          Checksum = (if odd flags then Some (le_u32 trailer) else None)\<rparr>, rest)"
  using assms by (rule ReadMsg_layout)

theorem ReadMsg_decodes_layout_witness:
  "ReadMsg (put_u32 0 @ enc_sections [SecBody (put_u32 5 @ ''!''),
        SecDocs ''docs'' [put_u32 5 @ ''a'', put_u32 6 @ ''bc'']] @ [] @ ''next'')
      \<lparr>MessageLength = 47, RequestID = 7, ResponseTo = 0, OpCode = 2013\<rparr>
   = Inr (\<lparr>MsgHeader = \<lparr>MessageLength = 47, RequestID = 7, ResponseTo = 0, OpCode = 2013\<rparr>,
           FlagBits = 0, Body = put_u32 5 @ ''!'',
           Sequences = [\<lparr>Identifier = ''docs'', Documents = [put_u32 5 @ ''a'', put_u32 6 @ ''bc'']\<rparr>],
           Checksum = None\<rparr>, ''next'')"
  using ReadMsg_decodes_layout [of "[SecBody (put_u32 5 @ ''!''),
        SecDocs ''docs'' [put_u32 5 @ ''a'', put_u32 6 @ ''bc'']]" "put_u32 5 @ ''!''" 0 "[]"
      "\<lparr>MessageLength = 47, RequestID = 7, ResponseTo = 0, OpCode = 2013\<rparr>" "''next''"]
  by (simp add: valid_doc_def seq_size_def OpMsg_def enc_sections_def)

text \<open>
  C25. What the proxy writes, a reader reads back: on a writer that accepts the four writes,
  \<open>WriteMsg\<close> appends one message whose header \<open>ReadHeader\<close> decodes to the request id,
  the id responded to and the OP_MSG opcode, and whose body \<open>ReadMsg\<close> returns unchanged,
  leaving exactly the bytes written afterwards.
\<close>

theorem WriteMsg_ReadMsg_roundtrip:
  assumes doc: "valid_doc body" and len: "length body + 21 < 2 ^ 31"
    and ids: "int32_range reqID" "int32_range respTo"
    and w: "4 \<le> w_quota w"
  shows "\<exists>w' h out. WriteMsg w reqID respTo body = Inr w' \<and> w_out w' = w_out w @ out
     \<and> RequestID h = reqID \<and> ResponseTo h = respTo \<and> OpCode h = OpMsg
     \<and> (\<forall>rest. \<exists>payload. ReadHeader (out @ rest) = Inr (h, payload)
          \<and> ReadMsg payload h = Inr (\<lparr>MsgHeader = h, FlagBits = 0, Body = body,
                Sequences = [], Checksum = None\<rparr>, rest))"
proof -
  let ?len = "int (MsgHeaderSize + (4 + 1 + length body))"
  define h where "h = \<lparr>MessageLength = ?len, RequestID = reqID, ResponseTo = respTo, OpCode = OpMsg\<rparr>"
  define hb where "hb = put_u32 ?len @ put_u32 reqID @ put_u32 respTo @ put_u32 OpMsg"
  define out where "out = hb @ put_u32 0 @ enc_sections [SecBody body]"
  have rng: "int32_range ?len" using len by (simp add: int32_range_def MsgHeaderSize_def)
  have zero: "put_u32 0 = [CHR 0x00, CHR 0x00, CHR 0x00, CHR 0x00]"
    by (simp add: put_u32_def char_of_def)
  obtain n where n: "w_quota w = Suc (Suc (Suc (Suc n)))"
    using w that [of "w_quota w - 4"] by arith
  have wr: "WriteMsg w reqID respTo body = Inr (w\<lparr>w_out := w_out w @ out, w_quota := n\<rparr>)"
    using rng n zero
    by (simp add: WriteMsg_def WriteHeader_def Write_def Let_def out_def hb_def enc_sections_def)
  have "wrap32 (le_u32 (put_u32 x)) = x" if "int32_range x" for x
    using that by (simp add: wrap32_mod [simplified])
  then have rh: "ReadHeader (out @ rest) = Inr (h, put_u32 0 @ enc_sections [SecBody body] @ [] @ rest)"
    for rest
    using rng ids
    by (simp add: ReadHeader_def ReadFull_def MsgHeaderSize_def out_def hb_def h_def
        int32_range_def OpMsg_def del: le_u32_put)
  have "ReadMsg (put_u32 0 @ enc_sections [SecBody body] @ [] @ rest) h
      = Inr (\<lparr>MsgHeader = h, FlagBits = 0, Body = body, Sequences = [], Checksum = None\<rparr>, rest)" for rest
    using ReadMsg_layout [of "[SecBody body]" body 0 "[]" h rest] doc
    by (simp add: h_def MsgHeaderSize_def enc_sections_def)
  with wr rh show ?thesis by (fastforce simp: h_def)
qed

theorem WriteMsg_ReadMsg_roundtrip_witness:
  "\<exists>w' h out. WriteMsg \<lparr>w_out = ''x'', w_quota = 4\<rparr> 2 9 (put_u32 5 @ ''!'') = Inr w'
     \<and> w_out w' = ''x'' @ out \<and> RequestID h = 2 \<and> ResponseTo h = 9 \<and> OpCode h = OpMsg
     \<and> (\<forall>rest. \<exists>payload. ReadHeader (out @ rest) = Inr (h, payload)
          \<and> ReadMsg payload h = Inr (\<lparr>MsgHeader = h, FlagBits = 0, Body = put_u32 5 @ ''!'',
                Sequences = [], Checksum = None\<rparr>, rest))"
  using WriteMsg_ReadMsg_roundtrip [of "put_u32 5 @ ''!''" 2 9 "\<lparr>w_out = ''x'', w_quota = 4\<rparr>"]
  by (simp add: valid_doc_def int32_range_def)

end
