(* ===== verification/Command.thy ===== *)
theory Command
  imports Wire
begin

text \<open>
  internal/proxy/command/classify.go: the metadata the proxy extracts from a command
  document, the \<open>_cache\<close> opt-in suffix, and the commands allowed before authentication.
\<close>

datatype Kind = KindHandshake | KindAuth | KindRead | KindWrite | KindCursor | KindTxn
  | KindAdmin | KindOther

record Info =
  Name :: bytes
  DB :: bytes
  Collection :: bytes
  InfoKind :: Kind
  IsTxn :: bool
  Raw :: bytes

definition hasTxnContext :: "bson_lib \<Rightarrow> bytes \<Rightarrow> bool" where
  "hasTxnContext L raw = (if has_key L raw ''startTransaction'' then True
     else if has_key L raw ''autocommit'' then True else False)"

definition collectionFromCommand :: "bson_lib \<Rightarrow> bytes \<Rightarrow> bytes \<Rightarrow> bytes" where
  "collectionFromCommand L raw cmdName = (case bl_LookupErr L raw cmdName of
      Inl _ \<Rightarrow> ''''
    | Inr val \<Rightarrow> (case StringValueOK val of Some s \<Rightarrow> s | None \<Rightarrow> ''''))"

text \<open>The \<open>switch lname\<close> of \<open>Classify\<close>: the kind of a lower-cased command name.\<close>

definition kind_of :: "bytes \<Rightarrow> Kind" where
  "kind_of lname =
    (if List.member [''hello'', ''ismaster'', ''isMaster''] lname then KindHandshake
     else if List.member [''saslstart'', ''saslStart'', ''saslcontinue'', ''saslContinue'',
        ''authenticate'', ''logout'', ''getnonce''] lname then KindAuth
     else if List.member [''getmore'', ''getMore'', ''killcursors'', ''killCursors''] lname then KindCursor
     else if List.member [''aborttransaction'', ''abortTransaction'', ''committransaction'',
        ''commitTransaction'', ''endsessions'', ''endSessions'', ''refreshsessions'',
        ''refreshSessions'', ''startsession''] lname then KindTxn
     else if List.member [''buildinfo'', ''buildInfo'', ''getcmdlineopts'', ''getCmdLineOpts'', ''ping'',
        ''whatsmyuri'', ''getlog'', ''getLog'', ''listcommands'', ''listCommands'',
        ''connectionstatus'', ''connectionStatus'', ''hostinfo'', ''hostInfo'', ''features'',
        ''getparameter'', ''getParameter''] lname then KindAdmin
     else if List.member [''find'', ''aggregate'', ''count'', ''estimateddocumentcount'',
        ''estimatedDocumentCount'', ''distinct'', ''listcollections'', ''listCollections'',
        ''listindexes'', ''listIndexes'', ''listdatabases'', ''listDatabases'', ''collstats'',
        ''collStats'', ''dbstats'', ''dbStats'', ''currentop'', ''currentOp'', ''explain''] lname
     then KindRead
     else if List.member [''insert'', ''update'', ''delete'', ''findandmodify'', ''findAndModify'',
        ''bulkwrite'', ''bulkWrite'', ''create'', ''createcollection'', ''createCollection'',
        ''createindexes'', ''createIndexes'', ''drop'', ''dropdatabase'', ''dropDatabase'',
        ''dropindexes'', ''dropIndexes'', ''renamecollection'', ''renameCollection'', ''createuser'',
        ''createUser''] lname then KindWrite
     else KindOther)"

definition Classify :: "bson_lib \<Rightarrow> bytes \<Rightarrow> bytes + Info" where
  "Classify L raw = (case CommandName L raw of
      Inl err \<Rightarrow> Inl err
    | Inr name \<Rightarrow>
        let db0 = LookupString L raw ''$db'';
            db = (if db0 = '''' then ''admin'' else db0);
            k = kind_of (to_lower name) in
        Inr \<lparr>Name = name, DB = db,
             Collection = (if k = KindRead \<or> k = KindWrite \<or> k = KindOther
                           then collectionFromCommand L raw name else ''''),
             InfoKind = k, IsTxn = hasTxnContext L raw, Raw = raw\<rparr>)"

definition CacheCollectionSuffix :: bytes where
  "CacheCollectionSuffix = ''_cache''"

definition ResolveCacheCollection :: "bytes \<Rightarrow> bytes \<times> bool" where
  "ResolveCacheCollection coll =
     (if coll = '''' \<or> \<not> has_suffix coll CacheCollectionSuffix then (coll, False)
      else if length coll = length CacheCollectionSuffix then (coll, False)
      else (take (length coll - length CacheCollectionSuffix) coll, True))"

definition IsHandshake :: "bytes \<Rightarrow> bool" where
  "IsHandshake name = List.member [''hello'', ''ismaster''] (to_lower name)"

definition IsAuthCommand :: "bytes \<Rightarrow> bool" where
  "IsAuthCommand name = List.member [''saslstart'', ''saslcontinue'', ''authenticate'', ''logout'', ''getnonce'']
     (to_lower name)"

definition IsPreAuthAllowed :: "bytes \<Rightarrow> bool" where
  "IsPreAuthAllowed name =
     (if IsHandshake name \<or> IsAuthCommand name then True
      else List.member [''ping'', ''buildinfo'', ''getcmdlineopts'', ''whatsmyuri'', ''getlog'',
        ''listcommands'', ''connectionstatus'', ''hostinfo'', ''features''] (to_lower name))"

section \<open>The opt-in suffix\<close>

lemma ResolveCacheCollection_cases:
  "ResolveCacheCollection coll =
     (if \<exists>rl. rl \<noteq> [] \<and> coll = rl @ CacheCollectionSuffix
      then (take (length coll - 6) coll, True) else (coll, False))"
  by (auto simp: ResolveCacheCollection_def CacheCollectionSuffix_def has_suffix_iff)

lemma ResolveCacheCollection_optin [simp]:
  "rl \<noteq> [] \<Longrightarrow> ResolveCacheCollection (rl @ CacheCollectionSuffix) = (rl, True)"
  by (subst ResolveCacheCollection_cases) (auto simp: CacheCollectionSuffix_def)

lemma ResolveCacheCollection_True:
  "ResolveCacheCollection coll = (rl, True) \<longleftrightarrow> rl \<noteq> [] \<and> coll = rl @ CacheCollectionSuffix"
  by (auto simp: ResolveCacheCollection_cases CacheCollectionSuffix_def split: if_splits)

lemma ResolveCacheCollection_False:
  "ResolveCacheCollection coll = (rl, False) \<longleftrightarrow>
     rl = coll \<and> (\<nexists>r. r \<noteq> [] \<and> coll = r @ CacheCollectionSuffix)"
  by (auto simp: ResolveCacheCollection_cases)

definition pre_auth_names :: "bytes list" where
  "pre_auth_names = [''hello'', ''ismaster'', ''saslstart'', ''saslcontinue'', ''authenticate'',
     ''logout'', ''getnonce'', ''ping'', ''buildinfo'', ''getcmdlineopts'', ''whatsmyuri'', ''getlog'',
     ''listcommands'', ''connectionstatus'', ''hostinfo'', ''features'']"

lemma IsPreAuthAllowed_iff: "IsPreAuthAllowed name \<longleftrightarrow> to_lower name \<in> set pre_auth_names"
  by (auto simp: IsPreAuthAllowed_def IsHandshake_def IsAuthCommand_def pre_auth_names_def)

lemma pre_auth_names_kinds:
  "list_all (\<lambda>n. kind_of n \<in> {KindHandshake, KindAuth, KindAdmin}) pre_auth_names"
  by (simp add: pre_auth_names_def kind_of_def)

lemma pre_auth_kinds:
  "IsPreAuthAllowed name \<Longrightarrow> kind_of (to_lower name) \<in> {KindHandshake, KindAuth, KindAdmin}"
  using pre_auth_names_kinds by (auto simp only: IsPreAuthAllowed_iff list_all_iff)

text \<open>
  C20. Opting in is exact and strips one suffix only: a client's collection name is resolved
  to the real collection \<open>rl\<close> with caching on exactly when it is the non-empty name
  \<open>rl\<close> followed by \<open>_cache\<close>, and to itself with caching off in every other case, the
  bare suffix and the empty name included; resolving a name with the suffix twice removes it
  once.
\<close>

theorem ResolveCacheCollection_spec:
  "(ResolveCacheCollection coll = (rl, True) \<longleftrightarrow> rl \<noteq> '''' \<and> coll = rl @ ''_cache'')
   \<and> (ResolveCacheCollection coll = (rl, False) \<longleftrightarrow>
        rl = coll \<and> (\<nexists>r. r \<noteq> '''' \<and> coll = r @ ''_cache''))
   \<and> ResolveCacheCollection ((rl @ ''_cache'') @ ''_cache'') = (rl @ ''_cache'', True)"
  using ResolveCacheCollection_True [of coll rl] ResolveCacheCollection_False [of coll rl]
    ResolveCacheCollection_optin [of "rl @ ''_cache''"]
  by (simp add: CacheCollectionSuffix_def)

text \<open>
  The pre-authentication list is disjoint from everything that reaches a tenant's
  database: a command that may run before authentication is never classified as a read, a
  write, a cursor or a transaction command, nor as an unknown one (the kinds whose
  collection is looked up), however its name is capitalised.
\<close>

theorem pre_auth_never_data:
  assumes "Classify L raw = Inr info" and "IsPreAuthAllowed (Name info)"
  shows "InfoKind info \<notin> {KindRead, KindWrite, KindCursor, KindTxn, KindOther}
     \<and> Collection info = ''''"
  using assms pre_auth_kinds [of "Name info"]
  by (auto simp: Classify_def Let_def split: sum.splits)

text \<open>A codec that knows one document, for the instances below.\<close>

definition single_doc_lib :: "bytes \<Rightarrow> (bytes \<times> rawval) list \<Rightarrow> doc \<Rightarrow> bson_lib" where
  "single_doc_lib raw els d =
     \<lparr>bl_Elements = (\<lambda>r. if r = raw then (els, None) else ([], Some ''invalid document'')),
      bl_Values = (\<lambda>r. Inl ''not an array''),
      bl_LookupErr = (\<lambda>r k. case (if r = raw then map_of els k else None) of
          Some v \<Rightarrow> Inr v | None \<Rightarrow> Inl ''element not found''),
      bl_UnmarshalD = (\<lambda>r. if r = raw then Inr d else Inl ''invalid document''),
      bl_UnmarshalM = (\<lambda>r. if r = raw then Inr d else Inl ''invalid document''),
      bl_Marshal = (\<lambda>v. case v of BRaw b \<Rightarrow> Inr b | _ \<Rightarrow> Inl ''unsupported''),
      bl_MarshalCR = (\<lambda>cr. Inl ''unsupported''),
      bl_UnmarshalCR = (\<lambda>b. Inl ''unsupported''),
      bl_f64conv = (\<lambda>f. 0)\<rparr>"

theorem pre_auth_never_data_witness:
  "InfoKind \<lparr>Name = ''PING'', DB = ''admin'', Collection = '''', InfoKind = KindAdmin, IsTxn = False,
      Raw = ''doc''\<rparr> \<notin> {KindRead, KindWrite, KindCursor, KindTxn, KindOther}
   \<and> Collection \<lparr>Name = ''PING'', DB = ''admin'', Collection = '''', InfoKind = KindAdmin,
      IsTxn = False, Raw = ''doc''\<rparr> = ''''"
proof -
  have lower: "to_lower ''PING'' = ''ping''" by code_simp
  show ?thesis
    by (rule pre_auth_never_data [of "single_doc_lib ''doc'' [(''PING'', RInt32 1)] []" "''doc''"])
      (simp_all add: Classify_def CommandName_def single_doc_lib_def isMetaCommandKey_def
        LookupString_def kind_of_def hasTxnContext_def has_key_def IsPreAuthAllowed_iff
        pre_auth_names_def lower del: to_lower.simps)
qed

text \<open>A codec that knows a table of documents and writes values as plain text.\<close>

fun plain_text :: "bval \<Rightarrow> bytes" where
  "plain_text (BD x) = ''{'' @ concat (map (\<lambda>e. fst e @ ''='' @ plain_text (snd e) @ '','') x) @ ''}''"
| "plain_text (BA x) = ''['' @ concat (map (\<lambda>v. plain_text v @ '','') x) @ '']''"
| "plain_text (BStr s) = s"
| "plain_text (BRaw s) = s"
| "plain_text (BInt64 i) = itoa i"
| "plain_text (BInt32 i) = itoa i"
| "plain_text _ = ''?''"

definition table_lib :: "(bytes \<times> (bytes \<times> rawval) list \<times> doc) list \<Rightarrow> bson_lib" where
  "table_lib tbl =
     \<lparr>bl_Elements = (\<lambda>r. case map_of tbl r of Some (els, d) \<Rightarrow> (els, None)
        | None \<Rightarrow> ([], Some ''invalid document'')),
      bl_Values = (\<lambda>r. case map_of tbl r of Some (els, d) \<Rightarrow> Inr (map snd els)
        | None \<Rightarrow> Inl ''invalid document''),
      bl_LookupErr = (\<lambda>r k. case map_of tbl r of None \<Rightarrow> Inl ''invalid document''
        | Some (els, d) \<Rightarrow> (case map_of els k of Some v \<Rightarrow> Inr v | None \<Rightarrow> Inl ''element not found'')),
      bl_UnmarshalD = (\<lambda>r. case map_of tbl r of Some (els, d) \<Rightarrow> Inr d | None \<Rightarrow> Inl ''invalid document''),
      bl_UnmarshalM = (\<lambda>r. case map_of tbl r of Some (els, d) \<Rightarrow> Inr d | None \<Rightarrow> Inl ''invalid document''),
      bl_Marshal = (\<lambda>v. Inr (plain_text v)),
      bl_MarshalCR = (\<lambda>cr. Inl ''unsupported''),
      bl_UnmarshalCR = (\<lambda>b. Inl ''unsupported''),
      bl_f64conv = (\<lambda>f. 0)\<rparr>"

lemma table_lib_ok: "bson_ok (table_lib tbl)"
  by (auto simp: bson_ok_def table_lib_def split: option.splits)

end
