(* ===== verification/Cache_Key.thy ===== *)
theory Cache_Key
  imports Command Sha256 "HOL-Library.Multiset"
begin

text \<open>
  \<open>internal/proxy/cache/key.go\<close>: the canonical form of a command, the cache key built
  from it, and the conditions under which a command must not be cached.  Values decoded
  from BSON by \<open>bson.Unmarshal\<close> into a \<open>bson.D\<close> consist of \<open>bson.D\<close> and \<open>bson.A\<close>
  only; \<open>decoded\<close> names that shape.  The debug print under \<open>NANCE_DEBUG_CACHE_KEYS\<close>
  does not influence the key and is left out.
\<close>

section \<open>Canonical form\<close>

definition volatileTopLevel :: "bytes list" where
  "volatileTopLevel = [''$db'', ''$clusterTime'', ''$readPreference'', ''lsid'', ''txnNumber'',
     ''autocommit'', ''$comment'', ''comment'', ''maxTimeMS'', ''readConcern'', ''$readConcern'',
     ''apiVersion'', ''apiStrict'', ''apiDeprecationErrors'']"

lemma size_snd_set [termination_simp]:
  "e \<in> set els \<Longrightarrow> size (snd e) < Suc (size_list (size_prod (\<lambda>_. 0) size) els)"
  by (induction els) (auto split: prod.splits)

fun normalizeValue :: "bval \<Rightarrow> bval" where
  "normalizeValue (BD x) =
     BD (sort_key fst (map (\<lambda>e. (fst e, normalizeValue (snd e)))
       (filter (\<lambda>e. fst e \<notin> set volatileTopLevel) x)))"
| "normalizeValue (BM x) = BD (map (\<lambda>e. (fst e, normalizeValue (snd e))) (sort_key fst x))"
| "normalizeValue (BA x) = BA (map normalizeValue x)"
| "normalizeValue (BSliceAny x) = BA (map normalizeValue x)"
| "normalizeValue (BInt32 i) = BInt64 i"
| "normalizeValue (BInt i) = BInt64 i"
| "normalizeValue (BF32 f) = BF64 f"
| "normalizeValue v = v"

definition NormalizeCommand :: "bson_lib \<Rightarrow> bytes \<Rightarrow> bytes + doc" where
  "NormalizeCommand L raw = (case bl_UnmarshalD L raw of
      Inl err \<Rightarrow> Inl err
    | Inr d \<Rightarrow> (case normalizeValue (BD d) of BD n \<Rightarrow> Inr n | _ \<Rightarrow> Inl ''panic''))"

section \<open>Keys\<close>

definition key_digest_input :: "bytes \<Rightarrow> bytes \<Rightarrow> int \<Rightarrow> bytes" where
  "key_digest_input serialized cmdName ver =
     (serialized @ ''|'') @ to_lower cmdName @ ''|v'' @ itoa ver"

definition CacheKey ::
  "bson_lib \<Rightarrow> bytes \<Rightarrow> bytes \<Rightarrow> bytes \<Rightarrow> bytes \<Rightarrow> bytes \<Rightarrow> bytes \<Rightarrow> int \<Rightarrow> bytes + bytes" where
  "CacheKey L tenantID connectionID db coll cmdName cmd ver =
     (case NormalizeCommand L cmd of
        Inl err \<Rightarrow> Inl err
      | Inr canon \<Rightarrow> (case bl_Marshal L (BD canon) of
          Inl err \<Rightarrow> Inl err
        | Inr serialized \<Rightarrow>
            let digest = hex_encode (sha256 (key_digest_input serialized cmdName ver));
                conn = (if connectionID = '''' then ''_'' else connectionID) in
            Inr (''nance:tenant:{'' @ tenantID @ ''}:conn:'' @ conn @ '':ns:'' @ db @ ''.'' @ coll
              @ '':cmd:'' @ digest @ '':v'' @ itoa ver)))"

definition CacheKeyWithGeneration ::
  "bson_lib \<Rightarrow> bytes \<Rightarrow> bytes \<Rightarrow> bytes \<Rightarrow> bytes \<Rightarrow> bytes \<Rightarrow> bytes \<Rightarrow> int \<Rightarrow> int \<Rightarrow> bytes + bytes"
  where
  "CacheKeyWithGeneration L tenantID connectionID db coll cmdName cmd ver generation =
     (case CacheKey L tenantID connectionID db coll cmdName cmd ver of
        Inl err \<Rightarrow> Inl err
      | Inr base \<Rightarrow> Inr (base @ '':g'' @ itoa generation))"

section \<open>Cacheability\<close>

definition IsCacheableCommand :: "bytes \<Rightarrow> bool" where
  "IsCacheableCommand cmdName =
     List.member [''find'', ''aggregate'', ''count'', ''estimateddocumentcount'', ''distinct'']
       (to_lower cmdName)"

definition forbidden_stage_key :: "bytes \<Rightarrow> bool" where
  "forbidden_stage_key k \<longleftrightarrow> k = ''$out'' \<or> k = ''$merge'' \<or> k = ''$changeStream''"

fun scan_stages :: "bson_lib \<Rightarrow> rawval list \<Rightarrow> bool" where
  "scan_stages L [] = False"
| "scan_stages L (v # vs) = (case DocumentOK v of
      None \<Rightarrow> scan_stages L vs
    | Some d \<Rightarrow> (if list_ex (\<lambda>e. forbidden_stage_key (fst e)) (fst (bl_Elements L d)) then True
        else scan_stages L vs))"

definition hasForbiddenAggStage :: "bson_lib \<Rightarrow> bytes \<Rightarrow> bool" where
  "hasForbiddenAggStage L raw = (case bl_LookupErr L raw ''pipeline'' of
      Inl _ \<Rightarrow> False
    | Inr val \<Rightarrow> (case ArrayOK val of
        None \<Rightarrow> False
      | Some rawArr \<Rightarrow> (case bl_Values L rawArr of
          Inl _ \<Rightarrow> False
        | Inr vals \<Rightarrow> scan_stages L vals)))"

definition ShouldBypassCache :: "bson_lib \<Rightarrow> bytes \<Rightarrow> bytes \<Rightarrow> bool \<Rightarrow> bool \<times> bytes" where
  "ShouldBypassCache L cmdName raw isTxn =
     (if isTxn then (True, ''transaction'')
      else if has_key L raw ''txnNumber'' then (True, ''transaction'')
      else if to_lower cmdName = ''explain'' then (True, ''explain'')
      else if to_lower cmdName = ''aggregate'' \<and> hasForbiddenAggStage L raw
      then (True, ''agg_stage'')
      else if \<not> IsCacheableCommand cmdName then (True, ''command'')
      else (False, ''''))"

section \<open>Lemmas on the canonical form\<close>

fun decoded :: "bval \<Rightarrow> bool" where
  "decoded (BD x) = list_all (\<lambda>e. decoded (snd e)) x"
| "decoded (BA x) = list_all decoded x"
| "decoded (BM _) = False"
| "decoded (BMapAny _) = False"
| "decoded (BSliceAny _) = False"
| "decoded _ = True"

lemma NormalizeCommand_eq:
  "bl_UnmarshalD L raw = Inr d \<Longrightarrow> NormalizeCommand L raw =
     Inr (sort_key fst (map (\<lambda>e. (fst e, normalizeValue (snd e)))
       (filter (\<lambda>e. fst e \<notin> set volatileTopLevel) d)))"
  by (simp add: NormalizeCommand_def)

lemma sort_key_id: "sorted (map f xs) \<Longrightarrow> sort_key f xs = xs"
  by (rule sort_key_id_if_sorted)

lemma sort_key_perm:
  assumes "distinct (map f xs)" and "mset xs = mset ys"
  shows "sort_key f xs = sort_key f ys"
proof -
  have s: "set xs = set ys" using assms(2) by (metis set_mset_mset)
  have d: "distinct (map f ys)" using assms by (metis distinct_map mset_eq_imp_distinct_iff s)
  have "map f (sort_key f xs) = map f (sort_key f ys)"
    by (rule sorted_distinct_set_unique) (use assms(1) d s in \<open>auto simp: distinct_map\<close>)
  moreover have "inj_on f (set (sort_key f xs) \<union> set (sort_key f ys))"
    using assms(1) s by (simp add: distinct_map)
  ultimately show ?thesis by (rule map_inj_on)
qed

lemma CacheKey_cong:
  "NormalizeCommand L raw1 = NormalizeCommand L raw2 \<Longrightarrow>
   CacheKey L t c db coll name raw1 ver =
   CacheKey L t c db coll name raw2 ver"
  by (simp only: CacheKey_def)

lemma normalize_sorted_filtered:
  "filter (\<lambda>e. fst e \<notin> V) (sort_key fst (map (\<lambda>e. (fst e, g (snd e))) (filter (\<lambda>e. fst e \<notin> V) x)))
   = sort_key fst (map (\<lambda>e. (fst e, g (snd e))) (filter (\<lambda>e. fst e \<notin> V) x))"
  by (auto simp: filter_id_conv)

lemma normalizeValue_idem: "decoded v \<Longrightarrow> normalizeValue (normalizeValue v) = normalizeValue v"
proof (induction v rule: normalizeValue.induct)
  case (1 x)
  have "normalizeValue (normalizeValue (snd e)) = normalizeValue (snd e)"
    if "e \<in> set x" "fst e \<notin> set volatileTopLevel" for e
    using 1 that by (auto simp: list_all_iff)
  hence "map (\<lambda>e. (fst e, normalizeValue (snd e))) zs = zs"
    if "zs = sort_key fst (map (\<lambda>e. (fst e, normalizeValue (snd e)))
       (filter (\<lambda>e. fst e \<notin> set volatileTopLevel) x))" for zs
    unfolding that by (intro map_idI) auto
  thus ?case
    by (simp add: normalize_sorted_filtered sort_key_id)
qed (auto simp: list_all_iff)

lemma decoded_normalize: "decoded v \<Longrightarrow> decoded (normalizeValue v)"
  by (induction v rule: normalizeValue.induct) (auto simp: list_all_iff)

section \<open>Lemmas on the text of a key\<close>

lemma itoa_no_char: "\<not> is_digit c \<Longrightarrow> c \<noteq> CHR ''-'' \<Longrightarrow> c \<notin> set (itoa i)"
  using itoa_chars by blast

lemma itoa_no_sep [simp]: "CHR '':'' \<notin> set (itoa i)" "CHR ''|'' \<notin> set (itoa i)"
  by (rule itoa_no_char; simp add: is_digit_def)+

section \<open>Properties\<close>

definition key_body :: "bytes \<Rightarrow> bytes \<Rightarrow> bytes \<Rightarrow> int \<Rightarrow> bytes" where
  "key_body db coll digest ver =
     ((''ns:'' @ (db @ ''.'' @ coll) @ '':cmd:'') @ digest) @ CHR '':'' # (''v'' @ itoa ver)"

lemma key_body_inj:
  assumes "key_body db1 coll1 digest1 v1 = key_body db2 coll2 digest2 v2"
    and len: "length digest1 = length digest2"
  shows "db1 @ ''.'' @ coll1 = db2 @ ''.'' @ coll2 \<and> digest1 = digest2 \<and> v1 = v2"
proof -
  have v: "v1 = v2" and d: "(''ns:'' @ (db1 @ ''.'' @ coll1) @ '':cmd:'') @ digest1
      = (''ns:'' @ (db2 @ ''.'' @ coll2) @ '':cmd:'') @ digest2"
    using assms(1) unfolding key_body_def by (subst (asm) split_last; simp)+
  from iffD1 [OF append_eq_append_conv, OF disjI2 [OF len] d] have "''ns:'' @ (db1 @ ''.'' @ coll1) @ '':cmd:'' = ''ns:'' @ (db2 @ ''.'' @ coll2) @ '':cmd:''"
    and "digest1 = digest2"
    by (rule conjunct1, rule conjunct2)
  with v show ?thesis by simp
qed

definition key_text :: "bytes \<Rightarrow> bytes \<Rightarrow> bytes \<Rightarrow> bytes" where
  "key_text t c body = (''nance:tenant:{'' @ t) @ CHR ''}'' # ('':conn:'' @ c @ CHR '':'' # body)"

lemma key_text_inj:
  assumes "CHR ''}'' \<notin> set t1" "CHR ''}'' \<notin> set t2" "CHR '':'' \<notin> set c1" "CHR '':'' \<notin> set c2"
    and "key_text t1 c1 b1 = key_text t2 c2 b2"
  shows "t1 = t2 \<and> c1 = c2 \<and> b1 = b2"
proof -
  have "t1 = t2" and "c1 @ CHR '':'' # b1 = c2 @ CHR '':'' # b2"
    using assms(5,1,2) unfolding key_text_def by (subst (asm) split_first; simp)+
  with assms(3,4) show ?thesis by (simp add: split_first)
qed

lemma CacheKey_cases:
  "CacheKey L t c db coll name cmd ver = Inr k \<longleftrightarrow>
   (\<exists>canon ser. NormalizeCommand L cmd = Inr canon \<and> bl_Marshal L (BD canon) = Inr ser \<and>
     k = key_text t (if c = '''' then ''_'' else c)
       (key_body db coll (hex_encode (sha256 (key_digest_input ser name ver))) ver))"
  by (auto simp: CacheKey_def key_text_def key_body_def Let_def split: sum.splits)

lemma key_digest_input_inj:
  assumes "CHR ''|'' \<notin> set (to_lower n1)" "CHR ''|'' \<notin> set (to_lower n2)"
    and "key_digest_input s1 n1 v1 = key_digest_input s2 n2 v2"
  shows "s1 = s2 \<and> to_lower n1 = to_lower n2 \<and> v1 = v2"
proof -
  have e: "key_digest_input s n v = (s @ CHR ''|'' # to_lower n) @ CHR ''|'' # (''v'' @ itoa v)" for s n v
    by (simp add: key_digest_input_def)
  have "v1 = v2" and "s1 @ CHR ''|'' # to_lower n1 = s2 @ CHR ''|'' # to_lower n2"
    using assms(3) unfolding e by (subst (asm) split_last; simp)+
  with assms(1,2) show ?thesis by (simp add: split_last)
qed

section \<open>Properties\<close>

definition stable_part :: "doc \<Rightarrow> doc" where
  "stable_part d = filter (\<lambda>e. fst e \<notin> set volatileTopLevel) d"

lemma normalizeValue_perm:
  assumes "distinct (map fst (stable_part x))" and "mset (stable_part x) = mset (stable_part y)"
  shows "normalizeValue (BD x) = normalizeValue (BD y)"
proof -
  let ?n = "map (\<lambda>e. (fst e, normalizeValue (snd e)))"
  have "sort_key fst (?n (stable_part x)) = sort_key fst (?n (stable_part y))"
  proof (rule sort_key_perm)
    have "map fst (?n (stable_part x)) = map fst (stable_part x)" by (induction "stable_part x") auto
    with assms(1) show "distinct (map fst (?n (stable_part x)))" by (simp only:)
    show "mset (?n (stable_part x)) = mset (?n (stable_part y))"
      using assms(2) by (simp only: mset_map)
  qed
  thus ?thesis by (simp add: stable_part_def)
qed

lemma scan_stages_iff:
  "scan_stages L vs \<longleftrightarrow> (\<exists>stage. RDocument stage \<in> set vs
     \<and> list_ex (\<lambda>e. forbidden_stage_key (fst e)) (fst (bl_Elements L stage)))"
proof (induction vs)
  case (Cons v vs)
  then show ?case by (cases v) (auto simp: DocumentOK_def)
qed simp

lemma hasForbiddenAggStage_iff:
  "hasForbiddenAggStage L raw \<longleftrightarrow> (\<exists>v arr vals stage.
     bl_LookupErr L raw ''pipeline'' = Inr v \<and> ArrayOK v = Some arr \<and> bl_Values L arr = Inr vals
     \<and> RDocument stage \<in> set vals
     \<and> list_ex (\<lambda>e. forbidden_stage_key (fst e)) (fst (bl_Elements L stage)))"
proof (cases "bl_LookupErr L raw ''pipeline''")
  case (Inr v)
  then show ?thesis
    by (cases "ArrayOK v"; cases "bl_Values L (the (ArrayOK v))")
      (auto simp: hasForbiddenAggStage_def scan_stages_iff)
qed (simp add: hasForbiddenAggStage_def)

lemma IsCacheableCommand_iff:
  "IsCacheableCommand name \<longleftrightarrow>
     to_lower name \<in> {''find'', ''aggregate'', ''count'', ''estimateddocumentcount'', ''distinct''}"
  by (simp add: IsCacheableCommand_def)

lemma ShouldBypassCache_False:
  "fst (ShouldBypassCache L name raw isTxn) = False \<longleftrightarrow>
     \<not> isTxn \<and> \<not> has_key L raw ''txnNumber'' \<and> IsCacheableCommand name
     \<and> \<not> (to_lower name = ''aggregate'' \<and> hasForbiddenAggStage L raw)"
proof -
  have "\<not> IsCacheableCommand name" if "to_lower name = ''explain''"
    using that by (simp add: IsCacheableCommand_iff del: to_lower.simps)
  thus ?thesis unfolding ShouldBypassCache_def by (auto simp del: to_lower.simps)
qed

text \<open>
  C32. The cache key does not depend on how a driver spells a command: two commands whose
  fields, the volatile ones (session, transaction number, comment, read concern, ...) left
  out, are the same up to their order get the same key, whatever the volatile fields hold.
\<close>

theorem CacheKey_order_and_volatile:
  assumes "bl_UnmarshalD L raw1 = Inr d1" and "bl_UnmarshalD L raw2 = Inr d2"
    and "distinct (map fst (stable_part d1))"
    and "mset (stable_part d1) = mset (stable_part d2)"
  shows "CacheKey L t c db coll name raw1 ver =
    CacheKey L t c db coll name raw2 ver"
proof -
  have "NormalizeCommand L raw1 = NormalizeCommand L raw2"
    using assms(1,2) normalizeValue_perm [OF assms(3,4)]
    by (simp only: NormalizeCommand_def sum.case)
  thus ?thesis by (rule CacheKey_cong)
qed

definition find_lsid :: doc where
  "find_lsid = [(''find'', BStr ''c''), (''filter'', BD []), (''lsid'', BInt32 1), (''$db'', BStr ''d'')]"

definition find_comment :: doc where
  "find_comment = [(''comment'', BStr ''x''), (''filter'', BD []), (''find'', BStr ''c'')]"

lemma stable_find_docs:
  "stable_part find_lsid = [(''find'', BStr ''c''), (''filter'', BD [])]"
  "stable_part find_comment = [(''filter'', BD []), (''find'', BStr ''c'')]"
  unfolding stable_part_def find_lsid_def find_comment_def volatileTopLevel_def by code_simp+

theorem CacheKey_order_and_volatile_witness:
  "CacheKey (table_lib [(''1'', [], find_lsid), (''2'', [], find_comment)])
     ''t'' ''k'' ''d'' ''c'' ''find'' ''1'' 1 =
   CacheKey (table_lib [(''1'', [], find_lsid), (''2'', [], find_comment)])
     ''t'' ''k'' ''d'' ''c'' ''find'' ''2'' 1"
proof (rule CacheKey_order_and_volatile)
  let ?L = "table_lib [(''1'', [], find_lsid), (''2'', [], find_comment)]"
  show "bl_UnmarshalD ?L ''1'' = Inr find_lsid" and "bl_UnmarshalD ?L ''2'' = Inr find_comment"
    by (simp_all add: table_lib_def)
  show "distinct (map fst (stable_part find_lsid))"
    by (simp add: stable_find_docs)
  show "mset (stable_part find_lsid) = mset (stable_part find_comment)"
    by (simp only: stable_find_docs mset.simps add_mset_commute)
qed

text \<open>
  C26. Distinct requests are kept apart: if two cache keys are equal then tenant, connection,
  namespace and key version are equal, and either the two commands have the same
  canonical serialisation and name or their hash inputs are a collision of SHA-256.  Tenant
  identifiers may not contain a closing brace, connection identifiers no colon and command names
  no bar; an empty connection identifier and \<open>_\<close> count as the same connection.
\<close>

theorem CacheKey_separates:
  assumes "CacheKey L t1 c1 db1 coll1 n1 cmd1 v1 = Inr k"
    and "CacheKey L t2 c2 db2 coll2 n2 cmd2 v2 = Inr k"
    and "CHR ''}'' \<notin> set t1 \<union> set t2" and "CHR '':'' \<notin> set c1 \<union> set c2"
    and "CHR ''|'' \<notin> set (to_lower n1) \<union> set (to_lower n2)"
  shows "t1 = t2 \<and> (c1 = c2 \<or> {c1, c2} = {'''', ''_''}) \<and> db1 @ ''.'' @ coll1 = db2 @ ''.'' @ coll2
    \<and> v1 = v2
    \<and> (\<exists>canon1 canon2 ser1 ser2. NormalizeCommand L cmd1 = Inr canon1 \<and> bl_Marshal L (BD canon1) = Inr ser1
        \<and> NormalizeCommand L cmd2 = Inr canon2 \<and> bl_Marshal L (BD canon2) = Inr ser2
        \<and> (ser1 = ser2 \<and> to_lower n1 = to_lower n2
          \<or> key_digest_input ser1 n1 v1 \<noteq> key_digest_input ser2 n2 v2
            \<and> sha256 (key_digest_input ser1 n1 v1) = sha256 (key_digest_input ser2 n2 v2)))"
proof -
  from assms(1) obtain canon1 ser1 where 1: "NormalizeCommand L cmd1 = Inr canon1" "bl_Marshal L (BD canon1) = Inr ser1"
    and k1: "k = key_text t1 (if c1 = '''' then ''_'' else c1)
       (key_body db1 coll1 (hex_encode (sha256 (key_digest_input ser1 n1 v1))) v1)"
    by (auto simp only: CacheKey_cases)
  from assms(2) obtain canon2 ser2 where 2: "NormalizeCommand L cmd2 = Inr canon2" "bl_Marshal L (BD canon2) = Inr ser2"
    and k2: "k = key_text t2 (if c2 = '''' then ''_'' else c2)
       (key_body db2 coll2 (hex_encode (sha256 (key_digest_input ser2 n2 v2))) v2)"
    by (auto simp only: CacheKey_cases)
  have col: "CHR '':'' \<notin> set (if c1 = '''' then ''_'' else c1)" "CHR '':'' \<notin> set (if c2 = '''' then ''_'' else c2)"
    using assms(4) by auto
  have k: "t1 = t2" "(if c1 = '''' then ''_'' else c1) = (if c2 = '''' then ''_'' else c2)"
    "key_body db1 coll1 (hex_encode (sha256 (key_digest_input ser1 n1 v1))) v1
      = key_body db2 coll2 (hex_encode (sha256 (key_digest_input ser2 n2 v2))) v2"
    using key_text_inj [OF _ _ col(1,2) k1 [unfolded k2, symmetric]] assms(3) by simp_all
  have b: "db1 @ ''.'' @ coll1 = db2 @ ''.'' @ coll2" "v1 = v2"
    "sha256 (key_digest_input ser1 n1 v1) = sha256 (key_digest_input ser2 n2 v2)"
    using key_body_inj [OF k(3)] by (auto simp: sha256_length hex_encode_inj)
  have "ser1 = ser2 \<and> to_lower n1 = to_lower n2" if "key_digest_input ser1 n1 v1 = key_digest_input ser2 n2 v2"
    using key_digest_input_inj [OF _ _ that] assms(5) by simp
  with 1 2 k(1,2) b show ?thesis by (auto split: if_splits)
qed

theorem CacheKey_separates_witness:
  "\<exists>k. CacheKey (table_lib [(''1'', [], find_lsid)]) ''t'' '''' ''d'' ''c'' ''find'' ''1'' 1 = Inr k
   \<and> CacheKey (table_lib [(''1'', [], find_lsid)]) ''t'' ''_'' ''d'' ''c'' ''FIND'' ''1'' 1 = Inr k
   \<and> ''t'' = ''t'' \<and> ('''' = ''_'' \<or> {'''', ''_''} = {'''', ''_''})"
proof -
  let ?L = "table_lib [(''1'', [], find_lsid)]"
  have lower: "to_lower ''find'' = ''find''" "to_lower ''FIND'' = ''find''" by code_simp+
  obtain k where k: "CacheKey ?L ''t'' '''' ''d'' ''c'' ''find'' ''1'' 1 = Inr k"
    by (auto simp: CacheKey_cases NormalizeCommand_def table_lib_def)
  moreover have "CacheKey ?L ''t'' ''_'' ''d'' ''c'' ''FIND'' ''1'' 1
      = CacheKey ?L ''t'' '''' ''d'' ''c'' ''find'' ''1'' 1"
    by (simp add: CacheKey_def key_digest_input_def lower Let_def
        split: sum.split del: to_lower.simps)
  ultimately have k': "CacheKey ?L ''t'' ''_'' ''d'' ''c'' ''FIND'' ''1'' 1 = Inr k" by simp
  show ?thesis
    using CacheKey_separates [OF k k'] k k' by (auto simp: lower simp del: to_lower.simps)
qed

text \<open>
  C33. Options nested in a request do not reach the key: two commands that differ only inside
  a sub-document (a filter, say), in the value of a field whose name is on the volatile list,
  or in the order of that sub-document's fields (a sort specification, say), get the same
  cache key.  Both are observable differences in MongoDB, and the comment on
  \<open>volatileTopLevel\<close> means top-level fields only.
\<close>

theorem CacheKey_nested_collision:
  assumes "bl_UnmarshalD L raw1 = Inr (pre @ [(opt, BD sub1)] @ post)"
    and "bl_UnmarshalD L raw2 = Inr (pre @ [(opt, BD sub2)] @ post)"
    and "distinct (map fst (stable_part sub1))"
    and "mset (stable_part sub1) = mset (stable_part sub2)"
  shows "CacheKey L t c db coll name raw1 ver =
    CacheKey L t c db coll name raw2 ver"
proof -
  have "normalizeValue (BD sub1) = normalizeValue (BD sub2)"
    using normalizeValue_perm [OF assms(3,4)] .
  hence "NormalizeCommand L raw1 = NormalizeCommand L raw2"
    using assms(1,2) by (simp add: NormalizeCommand_eq del: normalizeValue.simps)
  thus ?thesis by (rule CacheKey_cong)
qed

definition find_sort :: "bool \<Rightarrow> doc" where
  "find_sort swapped = [(''find'', BStr ''c''), (''sort'', BD (if swapped
     then [(''b'', BInt32 1), (''a'', BInt32 1)] else [(''a'', BInt32 1), (''b'', BInt32 1)]))]"

theorem CacheKey_nested_collision_witness:
  "CacheKey (table_lib [(''1'', [], find_sort False), (''2'', [], find_sort True)])
     ''t'' ''k'' ''d'' ''c'' ''find'' ''1'' 1 =
   CacheKey (table_lib [(''1'', [], find_sort False), (''2'', [], find_sort True)])
     ''t'' ''k'' ''d'' ''c'' ''find'' ''2'' 1"
proof (rule CacheKey_nested_collision)
  let ?L = "table_lib [(''1'', [], find_sort False), (''2'', [], find_sort True)]"
  let ?ab = "[(''a'', BInt32 1), (''b'', BInt32 1)]" and ?ba = "[(''b'', BInt32 1), (''a'', BInt32 1)]"
  show "bl_UnmarshalD ?L ''1'' = Inr ([(''find'', BStr ''c'')] @ [(''sort'', BD ?ab)] @ [])"
    and "bl_UnmarshalD ?L ''2'' = Inr ([(''find'', BStr ''c'')] @ [(''sort'', BD ?ba)] @ [])"
    by (simp_all add: table_lib_def find_sort_def)
  have s: "stable_part ?ab = ?ab" "stable_part ?ba = ?ba"
    unfolding stable_part_def volatileTopLevel_def by code_simp+
  show "distinct (map fst (stable_part ?ab))"
    by (simp add: s)
  show "mset (stable_part ?ab) = mset (stable_part ?ba)"
    by (simp only: s mset.simps add_mset_commute)
qed

text \<open>
  C13. When a command is allowed to use the cache: exactly if it is outside any transaction
  (neither classified as one nor carrying \<open>txnNumber\<close>), is one of the five read commands,
  and is not an aggregation with a stage document holding \<open>$out\<close>, \<open>$merge\<close> or
  \<open>$changeStream\<close>.
\<close>

theorem ShouldBypassCache_spec:
  "fst (ShouldBypassCache L name raw isTxn) = False \<longleftrightarrow>
     \<not> isTxn \<and> \<not> has_key L raw ''txnNumber''
     \<and> to_lower name \<in> {''find'', ''aggregate'', ''count'', ''estimateddocumentcount'', ''distinct''}
     \<and> \<not> (to_lower name = ''aggregate'' \<and> (\<exists>v arr vals stage.
           bl_LookupErr L raw ''pipeline'' = Inr v \<and> ArrayOK v = Some arr \<and> bl_Values L arr = Inr vals
           \<and> RDocument stage \<in> set vals
           \<and> list_ex (\<lambda>e. forbidden_stage_key (fst e)) (fst (bl_Elements L stage))))"
  unfolding ShouldBypassCache_False IsCacheableCommand_iff hasForbiddenAggStage_iff by (rule refl)

end
