(* ===== verification/Cache_Store.thy ===== *)
theory Cache_Store
  imports Bson
begin

text \<open>
  The result store of \<open>internal/proxy/cache/cache.go\<close> and \<open>tags.go\<close>.  The Go interface
  \<open>Store\<close> is a record of its methods over a state type, so that a client of the interface
  is written once and run on each implementation: \<open>MemoryStore\<close>, \<open>NoopStore\<close> and
  \<open>RedisStore\<close>.  The go-redis client is a parameter (\<open>redis_client\<close>).  The locale
  \<open>result_store\<close> is the contract the proxy relies on: a value is found until its time to
  live has passed, and an invalidation removes every key registered under the namespace.
  Dialling Redis and redacting its address for logs (\<open>NewRedisStore\<close>,
  \<open>RedactRedisAddr\<close>) use the client library and \<open>net/url\<close> only and are left out.
\<close>

section \<open>The interface\<close>

datatype cache_err =
    ErrMiss
  | ErrUnavailable bytes
  | errTooBig
  | errBackendCommand
  | ErrOther bytes

record 's tagStore =
  SAddTag :: "bytes \<Rightarrow> bytes \<Rightarrow> bytes \<Rightarrow> 's \<Rightarrow> cache_err option \<times> 's"
  InvalidateTag :: "bytes \<Rightarrow> bytes \<Rightarrow> 's \<Rightarrow> cache_err option \<times> 's"

text \<open>
  The last field is the result of the type assertion \<open>s.(tagStore)\<close>; the first argument of
  \<open>GetKey\<close> and \<open>SetKey\<close> is the current time.
\<close>

record 's Store =
  GetKey :: "time \<Rightarrow> bytes \<Rightarrow> 's \<Rightarrow> (cache_err + bytes) \<times> 's"
  SetKey :: "time \<Rightarrow> bytes \<Rightarrow> bytes \<Rightarrow> int \<Rightarrow> 's \<Rightarrow> cache_err option \<times> 's"
  RegisterKey :: "bytes \<Rightarrow> bytes \<Rightarrow> bytes \<Rightarrow> bytes \<Rightarrow> bytes \<Rightarrow> 's \<Rightarrow> cache_err option \<times> 's"
  InvalidateNamespace :: "bytes \<Rightarrow> bytes \<Rightarrow> bytes \<Rightarrow> bytes \<Rightarrow> 's \<Rightarrow> cache_err option \<times> 's"
  asTagStore :: "'s tagStore option"

definition registryKey :: "bytes \<Rightarrow> bytes \<Rightarrow> bytes \<Rightarrow> bytes \<Rightarrow> bytes" where
  "registryKey tenantID connectionID db coll =
     (let connectionID = (if connectionID = '''' then ''_'' else connectionID) in
      ''nance:tenant:{'' @ tenantID @ ''}:conn:'' @ connectionID @ '':ns:'' @ db @ ''.'' @ coll
        @ '':known_keys'')"

definition tagRegistryKey :: "bytes \<Rightarrow> bytes \<Rightarrow> bytes" where
  "tagRegistryKey tenantID tag = ''nance:tenant:{'' @ tenantID @ ''}:tag:'' @ tag @ '':keys''"

definition RegisterTags :: "'s Store option \<Rightarrow> bytes \<Rightarrow> bytes \<Rightarrow> bytes list \<Rightarrow> 's \<Rightarrow> 's" where
  "RegisterTags S tenantID key tags s =
     (if tags = [] then s
      else case S of None \<Rightarrow> s | Some st \<Rightarrow>
        (case asTagStore st of None \<Rightarrow> s
         | Some rs \<Rightarrow> fold (\<lambda>tag s. snd (SAddTag rs tenantID tag key s)) tags s))"

fun invalidate_tags_loop :: "'s tagStore \<Rightarrow> bytes \<Rightarrow> bytes list \<Rightarrow> 's \<Rightarrow> cache_err option \<times> 's" where
  "invalidate_tags_loop rs tenantID [] s = (None, s)"
| "invalidate_tags_loop rs tenantID (tag # tags) s =
     (case InvalidateTag rs tenantID tag s of
        (Some err, s') \<Rightarrow> (Some err, s')
      | (None, s') \<Rightarrow> invalidate_tags_loop rs tenantID tags s')"

definition InvalidateTags :: "'s Store option \<Rightarrow> bytes \<Rightarrow> bytes list \<Rightarrow> 's \<Rightarrow> cache_err option \<times> 's" where
  "InvalidateTags S tenantID tags s =
     (case S of None \<Rightarrow> (None, s) | Some st \<Rightarrow>
        (case asTagStore st of None \<Rightarrow> (None, s)
         | Some rs \<Rightarrow> invalidate_tags_loop rs tenantID tags s))"

section \<open>MemoryStore\<close>

record memEntry =
  me_val :: bytes
  me_exp :: time

record MemoryStore =
  ms_mu :: "(bytes, memEntry) gomap"
  ms_sets :: "(bytes, (bytes, unit) gomap) gomap"

definition NewMemoryStore :: MemoryStore where
  "NewMemoryStore = \<lparr>ms_mu = [], ms_sets = []\<rparr>"

definition MemGet :: "time \<Rightarrow> bytes \<Rightarrow> MemoryStore \<Rightarrow> (cache_err + bytes) \<times> MemoryStore" where
  "MemGet now key m = (case gm_get (ms_mu m) key of
      None \<Rightarrow> (Inl ErrMiss, m)
    | Some e \<Rightarrow>
        if me_exp e \<noteq> 0 \<and> now > me_exp e
        then (Inl ErrMiss, m\<lparr>ms_mu := gm_del (ms_mu m) key\<rparr>)
        else (Inr (me_val e), m))"

definition MemSet :: "time \<Rightarrow> bytes \<Rightarrow> bytes \<Rightarrow> int \<Rightarrow> MemoryStore \<Rightarrow> cache_err option \<times> MemoryStore" where
  "MemSet now key value ttl m =
     (let exp = (if ttl > 0 then now + ttl else 0) in
      (None, m\<lparr>ms_mu := gm_put (ms_mu m) key \<lparr>me_val = value, me_exp = exp\<rparr>\<rparr>))"

definition mem_sadd :: "bytes \<Rightarrow> bytes \<Rightarrow> MemoryStore \<Rightarrow> MemoryStore" where
  "mem_sadd rk key m =
     (let members = (case gm_get (ms_sets m) rk of None \<Rightarrow> [] | Some s \<Rightarrow> s) in
      m\<lparr>ms_sets := gm_put (ms_sets m) rk (gm_put members key ())\<rparr>)"

definition mem_drop_set :: "bytes \<Rightarrow> MemoryStore \<Rightarrow> MemoryStore" where
  "mem_drop_set rk m =
     (let members = (case gm_get (ms_sets m) rk of None \<Rightarrow> [] | Some s \<Rightarrow> s) in
      m\<lparr>ms_mu := fold (\<lambda>k mu. gm_del mu k) (map fst members) (ms_mu m),
        ms_sets := gm_del (ms_sets m) rk\<rparr>)"

definition MemRegisterKey ::
  "bytes \<Rightarrow> bytes \<Rightarrow> bytes \<Rightarrow> bytes \<Rightarrow> bytes \<Rightarrow> MemoryStore \<Rightarrow> cache_err option \<times> MemoryStore" where
  "MemRegisterKey tenantID connectionID db coll key m =
     (None, mem_sadd (registryKey tenantID connectionID db coll) key m)"

definition MemInvalidateNamespace ::
  "bytes \<Rightarrow> bytes \<Rightarrow> bytes \<Rightarrow> bytes \<Rightarrow> MemoryStore \<Rightarrow> cache_err option \<times> MemoryStore" where
  "MemInvalidateNamespace tenantID connectionID db coll m =
     (None, mem_drop_set (registryKey tenantID connectionID db coll) m)"

definition MemSAddTag :: "bytes \<Rightarrow> bytes \<Rightarrow> bytes \<Rightarrow> MemoryStore \<Rightarrow> cache_err option \<times> MemoryStore" where
  "MemSAddTag tenantID tag key m = (None, mem_sadd (tagRegistryKey tenantID tag) key m)"

definition MemInvalidateTag :: "bytes \<Rightarrow> bytes \<Rightarrow> MemoryStore \<Rightarrow> cache_err option \<times> MemoryStore" where
  "MemInvalidateTag tenantID tag m = (None, mem_drop_set (tagRegistryKey tenantID tag) m)"

definition memory_store :: "MemoryStore Store" where
  "memory_store = \<lparr>GetKey = MemGet, SetKey = MemSet, RegisterKey = MemRegisterKey,
     InvalidateNamespace = MemInvalidateNamespace,
     asTagStore = Some \<lparr>SAddTag = MemSAddTag, InvalidateTag = MemInvalidateTag\<rparr>\<rparr>"

section \<open>NoopStore\<close>

definition noop_store :: "'s Store" where
  "noop_store = \<lparr>GetKey = (\<lambda>now key s. (Inl (ErrUnavailable ''''), s)),
     SetKey = (\<lambda>now key value ttl s. (Some (ErrUnavailable ''''), s)),
     RegisterKey = (\<lambda>tenantID connectionID db coll key s. (Some (ErrUnavailable ''''), s)),
     InvalidateNamespace = (\<lambda>tenantID connectionID db coll s. (Some (ErrUnavailable ''''), s)),
     asTagStore = None\<rparr>"

section \<open>RedisStore\<close>

text \<open>
  The calls made on \<open>redis.UniversalClient\<close>: each returns its error, \<open>RedisNil\<close> being
  \<open>redis.Nil\<close>.  \<open>rd_PipeDel\<close> is a pipeline of \<open>Del\<close> commands and its \<open>Exec\<close>.
  Timeouts are the client's: a call that exceeds its context returns an error.
\<close>

datatype redis_err = RedisNil | RedisErr bytes

record 'r redis_client =
  rd_Get :: "bytes \<Rightarrow> 'r \<Rightarrow> (redis_err + bytes) \<times> 'r"
  rd_Set :: "bytes \<Rightarrow> bytes \<Rightarrow> int \<Rightarrow> 'r \<Rightarrow> redis_err option \<times> 'r"
  rd_SAdd :: "bytes \<Rightarrow> bytes \<Rightarrow> 'r \<Rightarrow> redis_err option \<times> 'r"
  rd_SMembers :: "bytes \<Rightarrow> 'r \<Rightarrow> (redis_err + bytes list) \<times> 'r"
  rd_Del :: "bytes \<Rightarrow> 'r \<Rightarrow> redis_err option \<times> 'r"
  rd_PipeDel :: "bytes list \<Rightarrow> 'r \<Rightarrow> redis_err option \<times> 'r"

fun redis_text :: "redis_err \<Rightarrow> bytes" where
  "redis_text RedisNil = ''redis: nil''"
| "redis_text (RedisErr e) = e"

definition RedisGet :: "'r redis_client \<Rightarrow> time \<Rightarrow> bytes \<Rightarrow> 'r \<Rightarrow> (cache_err + bytes) \<times> 'r" where
  "RedisGet C now key r = (case rd_Get C key r of
      (Inl RedisNil, r') \<Rightarrow> (Inl ErrMiss, r')
    | (Inl (RedisErr e), r') \<Rightarrow> (Inl (ErrUnavailable e), r')
    | (Inr val, r') \<Rightarrow> (Inr val, r'))"

definition RedisSet :: "'r redis_client \<Rightarrow> time \<Rightarrow> bytes \<Rightarrow> bytes \<Rightarrow> int \<Rightarrow> 'r \<Rightarrow> cache_err option \<times> 'r" where
  "RedisSet C now key value ttl r = (case rd_Set C key value ttl r of
      (Some e, r') \<Rightarrow> (Some (ErrUnavailable (redis_text e)), r')
    | (None, r') \<Rightarrow> (None, r'))"

definition RedisRegisterKey ::
  "'r redis_client \<Rightarrow> bytes \<Rightarrow> bytes \<Rightarrow> bytes \<Rightarrow> bytes \<Rightarrow> bytes \<Rightarrow> 'r \<Rightarrow> cache_err option \<times> 'r" where
  "RedisRegisterKey C tenantID connectionID db coll key r =
     (case rd_SAdd C (registryKey tenantID connectionID db coll) key r of
        (e, r') \<Rightarrow> (map_option (\<lambda>e. ErrOther (redis_text e)) e, r'))"

definition RedisInvalidateNamespace ::
  "'r redis_client \<Rightarrow> bytes \<Rightarrow> bytes \<Rightarrow> bytes \<Rightarrow> bytes \<Rightarrow> 'r \<Rightarrow> cache_err option \<times> 'r" where
  "RedisInvalidateNamespace C tenantID connectionID db coll r =
     (let rk = registryKey tenantID connectionID db coll in
      case rd_SMembers C rk r of
        (Inl (RedisErr e), r1) \<Rightarrow> (Some (ErrUnavailable e), r1)
      | (res, r1) \<Rightarrow>
          let members = (case res of Inr ms \<Rightarrow> ms | Inl _ \<Rightarrow> []) in
          if members = [] then (None, snd (rd_Del C rk r1))
          else (case rd_PipeDel C (members @ [rk]) r1 of
              (Some e, r2) \<Rightarrow> (Some (ErrUnavailable (redis_text e)), r2)
            | (None, r2) \<Rightarrow> (None, r2)))"

definition RedisSAddTag :: "'r redis_client \<Rightarrow> bytes \<Rightarrow> bytes \<Rightarrow> bytes \<Rightarrow> 'r \<Rightarrow> cache_err option \<times> 'r" where
  "RedisSAddTag C tenantID tag key r =
     (case rd_SAdd C (tagRegistryKey tenantID tag) key r of
        (e, r') \<Rightarrow> (map_option (\<lambda>e. ErrOther (redis_text e)) e, r'))"

definition RedisInvalidateTag :: "'r redis_client \<Rightarrow> bytes \<Rightarrow> bytes \<Rightarrow> 'r \<Rightarrow> cache_err option \<times> 'r" where
  "RedisInvalidateTag C tenantID tag r =
     (let rk = tagRegistryKey tenantID tag in
      case rd_SMembers C rk r of
        (Inl e, r1) \<Rightarrow> (Some (ErrOther (redis_text e)), r1)
      | (Inr members, r1) \<Rightarrow> (case rd_PipeDel C (members @ [rk]) r1 of
          (e, r2) \<Rightarrow> (map_option (\<lambda>e. ErrOther (redis_text e)) e, r2)))"

definition redis_store :: "'r redis_client \<Rightarrow> 'r Store" where
  "redis_store C = \<lparr>GetKey = RedisGet C, SetKey = RedisSet C, RegisterKey = RedisRegisterKey C,
     InvalidateNamespace = RedisInvalidateNamespace C,
     asTagStore = Some \<lparr>SAddTag = RedisSAddTag C, InvalidateTag = RedisInvalidateTag C\<rparr>\<rparr>"

lemmas redis_defs = RedisGet_def RedisSet_def RedisRegisterKey_def RedisInvalidateNamespace_def
  RedisSAddTag_def RedisInvalidateTag_def redis_store_def

section \<open>The contract\<close>

text \<open>
  What a client sees of a working store: \<open>view now s\<close> maps a key to the value it would get
  at time \<open>now\<close>, \<open>members s\<close> maps the name of a registry set to the keys in it.
\<close>

locale result_store =
  fixes S :: "'s Store"
    and invar :: "'s \<Rightarrow> bool"
    and view :: "time \<Rightarrow> 's \<Rightarrow> bytes \<Rightarrow> bytes option"
    and members :: "'s \<Rightarrow> bytes \<Rightarrow> bytes set"
  assumes get: "invar s \<Longrightarrow> fst (GetKey S now k s) =
      (case view now s k of None \<Rightarrow> Inl ErrMiss | Some v \<Rightarrow> Inr v)"
    and get_invar: "invar s \<Longrightarrow> invar (snd (GetKey S now k s))"
    and get_view: "invar s \<Longrightarrow> now \<le> now' \<Longrightarrow> view now' (snd (GetKey S now k s)) = view now' s"
    and get_members: "invar s \<Longrightarrow> members (snd (GetKey S now k s)) = members s"
    and set_ok: "invar s \<Longrightarrow> fst (SetKey S now k v ttl s) = None"
    and set_invar: "invar s \<Longrightarrow> invar (snd (SetKey S now k v ttl s))"
    and set_view: "invar s \<Longrightarrow> 0 \<le> now \<Longrightarrow> now \<le> now' \<Longrightarrow>
      view now' (snd (SetKey S now k v ttl s)) =
        (view now' s)(k := if 0 < ttl \<and> now + ttl < now' then None else Some v)"
    and set_members: "invar s \<Longrightarrow> members (snd (SetKey S now k v ttl s)) = members s"
    and reg_invar: "invar s \<Longrightarrow> invar (snd (RegisterKey S t c db coll k s))"
    and reg_view: "invar s \<Longrightarrow> view now (snd (RegisterKey S t c db coll k s)) = view now s"
    and reg_members: "invar s \<Longrightarrow> members (snd (RegisterKey S t c db coll k s)) =
      (members s)(registryKey t c db coll := insert k (members s (registryKey t c db coll)))"
    and inval_ok: "invar s \<Longrightarrow> fst (InvalidateNamespace S t c db coll s) = None"
    and inval_invar: "invar s \<Longrightarrow> invar (snd (InvalidateNamespace S t c db coll s))"
    and inval_view: "invar s \<Longrightarrow> view now (snd (InvalidateNamespace S t c db coll s)) k =
      (if k \<in> members s (registryKey t c db coll) then None else view now s k)"
    and inval_members: "invar s \<Longrightarrow> members (snd (InvalidateNamespace S t c db coll s)) =
      (members s)(registryKey t c db coll := {})"

section \<open>MemoryStore keeps the contract\<close>

definition mem_invar :: "MemoryStore \<Rightarrow> bool" where
  "mem_invar m \<longleftrightarrow> gm_wf (ms_mu m) \<and> gm_wf (ms_sets m) \<and> (\<forall>(rk, s) \<in> set (ms_sets m). gm_wf s)"

definition mem_view :: "time \<Rightarrow> MemoryStore \<Rightarrow> bytes \<Rightarrow> bytes option" where
  "mem_view now m k = (case gm_get (ms_mu m) k of None \<Rightarrow> None
    | Some e \<Rightarrow> if me_exp e \<noteq> 0 \<and> now > me_exp e then None else Some (me_val e))"

definition mem_members :: "MemoryStore \<Rightarrow> bytes \<Rightarrow> bytes set" where
  "mem_members m rk = (case gm_get (ms_sets m) rk of None \<Rightarrow> {} | Some s \<Rightarrow> {k. gm_get s k \<noteq> None})"

lemma fold_gm_del: "gm_get (fold (\<lambda>k mu. gm_del mu k) ks mu) j = (if j \<in> set ks then None else gm_get mu j)"
  by (induction ks arbitrary: mu) auto

lemma fold_gm_del_wf: "gm_wf mu \<Longrightarrow> gm_wf (fold (\<lambda>k mu. gm_del mu k) ks mu)"
  by (induction ks arbitrary: mu) auto

lemma mem_sadd_invar: "mem_invar m \<Longrightarrow> mem_invar (mem_sadd rk k m)"
  by (auto simp: mem_invar_def mem_sadd_def Let_def gm_get_in_set dest!: gm_put_set split: option.splits)

lemma mem_sadd_members: "mem_members (mem_sadd rk k m) = (mem_members m)(rk := insert k (mem_members m rk))"
  by (rule ext) (auto simp: mem_members_def mem_sadd_def Let_def split: option.splits)

lemma mem_drop_set_invar: "mem_invar m \<Longrightarrow> mem_invar (mem_drop_set rk m)"
  by (auto simp: mem_invar_def mem_drop_set_def Let_def fold_gm_del_wf dest: gm_del_set)

lemma mem_drop_set_members: "mem_members (mem_drop_set rk m) = (mem_members m)(rk := {})"
  by (rule ext) (auto simp: mem_members_def mem_drop_set_def Let_def)

lemma mem_drop_set_view:
  "mem_view now (mem_drop_set rk m) k = (if k \<in> mem_members m rk then None else mem_view now m k)"
  by (auto simp: mem_view_def mem_members_def mem_drop_set_def Let_def fold_gm_del gm_get_keys
      split: option.splits)

lemma mem_sadd_view: "mem_view now (mem_sadd rk k m) = mem_view now m"
  by (rule ext) (simp add: mem_view_def mem_sadd_def Let_def)

lemma MemGet_view:
  "now \<le> now' \<Longrightarrow> mem_view now' (snd (MemGet now k m)) = mem_view now' m"
  by (rule ext) (auto simp: mem_view_def MemGet_def split: option.splits)

lemma MemSet_view:
  "0 \<le> now \<Longrightarrow> now \<le> now' \<Longrightarrow> mem_view now' (snd (MemSet now k v ttl m)) =
     (mem_view now' m)(k := if 0 < ttl \<and> now + ttl < now' then None else Some v)"
  by (rule ext) (auto simp: mem_view_def MemSet_def Let_def)

lemmas mem_laws = mem_sadd_invar mem_sadd_members mem_sadd_view mem_drop_set_invar
  mem_drop_set_members mem_drop_set_view MemGet_view MemSet_view

interpretation mem: result_store memory_store mem_invar mem_view mem_members
proof unfold_locales
  fix m :: MemoryStore and now k
  show "fst (GetKey memory_store now k m) = (case mem_view now m k of None \<Rightarrow> Inl ErrMiss | Some v \<Rightarrow> Inr v)"
    by (simp add: memory_store_def MemGet_def mem_view_def split: option.splits)
qed (simp_all add: memory_store_def MemRegisterKey_def MemInvalidateNamespace_def mem_laws,
  auto simp: MemGet_def MemSet_def mem_invar_def mem_members_def Let_def fun_eq_iff split: option.splits)

end
