(* ===== verification/Coordinator.thy ===== *)
theory Coordinator
  imports Cache_Store
begin

text \<open>
  \<open>internal/proxy/cache/coordinator.go\<close>: read-through with coalescing of concurrent misses,
  and the best-effort writes.  A nil coordinator or a coordinator with a nil store is
  \<open>None\<close>.  \<open>singleflight.Group.Do\<close> runs its function, or, when a call for the key is
  in flight, waits and returns that call's result: the argument \<open>shared\<close> is \<open>Some\<close> of
  that result in the second case.  The lemmas on a working store are proved once in the
  contract \<open>result_store\<close> and used at \<open>MemoryStore\<close>.
\<close>

section \<open>Operations\<close>

text \<open>
  \<open>get\<close> is the store's \<open>Get\<close> for the key, as a step on the state that \<open>load\<close> also
  acts on.
\<close>

definition load_once ::
  "('w \<Rightarrow> (cache_err + bytes) \<times> 'w) \<Rightarrow> ('w \<Rightarrow> (cache_err + bytes) \<times> 'w) \<Rightarrow> 'w
     \<Rightarrow> (cache_err + (bytes \<times> bool)) \<times> 'w" where
  "load_once get load w = (case get w of
      (Inr b, w1) \<Rightarrow> (Inr (b, True), w1)
    | (Inl ErrMiss, w1) \<Rightarrow> (case load w1 of
          (Inl lerr, w2) \<Rightarrow> (Inl lerr, w2)
        | (Inr loaded, w2) \<Rightarrow> (Inr (loaded, False), w2))
    | (Inl err, w1) \<Rightarrow> (Inl err, w1))"

definition GetOrLoad ::
  "('w \<Rightarrow> (cache_err + bytes) \<times> 'w) option \<Rightarrow> (cache_err + (bytes \<times> bool)) option
     \<Rightarrow> ('w \<Rightarrow> (cache_err + bytes) \<times> 'w) \<Rightarrow> 'w \<Rightarrow> (cache_err + (bytes \<times> bool)) \<times> 'w" where
  "GetOrLoad get shared load w = (case get of
      None \<Rightarrow> (case load w of (Inl e, w1) \<Rightarrow> (Inl e, w1) | (Inr b, w1) \<Rightarrow> (Inr (b, False), w1))
    | Some get \<Rightarrow> (case shared of Some r \<Rightarrow> (r, w) | None \<Rightarrow> load_once get load w))"

definition BestEffortSet ::
  "'s Store option \<Rightarrow> time \<Rightarrow> bytes \<Rightarrow> bytes \<Rightarrow> bytes \<Rightarrow> bytes \<Rightarrow> bytes \<Rightarrow> bytes \<Rightarrow> int \<Rightarrow> 's \<Rightarrow> 's" where
  "BestEffortSet S now tenantID connectionID db coll key value ttl s = (case S of
      None \<Rightarrow> s
    | Some st \<Rightarrow> if value = '''' then s
        else snd (RegisterKey st tenantID connectionID db coll key (snd (SetKey st now key value ttl s))))"

definition BestEffortInvalidate ::
  "'s Store option \<Rightarrow> bytes \<Rightarrow> bytes \<Rightarrow> bytes \<Rightarrow> bytes \<Rightarrow> 's \<Rightarrow> cache_err option \<times> 's" where
  "BestEffortInvalidate S tenantID connectionID db coll s = (case S of
      None \<Rightarrow> (None, s)
    | Some st \<Rightarrow> InvalidateNamespace st tenantID connectionID db coll s)"

section \<open>Histories\<close>

text \<open>A history of coordinator calls, with the time of each.\<close>

datatype cache_op =
    OpSet time bytes bytes bytes bytes bytes bytes int
  | OpInvalidate bytes bytes bytes bytes
  | OpGet time bytes

fun cache_step :: "'s Store \<Rightarrow> cache_op \<Rightarrow> 's \<Rightarrow> 's" where
  "cache_step S (OpSet now t c db coll k v ttl) s = BestEffortSet (Some S) now t c db coll k v ttl s"
| "cache_step S (OpInvalidate t c db coll) s = snd (BestEffortInvalidate (Some S) t c db coll s)"
| "cache_step S (OpGet now k) s = snd (GetKey S now k s)"

definition cache_run :: "'s Store \<Rightarrow> cache_op list \<Rightarrow> 's \<Rightarrow> 's" where
  "cache_run S ops s = fold (cache_step S) ops s"

text \<open>
  \<open>owned own op\<close>: a key is only ever stored under the namespace that owns it, as cache keys
  are, since the key text determines tenant, connection and namespace.
\<close>

fun owned :: "(bytes \<Rightarrow> bytes) \<Rightarrow> cache_op \<Rightarrow> bool" where
  "owned own (OpSet now t c db coll k v ttl) \<longleftrightarrow> own k = registryKey t c db coll"
| "owned own _ \<longleftrightarrow> True"

fun op_time_le :: "time \<Rightarrow> cache_op \<Rightarrow> bool" where
  "op_time_le T (OpSet now _ _ _ _ _ _ _) \<longleftrightarrow> 0 \<le> now \<and> now \<le> T"
| "op_time_le T (OpGet now _) \<longleftrightarrow> now \<le> T"
| "op_time_le T _ \<longleftrightarrow> True"

section \<open>Lemmas under the store contract\<close>

context result_store
begin

lemma set_then_view:
  assumes "invar s" "0 \<le> now" "now \<le> now'" "v \<noteq> ''''"
  shows "view now' (BestEffortSet (Some S) now t c db coll k v ttl s) =
    (view now' s)(k := if 0 < ttl \<and> now + ttl < now' then None else Some v)"
  using assms by (simp add: BestEffortSet_def reg_view set_view set_invar)

lemma step_invar: "invar s \<Longrightarrow> invar (cache_step S op s)"
  by (cases op) (auto simp: BestEffortSet_def BestEffortInvalidate_def
      reg_invar set_invar inval_invar get_invar)

text \<open>Every stored key is registered under its owner.\<close>

definition registered :: "(bytes \<Rightarrow> bytes) \<Rightarrow> time \<Rightarrow> 's \<Rightarrow> bool" where
  "registered own T s \<longleftrightarrow> invar s \<and> (\<forall>k. view T s k \<noteq> None \<longrightarrow> k \<in> members s (own k))"

lemma step_registered:
  assumes "registered own T s" and "owned own op" and "op_time_le T op"
  shows "registered own T (cache_step S op s)"
proof (cases op)
  case (OpSet now t c db coll k v ttl)
  have t: "0 \<le> now" "now \<le> T" "own k = registryKey t c db coll" and i: "invar s"
    using assms OpSet by (simp_all add: registered_def)
  show ?thesis
  proof (cases "v = ''''")
    case False
    have "members (BestEffortSet (Some S) now t c db coll k v ttl s) =
        (members s)(own k := insert k (members s (own k)))"
      using False i t by (simp add: BestEffortSet_def reg_members set_invar set_members)
    with False i t assms(1) OpSet show ?thesis
      using step_invar [of s op] by (simp add: registered_def set_then_view) metis
  qed (use assms(1) OpSet in \<open>simp add: BestEffortSet_def\<close>)
next
  case (OpInvalidate t c db coll)
  with assms show ?thesis
    by (auto simp: registered_def BestEffortInvalidate_def inval_view inval_members inval_invar
        split: if_splits)
next
  case (OpGet now k)
  with assms show ?thesis
    by (simp add: registered_def get_view get_members get_invar)
qed

lemma run_registered:
  "registered own T s \<Longrightarrow> list_all (owned own) ops \<Longrightarrow> list_all (op_time_le T) ops \<Longrightarrow>
   registered own T (cache_run S ops s)"
proof (induction ops arbitrary: s)
  case (Cons op ops)
  hence "registered own T (cache_step S op s)" by (intro step_registered) simp_all
  with Cons show ?case by (simp add: cache_run_def)
qed (simp add: cache_run_def)

text \<open>Members of a registry set were stored under that namespace.\<close>

definition members_own :: "(bytes \<Rightarrow> bytes) \<Rightarrow> 's \<Rightarrow> bool" where
  "members_own own s \<longleftrightarrow> invar s \<and> (\<forall>rk. members s rk \<subseteq> {k. own k = rk})"

lemma step_members:
  "members_own own s \<Longrightarrow> owned own op \<Longrightarrow> members_own own (cache_step S op s)"
proof (unfold members_own_def, intro conjI)
  assume a: "invar s \<and> (\<forall>rk. members s rk \<subseteq> {k. own k = rk})" "owned own op"
  from a show "invar (cache_step S op s)" by (simp add: step_invar)
  from a show "\<forall>rk. members (cache_step S op s) rk \<subseteq> {k. own k = rk}"
    by (cases op) (simp_all add: BestEffortSet_def BestEffortInvalidate_def reg_members set_members
      set_invar inval_members get_members)
qed

lemma run_members:
  "members_own own s \<Longrightarrow> list_all (owned own) ops \<Longrightarrow> members_own own (cache_run S ops s)"
proof (induction ops arbitrary: s)
  case (Cons op ops)
  hence "members_own own (cache_step S op s)" by (intro step_members) simp_all
  with Cons show ?case by (simp add: cache_run_def)
qed (simp add: cache_run_def)

lemma invalidate_exact:
  assumes "invar s" and "\<forall>k. view T s k = None" and "\<forall>rk. members s rk = {}"
    and "list_all (owned own) ops" and "list_all (op_time_le T) ops"
    and "s' = cache_run S ops s"
  shows "fst (GetKey S T k (snd (BestEffortInvalidate (Some S) t c db coll s'))) =
    (if own k = registryKey t c db coll then Inl ErrMiss else fst (GetKey S T k s'))"
proof -
  have r: "registered own T s'"
    using assms run_registered [of own T s ops] by (simp add: registered_def)
  have m: "members_own own s'"
    using assms run_members [of own s ops] by (simp add: members_own_def)
  have inv: "invar s'" using m by (simp add: members_own_def)
  show ?thesis
  proof (cases "k \<in> members s' (registryKey t c db coll)")
    case True
    with m have "own k = registryKey t c db coll" by (auto simp: members_own_def)
    with True inv show ?thesis
      by (simp add: BestEffortInvalidate_def get inval_invar inval_view)
  next
    case False
    with r have "own k = registryKey t c db coll \<Longrightarrow> view T s' k = None"
      unfolding registered_def by metis
    with False inv show ?thesis
      by (simp add: BestEffortInvalidate_def get inval_invar inval_view)
  qed
qed

lemma set_get:
  assumes "invar s" "0 \<le> now" "now \<le> now'" "v \<noteq> ''''"
  shows "fst (GetKey S now' j (BestEffortSet (Some S) now t c db coll k v ttl s)) =
    (if j = k then (if 0 < ttl \<and> now + ttl < now' then Inl ErrMiss else Inr v)
     else fst (GetKey S now' j s))"
proof -
  have "invar (BestEffortSet (Some S) now t c db coll k v ttl s)"
    using assms by (simp add: BestEffortSet_def reg_invar set_invar)
  with assms show ?thesis by (simp add: get set_then_view)
qed

end

section \<open>Properties\<close>

lemma mem_empty: "mem_invar NewMemoryStore" "mem_view T NewMemoryStore k = None"
  "mem_members NewMemoryStore rk = {}"
  by (simp_all add: mem_invar_def mem_view_def mem_members_def NewMemoryStore_def)


definition own_example :: "bytes \<Rightarrow> bytes" where
  "own_example k = (if k = ''k1'' then registryKey ''t1'' ''c'' ''db'' ''orders''
     else registryKey ''t2'' ''c'' ''db'' ''orders'')"


text \<open>
  A cached result is served until its time to live has passed and not longer: after a
  non-empty value is stored, its key returns exactly that value up to and including the
  expiry time (for ever when the time to live is not positive) and misses afterwards, and
  what other keys return does not change.
\<close>

theorem BestEffortSet_lifetime:
  assumes "s = cache_run memory_store ops NewMemoryStore"
    and "0 \<le> now" and "now \<le> now'" and "v \<noteq> ''''"
  shows "fst (MemGet now' j (BestEffortSet (Some memory_store) now t c db coll k v ttl s)) =
    (if j = k then (if 0 < ttl \<and> now + ttl < now' then Inl ErrMiss else Inr v)
     else fst (MemGet now' j s))"
proof -
  have "mem_invar (fold (cache_step memory_store) ops m)" if "mem_invar m" for m
    using that by (induction ops arbitrary: m) (simp_all add: mem.step_invar)
  hence "mem_invar s" using assms(1) mem_empty(1) by (simp add: cache_run_def)
  from mem.set_get [OF this assms(2-4)] show ?thesis by (simp add: memory_store_def)
qed

theorem BestEffortSet_lifetime_witness:
  "fst (MemGet 15 ''k'' (BestEffortSet (Some memory_store) 5 ''t'' ''c'' ''db'' ''o'' ''k'' ''v'' 10
      (cache_run memory_store [] NewMemoryStore))) = Inr ''v''
   \<and> fst (MemGet 16 ''k'' (BestEffortSet (Some memory_store) 5 ''t'' ''c'' ''db'' ''o'' ''k'' ''v'' 10
      (cache_run memory_store [] NewMemoryStore))) = Inl ErrMiss"
  using BestEffortSet_lifetime [OF refl, where now = 5 and now' = 15 and v = "''v''" and j = "''k''" and ops = "[]"
      and k = "''k''" and ttl = 10]
    BestEffortSet_lifetime [OF refl, where now = 5 and now' = 16 and v = "''v''" and j = "''k''" and ops = "[]"
      and k = "''k''" and ttl = 10]
  by simp

lemma GetOrLoad_simps:
  "get w = (Inr b, w1) \<Longrightarrow> GetOrLoad (Some get) None load w = (Inr (b, True), w1)"
  "get w = (Inl ErrMiss, w1) \<Longrightarrow> load w1 = (Inr b, w2) \<Longrightarrow>
     GetOrLoad (Some get) None load w = (Inr (b, False), w2)"
  "get w = (Inl ErrMiss, w1) \<Longrightarrow> load w1 = (Inl e, w2) \<Longrightarrow>
     GetOrLoad (Some get) None load w = (Inl e, w2)"
  "get w = (Inl e, w1) \<Longrightarrow> e \<noteq> ErrMiss \<Longrightarrow> GetOrLoad (Some get) None load w = (Inl e, w1)"
  "GetOrLoad (Some get) (Some res) load w = (res, w)"
  by (auto simp: GetOrLoad_def load_once_def split: cache_err.splits)

end
