(* ===== verification/Generation.thy ===== *)
theory Generation
  imports Cache_Store
begin

text \<open>
  \<open>internal/proxy/cache/generation.go\<close>: the per-namespace generation counters that take
  part in cache keys.  The counters of the process are \<open>gt_gens\<close>; the optional Redis copy
  is reached through the client parameter \<open>redis_client\<close>, \<open>None\<close> when the tracker's
  store is not a \<open>RedisStore\<close>.
\<close>

section \<open>strconv.ParseInt in base 10\<close>

text \<open>\<open>None\<close> is a syntax error; a value out of range saturates.\<close>

fun scan_uint :: "bytes \<Rightarrow> int \<Rightarrow> int option" where
  "scan_uint [] n = Some n"
| "scan_uint (c # cs) n =
     (if \<not> is_digit c then None
      else if n \<ge> 1844674407370955162 then Some (2 ^ 64 - 1)
      else (let n1 = n * 10 + (of_char c - 48) in
        if n1 > 2 ^ 64 - 1 then Some (2 ^ 64 - 1) else scan_uint cs n1))"

definition parse_int64 :: "bytes \<Rightarrow> int" where
  "parse_int64 s =
     (let neg = (take 1 s = ''-''); body = (if take 1 s = ''-'' \<or> take 1 s = ''+'' then drop 1 s else s) in
      if body = '''' then 0
      else case scan_uint body 0 of
          None \<Rightarrow> 0
        | Some un \<Rightarrow> if \<not> neg \<and> un \<ge> 2 ^ 63 then 2 ^ 63 - 1
            else if neg \<and> un > 2 ^ 63 then - (2 ^ 63)
            else if neg then - un else un)"

section \<open>The tracker\<close>

record GenerationTracker =
  gt_gens :: "(bytes, int) gomap"

definition NewGenerationTracker :: GenerationTracker where
  "NewGenerationTracker = \<lparr>gt_gens = []\<rparr>"

definition genKey :: "bytes \<Rightarrow> bytes \<Rightarrow> bytes \<Rightarrow> bytes" where
  "genKey tenantID db coll = tenantID @ ''|'' @ db @ ''.'' @ coll"

definition redisGenKey :: "bytes \<Rightarrow> bytes \<Rightarrow> bytes \<Rightarrow> bytes" where
  "redisGenKey tenantID db coll = ''nance:tenant:{'' @ tenantID @ ''}:ns:'' @ db @ ''.'' @ coll @ '':generation''"

definition GenGet ::
  "'r redis_client option \<Rightarrow> bytes \<Rightarrow> bytes \<Rightarrow> bytes \<Rightarrow> GenerationTracker \<times> 'r \<Rightarrow> int \<times> GenerationTracker \<times> 'r"
  where
  "GenGet C tenantID db coll gr = (case gr of (g, r) \<Rightarrow>
     let k = genKey tenantID db coll in
     case gm_get (gt_gens g) k of
       Some v \<Rightarrow> (v, g, r)
     | None \<Rightarrow> (case C of
         None \<Rightarrow> (0, g, r)
       | Some rs \<Rightarrow> (case rd_Get rs (redisGenKey tenantID db coll) r of
           (Inl err, r') \<Rightarrow> (0, g, r')
         | (Inr s, r') \<Rightarrow>
             let n = parse_int64 s in (n, g\<lparr>gt_gens := gm_put (gt_gens g) k n\<rparr>, r'))))"

definition Bump ::
  "'r redis_client option \<Rightarrow> bytes \<Rightarrow> bytes \<Rightarrow> bytes \<Rightarrow> GenerationTracker \<times> 'r \<Rightarrow> int \<times> GenerationTracker \<times> 'r"
  where
  "Bump C tenantID db coll gr = (case gr of (g, r) \<Rightarrow>
     let k = genKey tenantID db coll;
         n = wrap64 ((case gm_get (gt_gens g) k of None \<Rightarrow> 0 | Some v \<Rightarrow> v) + 1);
         g' = g\<lparr>gt_gens := gm_put (gt_gens g) k n\<rparr> in
     case C of
       None \<Rightarrow> (n, g', r)
     | Some rs \<Rightarrow> (n, g', snd (rd_Set rs (redisGenKey tenantID db coll) (itoa n) 0 r)))"

definition KeySuffix ::
  "'r redis_client option \<Rightarrow> bytes \<Rightarrow> bytes \<Rightarrow> bytes \<Rightarrow> GenerationTracker \<times> 'r \<Rightarrow> bytes \<times> GenerationTracker \<times> 'r"
  where
  "KeySuffix C tenantID db coll gr = (case GenGet C tenantID db coll gr of
     (n, g, r) \<Rightarrow> (''g'' @ itoa n, g, r))"

section \<open>Properties\<close>

text \<open>A history of bumps and reads of namespaces by one process.\<close>

datatype gen_op = GBump bytes bytes bytes | GGet bytes bytes bytes

fun gen_step :: "'r redis_client option \<Rightarrow> gen_op \<Rightarrow> GenerationTracker \<times> 'r \<Rightarrow> GenerationTracker \<times> 'r" where
  "gen_step C (GBump t db coll) gr = snd (Bump C t db coll gr)"
| "gen_step C (GGet t db coll) gr = snd (GenGet C t db coll gr)"

definition bump_count :: "bytes \<Rightarrow> gen_op list \<Rightarrow> nat" where
  "bump_count k ops = length (filter (\<lambda>op. case op of GBump t db coll \<Rightarrow> genKey t db coll = k | _ \<Rightarrow> False) ops)"

definition gen_now :: "bytes \<Rightarrow> GenerationTracker \<times> 'r \<Rightarrow> int" where
  "gen_now k gr = (case gm_get (gt_gens (fst gr)) k of None \<Rightarrow> 0 | Some v \<Rightarrow> v)"

lemma gen_now_step:
  "gen_now k (gen_step None op gr) = wrap64 (gen_now k gr + int (bump_count k [op])) \<or>
   bump_count k [op] = 0 \<and> gen_now k (gen_step None op gr) = gen_now k gr"
  by (cases op; cases gr) (auto simp: gen_now_def Bump_def GenGet_def Let_def bump_count_def
      split: option.splits)

lemma GenGet_local: "GenGet None t db coll gr = (gen_now (genKey t db coll) gr, gr)"
  by (cases gr) (auto simp: GenGet_def gen_now_def Let_def split: option.splits)

lemma bump_count_Cons: "bump_count k (op # ops) = bump_count k [op] + bump_count k ops"
  by (simp add: bump_count_def)

lemma gen_run_count:
  "gen_now k gr + int (bump_count k ops) < 2 ^ 63 \<Longrightarrow> 0 \<le> gen_now k gr \<Longrightarrow>
   gen_now k (fold (gen_step None) ops gr) = gen_now k gr + int (bump_count k ops)"
proof (induction ops arbitrary: gr)
  case (Cons op ops)
  have b: "gen_now k gr + int (bump_count k [op]) < 2 ^ 63"
    using Cons.prems(1) by (simp add: bump_count_Cons [of k op ops])
  hence "wrap64 (gen_now k gr + int (bump_count k [op])) = gen_now k gr + int (bump_count k [op])"
    using Cons.prems(2) by (intro wrap64_id) (simp add: int64_range_def)
  with gen_now_step [of k op gr]
  have s: "gen_now k (gen_step None op gr) = gen_now k gr + int (bump_count k [op])" by auto
  show ?case
    using Cons.IH [of "gen_step None op gr"] Cons.prems s by (simp add: bump_count_Cons [of k op ops])
qed (simp add: bump_count_def)

text \<open>
  In one process without Redis, a namespace's generation is the number of times it was
  bumped, whatever other namespaces were bumped or read in between, so no two bumps of a
  namespace yield the same cache key suffix.
\<close>

theorem generation_counts_bumps:
  assumes "int (bump_count (genKey t db coll) ops) < 2 ^ 63"
  shows "fst (GenGet None t db coll (fold (gen_step None) ops (NewGenerationTracker, r)))
    = int (bump_count (genKey t db coll) ops)"
  using gen_run_count [of "genKey t db coll" "(NewGenerationTracker, r)" ops] assms
  by (simp add: GenGet_local gen_now_def NewGenerationTracker_def)

theorem generation_counts_bumps_witness:
  "fst (GenGet None ''t'' ''db'' ''c'' (fold (gen_step None)
     [GBump ''t'' ''db'' ''c'', GBump ''t'' ''db'' ''d'', GGet ''t'' ''db'' ''c'', GBump ''t'' ''db'' ''c'']
     (NewGenerationTracker, ()))) = 2"
proof -
  have "bump_count (genKey ''t'' ''db'' ''c'') [GBump ''t'' ''db'' ''c'', GBump ''t'' ''db'' ''d'',
      GGet ''t'' ''db'' ''c'', GBump ''t'' ''db'' ''c''] = 2"
    by (simp add: bump_count_def genKey_def)
  thus ?thesis by (subst generation_counts_bumps) simp_all
qed

text \<open>
  A restarted process loses the persisted generation when it bumps first: whatever
  generation Redis holds for a namespace, a tracker that has not read it yet bumps it to 1 and
  writes 1 over it, so every generation from 2 up to the persisted one is handed out again.
\<close>

theorem Bump_forgets_persisted:
  "Bump (Some C) t db coll (NewGenerationTracker, r) =
     (1, \<lparr>gt_gens = [(genKey t db coll, 1)]\<rparr>, snd (rd_Set C (redisGenKey t db coll) ''1'' 0 r))"
proof -
  have "itoa 1 = ''1''" by code_simp
  thus ?thesis
    by (simp add: Bump_def NewGenerationTracker_def Let_def gm_put_def wrap64_def)
qed

end
