(* ===== verification/Scoped_Cursors.thy ===== *)
theory Scoped_Cursors
  imports Prelude
begin

text \<open>
  The contract shared by the two cursor tables of the proxy, \<open>cachedcursor.Store\<close> and
  \<open>cursor.Registry\<close>: an id belongs to one tenant and one client connection, removing an id
  takes effect only for its owner, and disconnecting a client removes exactly its ids.
  \<open>lookup s i\<close> is the entry of an open id, \<open>scope e\<close> the tenant and connection key it
  belongs to.
\<close>

locale scoped_cursors =
  fixes invar :: "'s \<Rightarrow> bool"
    and lookup :: "'s \<Rightarrow> int \<Rightarrow> 'e option"
    and scope :: "'e \<Rightarrow> bytes \<times> bytes"
    and kill :: "int \<Rightarrow> bytes \<Rightarrow> bytes \<Rightarrow> 's \<Rightarrow> 's"
    and cleanup :: "bytes \<Rightarrow> 's \<Rightarrow> 's"
  assumes kill_invar: "invar s \<Longrightarrow> invar (kill i t c s)"
    and kill_lookup: "invar s \<Longrightarrow> lookup (kill i t c s) j =
      (if j = i \<and> map_option scope (lookup s i) = Some (t, c) then None else lookup s j)"
    and cleanup_invar: "invar s \<Longrightarrow> invar (cleanup c s)"
    and cleanup_lookup: "invar s \<Longrightarrow> lookup (cleanup c s) j =
      (case lookup s j of Some e \<Rightarrow> if snd (scope e) = c then None else Some e | None \<Rightarrow> None)"
begin

lemma kill_all_invar: "invar s \<Longrightarrow> invar (fold (\<lambda>i. kill i t c) is s)"
  by (induction "is" arbitrary: s) (auto simp: kill_invar)

lemma kill_all_lookup:
  "invar s \<Longrightarrow> lookup (fold (\<lambda>i. kill i t c) is s) j =
     (if j \<in> set is \<and> map_option scope (lookup s j) = Some (t, c) then None else lookup s j)"
  by (induction "is" arbitrary: s) (auto simp: kill_invar kill_lookup)

text \<open>
  Whatever ids a client names, it can only remove its own, and after it disconnects nothing
  of it is left while all other connections keep theirs.
\<close>

lemma kill_then_cleanup:
  "invar s \<Longrightarrow> lookup (cleanup c (fold (\<lambda>i. kill i t c) is s)) j =
     (case lookup s j of Some e \<Rightarrow> if snd (scope e) = c then None else Some e | None \<Rightarrow> None)"
  by (auto simp: cleanup_lookup kill_all_invar kill_all_lookup split: option.splits)

end

end
