(* ===== verification/Cached_Cursor.thy ===== *)
theory Cached_Cursor
  imports Scoped_Cursors Go_Lang
begin

text \<open>
  \<open>internal/proxy/cachedcursor/store.go\<close>: the emulated cursors that page through a cached
  result.  \<open>time.Now()\<close> is the argument \<open>now\<close>.  The order in which \<open>range\<close> visits the
  map is the order of the association list.
\<close>

section \<open>State and operations\<close>

record Entry =
  ce_ID :: int
  ce_TenantID :: bytes
  ce_ConnKey :: bytes
  ce_NS :: bytes
  ce_Docs :: "bytes list"
  ce_Pos :: int
  ce_CreatedAt :: time
  ce_LastUsed :: time
  ce_Bytes :: int

record CursorStore =
  cc_byID :: "(int, Entry) gomap"
  cc_nextID :: int
  cc_idleTTL :: int
  cc_maxBytes :: int
  cc_curBytes :: int

definition NewCursorStore :: "int \<Rightarrow> int \<Rightarrow> CursorStore" where
  "NewCursorStore idleTTL maxBytes =
     (let idleTTL = (if idleTTL \<le> 0 then 600000000000 else idleTTL);
          maxBytes = (if maxBytes \<le> 0 then 67108864 else maxBytes) in
      \<lparr>cc_byID = [], cc_nextID = 1000000000, cc_idleTTL = idleTTL, cc_maxBytes = maxBytes,
       cc_curBytes = 0\<rparr>)"

fun oldest_scan :: "(int, Entry) gomap \<Rightarrow> int \<Rightarrow> time \<Rightarrow> int" where
  "oldest_scan [] oldestID oldestTime = oldestID"
| "oldest_scan ((i, e) # m) oldestID oldestTime =
     (if oldestID = 0 \<or> ce_LastUsed e < oldestTime then oldest_scan m i (ce_LastUsed e)
      else oldest_scan m oldestID oldestTime)"

definition evictOldest :: "CursorStore \<Rightarrow> bool \<times> CursorStore" where
  "evictOldest s =
     (let oldestID = oldest_scan (cc_byID s) 0 0 in
      if oldestID = 0 then (False, s)
      else case gm_get (cc_byID s) oldestID of
          None \<Rightarrow> (False, s)
        | Some e \<Rightarrow> (True, s\<lparr>cc_byID := gm_del (cc_byID s) oldestID,
            cc_curBytes := cc_curBytes s - ce_Bytes e\<rparr>))"

lemma evictOldest_shrinks: "evictOldest s = (True, s') \<Longrightarrow> length (cc_byID s') < length (cc_byID s)"
  by (auto simp: evictOldest_def Let_def gm_del_length split: if_splits option.splits)

function evict_loop :: "int \<Rightarrow> CursorStore \<Rightarrow> CursorStore" where
  "evict_loop bytes s =
     (if cc_curBytes s + bytes > cc_maxBytes s
      then (case evictOldest s of (True, s') \<Rightarrow> evict_loop bytes s' | (False, s') \<Rightarrow> s')
      else s)"
  by pat_completeness auto
termination
  by (relation "measure (\<lambda>(b, s). length (cc_byID s))") (auto dest: evictOldest_shrinks [OF sym])

declare evict_loop.simps [simp del]

definition docs_bytes :: "bytes list \<Rightarrow> int" where
  "docs_bytes docs = sum_list (map (\<lambda>d. int (length d)) docs)"

definition RegisterCached ::
  "time \<Rightarrow> bytes \<Rightarrow> bytes \<Rightarrow> bytes \<Rightarrow> bytes list \<Rightarrow> int \<Rightarrow> CursorStore
     \<Rightarrow> (int \<times> bytes list \<times> int) \<times> CursorStore" where
  "RegisterCached now tenantID connKey ns docs firstBatchSize s =
     (let firstBatchSize = (if firstBatchSize \<le> 0 then 101 else firstBatchSize) in
      if firstBatchSize \<ge> int (length docs) then ((0, docs, int (length docs)), s)
      else
        let bytes = docs_bytes docs;
            s1 = evict_loop bytes s;
            i = wrap64 (cc_nextID s1 + 1);
            ent = \<lparr>ce_ID = i, ce_TenantID = tenantID, ce_ConnKey = connKey, ce_NS = ns, ce_Docs = docs,
              ce_Pos = firstBatchSize, ce_CreatedAt = now, ce_LastUsed = now, ce_Bytes = bytes\<rparr> in
        ((i, take (nat firstBatchSize) docs, firstBatchSize),
         s1\<lparr>cc_nextID := i, cc_byID := gm_put (cc_byID s1) i ent,
           cc_curBytes := cc_curBytes s1 + bytes\<rparr>))"

text \<open>The results are \<open>ns\<close>, \<open>batch\<close>, \<open>exhausted\<close> and \<open>ok\<close>.\<close>

definition NextBatch ::
  "time \<Rightarrow> int \<Rightarrow> bytes \<Rightarrow> bytes \<Rightarrow> int \<Rightarrow> CursorStore
     \<Rightarrow> (panic + (bytes \<times> bytes list \<times> bool \<times> bool)) \<times> CursorStore" where
  "NextBatch now i tenantID connKey batchSize s =
     (let batchSize = (if batchSize \<le> 0 then 101 else batchSize) in
      case gm_get (cc_byID s) i of
        None \<Rightarrow> (Inr ('''', [], True, False), s)
      | Some e \<Rightarrow>
          if ce_TenantID e \<noteq> tenantID \<or> ce_ConnKey e \<noteq> connKey then (Inr ('''', [], True, False), s)
          else
            let end0 = wrap64 (ce_Pos e + batchSize);
                end = (if end0 > int (length (ce_Docs e)) then int (length (ce_Docs e)) else end0);
                e1 = e\<lparr>ce_LastUsed := now\<rparr> in
            if \<not> (0 \<le> ce_Pos e \<and> ce_Pos e \<le> end)
            then (Inl SliceOutOfRange, s\<lparr>cc_byID := gm_put (cc_byID s) i e1\<rparr>)
            else
              let batch = take (nat (end - ce_Pos e)) (drop (nat (ce_Pos e)) (ce_Docs e));
                  exhausted = (end \<ge> int (length (ce_Docs e)));
                  s1 = s\<lparr>cc_byID := gm_put (cc_byID s) i (e1\<lparr>ce_Pos := end\<rparr>)\<rparr> in
              (Inr (ce_NS e, batch, exhausted, True),
               if exhausted then s1\<lparr>cc_byID := gm_del (cc_byID s1) i, cc_curBytes := cc_curBytes s1 - ce_Bytes e\<rparr>
               else s1))"

definition Kill :: "int \<Rightarrow> bytes \<Rightarrow> bytes \<Rightarrow> CursorStore \<Rightarrow> CursorStore" where
  "Kill i tenantID connKey s = (case gm_get (cc_byID s) i of
      None \<Rightarrow> s
    | Some e \<Rightarrow>
        if ce_TenantID e \<noteq> tenantID \<or> ce_ConnKey e \<noteq> connKey then s
        else s\<lparr>cc_byID := gm_del (cc_byID s) i, cc_curBytes := cc_curBytes s - ce_Bytes e\<rparr>)"

definition KillManyCached :: "int list \<Rightarrow> bytes \<Rightarrow> bytes \<Rightarrow> CursorStore \<Rightarrow> CursorStore" where
  "KillManyCached ids tenantID connKey s = fold (\<lambda>i. Kill i tenantID connKey) ids s"

text \<open>Deleting while ranging over the map, as \<open>CleanupConnCached\<close> and \<open>PruneIdleCached\<close> do.\<close>

definition drop_entries :: "(Entry \<Rightarrow> bool) \<Rightarrow> CursorStore \<Rightarrow> CursorStore" where
  "drop_entries p s = s\<lparr>cc_curBytes := cc_curBytes s - gm_sum (\<lambda>e. if p e then ce_Bytes e else 0) (cc_byID s),
     cc_byID := gm_drop p (cc_byID s)\<rparr>"

definition CleanupConnCached :: "bytes \<Rightarrow> CursorStore \<Rightarrow> CursorStore" where
  "CleanupConnCached connKey s = drop_entries (\<lambda>e. ce_ConnKey e = connKey) s"

definition PruneIdleCached :: "time \<Rightarrow> CursorStore \<Rightarrow> int \<times> CursorStore" where
  "PruneIdleCached now s =
     (let cutoff = now - cc_idleTTL s; s' = drop_entries (\<lambda>e. ce_LastUsed e < cutoff) s in
      (int (length (cc_byID s)) - int (length (cc_byID s')), s'))"

definition CountCached :: "CursorStore \<Rightarrow> int" where
  "CountCached s = int (length (cc_byID s))"

section \<open>Invariant\<close>

definition entry_ok :: "Entry \<Rightarrow> bool" where
  "entry_ok e \<longleftrightarrow> 0 < ce_Pos e \<and> ce_Pos e < int (length (ce_Docs e))
     \<and> int (length (ce_Docs e)) < 2 ^ 62 \<and> ce_Bytes e = docs_bytes (ce_Docs e)"

text \<open>
  The table's ids are fresh and never 0, every open cursor has documents left to return, and
  the byte counter is the sum over the open cursors.
\<close>

definition cc_invar :: "CursorStore \<Rightarrow> bool" where
  "cc_invar s \<longleftrightarrow> gm_wf (cc_byID s) \<and> 1000000000 \<le> cc_nextID s
     \<and> (\<forall>(i, e) \<in> set (cc_byID s). 1000000000 < i \<and> i \<le> cc_nextID s \<and> entry_ok e)
     \<and> cc_curBytes s = gm_sum ce_Bytes (cc_byID s)"

lemma docs_bytes_nonneg: "0 \<le> docs_bytes ds"
  by (induction ds) (auto simp: docs_bytes_def)

lemma cc_entry:
  "cc_invar s \<Longrightarrow> gm_get (cc_byID s) i = Some e \<Longrightarrow>
   1000000000 < i \<and> i \<le> cc_nextID s \<and> entry_ok e"
  unfolding cc_invar_def by (auto simp: gm_get_in_set)

lemma cc_invar_delete:
  assumes "cc_invar s" and "gm_get (cc_byID s) i = Some e"
  shows "cc_invar (s\<lparr>cc_byID := gm_del (cc_byID s) i, cc_curBytes := cc_curBytes s - ce_Bytes e\<rparr>)"
  using assms gm_del_subset [of "cc_byID s" i]
  by (auto simp: cc_invar_def gm_sum_del)

lemma cc_invar_update:
  assumes "cc_invar s" and "gm_get (cc_byID s) i = Some e" and "entry_ok e'" and "ce_Bytes e' = ce_Bytes e"
  shows "cc_invar (s\<lparr>cc_byID := gm_put (cc_byID s) i e'\<rparr>)"
  using assms gm_put_subset [of "cc_byID s" i e'] cc_entry [OF assms(1,2)]
  by (auto simp: cc_invar_def gm_sum_put_old)

lemma cc_invar_drop: "cc_invar s \<Longrightarrow> cc_invar (drop_entries p s)"
  using gm_drop_subset [of p "cc_byID s"] by (auto simp: cc_invar_def drop_entries_def gm_sum_drop)

lemma oldest_scan_in:
  "oldest_scan m i t = i \<or> oldest_scan m i t \<in> fst ` set m"
proof (induction m arbitrary: i t)
  case (Cons p m)
  show ?case
    using Cons [of "fst p" "ce_LastUsed (snd p)"] Cons [of i t]
    by (cases p) (auto simp del: oldest_scan.simps simp: oldest_scan.simps(2))
qed simp

lemma evictOldest_cases:
  assumes "cc_invar s"
  shows "(cc_byID s = [] \<and> evictOldest s = (False, s)) \<or>
    (\<exists>i e. gm_get (cc_byID s) i = Some e \<and> evictOldest s =
      (True, s\<lparr>cc_byID := gm_del (cc_byID s) i, cc_curBytes := cc_curBytes s - ce_Bytes e\<rparr>))"
proof (cases "cc_byID s")
  case Nil
  thus ?thesis by (simp add: evictOldest_def)
next
  case (Cons p m)
  obtain i e where p: "p = (i, e)" by (cases p)
  have pos: "\<forall>j \<in> fst ` set (cc_byID s). 0 < j" using assms by (auto simp: cc_invar_def)
  have o: "oldest_scan (cc_byID s) 0 0 \<in> fst ` set (cc_byID s)"
    using oldest_scan_in [of m i "ce_LastUsed e"] Cons p by auto
  then obtain e' where "gm_get (cc_byID s) (oldest_scan (cc_byID s) 0 0) = Some e'"
    by (auto simp: gm_get_def map_of_eq_None_iff dest: weak_map_of_SomeI)
  with o pos show ?thesis by (auto simp: evictOldest_def Let_def)
qed

lemma evict_loop_invar: "cc_invar s \<Longrightarrow> cc_invar (evict_loop b s)"
proof (induction b s rule: evict_loop.induct)
  case (1 b s)
  show ?case
    using evictOldest_cases [OF 1(2)] 1 cc_invar_delete
    by (subst evict_loop.simps) (auto split: prod.splits bool.splits)
qed

lemma evict_loop_result:
  "cc_invar s \<Longrightarrow> cc_nextID (evict_loop b s) = cc_nextID s \<and> cc_maxBytes (evict_loop b s) = cc_maxBytes s
   \<and> (cc_curBytes (evict_loop b s) + b \<le> cc_maxBytes s \<or> cc_byID (evict_loop b s) = [])"
proof (induction b s rule: evict_loop.induct)
  case (1 b s)
  show ?case
  proof (cases "cc_curBytes s + b > cc_maxBytes s")
    case True
    from evictOldest_cases [OF 1(2)] show ?thesis
    proof (elim disjE exE conjE)
      fix i e
      assume e: "gm_get (cc_byID s) i = Some e"
        and r: "evictOldest s = (True, s\<lparr>cc_byID := gm_del (cc_byID s) i, cc_curBytes := cc_curBytes s - ce_Bytes e\<rparr>)"
      show ?thesis
        using 1(1) [OF True r [symmetric] refl cc_invar_delete [OF 1(2) e]] True r
        by (simp add: evict_loop.simps [of b s])
    qed (use True in \<open>simp add: evict_loop.simps [of b s]\<close>)
  qed (simp add: evict_loop.simps [of b s])
qed

lemma cc_fresh: "cc_invar s \<Longrightarrow> gm_get (cc_byID s) (cc_nextID s + 1) = None"
  using cc_entry [of s "cc_nextID s + 1"] by (cases "gm_get (cc_byID s) (cc_nextID s + 1)") auto

lemma cc_invar_insert:
  assumes "cc_invar s" and "entry_ok e"
  shows "cc_invar (s\<lparr>cc_nextID := cc_nextID s + 1, cc_byID := gm_put (cc_byID s) (cc_nextID s + 1) e,
    cc_curBytes := cc_curBytes s + ce_Bytes e\<rparr>)"
proof -
  have old: "1000000000 < i \<and> i \<le> cc_nextID s \<and> entry_ok e'" if "(i, e') \<in> set (cc_byID s)" for i e'
    using assms(1) that by (auto simp: cc_invar_def)
  have "1000000000 < i \<and> i \<le> cc_nextID s + 1 \<and> entry_ok e'"
    if "(i, e') \<in> set (gm_put (cc_byID s) (cc_nextID s + 1) e)" for i e'
  proof (cases "(i, e') \<in> set (cc_byID s)")
    case False
    hence "i = cc_nextID s + 1" "e' = e"
      using gm_put_set [OF that] assms(1) by (auto simp: cc_invar_def)
    with assms show ?thesis by (simp add: cc_invar_def)
  qed (use old in fastforce)
  thus ?thesis
    using assms(1) cc_fresh [OF assms(1)] by (auto simp: cc_invar_def gm_sum_put_new)
qed

definition batch_size :: "int \<Rightarrow> nat" where
  "batch_size n = nat (if n \<le> 0 then 101 else n)"

text \<open>The outcome of \<open>RegisterCached\<close> in one case distinction.\<close>

lemma RegisterCached_cases:
  assumes "cc_invar s" and "cc_nextID s < 2 ^ 63 - 1" and "int (length docs) < 2 ^ 62"
  shows "(length docs \<le> batch_size n \<and> RegisterCached now t c ns docs n s = ((0, docs, int (length docs)), s)) \<or>
    (batch_size n < length docs \<and> (\<exists>s1 e. s1 = evict_loop (docs_bytes docs) s \<and>
       e = \<lparr>ce_ID = cc_nextID s + 1, ce_TenantID = t, ce_ConnKey = c, ce_NS = ns, ce_Docs = docs,
         ce_Pos = int (batch_size n), ce_CreatedAt = now, ce_LastUsed = now, ce_Bytes = docs_bytes docs\<rparr> \<and>
       entry_ok e \<and> cc_invar s1 \<and> cc_nextID s1 = cc_nextID s \<and>
       RegisterCached now t c ns docs n s = ((cc_nextID s + 1, take (batch_size n) docs, int (batch_size n)),
         s1\<lparr>cc_nextID := cc_nextID s + 1, cc_byID := gm_put (cc_byID s1) (cc_nextID s + 1) e,
           cc_curBytes := cc_curBytes s1 + docs_bytes docs\<rparr>)))"
proof -
  have w: "wrap64 (cc_nextID s + 1) = cc_nextID s + 1"
    using assms(1,2) by (intro wrap64_succ) (simp_all add: cc_invar_def)
  show ?thesis
    using evict_loop_result [OF assms(1), of "docs_bytes docs"] evict_loop_invar [OF assms(1), of "docs_bytes docs"]
      w assms(3)
    by (auto simp: RegisterCached_def Let_def batch_size_def entry_ok_def)
qed

lemma RegisterCached_invar:
  assumes "cc_invar s" and "cc_nextID s < 2 ^ 63 - 1" and "int (length docs) < 2 ^ 62"
  shows "cc_invar (snd (RegisterCached now t c ns docs n s))"
  using RegisterCached_cases [OF assms, of n now t c ns]
proof (elim disjE exE conjE)
  fix s1 e
  assume "entry_ok e" "cc_invar s1" "cc_nextID s1 = cc_nextID s" and b: "e = \<lparr>ce_ID = cc_nextID s + 1,
      ce_TenantID = t, ce_ConnKey = c, ce_NS = ns, ce_Docs = docs, ce_Pos = int (batch_size n),
      ce_CreatedAt = now, ce_LastUsed = now, ce_Bytes = docs_bytes docs\<rparr>"
    and r: "RegisterCached now t c ns docs n s = ((cc_nextID s + 1, take (batch_size n) docs, int (batch_size n)),
         s1\<lparr>cc_nextID := cc_nextID s + 1, cc_byID := gm_put (cc_byID s1) (cc_nextID s + 1) e,
           cc_curBytes := cc_curBytes s1 + docs_bytes docs\<rparr>)"
  thus ?thesis using cc_invar_insert [of s1 e] unfolding r by (simp add: b)
qed (use assms(1) in simp)

lemma NextBatch_miss:
  "gm_get (cc_byID s) i = None \<or> (\<exists>e. gm_get (cc_byID s) i = Some e \<and> (ce_TenantID e, ce_ConnKey e) \<noteq> (t, c))
   \<Longrightarrow> NextBatch now i t c n s = (Inr ('''', [], True, False), s)"
  by (auto simp: NextBatch_def)

text \<open>What a batch is, for a batch size of the width the wire carries.\<close>

lemma NextBatch_hit:
  assumes inv: "cc_invar s" and e: "gm_get (cc_byID s) i = Some e" "ce_TenantID e = t" "ce_ConnKey e = c"
    and n: "n < 2 ^ 31"
  shows "if nat (ce_Pos e) + batch_size n < length (ce_Docs e)
    then NextBatch now i t c n s = (Inr (ce_NS e, take (batch_size n) (drop (nat (ce_Pos e)) (ce_Docs e)), False, True),
      s\<lparr>cc_byID := gm_put (cc_byID s) i (e\<lparr>ce_LastUsed := now, ce_Pos := ce_Pos e + int (batch_size n)\<rparr>)\<rparr>)
    else NextBatch now i t c n s = (Inr (ce_NS e, drop (nat (ce_Pos e)) (ce_Docs e), True, True),
      s\<lparr>cc_byID := gm_del (cc_byID s) i, cc_curBytes := cc_curBytes s - ce_Bytes e\<rparr>)"
proof -
  have ok: "0 < ce_Pos e" "ce_Pos e < int (length (ce_Docs e))" "int (length (ce_Docs e)) < 2 ^ 62"
    using cc_entry [OF inv e(1)] by (auto simp: entry_ok_def)
  have b: "int (batch_size n) = (if n \<le> 0 then 101 else n)" by (simp add: batch_size_def)
  have "wrap64 (ce_Pos e + int (batch_size n)) = ce_Pos e + int (batch_size n)"
    using ok n by (intro wrap64_id) (auto simp: int64_range_def b)
  with ok e n b show ?thesis
    by (auto simp: NextBatch_def Let_def batch_size_def min_def)
qed

lemma NextBatch_invar:
  assumes inv: "cc_invar s" and n: "n < 2 ^ 31"
  shows "cc_invar (snd (NextBatch now i t c n s)) \<and> (\<exists>r. fst (NextBatch now i t c n s) = Inr r)
    \<and> cc_nextID (snd (NextBatch now i t c n s)) = cc_nextID s"
proof (cases "\<exists>e. gm_get (cc_byID s) i = Some e \<and> ce_TenantID e = t \<and> ce_ConnKey e = c")
  case True
  then obtain e where e: "gm_get (cc_byID s) i = Some e" "ce_TenantID e = t" "ce_ConnKey e = c" by blast
  have ok: "entry_ok e" using cc_entry [OF inv e(1)] by simp
  note cc_invar_delete [OF inv e(1)]
  moreover have "cc_invar (s\<lparr>cc_byID := gm_put (cc_byID s) i
      (e\<lparr>ce_LastUsed := now, ce_Pos := ce_Pos e + int (batch_size n)\<rparr>)\<rparr>)"
    if "nat (ce_Pos e) + batch_size n < length (ce_Docs e)"
    using that ok by (intro cc_invar_update [OF inv e(1)]) (auto simp: entry_ok_def)
  ultimately show ?thesis
    using NextBatch_hit [OF inv e n, of now] by (auto split: if_splits)
next
  case False
  hence "NextBatch now i t c n s = (Inr ('''', [], True, False), s)"
    by (intro NextBatch_miss) (cases "gm_get (cc_byID s) i"; auto)
  with inv show ?thesis by (simp only: fst_conv snd_conv) blast
qed

lemma Kill_invar: "cc_invar s \<Longrightarrow> cc_invar (Kill i t c s)"
  by (auto simp: Kill_def cc_invar_delete split: option.splits)

definition cc_lookup :: "CursorStore \<Rightarrow> int \<Rightarrow> Entry option" where
  "cc_lookup s i = gm_get (cc_byID s) i"

definition cc_scope :: "Entry \<Rightarrow> bytes \<times> bytes" where
  "cc_scope e = (ce_TenantID e, ce_ConnKey e)"

lemma drop_entries_lookup:
  "cc_invar s \<Longrightarrow> cc_lookup (drop_entries p s) j =
     (case cc_lookup s j of Some e \<Rightarrow> if p e then None else Some e | None \<Rightarrow> None)"
  by (auto simp: cc_invar_def cc_lookup_def drop_entries_def gm_get_drop split: option.splits)

interpretation cc: scoped_cursors cc_invar cc_lookup cc_scope Kill CleanupConnCached
  by unfold_locales
    (auto simp: Kill_invar CleanupConnCached_def cc_invar_drop drop_entries_lookup cc_scope_def,
     auto simp: Kill_def cc_lookup_def cc_scope_def split: option.splits)

section \<open>Histories\<close>

datatype cc_op =
    CRegister time bytes bytes bytes "bytes list" int
  | CNext time int bytes bytes int
  | CKill "int list" bytes bytes
  | CCleanup bytes
  | CPrune time

fun cc_step :: "cc_op \<Rightarrow> CursorStore \<Rightarrow> CursorStore" where
  "cc_step (CRegister now t c ns docs n) s = snd (RegisterCached now t c ns docs n s)"
| "cc_step (CNext now i t c n) s = snd (NextBatch now i t c n s)"
| "cc_step (CKill ids t c) s = KillManyCached ids t c s"
| "cc_step (CCleanup c) s = CleanupConnCached c s"
| "cc_step (CPrune now) s = snd (PruneIdleCached now s)"

definition cc_run :: "cc_op list \<Rightarrow> CursorStore \<Rightarrow> CursorStore" where
  "cc_run ops s = fold cc_step ops s"

text \<open>Batch sizes come off the wire as 32-bit integers and results fit in memory.\<close>

fun cc_op_ok :: "cc_op \<Rightarrow> bool" where
  "cc_op_ok (CRegister now t c ns docs n) \<longleftrightarrow> int (length docs) < 2 ^ 62"
| "cc_op_ok (CNext now i t c n) \<longleftrightarrow> int32_range n"
| "cc_op_ok _ \<longleftrightarrow> True"

lemma KillMany_nextID: "cc_nextID (KillManyCached ids t c s) = cc_nextID s \<and> cc_maxBytes (KillManyCached ids t c s) = cc_maxBytes s"
  unfolding KillManyCached_def
  by (induction ids arbitrary: s) (auto simp: Kill_def split: option.splits)

lemma drop_entries_nextID: "cc_nextID (drop_entries p s) = cc_nextID s \<and> cc_maxBytes (drop_entries p s) = cc_maxBytes s"
  by (simp add: drop_entries_def)

lemma cc_step_invar:
  assumes "cc_invar s" and "cc_op_ok op" and "cc_nextID s < 2 ^ 63 - 1"
  shows "cc_invar (cc_step op s) \<and> cc_nextID (cc_step op s) \<le> cc_nextID s + 1"
proof (cases op)
  case (CRegister now t c ns docs n)
  with assms RegisterCached_cases [of s docs n now t c ns] RegisterCached_invar [of s docs now t c ns n]
  show ?thesis by auto
next
  case (CNext now i t c n)
  with assms NextBatch_invar [of s n now i t c] show ?thesis by (simp add: int32_range_def)
next
  case (CKill ids t c)
  have "cc_invar (KillManyCached ids t c s)"
    unfolding KillManyCached_def by (rule cc.kill_all_invar [OF assms(1)])
  with CKill show ?thesis by (simp add: KillMany_nextID)
qed (use assms in \<open>simp_all add: CleanupConnCached_def PruneIdleCached_def Let_def cc_invar_drop drop_entries_nextID\<close>)

lemma cc_run_invar:
  assumes "cc_invar s" and "list_all cc_op_ok ops" and "cc_nextID s + int (length ops) < 2 ^ 63"
  shows "cc_invar (cc_run ops s) \<and> cc_nextID (cc_run ops s) \<le> cc_nextID s + int (length ops)"
  using assms
proof (induction ops arbitrary: s)
  case (Cons op ops)
  hence "cc_invar (cc_step op s) \<and> cc_nextID (cc_step op s) \<le> cc_nextID s + 1"
    by (intro cc_step_invar) simp_all
  with Cons.IH [of "cc_step op s"] Cons.prems show ?case by (simp add: cc_run_def)
qed (simp add: cc_run_def)

lemma NewCursorStore_invar: "cc_invar (NewCursorStore ttl maxb)" "cc_nextID (NewCursorStore ttl maxb) = 1000000000"
  by (simp_all add: NewCursorStore_def cc_invar_def Let_def)

text \<open>The budget: at most \<open>maxBytes\<close>, unless one oversized result is alone in the table.\<close>

definition cc_budget :: "CursorStore \<Rightarrow> bool" where
  "cc_budget s \<longleftrightarrow> cc_curBytes s \<le> cc_maxBytes s \<or> length (cc_byID s) \<le> 1"

lemma cc_nonneg: "cc_invar s \<Longrightarrow> gm_get (cc_byID s) i = Some e \<Longrightarrow> 0 \<le> ce_Bytes e"
  using cc_entry [of s i e] by (auto simp: entry_ok_def docs_bytes_nonneg)

lemma cc_budget_shrink:
  "cc_budget s \<Longrightarrow> cc_curBytes s' \<le> cc_curBytes s \<Longrightarrow> length (cc_byID s') \<le> length (cc_byID s) \<Longrightarrow>
   cc_maxBytes s' = cc_maxBytes s \<Longrightarrow> cc_budget s'"
  by (auto simp: cc_budget_def)

lemma length_gm_del: "length (gm_del m k) \<le> length m"
  by (simp add: gm_del_def AList.length_delete_le)

lemma length_gm_put: "gm_get m k = Some v \<Longrightarrow> length (gm_put m k w) = length m"
  by (induction m) (auto simp: gm_put_def gm_get_def split: if_splits)

lemma drop_entries_budget:
  assumes "cc_invar s" and "cc_budget s"
  shows "cc_budget (drop_entries p s)"
proof (rule cc_budget_shrink [OF assms(2)])
  have "0 \<le> gm_sum (\<lambda>e. if p e then ce_Bytes e else 0) (cc_byID s)"
    unfolding gm_sum_def using assms(1)
    by (intro sum_list_nonneg) (auto simp: cc_invar_def entry_ok_def docs_bytes_nonneg)
  thus "cc_curBytes (drop_entries p s) \<le> cc_curBytes s" by (simp add: drop_entries_def)
qed (simp_all add: drop_entries_def gm_drop_def)

lemma Kill_budget: "cc_invar s \<Longrightarrow> cc_budget s \<Longrightarrow> cc_budget (Kill i t c s)"
  using cc_nonneg [of s i] length_gm_del [of "cc_byID s" i]
  by (auto simp: Kill_def split: option.splits intro: cc_budget_shrink)

lemma KillMany_budget: "cc_invar s \<Longrightarrow> cc_budget s \<Longrightarrow> cc_budget (KillManyCached ids t c s)"
  unfolding KillManyCached_def
  by (induction ids arbitrary: s) (auto simp: Kill_budget Kill_invar)

lemma NextBatch_budget:
  assumes "cc_invar s" and "cc_budget s" and "n < 2 ^ 31"
  shows "cc_budget (snd (NextBatch now i t c n s))"
proof (cases "\<exists>e. gm_get (cc_byID s) i = Some e \<and> ce_TenantID e = t \<and> ce_ConnKey e = c")
  case True
  then obtain e where e: "gm_get (cc_byID s) i = Some e" "ce_TenantID e = t" "ce_ConnKey e = c" by blast
  show ?thesis
    using NextBatch_hit [OF assms(1) e assms(3), of now] cc_nonneg [OF assms(1) e(1)]
      length_gm_del [of "cc_byID s" i] length_gm_put [OF e(1)] assms(2)
    by (auto simp: split: if_splits intro: cc_budget_shrink)
next
  case False
  hence "NextBatch now i t c n s = (Inr ('''', [], True, False), s)"
    by (intro NextBatch_miss) (cases "gm_get (cc_byID s) i"; auto)
  with assms(2) show ?thesis by (simp only: snd_conv)
qed

lemma RegisterCached_budget:
  assumes "cc_invar s" and "cc_budget s" and "cc_nextID s < 2 ^ 63 - 1" and "int (length docs) < 2 ^ 62"
  shows "cc_budget (snd (RegisterCached now t c ns docs n s))"
  using RegisterCached_cases [OF assms(1,3,4), of n now t c ns]
    evict_loop_result [OF assms(1), of "docs_bytes docs"] assms(2)
  by (auto simp: cc_budget_def gm_put_def)

lemma RegisterCached_maxBytes:
  "cc_invar s \<Longrightarrow> cc_maxBytes (snd (RegisterCached now t c ns docs n s)) = cc_maxBytes s"
  using evict_loop_result [of s] by (auto simp: RegisterCached_def Let_def)

lemma NextBatch_maxBytes: "cc_maxBytes (snd (NextBatch now i t c n s)) = cc_maxBytes s"
  by (auto simp: NextBatch_def Let_def split: option.splits)

lemma cc_step_budget:
  assumes "cc_invar s" and "cc_op_ok op" and "cc_nextID s < 2 ^ 63 - 1" and "cc_budget s"
  shows "cc_budget (cc_step op s) \<and> cc_maxBytes (cc_step op s) = cc_maxBytes s"
  using assms
  by (cases op) (simp_all add: RegisterCached_budget NextBatch_budget KillMany_budget drop_entries_budget
      CleanupConnCached_def PruneIdleCached_def Let_def int32_range_def KillMany_nextID
      drop_entries_nextID RegisterCached_maxBytes NextBatch_maxBytes)

lemma cc_run_budget:
  assumes "cc_invar s" and "list_all cc_op_ok ops" and "cc_nextID s + int (length ops) < 2 ^ 63" and "cc_budget s"
  shows "cc_budget (cc_run ops s) \<and> cc_maxBytes (cc_run ops s) = cc_maxBytes s"
  using assms
proof (induction ops arbitrary: s)
  case (Cons op ops)
  hence "cc_invar (cc_step op s) \<and> cc_nextID (cc_step op s) \<le> cc_nextID s + 1"
    and "cc_budget (cc_step op s) \<and> cc_maxBytes (cc_step op s) = cc_maxBytes s"
    by (intro cc_step_invar cc_step_budget; simp)+
  with Cons.IH [of "cc_step op s"] Cons.prems show ?case by (simp add: cc_run_def)
qed (simp add: cc_run_def)

lemma NewCursorStore_budget: "cc_budget (NewCursorStore ttl maxb)"
  "cc_maxBytes (NewCursorStore ttl maxb) = (if maxb \<le> 0 then 67108864 else maxb)"
  by (simp_all add: cc_budget_def NewCursorStore_def Let_def)

section \<open>Properties\<close>



text \<open>The client's side: \<open>getMore\<close> until the cursor is exhausted or the requests end.\<close>

fun page :: "int \<Rightarrow> bytes \<Rightarrow> bytes \<Rightarrow> (time \<times> int) list \<Rightarrow> CursorStore \<Rightarrow> bytes list \<times> bool \<times> CursorStore" where
  "page i t c [] s = ([], False, s)"
| "page i t c ((now, n) # reqs) s = (case NextBatch now i t c n s of
      (Inr (ns, batch, exhausted, True), s') \<Rightarrow>
        (if exhausted then (batch, True, s')
         else case page i t c reqs s' of (rest, d, s'') \<Rightarrow> (batch @ rest, d, s''))
    | (_, s') \<Rightarrow> ([], False, s'))"

definition requested :: "(time \<times> int) list \<Rightarrow> nat" where
  "requested reqs = sum_list (map (\<lambda>r. batch_size (snd r)) reqs)"

lemma page_entry:
  assumes "cc_invar s" and "gm_get (cc_byID s) i = Some e" and "ce_TenantID e = t" and "ce_ConnKey e = c"
    and "list_all (\<lambda>r. int32_range (snd r)) reqs"
  shows "fst (page i t c reqs s) = take (requested reqs) (drop (nat (ce_Pos e)) (ce_Docs e))
    \<and> fst (snd (page i t c reqs s)) = (length (ce_Docs e) \<le> nat (ce_Pos e) + requested reqs)"
  using assms
proof (induction reqs arbitrary: s e)
  case Nil
  thus ?case using cc_entry [OF Nil(1,2)] by (auto simp: requested_def entry_ok_def)
next
  case (Cons r reqs)
  obtain now n where r: "r = (now, n)" by (cases r)
  have n: "n < 2 ^ 31" using Cons.prems(5) r by (simp add: int32_range_def)
  have req: "requested (r # reqs) = batch_size n + requested reqs" by (simp add: requested_def r)
  have pos: "0 < ce_Pos e" using cc_entry [OF Cons.prems(1,2)] by (simp add: entry_ok_def)
  let ?P = "nat (ce_Pos e)"
  note hit = NextBatch_hit [OF Cons.prems(1-4) n, of now]
  show ?case
  proof (cases "?P + batch_size n < length (ce_Docs e)")
    case False
    with hit r req show ?thesis by simp
  next
    case True
    let ?e = "e\<lparr>ce_LastUsed := now, ce_Pos := ce_Pos e + int (batch_size n)\<rparr>"
    let ?s = "s\<lparr>cc_byID := gm_put (cc_byID s) i ?e\<rparr>"
    have nb: "NextBatch now i t c n s = (Inr (ce_NS e, take (batch_size n) (drop ?P (ce_Docs e)), False, True), ?s)"
      using True hit by simp
    have "cc_invar ?s" using NextBatch_invar [OF Cons.prems(1) n, of now i t c] nb by simp
    hence ih: "fst (page i t c reqs ?s) = take (requested reqs) (drop (nat (ce_Pos ?e)) (ce_Docs ?e))
        \<and> fst (snd (page i t c reqs ?s)) = (length (ce_Docs ?e) \<le> nat (ce_Pos ?e) + requested reqs)"
      by (rule Cons.IH) (use Cons.prems in simp_all)
    have p: "nat (ce_Pos ?e) = ?P + batch_size n" using pos by simp
    obtain rest d s2 where pg: "page i t c reqs ?s = (rest, d, s2)" by (metis prod.exhaust)
    show ?thesis
      using ih nb r req p pg by (simp add: take_add add.commute add.left_commute)
  qed
qed

text \<open>
  C28. Paging through a cached result loses, repeats and reorders nothing: whatever earlier
  operations the table has seen, the first batch followed by the batches of any sequence of
  \<open>getMore\<close> requests of the owner is the prefix of the documents of the requested total
  length, and the cursor is reported exhausted exactly when that prefix is the whole result;
  with no cursor id the first batch is the whole result.
\<close>

theorem cached_cursor_pages:
  assumes "list_all cc_op_ok ops" and "int (length ops) < 2 ^ 62" and "int (length docs) < 2 ^ 62"
    and "RegisterCached now t c ns docs n (cc_run ops (NewCursorStore ttl maxb)) = ((i, first, p), s)"
    and "list_all (\<lambda>r. int32_range (snd r)) reqs"
  shows "if i = 0 then first = docs
    else first @ fst (page i t c reqs s) = take (batch_size n + requested reqs) docs
      \<and> fst (snd (page i t c reqs s)) = (length docs \<le> batch_size n + requested reqs)"
proof -
  let ?s0 = "cc_run ops (NewCursorStore ttl maxb)"
  have r: "cc_invar ?s0" "cc_nextID ?s0 < 2 ^ 63 - 1"
    using cc_run_invar [OF NewCursorStore_invar(1) assms(1), of ttl maxb] assms(2)
    by (simp_all add: NewCursorStore_invar)
  have pos: "1000000000 \<le> cc_nextID ?s0" using r(1) by (simp add: cc_invar_def)
  have inv: "cc_invar s" using RegisterCached_invar [OF r assms(3), of now t c ns n] assms(4) by simp
  from RegisterCached_cases [OF r assms(3), of n now t c ns] show ?thesis
  proof (elim disjE exE conjE)
    fix s1 e
    assume e: "e = \<lparr>ce_ID = cc_nextID ?s0 + 1, ce_TenantID = t, ce_ConnKey = c, ce_NS = ns, ce_Docs = docs,
         ce_Pos = int (batch_size n), ce_CreatedAt = now, ce_LastUsed = now, ce_Bytes = docs_bytes docs\<rparr>"
      and reg: "RegisterCached now t c ns docs n ?s0 = ((cc_nextID ?s0 + 1, take (batch_size n) docs, int (batch_size n)),
         s1\<lparr>cc_nextID := cc_nextID ?s0 + 1, cc_byID := gm_put (cc_byID s1) (cc_nextID ?s0 + 1) e,
           cc_curBytes := cc_curBytes s1 + docs_bytes docs\<rparr>)"
    have "gm_get (cc_byID s) i = Some e" using reg assms(4) by auto
    from page_entry [OF inv this _ _ assms(5)] e have
      "fst (page i t c reqs s) = take (requested reqs) (drop (batch_size n) docs)
       \<and> fst (snd (page i t c reqs s)) = (length docs \<le> batch_size n + requested reqs)" by simp
    with reg assms(4) pos show ?thesis by (auto simp: take_add)
  qed (use assms(4) in auto)
qed

theorem cached_cursor_pages_witness:
  "\<exists>i first p s. RegisterCached 1 ''t'' ''c'' ''d.o'' [''a'', ''b'', ''c''] 1 (cc_run [] (NewCursorStore 0 0)) = ((i, first, p), s)
   \<and> i \<noteq> 0 \<and> first @ fst (page i ''t'' ''c'' [(2, 1), (3, 1)] s) = [''a'', ''b'', ''c'']
   \<and> fst (snd (page i ''t'' ''c'' [(2, 1), (3, 1)] s))"
proof -
  let ?r = "RegisterCached 1 ''t'' ''c'' ''d.o'' [''a'', ''b'', ''c''] 1 (cc_run [] (NewCursorStore 0 0))"
  obtain i first p s where r: "?r = ((i, first, p), s)" by (metis prod.exhaust)
  have "i \<noteq> 0"
    using r by (auto simp: RegisterCached_def cc_run_def NewCursorStore_def evict_loop.simps docs_bytes_def wrap64_def)
  with r cached_cursor_pages [OF _ _ _ r, of "[(2, 1), (3, 1)]"] show ?thesis
    by (simp add: batch_size_def requested_def int32_range_def)
qed

text \<open>
  C30. A cursor id is worthless to anyone but its owner: in every reachable table, a \<open>getMore\<close>
  under another tenant or connection finds nothing and changes nothing, a \<open>killCursors\<close> of any
  ids by them leaves the cursor open, another connection's disconnect does too, and the owner's own
  disconnect closes it.
\<close>

theorem cached_cursor_isolation:
  assumes "list_all cc_op_ok ops" and "int (length ops) < 2 ^ 62"
    and "s = cc_run ops (NewCursorStore ttl maxb)"
    and "gm_get (cc_byID s) i = Some e" and "(t, c) \<noteq> (ce_TenantID e, ce_ConnKey e)"
  shows "NextBatch now i t c n s = (Inr ('''', [], True, False), s)
    \<and> gm_get (cc_byID (KillManyCached ids t c s)) i = Some e
    \<and> gm_get (cc_byID (CleanupConnCached c' s)) i = (if c' = ce_ConnKey e then None else Some e)"
proof -
  have l: "cc_nextID (NewCursorStore ttl maxb) + int (length ops) < 2 ^ 63"
    using assms(2) by (simp add: NewCursorStore_invar)
  have inv: "cc_invar s" using cc_run_invar [OF NewCursorStore_invar(1) assms(1) l] assms(3) by simp
  have "NextBatch now i t c n s = (Inr ('''', [], True, False), s)"
    using assms(4,5) by (intro NextBatch_miss) auto
  moreover have "cc_lookup (KillManyCached ids t c s) i = Some e"
    unfolding KillManyCached_def using assms(4,5)
    by (subst cc.kill_all_lookup [OF inv]) (auto simp: cc_lookup_def cc_scope_def)
  moreover have "cc_lookup (CleanupConnCached c' s) i = (if c' = ce_ConnKey e then None else Some e)"
    using assms(4) by (subst cc.cleanup_lookup [OF inv]) (auto simp: cc_lookup_def cc_scope_def)
  ultimately show ?thesis unfolding cc_lookup_def by blast
qed

theorem cached_cursor_isolation_witness:
  "\<exists>s i e. s = cc_run [CRegister 1 ''t'' ''c'' ''d.o'' [''a'', ''b''] 1] (NewCursorStore 0 0)
   \<and> gm_get (cc_byID s) i = Some e
   \<and> NextBatch 2 i ''u'' ''c'' 5 s = (Inr ('''', [], True, False), s)
   \<and> gm_get (cc_byID (KillManyCached [i] ''u'' ''c'' s)) i = Some e
   \<and> gm_get (cc_byID (CleanupConnCached ''c'' s)) i = None"
proof -
  let ?ops = "[CRegister 1 ''t'' ''c'' ''d.o'' [''a'', ''b''] 1]"
  let ?s = "cc_run ?ops (NewCursorStore 0 0)"
  have o: "list_all cc_op_ok ?ops" "int (length ?ops) < 2 ^ 62" by simp_all
  obtain e where e: "gm_get (cc_byID ?s) 1000000001 = Some e" "ce_TenantID e = ''t''" "ce_ConnKey e = ''c''"
    by (simp add: cc_run_def RegisterCached_def NewCursorStore_def evict_loop.simps docs_bytes_def
        wrap64_def Let_def)
  have d: "(''u'', ''c'') \<noteq> (ce_TenantID e, ce_ConnKey e)" using e by simp
  show ?thesis
    using cached_cursor_isolation [OF o refl e(1) d, of 2 5 "[1000000001]" "''c''"] e by auto
qed

end
