(* ===== verification/Cursor_Registry.thy ===== *)
theory Cursor_Registry
  imports Scoped_Cursors "HOL-Library.Multiset"
begin

text \<open>
  \<open>internal/proxy/cursor/registry.go\<close>: the table of open backend cursors.  A
  \<open>*mongo.Cursor\<close> is a value of the type parameter \<open>'c\<close>, \<open>None\<close> for nil; every
  operation returns the cursors on which it calls \<open>Close\<close>, in order.
\<close>

section \<open>State and operations\<close>

record 'c CursorState =
  st_ID :: int
  st_TenantID :: bytes
  st_ConnKey :: bytes
  st_NS :: bytes
  st_Cursor :: "'c option"
  st_CreatedAt :: time
  st_LastUsed :: time

record 'c Registry =
  rg_byID :: "(int, 'c CursorState) gomap"
  rg_nextID :: int
  rg_idleTTL :: int

definition NewRegistry :: "int \<Rightarrow> 'c Registry" where
  "NewRegistry idleTTL =
     \<lparr>rg_byID = [], rg_nextID = 1, rg_idleTTL = (if idleTTL \<le> 0 then 600000000000 else idleTTL)\<rparr>"

definition RegisterCursor ::
  "time \<Rightarrow> bytes \<Rightarrow> bytes \<Rightarrow> bytes \<Rightarrow> 'c option \<Rightarrow> 'c Registry \<Rightarrow> int \<times> 'c Registry" where
  "RegisterCursor now tenantID connKey ns cur r =
     (let i = wrap64 (rg_nextID r + 1);
          st = \<lparr>st_ID = i, st_TenantID = tenantID, st_ConnKey = connKey, st_NS = ns, st_Cursor = cur,
            st_CreatedAt = now, st_LastUsed = now\<rparr> in
      (i, r\<lparr>rg_nextID := i, rg_byID := gm_put (rg_byID r) i st\<rparr>))"

definition GetCursor ::
  "time \<Rightarrow> int \<Rightarrow> bytes \<Rightarrow> bytes \<Rightarrow> 'c Registry \<Rightarrow> 'c CursorState option \<times> 'c Registry" where
  "GetCursor now i tenantID connKey r = (case gm_get (rg_byID r) i of
      None \<Rightarrow> (None, r)
    | Some st \<Rightarrow>
        if st_TenantID st \<noteq> tenantID \<or> st_ConnKey st \<noteq> connKey then (None, r)
        else let st' = st\<lparr>st_LastUsed := now\<rparr> in
          (Some st', r\<lparr>rg_byID := gm_put (rg_byID r) i st'\<rparr>))"

fun close_list :: "'c option \<Rightarrow> 'c list" where
  "close_list None = []"
| "close_list (Some c) = [c]"

definition RemoveCursor :: "int \<Rightarrow> bytes \<Rightarrow> bytes \<Rightarrow> 'c Registry \<Rightarrow> 'c list \<times> 'c Registry" where
  "RemoveCursor i tenantID connKey r = (case gm_get (rg_byID r) i of
      None \<Rightarrow> ([], r)
    | Some st \<Rightarrow>
        if st_TenantID st = tenantID \<and> st_ConnKey st = connKey
        then (close_list (st_Cursor st), r\<lparr>rg_byID := gm_del (rg_byID r) i\<rparr>)
        else ([], r))"

fun KillManyCursors :: "int list \<Rightarrow> bytes \<Rightarrow> bytes \<Rightarrow> 'c Registry \<Rightarrow> 'c list \<times> 'c Registry" where
  "KillManyCursors [] tenantID connKey r = ([], r)"
| "KillManyCursors (i # ids) tenantID connKey r =
     (case RemoveCursor i tenantID connKey r of (cl, r1) \<Rightarrow>
        (case KillManyCursors ids tenantID connKey r1 of (cl', r2) \<Rightarrow> (cl @ cl', r2)))"

text \<open>Collecting and deleting entries while ranging over the map, then closing them.\<close>

definition remove_states :: "('c CursorState \<Rightarrow> bool) \<Rightarrow> 'c Registry \<Rightarrow> 'c option list \<times> 'c Registry" where
  "remove_states p r = (map (\<lambda>(i, st). st_Cursor st) (filter (\<lambda>(i, st). p st) (rg_byID r)),
     r\<lparr>rg_byID := gm_drop p (rg_byID r)\<rparr>)"

definition CleanupConnCursors :: "bytes \<Rightarrow> 'c Registry \<Rightarrow> 'c list \<times> 'c Registry" where
  "CleanupConnCursors connKey r = (case remove_states (\<lambda>st. st_ConnKey st = connKey) r of
     (toClose, r') \<Rightarrow> (concat (map close_list toClose), r'))"

definition PruneIdleCursors :: "time \<Rightarrow> 'c Registry \<Rightarrow> (int \<times> 'c list) \<times> 'c Registry" where
  "PruneIdleCursors now r =
     (let cutoff = now - rg_idleTTL r in
      case remove_states (\<lambda>st. st_LastUsed st < cutoff) r of
        (toClose, r') \<Rightarrow> ((int (length toClose), concat (map close_list toClose)), r'))"

definition CountCursors :: "'c Registry \<Rightarrow> int" where
  "CountCursors r = int (length (rg_byID r))"

section \<open>Invariant and contract\<close>

definition rg_invar :: "'c Registry \<Rightarrow> bool" where
  "rg_invar r \<longleftrightarrow> gm_wf (rg_byID r) \<and> 1 \<le> rg_nextID r \<and> (\<forall>i \<in> fst ` set (rg_byID r). 1 < i \<and> i \<le> rg_nextID r)"

definition rg_lookup :: "'c Registry \<Rightarrow> int \<Rightarrow> 'c CursorState option" where
  "rg_lookup r i = gm_get (rg_byID r) i"

definition rg_scope :: "'c CursorState \<Rightarrow> bytes \<times> bytes" where
  "rg_scope st = (st_TenantID st, st_ConnKey st)"

lemma rg_fresh: "rg_invar r \<Longrightarrow> gm_get (rg_byID r) (rg_nextID r + 1) = None"
  using gm_get_keys [of "rg_nextID r + 1" "rg_byID r"] by (auto simp: rg_invar_def)

lemma rg_invar_subset:
  "rg_invar r \<Longrightarrow> gm_wf m \<Longrightarrow> fst ` set m \<subseteq> fst ` set (rg_byID r) \<Longrightarrow> rg_invar (r\<lparr>rg_byID := m\<rparr>)"
  unfolding rg_invar_def using subsetD [of "fst ` set m" "fst ` set (rg_byID r)"] by fastforce

lemma rg_invar_put:
  "rg_invar r \<Longrightarrow> gm_get (rg_byID r) i = Some st \<Longrightarrow> rg_invar (r\<lparr>rg_byID := gm_put (rg_byID r) i st'\<rparr>)"
  using gm_get_keys [of i "rg_byID r"] gm_keys_put [of "rg_byID r" i st']
  by (intro rg_invar_subset) (simp_all add: rg_invar_def insert_absorb)

lemma rg_invar_del: "rg_invar r \<Longrightarrow> rg_invar (r\<lparr>rg_byID := gm_del (rg_byID r) i\<rparr>)"
  using gm_del_subset [of "rg_byID r" i] by (intro rg_invar_subset) (auto simp: rg_invar_def)

lemma rg_invar_drop: "rg_invar r \<Longrightarrow> rg_invar (r\<lparr>rg_byID := gm_drop p (rg_byID r)\<rparr>)"
  using gm_drop_subset [of p "rg_byID r"] by (intro rg_invar_subset) (auto simp: rg_invar_def)

lemma RemoveCursor_invar: "rg_invar r \<Longrightarrow> rg_invar (snd (RemoveCursor i t c r))"
  by (auto simp: RemoveCursor_def rg_invar_del split: option.splits)

lemma RegisterCursor_invar:
  assumes "rg_invar r" and "rg_nextID r < 2 ^ 63 - 1"
  shows "rg_invar (snd (RegisterCursor now t c ns cur r))"
proof -
  have w: "wrap64 (rg_nextID r + 1) = rg_nextID r + 1"
    using assms by (intro wrap64_succ) (simp_all add: rg_invar_def)
  have "i \<le> rg_nextID r + 1 \<and> 1 < i" if "i \<in> fst ` set (gm_put (rg_byID r) (rg_nextID r + 1) st)" for i st
    using that assms(1) by (auto simp: rg_invar_def gm_put_def dom_update)
  with assms(1) w show ?thesis by (auto simp: RegisterCursor_def Let_def rg_invar_def)
qed

interpretation rg: scoped_cursors rg_invar rg_lookup rg_scope
  "\<lambda>i t c r. snd (RemoveCursor i t c r)" "\<lambda>c r. snd (CleanupConnCursors c r)"
proof unfold_locales
  fix r :: "'c Registry" and i j t c
  assume inv: "rg_invar r"
  show "rg_invar (snd (RemoveCursor i t c r))" by (rule RemoveCursor_invar [OF inv])
  show "rg_lookup (snd (RemoveCursor i t c r)) j =
      (if j = i \<and> map_option rg_scope (rg_lookup r i) = Some (t, c) then None else rg_lookup r j)"
    by (auto simp: RemoveCursor_def rg_lookup_def rg_scope_def split: option.splits)
  show "rg_invar (snd (CleanupConnCursors c r))"
    using inv by (simp add: CleanupConnCursors_def remove_states_def rg_invar_drop)
  show "rg_lookup (snd (CleanupConnCursors c r)) j = (case rg_lookup r j of
      Some e \<Rightarrow> if snd (rg_scope e) = c then None else Some e | None \<Rightarrow> None)"
    using inv by (auto simp: CleanupConnCursors_def remove_states_def rg_lookup_def rg_scope_def
        rg_invar_def gm_get_drop split: option.splits)
qed

lemma KillManyCursors_fold:
  "snd (KillManyCursors ids t c r) = fold (\<lambda>i r. snd (RemoveCursor i t c r)) ids r"
  by (induction ids arbitrary: r) (simp_all add: case_prod_beta)

section \<open>Histories\<close>

datatype 'c rg_op =
    RRegister time bytes bytes bytes "'c option"
  | RGet time int bytes bytes
  | RKill "int list" bytes bytes
  | RCleanup bytes
  | RPrune time

text \<open>The first component collects the closed cursors.\<close>

fun rg_step :: "'c rg_op \<Rightarrow> 'c list \<times> 'c Registry \<Rightarrow> 'c list \<times> 'c Registry" where
  "rg_step (RRegister now t c ns cur) (cl, r) = (cl, snd (RegisterCursor now t c ns cur r))"
| "rg_step (RGet now i t c) (cl, r) = (cl, snd (GetCursor now i t c r))"
| "rg_step (RKill ids t c) (cl, r) = (case KillManyCursors ids t c r of (cl', r') \<Rightarrow> (cl @ cl', r'))"
| "rg_step (RCleanup c) (cl, r) = (case CleanupConnCursors c r of (cl', r') \<Rightarrow> (cl @ cl', r'))"
| "rg_step (RPrune now) (cl, r) = (case PruneIdleCursors now r of ((n, cl'), r') \<Rightarrow> (cl @ cl', r'))"

definition rg_run :: "'c rg_op list \<Rightarrow> 'c list \<times> 'c Registry \<Rightarrow> 'c list \<times> 'c Registry" where
  "rg_run ops clr = fold rg_step ops clr"

fun registered_by :: "'c rg_op \<Rightarrow> 'c list" where
  "registered_by (RRegister now t c ns cur) = close_list cur"
| "registered_by _ = []"

definition open_in :: "(int, 'c CursorState) gomap \<Rightarrow> 'c list" where
  "open_in m = concat (map (\<lambda>p. close_list (st_Cursor (snd p))) m)"

lemma open_in_simps [simp]:
  "open_in [] = []" "open_in (p # m) = close_list (st_Cursor (snd p)) @ open_in m"
  by (simp_all add: open_in_def)

lemma open_in_put_new:
  "gm_get m i = None \<Longrightarrow> mset (open_in (gm_put m i st)) = mset (open_in m) + mset (close_list (st_Cursor st))"
  by (induction m) (auto simp: gm_get_def gm_put_def split: if_splits)

lemma open_in_put_same:
  "gm_get m i = Some st \<Longrightarrow> st_Cursor st' = st_Cursor st \<Longrightarrow> open_in (gm_put m i st') = open_in m"
  by (induction m) (auto simp: gm_get_def gm_put_def split: if_splits)

lemma open_in_del:
  "gm_wf m \<Longrightarrow> gm_get m i = Some st \<Longrightarrow>
   mset (open_in m) = mset (close_list (st_Cursor st)) + mset (open_in (gm_del m i))"
proof (induction m)
  case (Cons p m)
  obtain j w where p: "p = (j, w)" by (cases p)
  show ?case
  proof (cases "j = i")
    case True
    with Cons.prems p have "gm_get m i = None" and "w = st"
      by (auto simp: gm_get_def gm_wf_def map_of_eq_None_iff)
    with True p show ?thesis using gm_del_notin [of m i] by (simp add: gm_del_def)
  next
    case False
    with Cons p show ?thesis by (simp add: gm_del_def gm_get_def gm_wf_def)
  qed
qed simp

lemma open_in_drop:
  "mset (open_in m) = mset (concat (map close_list (map (\<lambda>(i, st). st_Cursor st) (filter (\<lambda>(i, st). p st) m))))
     + mset (open_in (gm_drop p m))"
  by (induction m) (auto simp: gm_drop_def)

text \<open>Each step keeps the invariant and neither loses nor duplicates a cursor.\<close>

definition conserved :: "'c multiset \<Rightarrow> 'c list \<times> 'c Registry \<Rightarrow> bool" where
  "conserved M clr \<longleftrightarrow> rg_invar (snd clr) \<and> mset (fst clr) + mset (open_in (rg_byID (snd clr))) = M"

lemma RemoveCursor_conserved:
  assumes "conserved M (cl, r)" and "RemoveCursor i t c r = (cl', r')"
  shows "conserved M (cl @ cl', r') \<and> rg_nextID r' = rg_nextID r"
proof -
  have "gm_wf (rg_byID r)" using assms(1) by (simp add: conserved_def rg_invar_def)
  with assms open_in_del [of "rg_byID r" i] show ?thesis
    by (auto simp: conserved_def RemoveCursor_def rg_invar_del add.assoc split: option.splits if_splits)
qed

lemma KillManyCursors_conserved:
  "conserved M (cl, r) \<Longrightarrow> KillManyCursors ids t c r = (cl', r') \<Longrightarrow>
   conserved M (cl @ cl', r') \<and> rg_nextID r' = rg_nextID r"
proof (induction ids arbitrary: cl r cl' r')
  case (Cons i ids)
  obtain cl1 r1 where 1: "RemoveCursor i t c r = (cl1, r1)" by (metis prod.exhaust)
  obtain cl2 r2 where 2: "KillManyCursors ids t c r1 = (cl2, r2)" by (metis prod.exhaust)
  have c1: "conserved M (cl @ cl1, r1) \<and> rg_nextID r1 = rg_nextID r"
    by (rule RemoveCursor_conserved [OF Cons.prems(1) 1])
  show ?case using Cons.IH [OF conjunct1 [OF c1] 2] c1 Cons.prems(2) 1 2 by simp
qed simp

lemma remove_states_conserved:
  "conserved M (cl, r) \<Longrightarrow> remove_states p r = (tc, r') \<Longrightarrow>
   conserved M (cl @ concat (map close_list tc), r') \<and> rg_nextID r' = rg_nextID r"
  using open_in_drop [of "rg_byID r" p]
  by (auto simp: conserved_def remove_states_def rg_invar_drop add.assoc)

lemma rg_step_conserved:
  assumes "conserved M (cl, r)" and "rg_nextID r < 2 ^ 63 - 1"
  shows "conserved (M + mset (registered_by op)) (rg_step op (cl, r))
    \<and> rg_nextID (snd (rg_step op (cl, r))) \<le> rg_nextID r + 1"
proof (cases op)
  case (RRegister now t c ns cur)
  have inv: "rg_invar r" using assms(1) by (simp add: conserved_def)
  have "wrap64 (rg_nextID r + 1) = rg_nextID r + 1"
    using inv assms(2) by (intro wrap64_succ) (simp_all add: rg_invar_def)
  with RRegister assms inv RegisterCursor_invar [OF inv assms(2), of now t c ns cur] rg_fresh [OF inv]
  show ?thesis by (simp add: conserved_def RegisterCursor_def Let_def open_in_put_new add.assoc)
next
  case (RGet now i t c)
  with assms(1) show ?thesis
    by (auto simp: conserved_def GetCursor_def Let_def rg_invar_put open_in_put_same split: option.splits)
next
  case (RKill ids t c)
  with KillManyCursors_conserved [OF assms(1), of ids t c] show ?thesis by (auto split: prod.splits)
next
  case (RCleanup c)
  with remove_states_conserved [OF assms(1), of "\<lambda>st. st_ConnKey st = c"] show ?thesis
    by (auto simp: CleanupConnCursors_def split: prod.splits)
next
  case (RPrune now)
  with remove_states_conserved [OF assms(1), of "\<lambda>st. st_LastUsed st < now - rg_idleTTL r"] show ?thesis
    by (auto simp: PruneIdleCursors_def Let_def split: prod.splits)
qed

lemma rg_run_conserved:
  assumes "conserved M clr" and "rg_nextID (snd clr) + int (length ops) < 2 ^ 63"
  shows "conserved (M + mset (concat (map registered_by ops))) (rg_run ops clr)"
  using assms
proof (induction ops arbitrary: M clr)
  case (Cons op ops)
  have s: "conserved (M + mset (registered_by op)) (rg_step op clr)
      \<and> rg_nextID (snd (rg_step op clr)) \<le> rg_nextID (snd clr) + 1"
    using rg_step_conserved [of M "fst clr" "snd clr" op] Cons.prems by simp
  with Cons.IH [of "M + mset (registered_by op)" "rg_step op clr"] Cons.prems(2) show ?case
    by (simp add: rg_run_def add.assoc)
qed (simp add: rg_run_def)

section \<open>Properties\<close>

text \<open>
  C31. No backend cursor is leaked or closed twice: after any history of registrations, reads,
  kills, disconnects and prunes, the cursors ever registered are, counted with multiplicity,
  exactly the closed ones and the ones still in the table.
\<close>

theorem registry_conserves_cursors:
  assumes "int (length ops) < 2 ^ 62" and "rg_run ops ([], NewRegistry ttl) = (closed, r)"
  shows "mset (concat (map registered_by ops)) = mset closed + mset (open_in (rg_byID r))"
proof -
  have "conserved {#} ([], NewRegistry ttl)"
    by (simp add: conserved_def NewRegistry_def rg_invar_def)
  from rg_run_conserved [OF this, of ops] assms show ?thesis
    by (simp add: conserved_def NewRegistry_def)
qed

theorem registry_conserves_cursors_witness:
  "\<exists>closed r. rg_run [RRegister 1 ''t'' ''c'' ''d.o'' (Some (7::nat)), RRegister 2 ''t'' ''k'' ''d.o'' (Some 8),
       RCleanup ''c''] ([], NewRegistry 0) = (closed, r)
   \<and> {#7, 8#} = mset closed + mset (open_in (rg_byID r))"
proof -
  let ?ops = "[RRegister 1 ''t'' ''c'' ''d.o'' (Some (7::nat)), RRegister 2 ''t'' ''k'' ''d.o'' (Some 8), RCleanup ''c'']"
  obtain closed r where r: "rg_run ?ops ([], NewRegistry 0) = (closed, r)" by (metis prod.exhaust)
  with registry_conserves_cursors [OF _ r] show ?thesis by simp
qed

text \<open>
  Backend cursors are scoped to the tenant and client connection that opened them: in every
  reachable registry, looking an id up under any other tenant or connection finds nothing and
  changes nothing, killing any list of ids from there leaves the cursor in the table, and only a
  disconnect of its own connection removes it.
\<close>

theorem registry_isolation:
  assumes "int (length ops) < 2 ^ 62" and "rg_run ops ([], NewRegistry ttl) = (closed, r)"
    and "gm_get (rg_byID r) i = Some st" and "(t, c) \<noteq> (st_TenantID st, st_ConnKey st)"
  shows "GetCursor now i t c r = (None, r)
    \<and> gm_get (rg_byID (snd (KillManyCursors ids t c r))) i = Some st
    \<and> gm_get (rg_byID (snd (CleanupConnCursors c' r))) i = (if c' = st_ConnKey st then None else Some st)"
proof -
  have "conserved {#} ([], NewRegistry ttl)"
    by (simp add: conserved_def NewRegistry_def rg_invar_def)
  from rg_run_conserved [OF this, of ops] assms(1,2) have inv: "rg_invar r"
    by (simp add: conserved_def NewRegistry_def)
  have "rg_lookup (snd (KillManyCursors ids t c r)) i = Some st"
    unfolding KillManyCursors_fold using assms(3,4)
    by (subst rg.kill_all_lookup [OF inv]) (auto simp: rg_lookup_def rg_scope_def)
  moreover have "rg_lookup (snd (CleanupConnCursors c' r)) i = (if c' = st_ConnKey st then None else Some st)"
    using assms(3) by (subst rg.cleanup_lookup [OF inv]) (auto simp: rg_lookup_def rg_scope_def)
  ultimately show ?thesis using assms(3,4) by (auto simp: rg_lookup_def GetCursor_def)
qed

theorem registry_isolation_witness:
  "\<exists>closed r st. rg_run [RRegister 1 ''t'' ''c'' ''d.o'' (Some (7::nat))] ([], NewRegistry 0) = (closed, r)
   \<and> GetCursor 2 2 ''t'' ''other'' r = (None, r)
   \<and> gm_get (rg_byID (snd (KillManyCursors [2] ''t'' ''other'' r))) 2 = Some st
   \<and> gm_get (rg_byID (snd (CleanupConnCursors ''c'' r))) 2 = None"
proof -
  let ?ops = "[RRegister 1 ''t'' ''c'' ''d.o'' (Some (7::nat))]"
  obtain closed r where r: "rg_run ?ops ([], NewRegistry 0) = (closed, r)" by (metis prod.exhaust)
  hence "\<exists>st. gm_get (rg_byID r) 2 = Some st \<and> st_TenantID st = ''t'' \<and> st_ConnKey st = ''c''"
    by (auto simp: rg_run_def RegisterCursor_def NewRegistry_def wrap64_def Let_def)
  then obtain st where st: "gm_get (rg_byID r) 2 = Some st" "st_TenantID st = ''t''" "st_ConnKey st = ''c''" by blast
  have d: "(''t'', ''other'') \<noteq> (st_TenantID st, st_ConnKey st)" using st by simp
  show ?thesis using registry_isolation [OF _ r st(1) d, of 2 "[2]" "''c''"] r st by auto
qed

end
