(* ===== verification/Cache_Result.thy ===== *)
theory Cache_Result
  imports Bson
begin

text \<open>
  \<open>internal/proxy/cache/result.go\<close>: the stored envelope of a result, the reply built from
  it, and the extraction of documents from a backend reply.  A nil slice argument is
  \<open>None\<close>.
\<close>

definition Serialize :: "bson_lib \<Rightarrow> bytes \<Rightarrow> bytes \<Rightarrow> bytes list \<Rightarrow> bytes + bytes" where
  "Serialize L ns cmd docs = bl_MarshalCR L \<lparr>cr_NS = ns, cr_Docs = docs, cr_Cmd = cmd\<rparr>"

definition Deserialize :: "bson_lib \<Rightarrow> bytes \<Rightarrow> bytes + CachedResult" where
  "Deserialize L b = bl_UnmarshalCR L b"

text \<open>A stored document in a reply batch: decoded to a map, or raw when it does not decode.\<close>

definition batch_item :: "bson_lib \<Rightarrow> bytes \<Rightarrow> bval" where
  "batch_item L d = (case bl_UnmarshalM L d of Inl _ \<Rightarrow> BRaw d | Inr m \<Rightarrow> BM m)"

definition ReplyFromCacheWithCursor :: "bson_lib \<Rightarrow> CachedResult \<Rightarrow> int \<Rightarrow> bytes list option \<Rightarrow> doc" where
  "ReplyFromCacheWithCursor L cr cursorID firstBatchDocs =
     (let src = (case firstBatchDocs of None \<Rightarrow> cr_Docs cr | Some ds \<Rightarrow> ds);
          batch = map (batch_item L) src in
      [(''cursor'', BD [(''id'', BInt64 cursorID), (''ns'', BStr (cr_NS cr)), (''firstBatch'', BA batch)]),
       (''ok'', BF64 (F64 1)), (''nanceCacheHit'', BBool True)])"

definition ReplyFromCache :: "bson_lib \<Rightarrow> CachedResult \<Rightarrow> doc" where
  "ReplyFromCache L cr = ReplyFromCacheWithCursor L cr 0 None"

text \<open>The scan of a \<open>bson.D\<close> cursor: later matching fields overwrite earlier ones.\<close>

fun scan_cursor_doc :: "doc \<Rightarrow> bytes \<times> bval list \<Rightarrow> bytes \<times> bval list" where
  "scan_cursor_doc [] acc = acc"
| "scan_cursor_doc ((k, v) # es) (ns, batch) =
     scan_cursor_doc es
       (if k = ''ns'' then (case v of BStr s \<Rightarrow> (s, batch) | _ \<Rightarrow> (ns, batch))
        else if k = ''firstBatch'' then (case v of BA a \<Rightarrow> (ns, a) | _ \<Rightarrow> (ns, batch))
        else (ns, batch))"

fun marshal_items :: "bson_lib \<Rightarrow> bval list \<Rightarrow> bytes list" where
  "marshal_items L [] = []"
| "marshal_items L (v # vs) = (case bl_Marshal L v of
     Inl _ \<Rightarrow> marshal_items L vs | Inr raw \<Rightarrow> raw # marshal_items L vs)"

definition docsFromD :: "bson_lib \<Rightarrow> doc \<Rightarrow> bytes \<times> bytes list \<times> bool" where
  "docsFromD L reply = (case map_of reply ''cursor'' of
      Some (BD c) \<Rightarrow> (let (ns, batch) = scan_cursor_doc c ('''', []) in (ns, marshal_items L batch, True))
    | Some (BM c) \<Rightarrow>
        (let ns = (case gm_get c ''ns'' of Some (BStr s) \<Rightarrow> s | _ \<Rightarrow> '''');
             batch = (case gm_get c ''firstBatch'' of Some (BA a) \<Rightarrow> a | _ \<Rightarrow> []) in
         (ns, marshal_items L batch, True))
    | _ \<Rightarrow> ('''', [], False))"

definition DocsFromCursorReply :: "bson_lib \<Rightarrow> bval \<Rightarrow> bytes \<times> bytes list \<times> bool" where
  "DocsFromCursorReply L reply = (case reply of
      BD r \<Rightarrow> docsFromD L r
    | BM r \<Rightarrow> docsFromD L r
    | _ \<Rightarrow> ('''', [], False))"

lemma DocsFromCursorReply_batch:
  "DocsFromCursorReply L (BD [(''cursor'', BD [(''id'', i), (''ns'', BStr ns), (''firstBatch'', BA batch)]), ok])
     = (ns, marshal_items L batch, True)"
  by (simp add: DocsFromCursorReply_def docsFromD_def)

end
