(* ===== verification/Reply.thy ===== *)
theory Reply
  imports Bson
begin

text \<open>
  \<open>internal/proxy/command/reply.go\<close>: the documents the proxy answers with.  \<open>mongo_error\<close>
  is what \<open>errors.As\<close> finds in a driver error: a \<open>mongo.CommandError\<close>, a
  \<open>mongo.WriteException\<close> (its write concern error, its write errors and its text), or
  anything else by its text.
\<close>

datatype mongo_error =
    MCommandError bytes int bytes              \<comment> \<open>message, code, name\<close>
  | MWriteException "(bytes \<times> int \<times> bytes) option" "(int \<times> int \<times> bytes) list" bytes
  | MOtherError bytes

definition ErrorReply :: "int \<Rightarrow> bytes \<Rightarrow> bytes \<Rightarrow> doc" where
  "ErrorReply code codeName errmsg =
     [(''ok'', BF64 (F64 0)), (''errmsg'', BStr errmsg), (''code'', BInt32 code), (''codeName'', BStr codeName)]"

definition HelloReply :: "time \<Rightarrow> int \<Rightarrow> bytes \<Rightarrow> doc" where
  "HelloReply now connectionID cmdName =
     (let d = [(''isWritablePrimary'', BBool True), (''maxBsonObjectSize'', BInt32 16777216),
        (''maxMessageSizeBytes'', BInt32 48000000), (''maxWriteBatchSize'', BInt32 100000),
        (''localTime'', BTime now), (''logicalSessionTimeoutMinutes'', BInt32 30),
        (''connectionId'', BInt32 connectionID), (''minWireVersion'', BInt32 0),
        (''maxWireVersion'', BInt32 21), (''readOnly'', BBool False), (''ok'', BF64 (F64 1))] in
      if cmdName = ''isMaster'' \<or> cmdName = ''ismaster''
      then [(''ismaster'', BBool True), (''isMaster'', BBool True)] @ d else d)"

definition BuildInfoReply :: doc where
  "BuildInfoReply = [(''version'', BStr ''7.0.0-nance-proxy''),
     (''gitVersion'', BStr ''nance-accelerator-phase1''), (''modules'', BA []),
     (''sysInfo'', BStr ''deprecated''),
     (''versionArray'', BA [BInt32 7, BInt32 0, BInt32 0, BInt32 0]), (''bits'', BInt32 64),
     (''debug'', BBool False), (''maxBsonObjectSize'', BInt32 16777216), (''ok'', BF64 (F64 1))]"

definition OKReply :: doc where "OKReply = [(''ok'', BF64 (F64 1))]"

definition PingReply :: doc where "PingReply = OKReply"

definition AuthOK :: doc where
  "AuthOK = [(''conversationId'', BInt32 1), (''done'', BBool True), (''ok'', BF64 (F64 1))]"

definition AuthFailed :: "bytes \<Rightarrow> doc" where
  "AuthFailed msg = ErrorReply 18 ''AuthenticationFailed''
     (if msg = '''' then ''Authentication failed.'' else msg)"

definition NotAuthorized :: "bytes \<Rightarrow> doc" where
  "NotAuthorized msg = ErrorReply 13 ''Unauthorized''
     (if msg = '''' then ''command requires authentication'' else msg)"

definition MongoErrorToReply :: "mongo_error option \<Rightarrow> doc" where
  "MongoErrorToReply err = (case err of
      None \<Rightarrow> OKReply
    | Some (MCommandError msg code name) \<Rightarrow>
        [(''ok'', BF64 (F64 0)), (''errmsg'', BStr msg), (''code'', BInt32 code), (''codeName'', BStr name)]
    | Some (MWriteException (Some (msg, code, name)) wes text) \<Rightarrow>
        [(''ok'', BF64 (F64 0)), (''errmsg'', BStr msg), (''code'', BInt32 (wrap32 code)), (''codeName'', BStr name)]
    | Some (MWriteException None ((index, code, msg) # wes) text) \<Rightarrow>
        [(''n'', BInt32 0),
         (''writeErrors'', BA [BD [(''index'', BInt32 (wrap32 index)), (''code'', BInt32 (wrap32 code)),
            (''errmsg'', BStr msg)]]),
         (''ok'', BF64 (F64 1))]
    | Some (MWriteException None [] text) \<Rightarrow> ErrorReply 1 ''InternalError'' text
    | Some (MOtherError text) \<Rightarrow> ErrorReply 1 ''InternalError'' text)"

definition MergeSequencesIntoInsert :: "doc \<Rightarrow> (bytes \<times> bytes list) list \<Rightarrow> doc" where
  "MergeSequencesIntoInsert cmd sequences = cmd"

definition FormatNS :: "bytes \<Rightarrow> bytes \<Rightarrow> bytes" where
  "FormatNS db coll = (if coll = '''' then db else db @ ''.'' @ coll)"

section \<open>internal/proxy/auth/errors.go\<close>

definition TooManyConnectionsDoc :: doc where
  "TooManyConnectionsDoc = [(''ok'', BF64 (F64 0)), (''errmsg'', BStr ''too many connections for tenant''),
     (''code'', BInt32 9001), (''codeName'', BStr ''TooManyConnections'')]"

end
