(* ===== verification/Cache_Stats.thy ===== *)
theory Cache_Stats
  imports Go_Lang
begin

text \<open>
  \<open>internal/proxy/cachestats/stats.go\<close> and \<open>internal/proxy/savings/tracker.go\<close>: the
  in-process hit and miss accounts.  A nil tracker is \<open>None\<close>.  \<open>fdiv h t\<close> stands for the
  double-precision quotient \<open>float64(h) / float64(t)\<close>; \<open>now\<close> is \<open>time.Now().UTC()\<close>.
\<close>

section \<open>Per-collection counters\<close>

record counters =
  c_hits :: int
  c_misses :: int

record CollectionSnapshot =
  cs_TenantID :: bytes
  cs_DB :: bytes
  cs_Collection :: bytes
  cs_Hits :: int
  cs_Misses :: int
  cs_Total :: int
  cs_HitRatio :: f64
  cs_UpdatedAt :: time

record TenantSnapshot =
  ts_TenantID :: bytes
  ts_Hits :: int
  ts_Misses :: int
  ts_HitRatio :: f64
  ts_Collections :: "CollectionSnapshot list"
  ts_UpdatedAt :: time

type_synonym StatsTracker = "(bytes, counters) gomap"

definition NUL :: char where "NUL = CHR 0x00"

definition makeKey :: "bytes \<Rightarrow> bytes \<Rightarrow> bytes \<Rightarrow> bytes" where
  "makeKey tenantID db coll = tenantID @ [NUL] @ db @ [NUL] @ coll"

definition get_counters :: "StatsTracker \<Rightarrow> bytes \<Rightarrow> counters" where
  "get_counters t k = (case gm_get t k of Some c \<Rightarrow> c | None \<Rightarrow> \<lparr>c_hits = 0, c_misses = 0\<rparr>)"

definition RecordHit :: "bytes \<Rightarrow> bytes \<Rightarrow> bytes \<Rightarrow> StatsTracker option \<Rightarrow> StatsTracker option" where
  "RecordHit tenantID db coll t = (case t of None \<Rightarrow> None | Some m \<Rightarrow>
     if tenantID = '''' \<or> coll = '''' then Some m
     else let k = makeKey tenantID db coll; c = get_counters m k in
       Some (gm_put m k (c\<lparr>c_hits := wrap64 (c_hits c + 1)\<rparr>)))"

definition RecordMiss :: "bytes \<Rightarrow> bytes \<Rightarrow> bytes \<Rightarrow> StatsTracker option \<Rightarrow> StatsTracker option" where
  "RecordMiss tenantID db coll t = (case t of None \<Rightarrow> None | Some m \<Rightarrow>
     if tenantID = '''' \<or> coll = '''' then Some m
     else let k = makeKey tenantID db coll; c = get_counters m k in
       Some (gm_put m k (c\<lparr>c_misses := wrap64 (c_misses c + 1)\<rparr>)))"

definition hit_ratio :: "(int \<Rightarrow> int \<Rightarrow> f64) \<Rightarrow> int \<Rightarrow> int \<Rightarrow> f64" where
  "hit_ratio fdiv hits misses =
     (let tot = wrap64 (hits + misses) in if tot = 0 then F64 0 else fdiv hits tot)"

definition coll_snapshot ::
  "(int \<Rightarrow> int \<Rightarrow> f64) \<Rightarrow> time \<Rightarrow> bytes \<Rightarrow> bytes \<Rightarrow> bytes \<Rightarrow> counters \<Rightarrow> CollectionSnapshot" where
  "coll_snapshot fdiv now tenantID db coll c =
     \<lparr>cs_TenantID = tenantID, cs_DB = db, cs_Collection = coll, cs_Hits = c_hits c, cs_Misses = c_misses c,
      cs_Total = wrap64 (c_hits c + c_misses c), cs_HitRatio = hit_ratio fdiv (c_hits c) (c_misses c),
      cs_UpdatedAt = now\<rparr>"

definition SnapshotCollection ::
  "(int \<Rightarrow> int \<Rightarrow> f64) \<Rightarrow> time \<Rightarrow> bytes \<Rightarrow> bytes \<Rightarrow> bytes \<Rightarrow> StatsTracker option \<Rightarrow> CollectionSnapshot" where
  "SnapshotCollection fdiv now tenantID db coll t =
     (let out = \<lparr>cs_TenantID = tenantID, cs_DB = db, cs_Collection = coll, cs_Hits = 0, cs_Misses = 0,
        cs_Total = 0, cs_HitRatio = F64 0, cs_UpdatedAt = now\<rparr> in
      case t of None \<Rightarrow> out | Some m \<Rightarrow>
        (case gm_get m (makeKey tenantID db coll) of
           None \<Rightarrow> out | Some c \<Rightarrow> coll_snapshot fdiv now tenantID db coll c))"

text \<open>The inner loop: split at the first NUL; \<open>None\<close> when there is none.\<close>

fun split_first_nul :: "bytes \<Rightarrow> (bytes \<times> bytes) option" where
  "split_first_nul [] = None"
| "split_first_nul (c # cs) = (if c = NUL then Some ([], cs)
     else map_option (\<lambda>(a, b). (c # a, b)) (split_first_nul cs))"

fun tenant_range ::
  "(int \<Rightarrow> int \<Rightarrow> f64) \<Rightarrow> time \<Rightarrow> bytes \<Rightarrow> (bytes, counters) gomap \<Rightarrow> TenantSnapshot \<Rightarrow> TenantSnapshot" where
  "tenant_range fdiv now tenantID [] out = out"
| "tenant_range fdiv now tenantID ((ks, c) # m) out =
     (let prefix = tenantID @ [NUL] in
      if length ks \<le> length prefix \<or> take (length prefix) ks \<noteq> prefix then tenant_range fdiv now tenantID m out
      else
        let rest = drop (length prefix) ks;
            (db, coll) = (case split_first_nul rest of None \<Rightarrow> ('''', '''') | Some p \<Rightarrow> p) in
        if coll = '''' then tenant_range fdiv now tenantID m out
        else tenant_range fdiv now tenantID m
          (out\<lparr>ts_Hits := wrap64 (ts_Hits out + c_hits c), ts_Misses := wrap64 (ts_Misses out + c_misses c),
            ts_Collections := ts_Collections out @ [coll_snapshot fdiv now tenantID db coll c]\<rparr>))"

definition SnapshotTenant :: "(int \<Rightarrow> int \<Rightarrow> f64) \<Rightarrow> time \<Rightarrow> bytes \<Rightarrow> StatsTracker option \<Rightarrow> TenantSnapshot" where
  "SnapshotTenant fdiv now tenantID t =
     (let out = \<lparr>ts_TenantID = tenantID, ts_Hits = 0, ts_Misses = 0, ts_HitRatio = F64 0,
        ts_Collections = [], ts_UpdatedAt = now\<rparr> in
      case t of None \<Rightarrow> out | Some m \<Rightarrow>
        if tenantID = '''' then out
        else let o2 = tenant_range fdiv now tenantID m out in
          o2\<lparr>ts_HitRatio := hit_ratio fdiv (ts_Hits o2) (ts_Misses o2)\<rparr>)"

fun splitNull_from :: "bytes \<Rightarrow> bytes \<Rightarrow> bytes list" where
  "splitNull_from acc [] = [acc]"
| "splitNull_from acc (c # cs) = (if c = NUL then acc # splitNull_from [] cs else splitNull_from (acc @ [c]) cs)"

definition splitNull :: "bytes \<Rightarrow> bytes list" where
  "splitNull s = splitNull_from [] s"

definition SnapshotAll :: "(int \<Rightarrow> int \<Rightarrow> f64) \<Rightarrow> time \<Rightarrow> StatsTracker option \<Rightarrow> CollectionSnapshot list" where
  "SnapshotAll fdiv now t = (case t of None \<Rightarrow> [] | Some m \<Rightarrow>
     concat (map (\<lambda>(ks, c). case splitNull ks of
         [tenant, db, coll] \<Rightarrow> [coll_snapshot fdiv now tenant db coll c]
       | _ \<Rightarrow> []) m))"

section \<open>Per-tenant savings\<close>

record SavingsCounters =
  sv_hits :: int
  sv_misses :: int
  sv_bytesCache :: int
  sv_bytesBackend :: int

record SavingsSnapshot =
  ss_TenantID :: bytes
  ss_Hits :: int
  ss_Misses :: int
  ss_QueriesSaved :: int
  ss_BytesFromCache :: int
  ss_BytesFromBackend :: int
  ss_UpdatedAt :: time

type_synonym SavingsTracker = "(bytes, SavingsCounters) gomap"

definition ensure :: "bytes \<Rightarrow> SavingsTracker \<Rightarrow> SavingsCounters" where
  "ensure tenantID m = (case gm_get m tenantID of Some c \<Rightarrow> c
     | None \<Rightarrow> \<lparr>sv_hits = 0, sv_misses = 0, sv_bytesCache = 0, sv_bytesBackend = 0\<rparr>)"

definition SavingsRecordHit :: "bytes \<Rightarrow> int \<Rightarrow> SavingsTracker option \<Rightarrow> SavingsTracker option" where
  "SavingsRecordHit tenantID n t = map_option (\<lambda>m. let c = ensure tenantID m in
     gm_put m tenantID (c\<lparr>sv_hits := wrap64 (sv_hits c + 1), sv_bytesCache := wrap64 (sv_bytesCache c + n)\<rparr>)) t"

definition SavingsRecordMiss :: "bytes \<Rightarrow> int \<Rightarrow> SavingsTracker option \<Rightarrow> SavingsTracker option" where
  "SavingsRecordMiss tenantID n t = map_option (\<lambda>m. let c = ensure tenantID m in
     gm_put m tenantID (c\<lparr>sv_misses := wrap64 (sv_misses c + 1), sv_bytesBackend := wrap64 (sv_bytesBackend c + n)\<rparr>)) t"

definition SavingsSnapshotOf :: "time \<Rightarrow> bytes \<Rightarrow> SavingsTracker option \<Rightarrow> SavingsSnapshot" where
  "SavingsSnapshotOf now tenantID t =
     (let zero = \<lparr>ss_TenantID = tenantID, ss_Hits = 0, ss_Misses = 0, ss_QueriesSaved = 0,
        ss_BytesFromCache = 0, ss_BytesFromBackend = 0, ss_UpdatedAt = 0\<rparr> in
      case t of None \<Rightarrow> zero | Some m \<Rightarrow>
        (case gm_get m tenantID of
           None \<Rightarrow> zero\<lparr>ss_UpdatedAt := now\<rparr>
         | Some c \<Rightarrow> \<lparr>ss_TenantID = tenantID, ss_Hits = sv_hits c, ss_Misses = sv_misses c,
             ss_QueriesSaved = sv_hits c, ss_BytesFromCache = sv_bytesCache c,
             ss_BytesFromBackend = sv_bytesBackend c, ss_UpdatedAt = now\<rparr>))"

definition SavingsAll :: "time \<Rightarrow> SavingsTracker option \<Rightarrow> SavingsSnapshot list" where
  "SavingsAll now t = (case t of None \<Rightarrow> []
     | Some m \<Rightarrow> map (\<lambda>(i, c). SavingsSnapshotOf now i t) m)"

end
