(* ===== verification/Metrics.thy ===== *)
theory Metrics
  imports Cache_Stats
begin

text \<open>
  \<open>internal/proxy/metrics\<close>: the bounded command label and the fan-out of one cache outcome.
  The Prometheus client is represented by what is sent to it: \<open>metric\<close> is a counter's
  variable in \<open>internal/telemetry\<close>, its label values and the amount added.
\<close>

definition allowedCommands :: "bytes list" where
  "allowedCommands = [''hello'', ''ismaster'', ''buildinfo'', ''ping'', ''getcmdlineopts'',
     ''whatsmyuri'', ''getlog'', ''listcommands'', ''connectionstatus'', ''hostinfo'', ''features'',
     ''saslstart'', ''saslcontinue'', ''logout'', ''authenticate'', ''getnonce'', ''find'',
     ''aggregate'', ''count'', ''estimateddocumentcount'', ''distinct'', ''getmore'',
     ''killcursors'', ''insert'', ''update'', ''delete'', ''findandmodify'', ''create'',
     ''createindexes'', ''drop'', ''dropindexes'', ''listcollections'', ''listdatabases'',
     ''listindexes'', ''collstats'', ''dbstats'', ''explain'', ''endsessions'',
     ''committransaction'', ''aborttransaction'', ''starttransaction'']"

definition CommandLabel :: "bytes \<Rightarrow> bytes" where
  "CommandLabel name = (let c = to_lower (trim_space name) in
     if c = '''' then ''other'' else if List.member allowedCommands c then c else ''other'')"

type_synonym metric = "bytes \<times> bytes list \<times> int"

datatype Outcome = OutcomeHit | OutcomeMiss | OutcomeBypass

record Recorder =
  rec_CacheStats :: "StatsTracker option"
  rec_Savings :: "SavingsTracker option"
  rec_LegacyNS :: bool

text \<open>A nil recorder is \<open>None\<close>; the emitted metrics come first in the result.\<close>

definition RecordCacheOutcome ::
  "bytes \<Rightarrow> bytes \<Rightarrow> bytes \<Rightarrow> bytes \<Rightarrow> bytes \<Rightarrow> Outcome \<Rightarrow> int \<Rightarrow> bytes \<Rightarrow> Recorder option
     \<Rightarrow> metric list \<times> Recorder option" where
  "RecordCacheOutcome tenantID db coll nsLabel cmdLabel result n bypassReason r =
     (if tenantID = '''' then ([], r)
      else let cmd = CommandLabel cmdLabel;
               legacy = (case r of None \<Rightarrow> True | Some rc \<Rightarrow> rec_LegacyNS rc) in
      case result of
        OutcomeHit \<Rightarrow>
          ([(''CacheRequests'', [tenantID, ''hit''], 1)]
             @ (if n > 0 then [(''CacheBytesServed'', [tenantID, ''cache''], n)] else [])
             @ (if legacy then [(''CacheHits'', [tenantID, nsLabel, cmd], 1)] else []),
           map_option (\<lambda>rc. rc\<lparr>rec_CacheStats := RecordHit tenantID db coll (rec_CacheStats rc),
             rec_Savings := SavingsRecordHit tenantID n (rec_Savings rc)\<rparr>) r)
      | OutcomeMiss \<Rightarrow>
          ([(''CacheRequests'', [tenantID, ''miss''], 1)]
             @ (if n > 0 then [(''CacheBytesServed'', [tenantID, ''backend''], n)] else [])
             @ (if legacy then [(''CacheMisses'', [tenantID, nsLabel, cmd], 1)] else []),
           map_option (\<lambda>rc. rc\<lparr>rec_CacheStats := RecordMiss tenantID db coll (rec_CacheStats rc),
             rec_Savings := SavingsRecordMiss tenantID n (rec_Savings rc)\<rparr>) r)
      | OutcomeBypass \<Rightarrow>
          ([(''CacheRequests'', [tenantID, ''bypass''], 1),
            (''CacheBypass'', [tenantID, if bypassReason = '''' then ''unknown'' else bypassReason], 1)], r))"

section \<open>Agreement of the two trackers\<close>

definition ksum :: "('k \<Rightarrow> 'v \<Rightarrow> int) \<Rightarrow> ('k, 'v) gomap \<Rightarrow> int" where
  "ksum f m = sum_list (map (\<lambda>(k, v). f k v) m)"

lemma ksum_simps [simp]: "ksum f [] = 0" "ksum f ((k, v) # m) = f k v + ksum f m"
  by (simp_all add: ksum_def)

lemma ksum_put:
  "gm_wf m \<Longrightarrow> ksum f (gm_put m k v) = ksum f m - (case gm_get m k of None \<Rightarrow> 0 | Some w \<Rightarrow> f k w) + f k v"
proof (induction m)
  case (Cons p m)
  obtain j w where p: "p = (j, w)" by (cases p)
  show ?case
  proof (cases "j = k")
    case True
    with Cons.prems p have "gm_get m k = None" by (auto simp: gm_get_def gm_wf_def map_of_eq_None_iff)
    with True p show ?thesis by (simp add: gm_put_def gm_get_def)
  next
    case False
    with Cons p show ?thesis by (simp add: gm_put_def gm_get_def gm_wf_def)
  qed
qed (simp add: gm_put_def)

definition key_ok :: "bytes \<Rightarrow> bool" where
  "key_ok ks \<longleftrightarrow> (\<exists>t d c. ks = makeKey t d c \<and> c \<noteq> '''' \<and> NUL \<notin> set t \<and> NUL \<notin> set d)"

definition of_tenant :: "bytes \<Rightarrow> bytes \<Rightarrow> bool" where
  "of_tenant T ks \<longleftrightarrow> take (length (T @ [NUL])) ks = T @ [NUL]"

lemma split_first_nul_append: "NUL \<notin> set a \<Longrightarrow> split_first_nul (a @ NUL # b) = Some (a, b)"
  by (induction a) auto

lemma of_tenant_makeKey:
  assumes "NUL \<notin> set T" and "NUL \<notin> set t"
  shows "of_tenant T (makeKey t d c) \<longleftrightarrow> T = t"
proof
  assume "of_tenant T (makeKey t d c)"
  hence "has_prefix (makeKey t d c) (T @ [NUL])" by (simp add: of_tenant_def has_prefix_def)
  then obtain r where r: "t @ NUL # d @ [NUL] @ c = T @ NUL # r" by (auto simp: has_prefix_iff makeKey_def)
  have "split_first_nul (t @ NUL # d @ [NUL] @ c) = split_first_nul (T @ NUL # r)" by (simp only: r)
  thus "T = t" using assms by (simp add: split_first_nul_append)
qed (simp add: of_tenant_def makeKey_def)

lemma tenant_range_step:
  assumes "key_ok ks" and "NUL \<notin> set T"
  shows "\<exists>s. tenant_range fdiv now T ((ks, c) # m) out =
    tenant_range fdiv now T m (if of_tenant T ks then out\<lparr>ts_Hits := wrap64 (ts_Hits out + c_hits c),
      ts_Misses := wrap64 (ts_Misses out + c_misses c), ts_Collections := ts_Collections out @ [s]\<rparr> else out)"
proof -
  from assms(1) obtain t d k where k: "ks = makeKey t d k" "k \<noteq> ''''" "NUL \<notin> set t" "NUL \<notin> set d"
    by (auto simp: key_ok_def)
  show ?thesis
  proof (cases "of_tenant T ks")
    case True
    hence "T = t" using of_tenant_makeKey [OF assms(2) k(3)] k(1) by simp
    with True k split_first_nul_append [OF k(4), of k] show ?thesis
      by (simp add: makeKey_def of_tenant_def) blast
  next
    case False
    thus ?thesis by (simp add: of_tenant_def Let_def)
  qed
qed

definition sum_hits :: "bytes \<Rightarrow> StatsTracker \<Rightarrow> int" where
  "sum_hits T m = ksum (\<lambda>ks c. if of_tenant T ks then c_hits c else 0) m"

definition sum_misses :: "bytes \<Rightarrow> StatsTracker \<Rightarrow> int" where
  "sum_misses T m = ksum (\<lambda>ks c. if of_tenant T ks then c_misses c else 0) m"

definition stats_ok :: "StatsTracker \<Rightarrow> bool" where
  "stats_ok m \<longleftrightarrow> gm_wf m \<and> (\<forall>(ks, c) \<in> set m. key_ok ks \<and> 0 \<le> c_hits c \<and> 0 \<le> c_misses c)"

lemma sums_nonneg:
  "\<forall>(ks, c) \<in> set m. key_ok ks \<and> 0 \<le> c_hits c \<and> 0 \<le> c_misses c \<Longrightarrow> 0 \<le> sum_hits T m \<and> 0 \<le> sum_misses T m"
  unfolding sum_hits_def sum_misses_def by (induction m) auto

lemma tenant_range_sums:
  "\<forall>(ks, c) \<in> set m. key_ok ks \<and> 0 \<le> c_hits c \<and> 0 \<le> c_misses c \<Longrightarrow> NUL \<notin> set T \<Longrightarrow>
   0 \<le> ts_Hits out \<Longrightarrow> 0 \<le> ts_Misses out \<Longrightarrow>
   ts_Hits out + sum_hits T m < 2 ^ 63 \<Longrightarrow> ts_Misses out + sum_misses T m < 2 ^ 63 \<Longrightarrow>
   ts_Hits (tenant_range fdiv now T m out) = ts_Hits out + sum_hits T m
   \<and> ts_Misses (tenant_range fdiv now T m out) = ts_Misses out + sum_misses T m"
proof (induction m arbitrary: out)
  case (Cons p m)
  obtain ks c where p: "p = (ks, c)" by (cases p)
  have kc: "key_ok ks" "0 \<le> c_hits c" "0 \<le> c_misses c" using Cons.prems(1) p by auto
  have rest: "0 \<le> sum_hits T m" "0 \<le> sum_misses T m" using sums_nonneg [of m T] Cons.prems(1) by auto
  have s: "sum_hits T (p # m) = (if of_tenant T ks then c_hits c else 0) + sum_hits T m"
    "sum_misses T (p # m) = (if of_tenant T ks then c_misses c else 0) + sum_misses T m"
    by (simp_all add: sum_hits_def sum_misses_def p)
  obtain sn where st: "tenant_range fdiv now T ((ks, c) # m) out =
    tenant_range fdiv now T m (if of_tenant T ks then out\<lparr>ts_Hits := wrap64 (ts_Hits out + c_hits c),
      ts_Misses := wrap64 (ts_Misses out + c_misses c), ts_Collections := ts_Collections out @ [sn]\<rparr> else out)"
    using tenant_range_step [OF kc(1) Cons.prems(2)] by blast
  have w: "wrap64 (ts_Hits out + c_hits c) = ts_Hits out + c_hits c"
    "wrap64 (ts_Misses out + c_misses c) = ts_Misses out + c_misses c" if "of_tenant T ks"
    using that Cons.prems kc rest s by (auto simp: int64_range_def)
  show ?case
    unfolding p st using Cons.IH Cons.prems kc rest s w
    by (cases "of_tenant T ks") (simp_all add: p)
qed (simp add: sum_hits_def sum_misses_def)

text \<open>A recorded outcome: tenant, database, collection, labels, outcome, bytes, reason.\<close>

datatype cache_event = Ev bytes bytes bytes bytes bytes Outcome int bytes

fun record_event :: "cache_event \<Rightarrow> Recorder option \<Rightarrow> Recorder option" where
  "record_event (Ev t d c ns cmd res n why) r = snd (RecordCacheOutcome t d c ns cmd res n why r)"

fun event_ok :: "cache_event \<Rightarrow> bool" where
  "event_ok (Ev t d c ns cmd res n why) \<longleftrightarrow> t \<noteq> '''' \<and> c \<noteq> '''' \<and> NUL \<notin> set t \<and> NUL \<notin> set d"

definition count_events :: "bytes \<Rightarrow> Outcome \<Rightarrow> cache_event list \<Rightarrow> nat" where
  "count_events T o' evs =
     length (filter (\<lambda>e. case e of Ev t d c ns cmd res n why \<Rightarrow> t = T \<and> res = o') evs)"

lemma count_events_Cons:
  "count_events T o' (Ev t d c ns cmd res n why # evs) = (if t = T \<and> res = o' then 1 else 0) + count_events T o' evs"
  by (simp add: count_events_def)

text \<open>
  \<open>stats_acc T h n B m\<close>: the per-collection tracker has \<open>h\<close> hits and \<open>n\<close> misses for
  tenant \<open>T\<close>, and no counter exceeds \<open>B\<close>; \<open>savings_acc\<close> likewise for the other tracker.
\<close>

definition stats_acc :: "bytes \<Rightarrow> int \<Rightarrow> int \<Rightarrow> int \<Rightarrow> StatsTracker \<Rightarrow> bool" where
  "stats_acc T h n B m \<longleftrightarrow> stats_ok m
     \<and> (\<forall>ks c. gm_get m ks = Some c \<longrightarrow> c_hits c \<le> B \<and> c_misses c \<le> B)
     \<and> sum_hits T m = h \<and> sum_misses T m = n"

definition savings_acc :: "bytes \<Rightarrow> int \<Rightarrow> int \<Rightarrow> int \<Rightarrow> SavingsTracker \<Rightarrow> bool" where
  "savings_acc T h n B s \<longleftrightarrow> sv_hits (ensure T s) = h \<and> sv_misses (ensure T s) = n
     \<and> (\<forall>t. 0 \<le> sv_hits (ensure t s) \<and> sv_hits (ensure t s) \<le> B
          \<and> 0 \<le> sv_misses (ensure t s) \<and> sv_misses (ensure t s) \<le> B)"

lemma get_counters_bounds:
  assumes "stats_ok m" and "\<forall>ks c. gm_get m ks = Some c \<longrightarrow> c_hits c \<le> B \<and> c_misses c \<le> B" and "0 \<le> B"
  shows "0 \<le> c_hits (get_counters m k) \<and> c_hits (get_counters m k) \<le> B
    \<and> 0 \<le> c_misses (get_counters m k) \<and> c_misses (get_counters m k) \<le> B"
proof (cases "gm_get m k")
  case (Some c)
  moreover from Some assms(1) have "(k, c) \<in> set m" by (simp add: gm_get_in_set stats_ok_def)
  ultimately show ?thesis using assms by (auto simp: get_counters_def stats_ok_def)
qed (simp add: get_counters_def assms(3))

lemma stats_ok_put: "stats_ok m \<Longrightarrow> key_ok k \<Longrightarrow> 0 \<le> c_hits c \<Longrightarrow> 0 \<le> c_misses c \<Longrightarrow> stats_ok (gm_put m k c)"
  using gm_put_subset [of m k c] unfolding stats_ok_def by fastforce

lemma sum_put:
  assumes "stats_ok m"
  shows "sum_hits T (gm_put m k c) = sum_hits T m
      + (if of_tenant T k then c_hits c - c_hits (get_counters m k) else 0)"
    and "sum_misses T (gm_put m k c) = sum_misses T m
      + (if of_tenant T k then c_misses c - c_misses (get_counters m k) else 0)"
  using assms ksum_put [of m "\<lambda>ks c. if of_tenant T ks then c_hits c else 0" k c]
    ksum_put [of m "\<lambda>ks c. if of_tenant T ks then c_misses c else 0" k c]
  by (auto simp: sum_hits_def sum_misses_def stats_ok_def get_counters_def split: option.splits)

lemma ensure_put: "ensure t (gm_put s u c) = (if t = u then c else ensure t s)"
  by (simp add: ensure_def)

lemma stats_acc_put:
  assumes a: "stats_acc T h n B m" and e: "event_ok (Ev t d c ns cmd res k why)" and T: "NUL \<notin> set T"
    and b: "0 \<le> c_hits x" "c_hits x \<le> B + 1" "0 \<le> c_misses x" "c_misses x \<le> B + 1"
  shows "stats_acc T (h + (if t = T then c_hits x - c_hits (get_counters m (makeKey t d c)) else 0))
    (n + (if t = T then c_misses x - c_misses (get_counters m (makeKey t d c)) else 0)) (B + 1)
    (gm_put m (makeKey t d c) x)"
proof -
  let ?k = "makeKey t d c"
  have m: "stats_ok m" using a by (simp add: stats_acc_def)
  have ok: "key_ok ?k" and o: "of_tenant T ?k \<longleftrightarrow> t = T"
    using e T of_tenant_makeKey [of T t d c] by (auto simp: key_ok_def)
  have "stats_ok (gm_put m ?k x)" using b by (intro stats_ok_put [OF m ok]) auto
  moreover have "\<forall>ks y. gm_get (gm_put m ?k x) ks = Some y \<longrightarrow> c_hits y \<le> B + 1 \<and> c_misses y \<le> B + 1"
  proof (intro allI impI)
    fix ks y assume y: "gm_get (gm_put m ?k x) ks = Some y"
    show "c_hits y \<le> B + 1 \<and> c_misses y \<le> B + 1"
    proof (cases "ks = ?k")
      case False
      with y a have "c_hits y \<le> B \<and> c_misses y \<le> B" by (simp add: stats_acc_def)
      thus ?thesis by simp
    qed (use y b in simp)
  qed
  moreover have "sum_hits T m = h" "sum_misses T m = n" using a by (simp_all add: stats_acc_def)
  ultimately show ?thesis
    unfolding stats_acc_def sum_put [OF m] o by simp
qed

lemma record_stats:
  assumes a: "stats_acc T h n B m" and B: "0 \<le> B" "B + 1 < 2 ^ 63" and T: "NUL \<notin> set T"
    and e: "event_ok (Ev t d c ns cmd res k why)"
  shows "\<exists>m'. RecordHit t d c (Some m) = Some m' \<and> stats_acc T (h + (if t = T then 1 else 0)) n (B + 1) m'"
    and "\<exists>m'. RecordMiss t d c (Some m) = Some m' \<and> stats_acc T h (n + (if t = T then 1 else 0)) (B + 1) m'"
proof -
  let ?c = "get_counters m (makeKey t d c)"
  have cb: "0 \<le> c_hits ?c \<and> c_hits ?c \<le> B \<and> 0 \<le> c_misses ?c \<and> c_misses ?c \<le> B"
    using a B by (intro get_counters_bounds) (simp_all add: stats_acc_def)
  have w: "wrap64 (c_hits ?c + 1) = c_hits ?c + 1" "wrap64 (c_misses ?c + 1) = c_misses ?c + 1"
    using cb B by (intro wrap64_succ; simp)+
  have "stats_acc T (h + (if t = T then 1 else 0)) n (B + 1)
      (gm_put m (makeKey t d c) (?c\<lparr>c_hits := c_hits ?c + 1\<rparr>))"
    using stats_acc_put [OF a e T, of "?c\<lparr>c_hits := c_hits ?c + 1\<rparr>"] cb by (cases "t = T") simp_all
  with e w show "\<exists>m'. RecordHit t d c (Some m) = Some m' \<and> stats_acc T (h + (if t = T then 1 else 0)) n (B + 1) m'"
    by (simp add: RecordHit_def Let_def)
  have "stats_acc T h (n + (if t = T then 1 else 0)) (B + 1)
      (gm_put m (makeKey t d c) (?c\<lparr>c_misses := c_misses ?c + 1\<rparr>))"
    using stats_acc_put [OF a e T, of "?c\<lparr>c_misses := c_misses ?c + 1\<rparr>"] cb by (cases "t = T") simp_all
  with e w show "\<exists>m'. RecordMiss t d c (Some m) = Some m' \<and> stats_acc T h (n + (if t = T then 1 else 0)) (B + 1) m'"
    by (simp add: RecordMiss_def Let_def)
qed

lemma record_savings:
  assumes a: "savings_acc T h n B s" and B: "0 \<le> B" "B + 1 < 2 ^ 63"
  shows "\<exists>s'. SavingsRecordHit t k (Some s) = Some s' \<and> savings_acc T (h + (if t = T then 1 else 0)) n (B + 1) s'"
    and "\<exists>s'. SavingsRecordMiss t k (Some s) = Some s' \<and> savings_acc T h (n + (if t = T then 1 else 0)) (B + 1) s'"
proof -
  have b: "0 \<le> sv_hits (ensure u s) \<and> sv_hits (ensure u s) \<le> B
      \<and> 0 \<le> sv_misses (ensure u s) \<and> sv_misses (ensure u s) \<le> B" for u
    using a by (simp add: savings_acc_def)
  have w: "wrap64 (sv_hits (ensure t s) + 1) = sv_hits (ensure t s) + 1"
    "wrap64 (sv_misses (ensure t s) + 1) = sv_misses (ensure t s) + 1"
    using b [of t] B by (intro wrap64_succ; simp)+
  have le: "sv_hits (ensure u s) \<le> B + 1 \<and> sv_misses (ensure u s) \<le> B + 1" for u
    using b [of u] by simp
  show "\<exists>s'. SavingsRecordHit t k (Some s) = Some s' \<and> savings_acc T (h + (if t = T then 1 else 0)) n (B + 1) s'"
    "\<exists>s'. SavingsRecordMiss t k (Some s) = Some s' \<and> savings_acc T h (n + (if t = T then 1 else 0)) (B + 1) s'"
    using a b [of T] b [of t] b le w
    by (auto simp: SavingsRecordHit_def SavingsRecordMiss_def savings_acc_def ensure_put Let_def)
qed

definition accounts :: "bytes \<Rightarrow> int \<Rightarrow> int \<Rightarrow> int \<Rightarrow> Recorder option \<Rightarrow> bool" where
  "accounts T h n B r \<longleftrightarrow> (\<exists>rc m s. r = Some rc \<and> rec_CacheStats rc = Some m \<and> rec_Savings rc = Some s
     \<and> stats_acc T h n B m \<and> savings_acc T h n B s)"

lemma acc_mono:
  "stats_acc T h n B m \<Longrightarrow> stats_acc T h n (B + 1) m" "savings_acc T h n B s \<Longrightarrow> savings_acc T h n (B + 1) s"
proof -
  assume a: "stats_acc T h n B m"
  have "c_hits c \<le> B + 1 \<and> c_misses c \<le> B + 1" if "gm_get m ks = Some c" for ks c
    using a that unfolding stats_acc_def by (meson add_increasing2 order_trans zero_le_one)
  with a show "stats_acc T h n (B + 1) m" by (simp add: stats_acc_def)
next
  assume a: "savings_acc T h n B s"
  have "0 \<le> sv_hits (ensure t s) \<and> sv_hits (ensure t s) \<le> B + 1
      \<and> 0 \<le> sv_misses (ensure t s) \<and> sv_misses (ensure t s) \<le> B + 1" for t
    using a unfolding savings_acc_def by (meson add_increasing2 zero_le_one)
  with a show "savings_acc T h n (B + 1) s" by (simp add: savings_acc_def)
qed

lemma record_event_accounts:
  assumes "accounts T h n B r" and "0 \<le> B" "B + 1 < 2 ^ 63" and "NUL \<notin> set T" and "event_ok e"
  shows "accounts T (h + int (count_events T OutcomeHit [e])) (n + int (count_events T OutcomeMiss [e])) (B + 1)
    (record_event e r)"
proof (cases e)
  case (Ev t d c ns cmd res k why)
  from assms(1) obtain rc m s where r: "r = Some rc" "rec_CacheStats rc = Some m" "rec_Savings rc = Some s"
    "stats_acc T h n B m" "savings_acc T h n B s" by (auto simp: accounts_def)
  note st = record_stats [OF r(4) assms(2-4), of t d c ns cmd res k why]
  note sv = record_savings [OF r(5) assms(2,3), of t k]
  show ?thesis
    using st sv acc_mono(1) [OF r(4)] acc_mono(2) [OF r(5)] r assms(5) Ev
    by (cases res) (auto simp: accounts_def RecordCacheOutcome_def Let_def count_events_def)
qed

lemma record_run_accounts:
  "accounts T h n B r \<Longrightarrow> 0 \<le> B \<Longrightarrow> B + int (length evs) < 2 ^ 63 \<Longrightarrow> NUL \<notin> set T \<Longrightarrow> list_all event_ok evs \<Longrightarrow>
   accounts T (h + int (count_events T OutcomeHit evs)) (n + int (count_events T OutcomeMiss evs))
     (B + int (length evs)) (fold record_event evs r)"
proof (induction evs arbitrary: h n B r)
  case (Cons e evs)
  have c: "count_events T o' (e # evs) = count_events T o' [e] + count_events T o' evs" for o'
    by (simp add: count_events_def)
  have "accounts T (h + int (count_events T OutcomeHit [e])) (n + int (count_events T OutcomeMiss [e])) (B + 1)
      (record_event e r)"
    using Cons.prems by (intro record_event_accounts) simp_all
  from Cons.IH [OF this] Cons.prems show ?case by (simp add: c add.assoc)
qed (simp add: count_events_def)

section \<open>Properties\<close>

text \<open>
  The two accounts of cache efficiency agree with each other and with what happened: after
  any history of recorded outcomes with names free of NUL bytes, a tenant's hits (misses) summed
  over its collections in the per-collection tracker, the hits (misses) in its savings report,
  and the number of hit (miss) outcomes recorded for it are all equal.
\<close>

theorem trackers_agree:
  assumes "list_all event_ok evs" and "int (length evs) < 2 ^ 62" and "T \<noteq> ''''" and "NUL \<notin> set T"
    and "fold record_event evs (Some \<lparr>rec_CacheStats = Some [], rec_Savings = Some [], rec_LegacyNS = l\<rparr>) = Some rc"
  shows "ts_Hits (SnapshotTenant fdiv now T (rec_CacheStats rc)) = int (count_events T OutcomeHit evs)
    \<and> ts_Misses (SnapshotTenant fdiv now T (rec_CacheStats rc)) = int (count_events T OutcomeMiss evs)
    \<and> ss_Hits (SavingsSnapshotOf now T (rec_Savings rc)) = int (count_events T OutcomeHit evs)
    \<and> ss_Misses (SavingsSnapshotOf now T (rec_Savings rc)) = int (count_events T OutcomeMiss evs)"
proof -
  have "accounts T 0 0 0 (Some \<lparr>rec_CacheStats = Some [], rec_Savings = Some [], rec_LegacyNS = l\<rparr>)"
    by (simp add: accounts_def stats_acc_def savings_acc_def stats_ok_def sum_hits_def sum_misses_def ensure_def)
  from record_run_accounts [OF this, of evs] assms obtain m s where rc:
    "rec_CacheStats rc = Some m" "rec_Savings rc = Some s"
    and st: "stats_acc T (int (count_events T OutcomeHit evs)) (int (count_events T OutcomeMiss evs)) (int (length evs)) m"
    and sv: "savings_acc T (int (count_events T OutcomeHit evs)) (int (count_events T OutcomeMiss evs)) (int (length evs)) s"
    by (auto simp: accounts_def)
  have le: "count_events T o' evs \<le> length evs" for o' by (simp add: count_events_def)
  let ?o = "\<lparr>ts_TenantID = T, ts_Hits = 0, ts_Misses = 0, ts_HitRatio = F64 0, ts_Collections = [], ts_UpdatedAt = now\<rparr>"
  have "ts_Hits (tenant_range fdiv now T m ?o) = ts_Hits ?o + sum_hits T m
      \<and> ts_Misses (tenant_range fdiv now T m ?o) = ts_Misses ?o + sum_misses T m"
    using st assms(2,4) le [of OutcomeHit] le [of OutcomeMiss]
    by (intro tenant_range_sums) (auto simp: stats_acc_def stats_ok_def)
  with rc st sv assms(3) show ?thesis
    by (auto simp: SnapshotTenant_def SavingsSnapshotOf_def stats_acc_def savings_acc_def ensure_def Let_def
        split: option.splits)
qed

theorem trackers_agree_witness:
  "\<exists>rc. fold record_event [Ev ''t'' ''d'' ''a'' ''d.a'' ''find'' OutcomeMiss 10 '''',
      Ev ''t'' ''d'' ''a'' ''d.a'' ''find'' OutcomeHit 10 '''', Ev ''u'' ''d'' ''b'' ''d.b'' ''count'' OutcomeHit 5 '''']
     (Some \<lparr>rec_CacheStats = Some [], rec_Savings = Some [], rec_LegacyNS = False\<rparr>) = Some rc
   \<and> ts_Hits (SnapshotTenant (\<lambda>h t. F64 0) 9 ''t'' (rec_CacheStats rc)) = 1
   \<and> ss_Misses (SavingsSnapshotOf 9 ''t'' (rec_Savings rc)) = 1"
proof -
  let ?evs = "[Ev ''t'' ''d'' ''a'' ''d.a'' ''find'' OutcomeMiss 10 '''',
      Ev ''t'' ''d'' ''a'' ''d.a'' ''find'' OutcomeHit 10 '''', Ev ''u'' ''d'' ''b'' ''d.b'' ''count'' OutcomeHit 5 '''']"
  obtain rc where rc: "fold record_event ?evs
      (Some \<lparr>rec_CacheStats = Some [], rec_Savings = Some [], rec_LegacyNS = False\<rparr>) = Some rc"
    by (simp add: RecordCacheOutcome_def Let_def)
  have ok: "list_all event_ok ?evs" "int (length ?evs) < 2 ^ 62" "''t'' \<noteq> ''''" "NUL \<notin> set ''t''"
    by (simp_all add: NUL_def)
  from trackers_agree [OF ok rc, of "\<lambda>h t. F64 0" 9] rc show ?thesis by (simp add: count_events_def)
qed

end
