(* ===== verification/Region.thy ===== *)
theory Region
  imports Go_Lang "HOL-Library.Word"
begin

text \<open>
  \<open>internal/proxy/region/affinity.go\<close>: which of several proxy regions is home for a tenant.
  \<open>os.Getenv\<close> is the argument \<open>getenv\<close>; \<open>hash/fnv.New32a\<close> is the 32-bit FNV-1a hash.
\<close>

unbundle bit_operations_syntax

record RegionConfig =
  LocalRegion :: bytes
  HomeRegions :: "(bytes, bytes) gomap"
  KnownRegions :: "bytes list"

definition LoadFromEnv :: "(bytes \<Rightarrow> bytes) \<Rightarrow> RegionConfig" where
  "LoadFromEnv getenv =
     (let local = (if getenv ''NANCE_REGION'' = '''' then ''default'' else getenv ''NANCE_REGION'');
          k = getenv ''NANCE_KNOWN_REGIONS'';
          known = (if k = '''' then [] else filter (\<lambda>p. p \<noteq> '''') (map trim_space (split_on (CHR '','') k))) in
      \<lparr>LocalRegion = local, HomeRegions = [], KnownRegions = (if known = [] then [local] else known)\<rparr>)"

definition fnv32a :: "bytes \<Rightarrow> 32 word" where
  "fnv32a s = fold (\<lambda>c h. (h XOR of_nat (of_char c)) * 16777619) s 2166136261"

definition HomeRegion :: "RegionConfig \<Rightarrow> bytes \<Rightarrow> bytes" where
  "HomeRegion c tenantID =
     (case gm_get (HomeRegions c) tenantID of
        Some r \<Rightarrow> if r \<noteq> '''' then r
          else if KnownRegions c = [] then LocalRegion c
          else KnownRegions c ! (unat (fnv32a tenantID) mod length (KnownRegions c))
      | None \<Rightarrow> if KnownRegions c = [] then LocalRegion c
          else KnownRegions c ! (unat (fnv32a tenantID) mod length (KnownRegions c)))"

definition IsHome :: "RegionConfig \<Rightarrow> bytes \<Rightarrow> bool" where
  "IsHome c tenantID \<longleftrightarrow> HomeRegion c tenantID = LocalRegion c"

definition ShouldForwardMiss :: "RegionConfig \<Rightarrow> bytes \<Rightarrow> bool" where
  "ShouldForwardMiss c tenantID \<longleftrightarrow> \<not> IsHome c tenantID"

text \<open>
  Every tenant has exactly one home: for proxies started with the same list of known
  regions, whatever the environment, exactly one of the listed regions considers itself home
  for a given tenant, and all the others decide to forward its misses.
\<close>

theorem unique_home_region:
  assumes "getenv ''NANCE_KNOWN_REGIONS'' \<noteq> ''''"
    and "known = KnownRegions (LoadFromEnv getenv)"
  shows "\<exists>!r. r \<in> set known \<and> \<not> ShouldForwardMiss (LoadFromEnv getenv\<lparr>LocalRegion := r\<rparr>) t"
proof -
  have ne: "known \<noteq> []" using assms(2) by (simp add: LoadFromEnv_def Let_def)
  have h: "HomeRegion (LoadFromEnv getenv\<lparr>LocalRegion := r\<rparr>) t = known ! (unat (fnv32a t) mod length known)" for r
    using ne assms(2) by (simp add: HomeRegion_def LoadFromEnv_def Let_def)
  have "known ! (unat (fnv32a t) mod length known) \<in> set known" using ne by simp
  thus ?thesis by (auto simp: ShouldForwardMiss_def IsHome_def h)
qed

theorem unique_home_region_witness:
  "\<exists>!r. r \<in> {''eu'', ''us''} \<and> \<not> ShouldForwardMiss
     (LoadFromEnv (\<lambda>v. if v = ''NANCE_KNOWN_REGIONS'' then ''eu,us'' else '''')\<lparr>LocalRegion := r\<rparr>) ''acme''"
proof -
  let ?env = "\<lambda>v. if v = ''NANCE_KNOWN_REGIONS'' then ''eu,us'' else ''''"
  have k: "KnownRegions (LoadFromEnv ?env) = [''eu'', ''us'']" by code_simp
  show ?thesis using unique_home_region [of ?env "[''eu'', ''us'']" "''acme''"] k by simp
qed

end
