(* ===== verification/Rate_Limit.thy ===== *)
theory Rate_Limit
  imports Go_Lang
begin

text \<open>
  \<open>internal/proxy/ratelimit/limiter.go\<close>: the token bucket per tenant.  A \<open>float64\<close> that
  stays finite is a rational; \<open>rnd\<close> is the rounding of one floating-point operation.
  \<open>now\<close> is \<open>time.Now()\<close>, which Go reads monotonically.
\<close>

record bucket =
  b_tokens :: rat
  b_last :: time

record Limiter =
  l_buckets :: "(bytes, bucket) gomap"
  l_rate :: rat
  l_burst :: rat

definition NewLimiter :: "int \<Rightarrow> int \<Rightarrow> Limiter" where
  "NewLimiter qps burst =
     (let qps = (if qps \<le> 0 then 1000 else qps); burst = (if burst \<le> 0 then qps else burst) in
      \<lparr>l_buckets = [], l_rate = of_int qps, l_burst = of_int burst\<rparr>)"

text \<open>\<open>time.Duration.Seconds\<close>; Go's integer division truncates.\<close>

definition Seconds :: "(rat \<Rightarrow> rat) \<Rightarrow> int \<Rightarrow> rat" where
  "Seconds rnd d = (let sec = sgn d * (\<bar>d\<bar> div 1000000000); nsec = d - sec * 1000000000 in
     rnd (of_int sec + rnd (of_int nsec / 1000000000)))"

definition refill :: "(rat \<Rightarrow> rat) \<Rightarrow> Limiter \<Rightarrow> time \<Rightarrow> bucket \<Rightarrow> rat" where
  "refill rnd l now b =
     (let t = rnd (b_tokens b + rnd (Seconds rnd (now - b_last b) * l_rate l)) in
      if t > l_burst l then l_burst l else t)"

text \<open>A nil limiter is \<open>None\<close>.\<close>

definition Allow :: "(rat \<Rightarrow> rat) \<Rightarrow> time \<Rightarrow> bytes \<Rightarrow> Limiter option \<Rightarrow> bool \<times> Limiter option" where
  "Allow rnd now tenantID lo = (case lo of None \<Rightarrow> (True, lo) | Some l \<Rightarrow>
     if tenantID = '''' then (True, lo)
     else case gm_get (l_buckets l) tenantID of
         None \<Rightarrow> (True, Some (l\<lparr>l_buckets := gm_put (l_buckets l) tenantID
           \<lparr>b_tokens = rnd (l_burst l - 1), b_last = now\<rparr>\<rparr>))
       | Some b \<Rightarrow>
           let t = refill rnd l now b in
           if t < 1 then (False, Some (l\<lparr>l_buckets := gm_put (l_buckets l) tenantID \<lparr>b_tokens = t, b_last = now\<rparr>\<rparr>))
           else (True, Some (l\<lparr>l_buckets := gm_put (l_buckets l) tenantID
             \<lparr>b_tokens = rnd (t - 1), b_last = now\<rparr>\<rparr>)))"

definition Prune :: "time \<Rightarrow> int \<Rightarrow> Limiter option \<Rightarrow> Limiter option" where
  "Prune now idle lo = map_option (\<lambda>l. let cutoff = now - idle in
     l\<lparr>l_buckets := gm_drop (\<lambda>b. b_last b < cutoff) (l_buckets l)\<rparr>) lo"

section \<open>Histories of requests\<close>

fun allow_run :: "(rat \<Rightarrow> rat) \<Rightarrow> (time \<times> bytes) list \<Rightarrow> Limiter option \<Rightarrow> bool list \<times> Limiter option" where
  "allow_run rnd [] l = ([], l)"
| "allow_run rnd ((now, t) # reqs) l = (case Allow rnd now t l of (ok, l1) \<Rightarrow>
     (case allow_run rnd reqs l1 of (oks, l2) \<Rightarrow> (ok # oks, l2)))"

definition admitted :: "bytes \<Rightarrow> (time \<times> bytes) list \<Rightarrow> bool list \<Rightarrow> nat" where
  "admitted T reqs oks = length (filter (\<lambda>((now, t), ok). t = T \<and> ok) (zip reqs oks))"

definition asked :: "bytes \<Rightarrow> (time \<times> bytes) list \<Rightarrow> nat" where
  "asked T reqs = length (filter (\<lambda>(now, t). t = T) reqs)"

text \<open>
  What is assumed of the arithmetic: one refill or one withdrawal from a bucket is off by at
  most \<open>err\<close> upwards (in doubles, a few units in the last place of the burst), and rounding
  keeps signs.
\<close>

definition rounding_error :: "(rat \<Rightarrow> rat) \<Rightarrow> rat \<Rightarrow> rat \<Rightarrow> rat \<Rightarrow> bool" where
  "rounding_error rnd err rate burst \<longleftrightarrow> 0 \<le> err \<and> (\<forall>x. 0 \<le> x \<longrightarrow> 0 \<le> rnd x)
     \<and> (\<forall>t d. t \<le> burst \<and> 0 \<le> d \<longrightarrow>
          rnd (t + rnd (Seconds rnd d * rate)) \<le> t + of_int d / 1000000000 * rate + err)
     \<and> (\<forall>t. t \<le> burst \<longrightarrow> rnd (t - 1) \<le> t - 1 + err)
     \<and> (\<forall>t. t \<le> burst \<longrightarrow> rnd (t - 1) \<le> burst)"

text \<open>
  The potential: what was admitted plus what is left in the bucket.
\<close>

definition fits :: "bytes \<Rightarrow> time \<Rightarrow> rat \<Rightarrow> nat \<Rightarrow> nat \<Rightarrow> time \<Rightarrow> Limiter \<Rightarrow> bool" where
  "fits T t0 err a n now l \<longleftrightarrow> (case gm_get (l_buckets l) T of
      None \<Rightarrow> a = 0
    | Some b \<Rightarrow> 0 \<le> b_tokens b \<and> b_tokens b \<le> l_burst l \<and> t0 \<le> b_last b \<and> b_last b \<le> now
        \<and> of_nat a + b_tokens b \<le> l_burst l + l_rate l * (of_int (b_last b - t0) / 1000000000)
            + 2 * of_nat n * err)"

lemma Seconds_nonneg:
  assumes "\<forall>x. 0 \<le> x \<longrightarrow> 0 \<le> rnd x" and "0 \<le> d"
  shows "0 \<le> Seconds rnd d"
proof -
  have s: "sgn d * (\<bar>d\<bar> div 1000000000) = d div 1000000000"
    using assms(2) by (cases "d = 0") simp_all
  have m: "d - d div 1000000000 * 1000000000 = d mod 1000000000"
    by (simp add: minus_div_mult_eq_mod)
  have "0 \<le> (of_int (d mod 1000000000) :: rat)" "0 \<le> (of_int (d div 1000000000) :: rat)"
    using assms(2) by (simp_all add: pos_imp_zdiv_nonneg_iff)
  with assms(1) show ?thesis unfolding Seconds_def Let_def s m by simp
qed

lemma refill_bound:
  assumes "rounding_error rnd err (l_rate l) (l_burst l)" and "0 \<le> b_tokens b" "b_tokens b \<le> l_burst l"
    and "b_last b \<le> now" and "0 \<le> l_rate l"
  shows "0 \<le> refill rnd l now b \<and> refill rnd l now b \<le> l_burst l
    \<and> refill rnd l now b \<le> b_tokens b + of_int (now - b_last b) / 1000000000 * l_rate l + err"
proof -
  have "rnd (b_tokens b + rnd (Seconds rnd (now - b_last b) * l_rate l))
      \<le> b_tokens b + of_int (now - b_last b) / 1000000000 * l_rate l + err"
    using assms unfolding rounding_error_def by (meson diff_ge_0_iff_ge)
  moreover have "0 \<le> rnd (b_tokens b + rnd (Seconds rnd (now - b_last b) * l_rate l))"
    using assms Seconds_nonneg [of rnd "now - b_last b"] unfolding rounding_error_def
    by (simp add: mult_nonneg_nonneg)
  ultimately show ?thesis using assms(2,3) by (auto simp: refill_def Let_def)
qed

lemma Allow_fits:
  assumes r: "rounding_error rnd err (l_rate l) (l_burst l)" and T: "T \<noteq> ''''" and rate: "0 \<le> l_rate l" "1 \<le> l_burst l"
    and f: "fits T t0 err a n now l" and t0: "t0 \<le> now" "now \<le> now'"
    and al: "Allow rnd now' t (Some l) = (ok, lo)"
  shows "\<exists>l'. lo = Some l' \<and> l_rate l' = l_rate l \<and> l_burst l' = l_burst l
    \<and> fits T t0 err (a + (if t = T \<and> ok then 1 else 0)) (n + (if t = T then 1 else 0)) now' l'"
proof (cases "t = T")
  case False
  with al f t0 show ?thesis
    by (auto simp: Allow_def fits_def Let_def split: if_splits option.splits)
next
  case True
  have e: "0 \<le> err" using r by (simp add: rounding_error_def)
  have nn: "0 \<le> rnd (x - 1)" if "1 \<le> x" for x using r that by (simp add: rounding_error_def)
  have w: "rnd (x - 1) \<le> x - 1 + err" "rnd (x - 1) \<le> l_burst l" if "x \<le> l_burst l" for x
    using r that by (auto simp: rounding_error_def)
  have rt: "0 \<le> l_rate l * (of_int (now' - t0) / 1000000000)"
    using rate t0 by (intro mult_nonneg_nonneg) auto
  show ?thesis
  proof (cases "gm_get (l_buckets l) T")
    case None
    with f have "a = 0" by (simp add: fits_def)
    moreover have "1 + rnd (l_burst l - 1) \<le> l_burst l + l_rate l * (of_int (now' - t0) / 1000000000)
        + 2 * of_nat (n + 1) * err"
    proof -
      have "err \<le> 2 * of_nat (n + 1) * err" using e mult_right_mono [of 1 "2 * of_nat (n + 1)" err] by simp
      with w(1) [of "l_burst l"] rt show ?thesis by linarith
    qed
    ultimately show ?thesis
      using None True al T t0 w(2) [of "l_burst l"] nn [OF rate(2)] by (auto simp: Allow_def fits_def)
  next
    case (Some b)
    with f have b0: "0 \<le> b_tokens b" and b: "b_tokens b \<le> l_burst l" "t0 \<le> b_last b" "b_last b \<le> now"
      "of_nat a + b_tokens b \<le> l_burst l + l_rate l * (of_int (b_last b - t0) / 1000000000) + 2 * of_nat n * err"
      by (auto simp: fits_def)
    define tk where "tk = refill rnd l now' b"
    have tk0: "0 \<le> tk" and tk: "tk \<le> l_burst l" "tk \<le> b_tokens b + of_int (now' - b_last b) / 1000000000 * l_rate l + err"
      using refill_bound [OF r b0 b(1), of now'] b(3) t0(2) rate(1) by (simp_all add: tk_def)
    have d: "of_int (now' - b_last b) / 1000000000 * l_rate l + l_rate l * (of_int (b_last b - t0) / 1000000000)
        = l_rate l * (of_int (now' - t0) / 1000000000)"
      by (simp add: field_simps)
    have n: "2 * of_nat (n + 1) * err = 2 * of_nat n * err + 2 * err" by (simp add: algebra_simps)
    have a1: "of_nat a + tk \<le> l_burst l + l_rate l * (of_int (now' - t0) / 1000000000) + 2 * of_nat (n + 1) * err"
      using tk(2) b(4) d n e by linarith
    have a2: "of_nat a + 1 + rnd (tk - 1) \<le> l_burst l + l_rate l * (of_int (now' - t0) / 1000000000)
        + 2 * of_nat (n + 1) * err"
      using tk(2) b(4) d n w(1) [OF tk(1)] by linarith
    show ?thesis
      using Some True al T t0 b tk(1) tk0 nn [of tk] a1 a2 w(2) [OF tk(1)]
      by (auto simp: Allow_def fits_def Let_def tk_def [symmetric] split: if_splits)
  qed
qed

lemma allow_run_fits:
  "rounding_error rnd err (l_rate l) (l_burst l) \<Longrightarrow> T \<noteq> '''' \<Longrightarrow> 0 \<le> l_rate l \<Longrightarrow> 1 \<le> l_burst l \<Longrightarrow>
   fits T t0 err a n now l \<Longrightarrow> t0 \<le> now \<Longrightarrow> sorted (now # map fst reqs) \<Longrightarrow>
   allow_run rnd reqs (Some l) = (oks, lo) \<Longrightarrow>
   \<exists>l'. lo = Some l' \<and> l_rate l' = l_rate l \<and> l_burst l' = l_burst l
     \<and> fits T t0 err (a + admitted T reqs oks) (n + asked T reqs) (last (now # map fst reqs)) l'"
proof (induction reqs arbitrary: l a n now oks lo)
  case Nil
  thus ?case by (auto simp: admitted_def asked_def)
next
  case (Cons req reqs)
  obtain now' t where req: "req = (now', t)" by (cases req)
  obtain ok l1 where al: "Allow rnd now' t (Some l) = (ok, l1)" by (metis prod.exhaust)
  obtain oks' l2 where run: "allow_run rnd reqs l1 = (oks', l2)" by (metis prod.exhaust)
  have res: "oks = ok # oks'" "lo = l2" using Cons.prems(8) req al run by simp_all
  have le: "now \<le> now'" using Cons.prems(7) req by simp
  obtain l' where l': "l1 = Some l'" "l_rate l' = l_rate l" "l_burst l' = l_burst l"
    "fits T t0 err (a + (if t = T \<and> ok then 1 else 0)) (n + (if t = T then 1 else 0)) now' l'"
    using Allow_fits [OF Cons.prems(1-6) le al] by blast
  have "\<exists>l''. l2 = Some l'' \<and> l_rate l'' = l_rate l' \<and> l_burst l'' = l_burst l'
      \<and> fits T t0 err (a + (if t = T \<and> ok then 1 else 0) + admitted T reqs oks')
          (n + (if t = T then 1 else 0) + asked T reqs) (last (now' # map fst reqs)) l''"
    using Cons.prems(1-7) l' le run req by (intro Cons.IH) (simp_all del: of_nat_add)
  moreover have "admitted T (req # reqs) oks = (if t = T \<and> ok then 1 else 0) + admitted T reqs oks'"
    "asked T (req # reqs) = (if t = T then 1 else 0) + asked T reqs"
    by (simp_all add: admitted_def asked_def req res)
  ultimately show ?case using l' res req by (simp add: add.assoc)
qed

section \<open>Properties\<close>


lemma Seconds_exact: "Seconds (\<lambda>x. x) d = of_int d / 1000000000"
  by (simp add: Seconds_def Let_def field_simps)


lemma Allow_same_instant:
  assumes rnd: "\<forall>k. 0 \<le> k \<and> k \<le> B \<longrightarrow> rnd (of_int k) = of_int k" and T: "T \<noteq> ''''"
    and l: "l_burst l = of_int B" "gm_get (l_buckets l) T = Some \<lparr>b_tokens = of_int k, b_last = now\<rparr>"
    and k: "0 \<le> k" "k \<le> B"
  shows "\<exists>l'. Allow rnd now T (Some l) = (0 < k, Some l') \<and> l_burst l' = of_int B
    \<and> gm_get (l_buckets l') T = Some \<lparr>b_tokens = of_int (if 0 < k then k - 1 else 0), b_last = now\<rparr>"
proof -
  have z: "rnd 0 = 0" using rnd [rule_format, of 0] k by simp
  have t: "refill rnd l now \<lparr>b_tokens = of_int k, b_last = now\<rparr> = of_int k"
    using k l(1) rnd by (simp add: refill_def Seconds_def z Let_def)
  have m: "rnd (of_int k - 1) = of_int (k - 1)" if "0 < k"
    using rnd [rule_format, of "k - 1"] that k by simp
  have lt: "(of_int k < (1::rat)) = (k < 1)" using of_int_less_iff [of k 1] by simp
  show ?thesis
    using T l t m k by (cases "0 < k") (auto simp: Allow_def Let_def lt)
qed

lemma run_same_instant:
  assumes rnd: "\<forall>k. 0 \<le> k \<and> k \<le> B \<longrightarrow> rnd (of_int k) = of_int k" and T: "T \<noteq> ''''"
  shows "l_burst l = of_int B \<Longrightarrow> gm_get (l_buckets l) T = Some \<lparr>b_tokens = of_int k, b_last = now\<rparr> \<Longrightarrow>
    0 \<le> k \<Longrightarrow> k \<le> B \<Longrightarrow>
    fst (allow_run rnd (replicate n (now, T)) (Some l)) = map (\<lambda>i. int i < k) [0..<n]"
proof (induction n arbitrary: l k)
  case (Suc n)
  obtain l' where l': "Allow rnd now T (Some l) = (0 < k, Some l')" "l_burst l' = of_int B"
    "gm_get (l_buckets l') T = Some \<lparr>b_tokens = of_int (if 0 < k then k - 1 else 0), b_last = now\<rparr>"
    using Allow_same_instant [OF rnd T Suc.prems] by blast
  have ih: "fst (allow_run rnd (replicate n (now, T)) (Some l')) =
      map (\<lambda>i. int i < (if 0 < k then k - 1 else 0)) [0..<n]"
    using Suc.prems by (intro Suc.IH [OF l'(2,3)]) auto
  have "map (\<lambda>i. int i < (if 0 < k then k - 1 else 0)) [0..<n] = map (\<lambda>i. int (Suc i) < k) [0..<n]"
    using Suc.prems(3) by (intro map_cong) auto
  hence "(0 < k) # fst (allow_run rnd (replicate n (now, T)) (Some l')) = map (\<lambda>i. int i < k) [0..<Suc n]"
    unfolding ih map_upt_Suc by simp
  with l'(1) show ?case by (simp add: case_prod_beta)
qed simp

text \<open>
  C30. The burst is exact: with any rounding that is exact on the integers up to the burst, a
  tenant the limiter has not seen gets precisely \<open>burst\<close> of the commands it sends at one
  instant, the first ones, and all others are refused.
\<close>

theorem limiter_burst_exact:
  assumes "0 < burst" and "\<forall>k. 0 \<le> k \<and> k \<le> burst \<longrightarrow> rnd (of_int k) = of_int k" and "T \<noteq> ''''"
  shows "fst (allow_run rnd (replicate n (now, T)) (Some (NewLimiter qps burst)))
    = map (\<lambda>i. int i < burst) [0..<n]"
proof (cases n)
  case (Suc m)
  let ?l = "NewLimiter qps burst"
  let ?b = "\<lparr>b_tokens = of_int (burst - 1), b_last = now\<rparr>"
  have l: "l_burst ?l = of_int burst" "l_buckets ?l = []" using assms(1) by (simp_all add: NewLimiter_def Let_def)
  have "rnd (of_int burst - 1) = of_int (burst - 1)"
    using assms(2) [rule_format, of "burst - 1"] assms(1) by simp
  hence a: "Allow rnd now T (Some ?l) = (True, Some (?l\<lparr>l_buckets := gm_put [] T ?b\<rparr>))"
    using l assms(3) by (simp add: Allow_def)
  have "fst (allow_run rnd (replicate m (now, T)) (Some (?l\<lparr>l_buckets := gm_put [] T ?b\<rparr>)))
      = map (\<lambda>i. int i < burst - 1) [0..<m]"
    by (rule run_same_instant [OF assms(2,3)]) (use assms(1) l in simp_all)
  moreover have "map (\<lambda>i. int i < burst) [0..<Suc m] = (0 < burst) # map (\<lambda>i. int i < burst - 1) [0..<m]"
    unfolding map_upt_Suc by (auto intro!: map_cong)
  ultimately show ?thesis using Suc a assms(1) by (simp add: case_prod_beta)
qed simp

theorem limiter_burst_exact_witness:
  "fst (allow_run (\<lambda>x. x) (replicate 5 (7, ''t'')) (Some (NewLimiter 10 3))) = [True, True, True, False, False]"
proof -
  have "map (\<lambda>i. int i < 3) [0..<5] = [True, True, True, False, False]" by code_simp
  thus ?thesis by (subst limiter_burst_exact) simp_all
qed

end
