(* ===== verification/Model.thy ===== *)
theory Model
  imports Go_Lang
begin

text \<open>
  \<open>internal/model\<close>: the entities shared by the control plane and the proxy.  A pointer to a
  time or to an integer that may be nil is an \<open>option\<close>.
\<close>

record Tenant =
  tn_ID :: bytes
  tn_Name :: bytes
  tn_Status :: bytes
  tn_CreatedAt :: time
  tn_UpdatedAt :: time

record User =
  us_ID :: bytes
  us_Email :: bytes
  us_Name :: bytes
  us_CreatedAt :: time
  us_UpdatedAt :: time
  us_HasPassword :: bool

text \<open>\<open>MemberRole\<close> is a string type; the three constants are its intended values.\<close>

definition RoleOwner :: bytes where "RoleOwner = ''owner''"
definition RoleAdmin :: bytes where "RoleAdmin = ''admin''"
definition RoleMember :: bytes where "RoleMember = ''member''"

record OrganizationMember =
  om_TenantID :: bytes
  om_UserID :: bytes
  om_Email :: bytes
  om_Name :: bytes
  om_Role :: bytes
  om_CreatedAt :: time

record OrganizationInvite =
  iv_ID :: bytes
  iv_TenantID :: bytes
  iv_TenantName :: bytes
  iv_Email :: bytes
  iv_Role :: bytes
  iv_InvitedBy :: bytes
  iv_ExpiresAt :: time
  iv_AcceptedAt :: "time option"
  iv_CreatedAt :: time
  iv_RawToken :: bytes

record OrganizationSummary =
  os_Tenant :: Tenant
  os_Role :: bytes

record CollectionPolicy =
  cl_Enabled :: bool
  cl_TTLSeconds :: int
  cl_MaxResultBytes :: "int option"

record CachePolicy =
  po_ConnectionID :: bytes
  po_TenantID :: bytes
  po_DefaultTtlSeconds :: int
  po_Collections :: "(bytes, CollectionPolicy) gomap"
  po_CacheKeyVersion :: int
  po_UpdatedAt :: time

record Token =
  tk_ID :: bytes
  tk_TenantID :: bytes
  tk_ConnectionID :: bytes
  tk_Description :: bytes
  tk_CreatedAt :: time
  tk_ExpiresAt :: "time option"
  tk_RevokedAt :: "time option"
  tk_ReenableUntil :: "time option"

record Connection =
  cn_ID :: bytes
  cn_TenantID :: bytes
  cn_Name :: bytes
  cn_URICiphertext :: bytes
  cn_Nonce :: bytes
  cn_DEKVersion :: bytes
  cn_AutoInvalidateOnWrite :: bool
  cn_LastValidatedAt :: "time option"
  cn_CreatedAt :: time
  cn_UpdatedAt :: time

text \<open>\<open>store.TokenHashRow\<close> and the errors of \<open>store.Store\<close>.\<close>

record TokenHashRow =
  th_ID :: bytes
  th_TokenHash :: bytes
  th_LookupHash :: bytes
  th_ConnectionID :: bytes

datatype store_err = ErrNotFound | ErrDuplicate | StoreError bytes

text \<open>A token is usable: not revoked, bound to a connection, and not past its expiry.\<close>

definition token_active :: "time \<Rightarrow> Token \<Rightarrow> bool" where
  "token_active now t \<longleftrightarrow> tk_RevokedAt t = None \<and> tk_ConnectionID t \<noteq> ''''
     \<and> (case tk_ExpiresAt t of None \<Rightarrow> True | Some e \<Rightarrow> \<not> e < now)"

end
