(* ===== verification/Control_Store.thy ===== *)
theory Control_Store
  imports Model
begin

text \<open>
  \<open>internal/controlplane/store/memory.go\<close>: the in-memory control-plane store.  Rows that the
  code holds through pointers are values in the maps; where a returned copy shares nothing with
  the stored row, so does a value here.  \<open>usersByEmail\<close> maps to the same row as \<open>users\<close>
  in the code, so here it maps to the row's id.  \<open>now\<close> is \<open>time.Now().UTC()\<close>.
\<close>

section \<open>State\<close>

record pwResetRow =
  pr_id :: bytes
  pr_userID :: bytes
  pr_expiresAt :: time
  pr_used :: bool

record tokenRow =
  tr_tok :: Token
  tr_hash :: bytes
  tr_lookup :: bytes

record emailCode =
  ec_hash :: bytes
  ec_expires :: time
  ec_attempts :: int

record sessionRow =
  sr_id :: bytes
  sr_userID :: bytes
  sr_expiresAt :: time

record inviteRow =
  ir_inv :: OrganizationInvite
  ir_hash :: bytes

record ControlStore =
  m_tenants :: "(bytes, Tenant) gomap"
  m_connections :: "(bytes, Connection) gomap"
  m_policies :: "(bytes, CachePolicy) gomap"
  m_tokens :: "(bytes, tokenRow) gomap"
  m_users :: "(bytes, User) gomap"
  m_usersByEmail :: "(bytes, bytes) gomap"
  m_userPasswords :: "(bytes, bytes) gomap"
  m_passwordResets :: "(bytes, pwResetRow) gomap"
  m_emailCodes :: "(bytes, emailCode) gomap"
  m_sessions :: "(bytes, sessionRow) gomap"
  m_members :: "(bytes, (bytes, bytes) gomap) gomap"
  m_invites :: "(bytes, inviteRow) gomap"
  m_audits :: int

definition NewControlStore :: ControlStore where
  "NewControlStore = \<lparr>m_tenants = [], m_connections = [], m_policies = [], m_tokens = [],
     m_users = [], m_usersByEmail = [], m_userPasswords = [], m_passwordResets = [], m_emailCodes = [],
     m_sessions = [], m_members = [], m_invites = [], m_audits = 0\<rparr>"

type_synonym 'a stored = "(store_err + 'a) \<times> ControlStore"

section \<open>Tenants\<close>

definition CreateTenant :: "Tenant \<Rightarrow> ControlStore \<Rightarrow> store_err option \<times> ControlStore" where
  "CreateTenant t m = (None, m\<lparr>m_tenants := gm_put (m_tenants m) (tn_ID t) t\<rparr>)"

definition GetTenant :: "bytes \<Rightarrow> ControlStore \<Rightarrow> store_err + Tenant" where
  "GetTenant i m = (case gm_get (m_tenants m) i of None \<Rightarrow> Inl ErrNotFound | Some t \<Rightarrow> Inr t)"

definition ListTenants :: "ControlStore \<Rightarrow> store_err + Tenant list" where
  "ListTenants m = Inr (map snd (m_tenants m))"

definition DeleteTenant :: "bytes \<Rightarrow> ControlStore \<Rightarrow> store_err option \<times> ControlStore" where
  "DeleteTenant i m = (case gm_get (m_tenants m) i of
      None \<Rightarrow> (Some ErrNotFound, m)
    | Some _ \<Rightarrow> (None, m\<lparr>m_tenants := gm_del (m_tenants m) i, m_policies := gm_del (m_policies m) i,
        m_members := gm_del (m_members m) i,
        m_connections := gm_drop (\<lambda>c. cn_TenantID c = i) (m_connections m),
        m_invites := gm_drop (\<lambda>r. iv_TenantID (ir_inv r) = i) (m_invites m),
        m_tokens := gm_drop (\<lambda>r. tk_TenantID (tr_tok r) = i) (m_tokens m)\<rparr>))"

section \<open>Connections\<close>

definition CreateConnection :: "Connection \<Rightarrow> ControlStore \<Rightarrow> store_err option \<times> ControlStore" where
  "CreateConnection c m =
     (if list_ex (\<lambda>e. cn_TenantID e = cn_TenantID c \<and> equal_fold (cn_Name e) (cn_Name c)) (map snd (m_connections m))
      then (Some ErrDuplicate, m)
      else (None, m\<lparr>m_connections := gm_put (m_connections m) (cn_ID c) c\<rparr>))"

definition update_connection ::
  "bytes \<Rightarrow> (Connection \<Rightarrow> Connection) \<Rightarrow> ControlStore \<Rightarrow> store_err option \<times> ControlStore" where
  "update_connection i f m = (case gm_get (m_connections m) i of
      None \<Rightarrow> (Some ErrNotFound, m)
    | Some c \<Rightarrow> (None, m\<lparr>m_connections := gm_put (m_connections m) i (f c)\<rparr>))"

definition UpdateConnectionURI ::
  "time \<Rightarrow> bytes \<Rightarrow> bytes \<Rightarrow> bytes \<Rightarrow> bytes \<Rightarrow> ControlStore \<Rightarrow> store_err option \<times> ControlStore" where
  "UpdateConnectionURI now i ciphertext nonce dekVersion m = update_connection i
     (\<lambda>c. c\<lparr>cn_URICiphertext := ciphertext, cn_Nonce := nonce, cn_DEKVersion := dekVersion, cn_UpdatedAt := now\<rparr>) m"

definition UpdateConnectionName :: "time \<Rightarrow> bytes \<Rightarrow> bytes \<Rightarrow> ControlStore \<Rightarrow> store_err option \<times> ControlStore" where
  "UpdateConnectionName now i name m = (case gm_get (m_connections m) i of
      None \<Rightarrow> (Some ErrNotFound, m)
    | Some c \<Rightarrow>
        if list_ex (\<lambda>e. cn_ID e \<noteq> i \<and> cn_TenantID e = cn_TenantID c \<and> equal_fold (cn_Name e) name)
             (map snd (m_connections m))
        then (Some ErrDuplicate, m)
        else update_connection i (\<lambda>c. c\<lparr>cn_Name := name, cn_UpdatedAt := now\<rparr>) m)"

definition UpdateConnectionAutoInvalidate ::
  "time \<Rightarrow> bytes \<Rightarrow> bool \<Rightarrow> ControlStore \<Rightarrow> store_err option \<times> ControlStore" where
  "UpdateConnectionAutoInvalidate now i enabled m = update_connection i
     (\<lambda>c. c\<lparr>cn_AutoInvalidateOnWrite := enabled, cn_UpdatedAt := now\<rparr>) m"

definition GetConnection :: "bytes \<Rightarrow> ControlStore \<Rightarrow> store_err + Connection" where
  "GetConnection i m = (case gm_get (m_connections m) i of None \<Rightarrow> Inl ErrNotFound | Some c \<Rightarrow> Inr c)"

definition ListConnections :: "bytes \<Rightarrow> ControlStore \<Rightarrow> store_err + Connection list" where
  "ListConnections t m = Inr (filter (\<lambda>c. cn_TenantID c = t) (map snd (m_connections m)))"

definition DeleteConnection :: "bytes \<Rightarrow> ControlStore \<Rightarrow> store_err option \<times> ControlStore" where
  "DeleteConnection i m = (case gm_get (m_connections m) i of
      None \<Rightarrow> (Some ErrNotFound, m)
    | Some _ \<Rightarrow> (None, m\<lparr>m_connections := gm_del (m_connections m) i,
        m_tokens := gm_drop (\<lambda>r. tk_ConnectionID (tr_tok r) = i) (m_tokens m)\<rparr>))"

definition UpdateConnectionValidated :: "time \<Rightarrow> bytes \<Rightarrow> ControlStore \<Rightarrow> store_err option \<times> ControlStore" where
  "UpdateConnectionValidated now i m = update_connection i
     (\<lambda>c. c\<lparr>cn_LastValidatedAt := Some now, cn_UpdatedAt := now\<rparr>) m"

section \<open>Policies\<close>

definition GetCachePolicy :: "bytes \<Rightarrow> ControlStore \<Rightarrow> store_err + CachePolicy" where
  "GetCachePolicy i m = (case gm_get (m_policies m) i of
      Some p \<Rightarrow> Inr p
    | None \<Rightarrow> Inr \<lparr>po_ConnectionID = i,
        po_TenantID = (case gm_get (m_connections m) i of None \<Rightarrow> '''' | Some c \<Rightarrow> cn_TenantID c),
        po_DefaultTtlSeconds = 60, po_Collections = [], po_CacheKeyVersion = 1, po_UpdatedAt = 0\<rparr>)"

definition UpsertCachePolicy :: "CachePolicy \<Rightarrow> ControlStore \<Rightarrow> store_err option \<times> ControlStore" where
  "UpsertCachePolicy p m = (None, m\<lparr>m_policies := gm_put (m_policies m) (po_ConnectionID p) p\<rparr>)"

definition ListAllCachePolicies :: "ControlStore \<Rightarrow> store_err + CachePolicy list" where
  "ListAllCachePolicies m = Inr (map snd (m_policies m))"

section \<open>Tokens\<close>

definition CreateToken :: "Token \<Rightarrow> bytes \<Rightarrow> bytes \<Rightarrow> ControlStore \<Rightarrow> store_err option \<times> ControlStore" where
  "CreateToken tok tokenHash lookupHash m =
     (None, m\<lparr>m_tokens := gm_put (m_tokens m) (tk_ID tok) \<lparr>tr_tok = tok, tr_hash = tokenHash, tr_lookup = lookupHash\<rparr>\<rparr>)"

definition GetTokenByID :: "bytes \<Rightarrow> ControlStore \<Rightarrow> store_err + Token" where
  "GetTokenByID i m = (case gm_get (m_tokens m) i of None \<Rightarrow> Inl ErrNotFound | Some r \<Rightarrow> Inr (tr_tok r))"

definition ListTokensForTenant :: "bytes \<Rightarrow> ControlStore \<Rightarrow> store_err + Token list" where
  "ListTokensForTenant t m = Inr (filter (\<lambda>k. tk_TenantID k = t) (map (tr_tok \<circ> snd) (m_tokens m)))"

definition ListTokensForConnection :: "bytes \<Rightarrow> ControlStore \<Rightarrow> store_err + Token list" where
  "ListTokensForConnection c m = Inr (filter (\<lambda>k. tk_ConnectionID k = c) (map (tr_tok \<circ> snd) (m_tokens m)))"

definition hash_row :: "tokenRow \<Rightarrow> TokenHashRow" where
  "hash_row r = \<lparr>th_ID = tk_ID (tr_tok r), th_TokenHash = tr_hash r, th_LookupHash = tr_lookup r,
     th_ConnectionID = tk_ConnectionID (tr_tok r)\<rparr>"

definition ListActiveTokenHashes :: "time \<Rightarrow> bytes \<Rightarrow> ControlStore \<Rightarrow> store_err + TokenHashRow list" where
  "ListActiveTokenHashes now t m = Inr (map hash_row
     (filter (\<lambda>r. tk_TenantID (tr_tok r) = t \<and> token_active now (tr_tok r)) (map snd (m_tokens m))))"

definition GetActiveTokenByLookup :: "time \<Rightarrow> bytes \<Rightarrow> bytes \<Rightarrow> ControlStore \<Rightarrow> store_err + TokenHashRow" where
  "GetActiveTokenByLookup now t lookupHash m =
     (if lookupHash = '''' then Inl ErrNotFound
      else case filter (\<lambda>r. tk_TenantID (tr_tok r) = t \<and> tr_lookup r = lookupHash \<and> token_active now (tr_tok r))
             (map snd (m_tokens m)) of
          [] \<Rightarrow> Inl ErrNotFound
        | r # _ \<Rightarrow> Inr (hash_row r))"

definition RevokeToken :: "time \<Rightarrow> bytes \<Rightarrow> ControlStore \<Rightarrow> store_err option \<times> ControlStore" where
  "RevokeToken now i m = (case gm_get (m_tokens m) i of
      None \<Rightarrow> (Some ErrNotFound, m)
    | Some r \<Rightarrow> (None, m\<lparr>m_tokens := gm_put (m_tokens m) i
        (r\<lparr>tr_tok := (tr_tok r)\<lparr>tk_RevokedAt := Some now\<rparr>\<rparr>)\<rparr>))"

definition ClearTokenRevocation :: "bytes \<Rightarrow> ControlStore \<Rightarrow> store_err option \<times> ControlStore" where
  "ClearTokenRevocation i m = (case gm_get (m_tokens m) i of
      None \<Rightarrow> (Some ErrNotFound, m)
    | Some r \<Rightarrow> if tk_RevokedAt (tr_tok r) = None then (Some ErrNotFound, m)
        else (None, m\<lparr>m_tokens := gm_put (m_tokens m) i (r\<lparr>tr_tok := (tr_tok r)\<lparr>tk_RevokedAt := None\<rparr>\<rparr>)\<rparr>))"

section \<open>Users and passwords\<close>

definition norm_email :: "bytes \<Rightarrow> bytes" where
  "norm_email email = to_lower (trim_space email)"

definition UpsertUserByEmail :: "time \<Rightarrow> bytes \<Rightarrow> bytes \<Rightarrow> ControlStore \<Rightarrow> User stored" where
  "UpsertUserByEmail now email name m =
     (let email = norm_email email in
      case gm_get (m_usersByEmail m) email of
        Some i \<Rightarrow> (case gm_get (m_users m) i of
            None \<Rightarrow> (Inl (StoreError ''dangling user''), m)
          | Some u \<Rightarrow>
              let u' = (if name \<noteq> '''' \<and> us_Name u = '''' then u\<lparr>us_Name := name\<rparr> else u) in
              (Inr u', m\<lparr>m_users := gm_put (m_users m) i u'\<rparr>))
      | None \<Rightarrow>
          let i = ''usr_mem_'' @ email;
              u = \<lparr>us_ID = i, us_Email = email, us_Name = name, us_CreatedAt = now, us_UpdatedAt = now,
                us_HasPassword = False\<rparr> in
          (Inr u, m\<lparr>m_users := gm_put (m_users m) i u, m_usersByEmail := gm_put (m_usersByEmail m) email i\<rparr>))"

definition GetUserByID :: "bytes \<Rightarrow> ControlStore \<Rightarrow> store_err + User" where
  "GetUserByID i m = (case gm_get (m_users m) i of
      None \<Rightarrow> Inl ErrNotFound
    | Some u \<Rightarrow> Inr (u\<lparr>us_HasPassword := (gm_get (m_userPasswords m) i \<noteq> None)\<rparr>))"

definition GetUserByEmail :: "bytes \<Rightarrow> ControlStore \<Rightarrow> store_err + User" where
  "GetUserByEmail email m = (case gm_get (m_usersByEmail m) (norm_email email) of
      None \<Rightarrow> Inl ErrNotFound
    | Some i \<Rightarrow> (case gm_get (m_users m) i of
        None \<Rightarrow> Inl (StoreError ''dangling user'')
      | Some u \<Rightarrow> Inr (u\<lparr>us_HasPassword := (gm_get (m_userPasswords m) (us_ID u) \<noteq> None)\<rparr>)))"

definition UpdateUserName :: "time \<Rightarrow> bytes \<Rightarrow> bytes \<Rightarrow> ControlStore \<Rightarrow> store_err option \<times> ControlStore" where
  "UpdateUserName now i name m = (case gm_get (m_users m) i of
      None \<Rightarrow> (Some ErrNotFound, m)
    | Some u \<Rightarrow> (None, m\<lparr>m_users := gm_put (m_users m) i (u\<lparr>us_Name := name, us_UpdatedAt := now\<rparr>)\<rparr>))"

definition SetUserPasswordHash :: "bytes \<Rightarrow> bytes \<Rightarrow> ControlStore \<Rightarrow> store_err option \<times> ControlStore" where
  "SetUserPasswordHash i h m = (case gm_get (m_users m) i of
      None \<Rightarrow> (Some ErrNotFound, m)
    | Some _ \<Rightarrow> (None, m\<lparr>m_userPasswords := gm_put (m_userPasswords m) i h\<rparr>))"

definition GetUserPasswordHash :: "bytes \<Rightarrow> ControlStore \<Rightarrow> store_err + bytes" where
  "GetUserPasswordHash i m = (case gm_get (m_userPasswords m) i of
      None \<Rightarrow> Inl ErrNotFound | Some h \<Rightarrow> if h = '''' then Inl ErrNotFound else Inr h)"

definition ClearUserPassword :: "bytes \<Rightarrow> ControlStore \<Rightarrow> store_err option \<times> ControlStore" where
  "ClearUserPassword i m = (None, m\<lparr>m_userPasswords := gm_del (m_userPasswords m) i\<rparr>)"

definition CreatePasswordResetToken ::
  "bytes \<Rightarrow> bytes \<Rightarrow> bytes \<Rightarrow> time \<Rightarrow> ControlStore \<Rightarrow> store_err option \<times> ControlStore" where
  "CreatePasswordResetToken i userID tokenHash expiresAt m =
     (None, m\<lparr>m_passwordResets := gm_put (m_passwordResets m) tokenHash
       \<lparr>pr_id = i, pr_userID = userID, pr_expiresAt = expiresAt, pr_used = False\<rparr>\<rparr>)"

definition ConsumePasswordResetToken :: "time \<Rightarrow> bytes \<Rightarrow> ControlStore \<Rightarrow> bytes stored" where
  "ConsumePasswordResetToken now tokenHash m = (case gm_get (m_passwordResets m) tokenHash of
      None \<Rightarrow> (Inl ErrNotFound, m)
    | Some r \<Rightarrow> if pr_used r \<or> now > pr_expiresAt r then (Inl ErrNotFound, m)
        else (Inr (pr_userID r), m\<lparr>m_passwordResets := gm_put (m_passwordResets m) tokenHash (r\<lparr>pr_used := True\<rparr>)\<rparr>))"

section \<open>Email codes and sessions\<close>

definition SetEmailVerificationCode ::
  "bytes \<Rightarrow> bytes \<Rightarrow> time \<Rightarrow> ControlStore \<Rightarrow> store_err option \<times> ControlStore" where
  "SetEmailVerificationCode email codeHash expiresAt m =
     (None, m\<lparr>m_emailCodes := gm_put (m_emailCodes m) (to_lower email)
       \<lparr>ec_hash = codeHash, ec_expires = expiresAt, ec_attempts = 0\<rparr>\<rparr>)"

definition GetEmailVerificationCode :: "bytes \<Rightarrow> ControlStore \<Rightarrow> store_err + (bytes \<times> time \<times> int)" where
  "GetEmailVerificationCode email m = (case gm_get (m_emailCodes m) (to_lower email) of
      None \<Rightarrow> Inl ErrNotFound | Some c \<Rightarrow> Inr (ec_hash c, ec_expires c, ec_attempts c))"

definition IncrementEmailVerificationAttempts :: "bytes \<Rightarrow> ControlStore \<Rightarrow> store_err option \<times> ControlStore" where
  "IncrementEmailVerificationAttempts email m = (case gm_get (m_emailCodes m) (to_lower email) of
      None \<Rightarrow> (Some ErrNotFound, m)
    | Some c \<Rightarrow> (None, m\<lparr>m_emailCodes := gm_put (m_emailCodes m) (to_lower email)
        (c\<lparr>ec_attempts := wrap64 (ec_attempts c + 1)\<rparr>)\<rparr>))"

definition ClearEmailVerificationCode :: "bytes \<Rightarrow> ControlStore \<Rightarrow> store_err option \<times> ControlStore" where
  "ClearEmailVerificationCode email m = (None, m\<lparr>m_emailCodes := gm_del (m_emailCodes m) (to_lower email)\<rparr>)"

definition CreateSession ::
  "bytes \<Rightarrow> bytes \<Rightarrow> bytes \<Rightarrow> time \<Rightarrow> ControlStore \<Rightarrow> store_err option \<times> ControlStore" where
  "CreateSession i userID tokenHash expiresAt m =
     (None, m\<lparr>m_sessions := gm_put (m_sessions m) tokenHash
       \<lparr>sr_id = i, sr_userID = userID, sr_expiresAt = expiresAt\<rparr>\<rparr>)"

definition GetSessionByTokenHash :: "bytes \<Rightarrow> ControlStore \<Rightarrow> store_err + (bytes \<times> bytes \<times> time)" where
  "GetSessionByTokenHash tokenHash m = (case gm_get (m_sessions m) tokenHash of
      None \<Rightarrow> Inl ErrNotFound | Some s \<Rightarrow> Inr (sr_id s, sr_userID s, sr_expiresAt s))"

definition DeleteSession :: "bytes \<Rightarrow> ControlStore \<Rightarrow> store_err option \<times> ControlStore" where
  "DeleteSession sessionID m = (None, m\<lparr>m_sessions := gm_drop (\<lambda>s. sr_id s = sessionID) (m_sessions m)\<rparr>)"

definition DeleteSessionByTokenHash :: "bytes \<Rightarrow> ControlStore \<Rightarrow> store_err option \<times> ControlStore" where
  "DeleteSessionByTokenHash tokenHash m = (None, m\<lparr>m_sessions := gm_del (m_sessions m) tokenHash\<rparr>)"

section \<open>Members and invites\<close>

definition members_of :: "bytes \<Rightarrow> ControlStore \<Rightarrow> (bytes, bytes) gomap" where
  "members_of t m = (case gm_get (m_members m) t of None \<Rightarrow> [] | Some ms \<Rightarrow> ms)"

definition AddMember :: "bytes \<Rightarrow> bytes \<Rightarrow> bytes \<Rightarrow> ControlStore \<Rightarrow> store_err option \<times> ControlStore" where
  "AddMember t u role m = (None, m\<lparr>m_members := gm_put (m_members m) t (gm_put (members_of t m) u role)\<rparr>)"

definition RemoveMember :: "bytes \<Rightarrow> bytes \<Rightarrow> ControlStore \<Rightarrow> store_err option \<times> ControlStore" where
  "RemoveMember t u m = (case gm_get (m_members m) t of
      None \<Rightarrow> (None, m)
    | Some ms \<Rightarrow> (None, m\<lparr>m_members := gm_put (m_members m) t (gm_del ms u)\<rparr>))"

definition member_row :: "time \<Rightarrow> bytes \<Rightarrow> bytes \<Rightarrow> bytes \<Rightarrow> ControlStore \<Rightarrow> OrganizationMember" where
  "member_row created t u role m = (case gm_get (m_users m) u of
      None \<Rightarrow> \<lparr>om_TenantID = t, om_UserID = u, om_Email = '''', om_Name = '''', om_Role = role, om_CreatedAt = created\<rparr>
    | Some us \<Rightarrow> \<lparr>om_TenantID = t, om_UserID = u, om_Email = us_Email us, om_Name = us_Name us, om_Role = role,
        om_CreatedAt = created\<rparr>)"

definition GetMember :: "time \<Rightarrow> bytes \<Rightarrow> bytes \<Rightarrow> ControlStore \<Rightarrow> store_err + OrganizationMember" where
  "GetMember now t u m = (case gm_get (members_of t m) u of
      None \<Rightarrow> Inl ErrNotFound | Some role \<Rightarrow> Inr (member_row now t u role m))"

definition ListMembers :: "bytes \<Rightarrow> ControlStore \<Rightarrow> store_err + OrganizationMember list" where
  "ListMembers t m = Inr (map (\<lambda>(u, role). member_row 0 t u role m) (members_of t m))"

definition ListOrganizationsForUser :: "bytes \<Rightarrow> ControlStore \<Rightarrow> store_err + OrganizationSummary list" where
  "ListOrganizationsForUser u m = Inr (concat (map (\<lambda>(t, ms).
     case gm_get ms u of None \<Rightarrow> []
     | Some role \<Rightarrow> (case gm_get (m_tenants m) t of None \<Rightarrow> []
         | Some tn \<Rightarrow> [\<lparr>os_Tenant = tn, os_Role = role\<rparr>])) (m_members m)))"

definition CreateInvite :: "OrganizationInvite \<Rightarrow> bytes \<Rightarrow> ControlStore \<Rightarrow> store_err option \<times> ControlStore" where
  "CreateInvite ivt tokenHash m =
     (None, m\<lparr>m_invites := gm_put (m_invites m) (iv_ID ivt) \<lparr>ir_inv = ivt, ir_hash = tokenHash\<rparr>\<rparr>)"

definition with_tenant_name :: "ControlStore \<Rightarrow> OrganizationInvite \<Rightarrow> OrganizationInvite" where
  "with_tenant_name m ivt = (case gm_get (m_tenants m) (iv_TenantID ivt) of
      None \<Rightarrow> ivt | Some t \<Rightarrow> ivt\<lparr>iv_TenantName := tn_Name t\<rparr>)"

definition GetInviteByID :: "bytes \<Rightarrow> ControlStore \<Rightarrow> store_err + OrganizationInvite" where
  "GetInviteByID i m = (case gm_get (m_invites m) i of
      None \<Rightarrow> Inl ErrNotFound | Some r \<Rightarrow> Inr (with_tenant_name m (ir_inv r)))"

definition GetPendingInviteByTokenHash :: "bytes \<Rightarrow> ControlStore \<Rightarrow> store_err + OrganizationInvite" where
  "GetPendingInviteByTokenHash tokenHash m =
     (case filter (\<lambda>r. ir_hash r = tokenHash \<and> iv_AcceptedAt (ir_inv r) = None) (map snd (m_invites m)) of
        [] \<Rightarrow> Inl ErrNotFound | r # _ \<Rightarrow> Inr (ir_inv r))"

definition ListPendingInvitesForEmail ::
  "time \<Rightarrow> bytes \<Rightarrow> ControlStore \<Rightarrow> store_err + OrganizationInvite list" where
  "ListPendingInvitesForEmail now email m = (let email = to_lower email in
     Inr (map (with_tenant_name m) (filter (\<lambda>ivt. iv_AcceptedAt ivt = None \<and> equal_fold (iv_Email ivt) email
       \<and> \<not> iv_ExpiresAt ivt < now) (map (ir_inv \<circ> snd) (m_invites m)))))"

definition ListPendingInvitesForTenant ::
  "time \<Rightarrow> bytes \<Rightarrow> ControlStore \<Rightarrow> store_err + OrganizationInvite list" where
  "ListPendingInvitesForTenant now t m =
     Inr (filter (\<lambda>ivt. iv_TenantID ivt = t \<and> iv_AcceptedAt ivt = None \<and> \<not> iv_ExpiresAt ivt < now)
       (map (ir_inv \<circ> snd) (m_invites m)))"

definition MarkInviteAccepted :: "time \<Rightarrow> bytes \<Rightarrow> ControlStore \<Rightarrow> store_err option \<times> ControlStore" where
  "MarkInviteAccepted now i m = (case gm_get (m_invites m) i of
      None \<Rightarrow> (Some ErrNotFound, m)
    | Some r \<Rightarrow> (None, m\<lparr>m_invites := gm_put (m_invites m) i
        (r\<lparr>ir_inv := (ir_inv r)\<lparr>iv_AcceptedAt := Some now\<rparr>\<rparr>)\<rparr>))"

definition DeleteInvite :: "bytes \<Rightarrow> ControlStore \<Rightarrow> store_err option \<times> ControlStore" where
  "DeleteInvite i m = (None, m\<lparr>m_invites := gm_del (m_invites m) i\<rparr>)"

definition RecordAudit :: "ControlStore \<Rightarrow> store_err option \<times> ControlStore" where
  "RecordAudit m = (None, m\<lparr>m_audits := wrap64 (m_audits m + 1)\<rparr>)"

end
