(* ===== verification/Policy.thy ===== *)
theory Policy
  imports Control_Store
begin

text \<open>
  \<open>internal/proxy/policy/engine.go\<close>: the snapshot of cache policies and the decision for one
  command.  The four reads of \<open>store.Store\<close> that a refresh makes are a record of functions of
  the store's state; \<open>control_reads\<close> is that record for the in-memory store.
\<close>

definition DefaultTTLSeconds :: int where "DefaultTTLSeconds = 60"
definition defaultMaxResultBytes :: int where "defaultMaxResultBytes = 1048576"

record Decision =
  de_Enabled :: bool
  de_TTL :: int
  de_MaxResultBytes :: int
  de_CacheKeyVersion :: int

record Engine =
  en_interval :: int
  en_policies :: "(bytes, CachePolicy) gomap"

record 's policy_reads =
  pr_ListAllCachePolicies :: "'s \<Rightarrow> store_err + CachePolicy list"
  pr_GetCachePolicy :: "bytes \<Rightarrow> 's \<Rightarrow> store_err + CachePolicy"
  pr_ListTenants :: "'s \<Rightarrow> store_err + Tenant list"
  pr_ListConnections :: "bytes \<Rightarrow> 's \<Rightarrow> store_err + Connection list"

definition control_reads :: "ControlStore policy_reads" where
  "control_reads = \<lparr>pr_ListAllCachePolicies = ListAllCachePolicies, pr_GetCachePolicy = GetCachePolicy,
     pr_ListTenants = ListTenants, pr_ListConnections = ListConnections\<rparr>"

definition NewEngine :: "int \<Rightarrow> Engine" where
  "NewEngine refreshInterval =
     \<lparr>en_interval = (if refreshInterval \<le> 0 then 30000000000 else refreshInterval), en_policies = []\<rparr>"

definition listAllConnections :: "'s policy_reads \<Rightarrow> 's \<Rightarrow> store_err + Connection list" where
  "listAllConnections R s = (case pr_ListTenants R s of
      Inl err \<Rightarrow> Inl err
    | Inr tenants \<Rightarrow> Inr (concat (map (\<lambda>t. case pr_ListConnections R (tn_ID t) s of
        Inl _ \<Rightarrow> [] | Inr cs \<Rightarrow> cs) tenants)))"

definition refresh :: "'s policy_reads \<Rightarrow> 's \<Rightarrow> Engine \<Rightarrow> Engine" where
  "refresh R s e = (case pr_ListAllCachePolicies R s of
      Inl err \<Rightarrow> (case listAllConnections R s of
          Inl cerr \<Rightarrow> e
        | Inr conns \<Rightarrow> e\<lparr>en_policies := fold (\<lambda>c next. case pr_GetCachePolicy R (cn_ID c) s of
              Inl _ \<Rightarrow> next | Inr p \<Rightarrow> gm_put next (cn_ID c) p) conns []\<rparr>)
    | Inr lst \<Rightarrow> e\<lparr>en_policies := fold (\<lambda>p next. if po_ConnectionID p = '''' then next
          else gm_put next (po_ConnectionID p) p) lst []\<rparr>)"

definition Resolve :: "bytes \<Rightarrow> bytes \<Rightarrow> bytes \<Rightarrow> Engine \<Rightarrow> Decision" where
  "Resolve connectionID db coll e =
     (case gm_get (en_policies e) connectionID of
        None \<Rightarrow> \<lparr>de_Enabled = True, de_TTL = wrap64 (DefaultTTLSeconds * 1000000000),
          de_MaxResultBytes = defaultMaxResultBytes, de_CacheKeyVersion = 1\<rparr>
      | Some p \<Rightarrow>
          let keyVer = (if po_CacheKeyVersion p \<le> 0 then 1 else po_CacheKeyVersion p);
              ttl0 = (if po_DefaultTtlSeconds p > 0 then po_DefaultTtlSeconds p else DefaultTTLSeconds);
              (ttl, maxBytes) = (case gm_get (po_Collections p) (db @ ''.'' @ coll) of
                  None \<Rightarrow> (ttl0, defaultMaxResultBytes)
                | Some cp \<Rightarrow> (if cl_TTLSeconds cp > 0 then cl_TTLSeconds cp else ttl0,
                    case cl_MaxResultBytes cp of None \<Rightarrow> defaultMaxResultBytes
                    | Some b \<Rightarrow> if b > 0 then b else defaultMaxResultBytes)) in
          \<lparr>de_Enabled = True, de_TTL = wrap64 (ttl * 1000000000), de_MaxResultBytes = maxBytes,
           de_CacheKeyVersion = keyVer\<rparr>)"

section \<open>Refreshing from the in-memory store\<close>

text \<open>Policies are stored under the id of their connection.\<close>

definition policies_keyed :: "ControlStore \<Rightarrow> bool" where
  "policies_keyed s \<longleftrightarrow> gm_wf (m_policies s) \<and> (\<forall>(k, p) \<in> set (m_policies s). po_ConnectionID p = k)"

lemma policies_keyed_New [simp]: "policies_keyed NewControlStore"
  by (simp add: policies_keyed_def NewControlStore_def)

lemma policies_keyed_Upsert:
  "policies_keyed s \<Longrightarrow> policies_keyed (snd (UpsertCachePolicy p s))"
  using gm_put_subset [of "m_policies s" "po_ConnectionID p" p]
  by (auto simp: policies_keyed_def UpsertCachePolicy_def)

lemma policies_keyed_DeleteTenant: "policies_keyed s \<Longrightarrow> policies_keyed (snd (DeleteTenant t s))"
  using gm_del_subset [of "m_policies s" t]
  by (auto simp: policies_keyed_def DeleteTenant_def split: option.splits)

lemma gm_get_Cons: "gm_get ((k, v) # m) c = (if c = k then Some v else gm_get m c)"
  by (simp add: gm_get_def)

lemma fold_put_keyed:
  assumes "\<forall>(k, p) \<in> set m. po_ConnectionID p = k" and "gm_wf m" and "c \<noteq> ''''"
  shows "gm_get (fold (\<lambda>p nxt. if po_ConnectionID p = '''' then nxt
      else gm_put nxt (po_ConnectionID p) p) (map snd m) acc) c
    = (case gm_get m c of Some p \<Rightarrow> Some p | None \<Rightarrow> gm_get acc c)"
  using assms(1,2)
proof (induction m arbitrary: acc)
  case (Cons x m)
  obtain k p where x: "x = (k, p)" by (cases x)
  have k: "po_ConnectionID p = k" and ih: "\<forall>(k, p) \<in> set m. po_ConnectionID p = k" "gm_wf m"
    and nk: "gm_get m k = None"
    using Cons.prems x by (auto simp: gm_wf_def gm_get_def map_of_eq_None_iff)
  show ?case
    using Cons.IH [OF ih] x k nk assms(3) by (auto simp: gm_get_Cons split: option.splits)
qed simp

lemma refresh_lookup:
  assumes "policies_keyed s" and "c \<noteq> ''''"
  shows "gm_get (en_policies (refresh control_reads s e)) c = gm_get (m_policies s) c"
  using assms fold_put_keyed [of "m_policies s" c "[]"]
  by (auto simp: refresh_def control_reads_def ListAllCachePolicies_def policies_keyed_def split: option.splits)

section \<open>Properties\<close>

text \<open>
  C40. A stored policy takes effect at the next refresh and in the documented order of precedence:
  after a policy is saved and the engine refreshes, the decision for a collection of that
  connection has the collection's own time to live if positive, else the policy's default if
  positive, else 60 seconds; the collection's size limit if positive, else 1 MiB; the
  policy's key version if positive, else 1; and other connections are decided as before the save.
\<close>

theorem policy_takes_effect:
  assumes "policies_keyed s" and "po_ConnectionID p = c" and "c \<noteq> ''''" and "c' \<noteq> ''''" and "c' \<noteq> c"
    and "s' = snd (UpsertCachePolicy p s)"
    and "cp = gm_get (po_Collections p) (db @ ''.'' @ coll)"
    and "ttl = (if \<exists>x. cp = Some x \<and> 0 < cl_TTLSeconds x then cl_TTLSeconds (the cp)
       else if 0 < po_DefaultTtlSeconds p then po_DefaultTtlSeconds p else 60)"
    and "ttl \<le> 9223372036"
  shows "Resolve c db coll (refresh control_reads s' e) =
      \<lparr>de_Enabled = True, de_TTL = ttl * 1000000000,
       de_MaxResultBytes = (if \<exists>x b. cp = Some x \<and> cl_MaxResultBytes x = Some b \<and> 0 < b
          then the (cl_MaxResultBytes (the cp)) else 1048576),
       de_CacheKeyVersion = max 1 (po_CacheKeyVersion p)\<rparr>
    \<and> Resolve c' db coll (refresh control_reads s' e) = Resolve c' db coll (refresh control_reads s e)"
proof -
  have k: "policies_keyed s'" using policies_keyed_Upsert [OF assms(1), of p] assms(6) by simp
  have "gm_get (m_policies s') c = Some p" "gm_get (m_policies s') c' = gm_get (m_policies s) c'"
    using assms(2,5,6) by (auto simp: UpsertCachePolicy_def)
  hence g: "gm_get (en_policies (refresh control_reads s' e)) c = Some p"
    "gm_get (en_policies (refresh control_reads s' e)) c' = gm_get (en_policies (refresh control_reads s e)) c'"
    using refresh_lookup [OF k assms(3)] refresh_lookup [OF k assms(4)] refresh_lookup [OF assms(1,4)] by simp_all
  have "0 < ttl" using assms(8) by (auto split: if_splits)
  hence w: "wrap64 (ttl * 1000000000) = ttl * 1000000000"
    using assms(9) by (intro wrap64_id) (simp add: int64_range_def)
  have "Resolve c db coll (refresh control_reads s' e) =
      \<lparr>de_Enabled = True, de_TTL = wrap64 (ttl * 1000000000),
       de_MaxResultBytes = (if \<exists>x b. cp = Some x \<and> cl_MaxResultBytes x = Some b \<and> 0 < b
          then the (cl_MaxResultBytes (the cp)) else 1048576),
       de_CacheKeyVersion = max 1 (po_CacheKeyVersion p)\<rparr>"
    using g(1) assms(7,8)
    by (auto simp: Resolve_def DefaultTTLSeconds_def defaultMaxResultBytes_def max_def Let_def split: option.splits)
  with w g(2) show ?thesis by (simp add: Resolve_def)
qed

definition example_policy :: CachePolicy where
  "example_policy = \<lparr>po_ConnectionID = ''c'', po_TenantID = ''t'', po_DefaultTtlSeconds = 120,
     po_Collections = [(''db.orders'', \<lparr>cl_Enabled = True, cl_TTLSeconds = 300, cl_MaxResultBytes = Some 5\<rparr>)],
     po_CacheKeyVersion = 0, po_UpdatedAt = 0\<rparr>"

theorem policy_takes_effect_witness:
  "Resolve ''c'' ''db'' ''orders'' (refresh control_reads (snd (UpsertCachePolicy example_policy NewControlStore)) (NewEngine 0))
   = \<lparr>de_Enabled = True, de_TTL = 300000000000, de_MaxResultBytes = 5, de_CacheKeyVersion = 1\<rparr>"
proof -
  have c: "gm_get (po_Collections example_policy) (''db'' @ ''.'' @ ''orders'')
      = Some \<lparr>cl_Enabled = True, cl_TTLSeconds = 300, cl_MaxResultBytes = Some 5\<rparr>"
    by (simp add: example_policy_def gm_get_def)
  let ?x = "\<lparr>cl_Enabled = True, cl_TTLSeconds = 300, cl_MaxResultBytes = Some 5\<rparr>"
  have i: "po_ConnectionID example_policy = ''c''" and v: "po_CacheKeyVersion example_policy = 0"
    by (simp_all add: example_policy_def)
  have ne: "''c'' \<noteq> ''''" "''d'' \<noteq> ''''" "''d'' \<noteq> ''c''" by simp_all
  have t: "(300::int) = (if \<exists>x. Some ?x = Some x \<and> 0 < cl_TTLSeconds x then cl_TTLSeconds (the (Some ?x))
       else if 0 < po_DefaultTtlSeconds example_policy then po_DefaultTtlSeconds example_policy else 60)"
    by simp
  have le: "(300::int) \<le> 9223372036" by simp
  show ?thesis
    using policy_takes_effect [OF policies_keyed_New i ne refl c [symmetric] t le, of "NewEngine 0"]
    by (simp add: v)
qed

section \<open>The remaining operations of the engine\<close>

definition Lookup :: "bytes \<Rightarrow> bytes \<Rightarrow> bytes \<Rightarrow> Engine \<Rightarrow> Decision" where
  "Lookup connectionID db coll e = Resolve connectionID db coll e"

definition Snapshot :: "Engine \<Rightarrow> (bytes, CachePolicy) gomap" where
  "Snapshot e = en_policies e"

definition SetForTest :: "bytes \<Rightarrow> CachePolicy \<Rightarrow> Engine \<Rightarrow> Engine" where
  "SetForTest connectionID p e = e\<lparr>en_policies := gm_put (en_policies e) connectionID
     (if po_ConnectionID p = '''' then p\<lparr>po_ConnectionID := connectionID\<rparr> else p)\<rparr>"

end
