(* ===== verification/Proxy_Auth.thy ===== *)
theory Proxy_Auth
  imports Control_Store Sha256
begin

text \<open>
  \<open>internal/proxy/auth/auth.go\<close>: checking a tenant id and a raw token.  The reads it makes of
  \<open>store.Store\<close> are a record of functions of the store's state, with the locale
  \<open>token_store\<close> as their contract; \<open>bcrypt\<close>, which is not under src/, is the parameter
  \<open>bc hash password\<close> (\<open>CompareHashAndPassword\<close> returns nil).  One call uses one value of
  the clock.
\<close>

section \<open>State and operations\<close>

datatype auth_err = ErrAuthFailed | ErrTenantInactive | ErrNoConnection | AuthStoreErr store_err

record TenantContext =
  tc_TenantID :: bytes
  tc_ConnectionID :: bytes
  tc_TokenID :: bytes

record authCacheEntry =
  ac_tc :: TenantContext
  ac_exp :: time

record Validator =
  va_cacheTTL :: int
  va_cache :: "(bytes, authCacheEntry) gomap"

record 's auth_reads =
  ar_GetTenant :: "bytes \<Rightarrow> 's \<Rightarrow> store_err + Tenant"
  ar_GetActiveTokenByLookup :: "time \<Rightarrow> bytes \<Rightarrow> bytes \<Rightarrow> 's \<Rightarrow> store_err + TokenHashRow"
  ar_ListActiveTokenHashes :: "time \<Rightarrow> bytes \<Rightarrow> 's \<Rightarrow> store_err + TokenHashRow list"
  ar_GetConnection :: "bytes \<Rightarrow> 's \<Rightarrow> store_err + Connection"
  ar_GetTokenByID :: "bytes \<Rightarrow> 's \<Rightarrow> store_err + Token"

definition control_auth_reads :: "ControlStore auth_reads" where
  "control_auth_reads = \<lparr>ar_GetTenant = GetTenant, ar_GetActiveTokenByLookup = GetActiveTokenByLookup,
     ar_ListActiveTokenHashes = ListActiveTokenHashes, ar_GetConnection = GetConnection,
     ar_GetTokenByID = GetTokenByID\<rparr>"

definition ProxyTokenLookupHash :: "bytes \<Rightarrow> bytes" where
  "ProxyTokenLookupHash rawToken = hex_encode (sha256 rawToken)"

definition NewValidator :: Validator where
  "NewValidator = \<lparr>va_cacheTTL = 60000000000, va_cache = []\<rparr>"

definition WithAuthCacheTTL :: "int \<Rightarrow> Validator \<Rightarrow> Validator" where
  "WithAuthCacheTTL d v = v\<lparr>va_cacheTTL := (if d < 0 then 0 else d)\<rparr>"

definition InvalidateAuthCache :: "Validator \<Rightarrow> Validator" where
  "InvalidateAuthCache v = v\<lparr>va_cache := []\<rparr>"

definition InvalidateToken :: "bytes \<Rightarrow> Validator \<Rightarrow> Validator" where
  "InvalidateToken tokenID v = v\<lparr>va_cache := gm_drop (\<lambda>e. tc_TokenID (ac_tc e) = tokenID) (va_cache v)\<rparr>"

definition cacheGet :: "time \<Rightarrow> bytes \<Rightarrow> Validator \<Rightarrow> TenantContext option" where
  "cacheGet now key v = (case gm_get (va_cache v) key of
      None \<Rightarrow> None | Some e \<Rightarrow> if now > ac_exp e then None else Some (ac_tc e))"

definition cachePut :: "time \<Rightarrow> bytes \<Rightarrow> TenantContext \<Rightarrow> Validator \<Rightarrow> Validator" where
  "cachePut now key tc v =
     (if va_cacheTTL v \<le> 0 then v
      else let m = (if length (va_cache v) > 10000 then gm_drop (\<lambda>e. now > ac_exp e) (va_cache v) else va_cache v) in
        v\<lparr>va_cache := gm_put m key \<lparr>ac_tc = tc, ac_exp = now + va_cacheTTL v\<rparr>\<rparr>)"

definition cacheDelete :: "bytes \<Rightarrow> Validator \<Rightarrow> Validator" where
  "cacheDelete key v = v\<lparr>va_cache := gm_del (va_cache v) key\<rparr>"

definition tenantContextFromRow :: "'s auth_reads \<Rightarrow> bytes \<Rightarrow> TokenHashRow \<Rightarrow> 's \<Rightarrow> auth_err + TenantContext" where
  "tenantContextFromRow R tenantID row s =
     (if th_ConnectionID row = '''' then Inl ErrNoConnection
      else case ar_GetConnection R (th_ConnectionID row) s of
          Inl ErrNotFound \<Rightarrow> Inl ErrNoConnection
        | Inl err \<Rightarrow> Inl (AuthStoreErr err)
        | Inr _ \<Rightarrow> Inr \<lparr>tc_TenantID = tenantID, tc_ConnectionID = th_ConnectionID row, tc_TokenID = th_ID row\<rparr>)"

definition revalidateToken :: "'s auth_reads \<Rightarrow> time \<Rightarrow> TenantContext \<Rightarrow> 's \<Rightarrow> auth_err + TenantContext" where
  "revalidateToken R now tc s = (case ar_GetTokenByID R (tc_TokenID tc) s of
      Inl err \<Rightarrow> Inl (AuthStoreErr err)
    | Inr tok \<Rightarrow>
        if tk_TenantID tok \<noteq> tc_TenantID tc then Inl ErrAuthFailed
        else if tk_RevokedAt tok \<noteq> None then Inl ErrAuthFailed
        else if (case tk_ExpiresAt tok of None \<Rightarrow> False | Some e \<Rightarrow> e < now) then Inl ErrAuthFailed
        else if tk_ConnectionID tok = '''' then Inl ErrNoConnection
        else Inr (tc\<lparr>tc_ConnectionID := tk_ConnectionID tok\<rparr>))"

text \<open>The legacy path: the first row without a lookup hash whose bcrypt hash matches.\<close>

fun legacy_match :: "(bytes \<Rightarrow> bytes \<Rightarrow> bool) \<Rightarrow> bytes \<Rightarrow> TokenHashRow list \<Rightarrow> TokenHashRow option" where
  "legacy_match bc password [] = None"
| "legacy_match bc password (row # rows) =
     (if th_LookupHash row \<noteq> '''' then legacy_match bc password rows
      else if \<not> bc (th_TokenHash row) password then legacy_match bc password rows
      else Some row)"

definition accept_row ::
  "'s auth_reads \<Rightarrow> time \<Rightarrow> bytes \<Rightarrow> bytes \<Rightarrow> TokenHashRow \<Rightarrow> Validator \<Rightarrow> 's \<Rightarrow> (auth_err + TenantContext) \<times> Validator" where
  "accept_row R now username cacheKey row v s = (case tenantContextFromRow R username row s of
      Inl err \<Rightarrow> (Inl err, v)
    | Inr tc \<Rightarrow> (Inr tc, cachePut now cacheKey tc v))"

definition authenticate_store ::
  "'s auth_reads \<Rightarrow> (bytes \<Rightarrow> bytes \<Rightarrow> bool) \<Rightarrow> time \<Rightarrow> bytes \<Rightarrow> bytes \<Rightarrow> Validator \<Rightarrow> 's
     \<Rightarrow> (auth_err + TenantContext) \<times> Validator" where
  "authenticate_store R bc now username password v s =
     (let look = ProxyTokenLookupHash password; cacheKey = username @ [CHR 0x00] @ look in
      case ar_GetTenant R username s of
        Inl ErrNotFound \<Rightarrow> (Inl ErrAuthFailed, v)
      | Inl err \<Rightarrow> (Inl (AuthStoreErr err), v)
      | Inr tenant \<Rightarrow>
          if tn_Status tenant \<noteq> '''' \<and> tn_Status tenant \<noteq> ''active'' then (Inl ErrTenantInactive, v)
          else case ar_GetActiveTokenByLookup R now username look s of
              Inr row \<Rightarrow> accept_row R now username cacheKey row v s
            | Inl err \<Rightarrow>
                if err \<noteq> ErrNotFound then (Inl (AuthStoreErr err), v)
                else case ar_ListActiveTokenHashes R now username s of
                    Inl err \<Rightarrow> (Inl (AuthStoreErr err), v)
                  | Inr rows \<Rightarrow> (case legacy_match bc password rows of
                      None \<Rightarrow> (Inl ErrAuthFailed, v)
                    | Some row \<Rightarrow> accept_row R now username cacheKey row v s))"

definition Authenticate ::
  "'s auth_reads \<Rightarrow> (bytes \<Rightarrow> bytes \<Rightarrow> bool) \<Rightarrow> time \<Rightarrow> bytes \<Rightarrow> bytes \<Rightarrow> Validator \<Rightarrow> 's
     \<Rightarrow> (auth_err + TenantContext) \<times> Validator" where
  "Authenticate R bc now username password v s =
     (let username = trim_space username in
      if username = '''' \<or> password = '''' then (Inl ErrAuthFailed, v)
      else
        let cacheKey = username @ [CHR 0x00] @ ProxyTokenLookupHash password in
        if va_cacheTTL v > 0 then
          (case cacheGet now cacheKey v of
             Some tc \<Rightarrow> (case revalidateToken R now tc s of
                 Inr tc' \<Rightarrow> (Inr tc', v)
               | Inl _ \<Rightarrow> authenticate_store R bc now username password (cacheDelete cacheKey v) s)
           | None \<Rightarrow> authenticate_store R bc now username password v s)
        else authenticate_store R bc now username password v s)"

definition ParsePLAINPayload :: "bytes \<Rightarrow> auth_err + (bytes \<times> bytes)" where
  "ParsePLAINPayload payload = (case split_on (CHR 0x00) payload of
      [p0, p1] \<Rightarrow> Inr (p0, p1)
    | [p0, p1, p2] \<Rightarrow> Inr (p1, p2)
    | [p0, p1, p2, p3] \<Rightarrow> if p3 = '''' then Inr (p1, p2) else Inl ErrAuthFailed
    | _ \<Rightarrow> Inl ErrAuthFailed)"

section \<open>The token store contract\<close>

text \<open>
  \<open>cred i\<close> is the bcrypt hash and the lookup hash issued for token id \<open>i\<close>, which never
  change; \<open>invar cred s\<close> is the invariant of a store holding such tokens.
\<close>

locale token_store =
  fixes R :: "'s auth_reads" and invar :: "(bytes \<Rightarrow> bytes \<times> bytes) \<Rightarrow> 's \<Rightarrow> bool"
  assumes by_lookup: "invar cred s \<Longrightarrow> ar_GetActiveTokenByLookup R now t l s = Inr row \<Longrightarrow>
      th_LookupHash row = l \<and> (th_TokenHash row, th_LookupHash row) = cred (th_ID row) \<and>
      (\<exists>tok. ar_GetTokenByID R (th_ID row) s = Inr tok \<and> tk_TenantID tok = t \<and> token_active now tok
        \<and> tk_ConnectionID tok = th_ConnectionID row)"
    and by_list: "invar cred s \<Longrightarrow> ar_ListActiveTokenHashes R now t s = Inr rows \<Longrightarrow> row \<in> set rows \<Longrightarrow>
      (th_TokenHash row, th_LookupHash row) = cred (th_ID row) \<and>
      (\<exists>tok. ar_GetTokenByID R (th_ID row) s = Inr tok \<and> tk_TenantID tok = t \<and> token_active now tok
        \<and> tk_ConnectionID tok = th_ConnectionID row)"

text \<open>The password is the one the token was issued with.\<close>

definition matches :: "(bytes \<Rightarrow> bytes \<Rightarrow> bool) \<Rightarrow> (bytes \<Rightarrow> bytes \<times> bytes) \<Rightarrow> bytes \<Rightarrow> bytes \<Rightarrow> bool" where
  "matches bc cred i password \<longleftrightarrow> snd (cred i) = ProxyTokenLookupHash password
     \<or> snd (cred i) = '''' \<and> bc (fst (cred i)) password"

definition cache_sound :: "(bytes \<Rightarrow> bytes \<Rightarrow> bool) \<Rightarrow> (bytes \<Rightarrow> bytes \<times> bytes) \<Rightarrow> Validator \<Rightarrow> bool" where
  "cache_sound bc cred v \<longleftrightarrow> gm_wf (va_cache v) \<and> (\<forall>k e. gm_get (va_cache v) k = Some e \<longrightarrow>
     (\<exists>p. k = tc_TenantID (ac_tc e) @ [CHR 0x00] @ ProxyTokenLookupHash p \<and> matches bc cred (tc_TokenID (ac_tc e)) p))"

definition granted :: "'s auth_reads \<Rightarrow> time \<Rightarrow> bytes \<Rightarrow> TenantContext \<Rightarrow> 's \<Rightarrow> bool" where
  "granted R now tenant tc s \<longleftrightarrow> tc_TenantID tc = tenant \<and>
     (\<exists>tok. ar_GetTokenByID R (tc_TokenID tc) s = Inr tok \<and> tk_TenantID tok = tenant \<and> token_active now tok
       \<and> tk_ConnectionID tok = tc_ConnectionID tc)"

lemma cache_key_inj:
  "u @ [CHR 0x00] @ ProxyTokenLookupHash p = u' @ [CHR 0x00] @ ProxyTokenLookupHash p' \<longleftrightarrow>
   u = u' \<and> ProxyTokenLookupHash p = ProxyTokenLookupHash p'"
  using split_last [of "CHR 0x00" "ProxyTokenLookupHash p" "ProxyTokenLookupHash p'" u u'] hex_encode_no_nul
  by (simp add: ProxyTokenLookupHash_def)

lemma cache_sound_put:
  assumes "cache_sound bc cred v" and "matches bc cred (tc_TokenID tc) p"
  shows "cache_sound bc cred (cachePut now (tc_TenantID tc @ [CHR 0x00] @ ProxyTokenLookupHash p) tc v)"
proof -
  have wf: "gm_wf (va_cache v)" using assms(1) by (simp add: cache_sound_def)
  show ?thesis
    using assms wf by (auto simp: cache_sound_def cachePut_def Let_def gm_get_drop split: option.splits if_splits)
qed

lemma cache_sound_delete: "cache_sound bc cred v \<Longrightarrow> cache_sound bc cred (cacheDelete k v)"
  by (auto simp: cache_sound_def cacheDelete_def)

lemma legacy_match_in:
  "legacy_match bc password rows = Some row \<Longrightarrow>
   row \<in> set rows \<and> th_LookupHash row = '''' \<and> bc (th_TokenHash row) password"
  by (induction rows) (auto split: if_splits)

context token_store
begin

lemma accept_row_sound:
  assumes "cache_sound bc cred v" and "matches bc cred (th_ID row) p"
    and tok: "ar_GetTokenByID R (th_ID row) s = Inr tok" "tk_TenantID tok = u" "token_active now tok"
      "tk_ConnectionID tok = th_ConnectionID row"
    and r: "accept_row R now u (u @ [CHR 0x00] @ ProxyTokenLookupHash p) row v s = (res, v')"
  shows "cache_sound bc cred v' \<and> (\<forall>tc. res = Inr tc \<longrightarrow> granted R now u tc s \<and> tc_TokenID tc = th_ID row)"
proof (cases "tenantContextFromRow R u row s")
  case (Inl e)
  with r assms(1) show ?thesis by (auto simp: accept_row_def)
next
  case (Inr tc)
  hence tc: "tc = \<lparr>tc_TenantID = u, tc_ConnectionID = th_ConnectionID row, tc_TokenID = th_ID row\<rparr>"
    by (auto simp: tenantContextFromRow_def split: if_splits sum.splits store_err.splits)
  from Inr r have v': "res = Inr tc" "v' = cachePut now (u @ [CHR 0x00] @ ProxyTokenLookupHash p) tc v"
    by (simp_all add: accept_row_def)
  have "cache_sound bc cred v'"
    using cache_sound_put [of bc cred v tc p now] assms(1,2) unfolding v' by (simp add: tc)
  with v' tok show ?thesis by (auto simp: tc granted_def)
qed

lemma authenticate_store_sound:
  assumes s: "invar cred s" and c: "cache_sound bc cred v"
    and r: "authenticate_store R bc now u p v s = (res, v')"
  shows "cache_sound bc cred v' \<and> (\<forall>tc. res = Inr tc \<longrightarrow> granted R now u tc s \<and> matches bc cred (tc_TokenID tc) p)"
proof -
  have row: "cache_sound bc cred v' \<and> (\<forall>tc. res = Inr tc \<longrightarrow> granted R now u tc s \<and> matches bc cred (tc_TokenID tc) p)"
    if "accept_row R now u (u @ [CHR 0x00] @ ProxyTokenLookupHash p) row v s = (res, v')"
      and "matches bc cred (th_ID row) p"
      and "\<exists>tok. ar_GetTokenByID R (th_ID row) s = Inr tok \<and> tk_TenantID tok = u \<and> token_active now tok
        \<and> tk_ConnectionID tok = th_ConnectionID row" for row
    using that(2,3) accept_row_sound [OF c that(2) _ _ _ _ that(1)] by fastforce
  show ?thesis
  proof (cases "ar_GetActiveTokenByLookup R now u (ProxyTokenLookupHash p) s")
    case (Inr rw)
    note bl = by_lookup [OF s Inr]
    have "snd (cred (th_ID rw)) = ProxyTokenLookupHash p" using bl by (metis snd_conv)
    hence m: "matches bc cred (th_ID rw) p" by (simp add: matches_def)
    from r Inr c row [OF _ m] bl show ?thesis
      by (auto simp: authenticate_store_def Let_def split: sum.splits store_err.splits if_splits)
  next
    case (Inl e)
    show ?thesis
    proof (cases "\<exists>rows rw. ar_ListActiveTokenHashes R now u s = Inr rows \<and> legacy_match bc p rows = Some rw")
      case True
      then obtain rows rw where rows: "ar_ListActiveTokenHashes R now u s = Inr rows" "legacy_match bc p rows = Some rw" by blast
      note rw = legacy_match_in [OF rows(2)]
      note bl = by_list [OF s rows(1) conjunct1 [OF rw]]
      have "snd (cred (th_ID rw)) = ''''" "fst (cred (th_ID rw)) = th_TokenHash rw"
        using bl rw by (metis snd_conv, metis fst_conv)
      with rw have m: "matches bc cred (th_ID rw) p" by (simp add: matches_def)
      from r Inl rows c row [OF _ m] bl show ?thesis
        by (auto simp: authenticate_store_def Let_def split: sum.splits store_err.splits if_splits)
    next
      case False
      with r Inl c show ?thesis
        by (auto simp: authenticate_store_def Let_def split: sum.splits store_err.splits if_splits option.splits)
    qed
  qed
qed

end

context token_store
begin

lemma Authenticate_sound:
  assumes s: "invar cred s" and c: "cache_sound bc cred v"
    and r: "Authenticate R bc now u p v s = (res, v')"
  shows "cache_sound bc cred v' \<and> (\<forall>tc. res = Inr tc \<longrightarrow> granted R now (trim_space u) tc s
    \<and> (\<exists>q. ProxyTokenLookupHash q = ProxyTokenLookupHash p \<and> matches bc cred (tc_TokenID tc) q))"
proof (cases "trim_space u = '''' \<or> p = ''''")
  case True
  with r c show ?thesis by (auto simp: Authenticate_def Let_def)
next
  case ne: False
  define k where "k = trim_space u @ [CHR 0x00] @ ProxyTokenLookupHash p"
  have store: ?thesis if "cache_sound bc cred w" "authenticate_store R bc now (trim_space u) p w s = (res, v')" for w
    using authenticate_store_sound [OF s that] by blast
  show ?thesis
  proof (cases "\<exists>tc tc'. va_cacheTTL v > 0 \<and> cacheGet now k v = Some tc \<and> revalidateToken R now tc s = Inr tc'")
    case True
    then obtain tc tc' where hit: "cacheGet now k v = Some tc" "revalidateToken R now tc s = Inr tc'" "va_cacheTTL v > 0"
      by blast
    with ne r have res: "res = Inr tc'" "v' = v" by (auto simp: Authenticate_def k_def)
    from hit(1) obtain e where e: "gm_get (va_cache v) k = Some e" "tc = ac_tc e"
      by (auto simp: cacheGet_def split: option.splits if_splits)
    with c obtain q where q: "k = tc_TenantID tc @ [CHR 0x00] @ ProxyTokenLookupHash q" "matches bc cred (tc_TokenID tc) q"
      unfolding cache_sound_def by blast
    hence key: "tc_TenantID tc = trim_space u" "ProxyTokenLookupHash q = ProxyTokenLookupHash p"
      using cache_key_inj [of "tc_TenantID tc" q "trim_space u" p] by (simp_all add: k_def)
    from hit(2) obtain tok where tok: "ar_GetTokenByID R (tc_TokenID tc) s = Inr tok" "tk_TenantID tok = tc_TenantID tc"
        "token_active now tok" "tc' = tc\<lparr>tc_ConnectionID := tk_ConnectionID tok\<rparr>"
      by (auto simp: revalidateToken_def token_active_def split: sum.splits if_splits option.splits)
    hence "granted R now (trim_space u) tc' s" by (auto simp: granted_def key)
    with c q(2) key(2) tok(4) show ?thesis unfolding res by auto
  next
    case False
    with ne r have "authenticate_store R bc now (trim_space u) p v s = (res, v')
        \<or> authenticate_store R bc now (trim_space u) p (cacheDelete k v) s = (res, v')"
      by (auto simp: Authenticate_def k_def Let_def split: if_splits option.splits sum.splits)
    with store c cache_sound_delete show ?thesis by blast
  qed
qed

end

section \<open>The in-memory store satisfies the contract\<close>

definition tokens_ok :: "(bytes \<Rightarrow> bytes \<times> bytes) \<Rightarrow> ControlStore \<Rightarrow> bool" where
  "tokens_ok cred m \<longleftrightarrow> gm_wf (m_tokens m) \<and> (\<forall>i r. gm_get (m_tokens m) i = Some r \<longrightarrow>
     tk_ID (tr_tok r) = i \<and> (tr_hash r, tr_lookup r) = cred i)"

lemma tokens_ok_row:
  assumes "tokens_ok cred m" "r \<in> set (map snd (m_tokens m))"
  shows "gm_get (m_tokens m) (tk_ID (tr_tok r)) = Some r \<and> (tr_hash r, tr_lookup r) = cred (tk_ID (tr_tok r))"
proof -
  from assms obtain i where "gm_get (m_tokens m) i = Some r"
    by (auto simp: tokens_ok_def gm_get_in_set)
  with assms(1) show ?thesis by (auto simp: tokens_ok_def)
qed

lemma lookup_row:
  assumes "GetActiveTokenByLookup now t l m = Inr row"
  obtains r where "r \<in> set (map snd (m_tokens m))" "row = hash_row r" "tk_TenantID (tr_tok r) = t"
    "tr_lookup r = l" "token_active now (tr_tok r)"
proof -
  define ok where "ok = (\<lambda>r::tokenRow. tk_TenantID (tr_tok r) = t \<and> tr_lookup r = l \<and> token_active now (tr_tok r))"
  from assms obtain r rs where r: "filter ok (map snd (m_tokens m)) = r # rs" "row = hash_row r"
    by (auto simp: GetActiveTokenByLookup_def ok_def split: if_splits list.splits)
  obtain us vs where "map snd (m_tokens m) = us @ r # vs" "ok r" using Cons_eq_filterD [OF r(1) [symmetric]] by auto
  moreover have "r \<in> set (us @ r # vs)" by simp
  ultimately have "r \<in> set (map snd (m_tokens m)) \<and> ok r" by metis
  with r(2) that show thesis by (auto simp: ok_def)
qed

lemma list_row:
  assumes "ListActiveTokenHashes now t m = Inr rows" and "row \<in> set rows"
  obtains r where "r \<in> set (map snd (m_tokens m))" "row = hash_row r" "tk_TenantID (tr_tok r) = t"
    "token_active now (tr_tok r)"
proof -
  define xs where "xs = map snd (m_tokens m)"
  from assms(1) have "rows = map hash_row (filter (\<lambda>r. tk_TenantID (tr_tok r) = t \<and> token_active now (tr_tok r)) xs)"
    by (simp add: ListActiveTokenHashes_def xs_def)
  with assms(2) that show thesis unfolding xs_def [symmetric] by fastforce
qed

interpretation pa: token_store control_auth_reads tokens_ok
proof (unfold_locales)
  fix cred m now t l row
  assume ok: "tokens_ok cred m" and "ar_GetActiveTokenByLookup control_auth_reads now t l m = Inr row"
  then obtain r where r: "r \<in> set (map snd (m_tokens m))" "row = hash_row r" "tk_TenantID (tr_tok r) = t"
      "tr_lookup r = l" "token_active now (tr_tok r)"
    by (auto simp: control_auth_reads_def elim: lookup_row)
  with tokens_ok_row [OF ok r(1)] show "th_LookupHash row = l \<and> (th_TokenHash row, th_LookupHash row) = cred (th_ID row) \<and>
      (\<exists>tok. ar_GetTokenByID control_auth_reads (th_ID row) m = Inr tok \<and> tk_TenantID tok = t \<and> token_active now tok
        \<and> tk_ConnectionID tok = th_ConnectionID row)"
    by (simp add: control_auth_reads_def hash_row_def GetTokenByID_def)
next
  fix cred m now t rows row
  assume ok: "tokens_ok cred m" and "ar_ListActiveTokenHashes control_auth_reads now t m = Inr rows" "row \<in> set rows"
  then obtain r where r: "r \<in> set (map snd (m_tokens m))" "row = hash_row r" "tk_TenantID (tr_tok r) = t"
      "token_active now (tr_tok r)"
    by (auto simp: control_auth_reads_def elim: list_row)
  with tokens_ok_row [OF ok r(1)] show "(th_TokenHash row, th_LookupHash row) = cred (th_ID row) \<and>
      (\<exists>tok. ar_GetTokenByID control_auth_reads (th_ID row) m = Inr tok \<and> tk_TenantID tok = t \<and> token_active now tok
        \<and> tk_ConnectionID tok = th_ConnectionID row)"
    by (simp add: control_auth_reads_def hash_row_def GetTokenByID_def)
qed

section \<open>Histories of the store and of the validator\<close>

text \<open>The operations of the store that touch tenants, connections and tokens.\<close>

datatype token_op =
    OpCreateTenant Tenant | OpDeleteTenant bytes
  | OpCreateConnection Connection | OpDeleteConnection bytes
  | OpCreateToken Token bytes bytes | OpRevokeToken bytes | OpClearTokenRevocation bytes

fun token_step :: "time \<Rightarrow> token_op \<Rightarrow> ControlStore \<Rightarrow> ControlStore" where
  "token_step now (OpCreateTenant t) m = snd (CreateTenant t m)"
| "token_step now (OpDeleteTenant i) m = snd (DeleteTenant i m)"
| "token_step now (OpCreateConnection c) m = snd (CreateConnection c m)"
| "token_step now (OpDeleteConnection i) m = snd (DeleteConnection i m)"
| "token_step now (OpCreateToken tok h l) m = snd (CreateToken tok h l m)"
| "token_step now (OpRevokeToken i) m = snd (RevokeToken now i m)"
| "token_step now (OpClearTokenRevocation i) m = snd (ClearTokenRevocation i m)"

datatype auth_event = StoreEvent token_op | LoginEvent bytes bytes | ForgetAllEvent | ForgetTokenEvent bytes

text \<open>The answers of a history, each with its time, its arguments and the store it was given from.\<close>

fun auth_run ::
  "(bytes \<Rightarrow> bytes \<Rightarrow> bool) \<Rightarrow> (time \<times> auth_event) list \<Rightarrow> ControlStore \<Rightarrow> Validator
     \<Rightarrow> (time \<times> bytes \<times> bytes \<times> ControlStore \<times> (auth_err + TenantContext)) list" where
  "auth_run bc [] m v = []"
| "auth_run bc ((now, StoreEvent ev) # evs) m v = auth_run bc evs (token_step now ev m) v"
| "auth_run bc ((now, LoginEvent u p) # evs) m v =
     (let (res, v') = Authenticate control_auth_reads bc now u p v m in (now, u, p, m, res) # auth_run bc evs m v')"
| "auth_run bc ((now, ForgetAllEvent) # evs) m v = auth_run bc evs m (InvalidateAuthCache v)"
| "auth_run bc ((now, ForgetTokenEvent i) # evs) m v = auth_run bc evs m (InvalidateToken i v)"

lemma tokens_ok_step:
  assumes "tokens_ok cred m"
    and "\<And>tok h l. ev = OpCreateToken tok h l \<Longrightarrow> (h, l) = cred (tk_ID tok)"
  shows "tokens_ok cred (token_step now ev m)"
proof (cases ev)
  case (OpRevokeToken i)
  with assms(1) show ?thesis
    by (cases "gm_get (m_tokens m) i") (auto simp: tokens_ok_def RevokeToken_def)
next
  case (OpClearTokenRevocation i)
  with assms(1) show ?thesis
    by (cases "gm_get (m_tokens m) i") (auto simp: tokens_ok_def ClearTokenRevocation_def)
qed (use assms in \<open>auto simp: tokens_ok_def CreateTenant_def DeleteTenant_def CreateConnection_def DeleteConnection_def
       CreateToken_def gm_get_drop split: option.splits if_splits\<close>)

text \<open>Every token of the history is issued with the hashes \<open>cred\<close> gives for its id.\<close>

definition issues :: "(bytes \<Rightarrow> bytes \<times> bytes) \<Rightarrow> (time \<times> auth_event) list \<Rightarrow> bool" where
  "issues cred evs \<longleftrightarrow> list_all (\<lambda>(t, ev). case ev of
     StoreEvent (OpCreateToken tok h l) \<Rightarrow> (h, l) = cred (tk_ID tok) | _ \<Rightarrow> True) evs"

lemma cache_sound_forget [simp]: "cache_sound bc cred (InvalidateAuthCache v)" "cache_sound bc cred NewValidator"
  by (simp_all add: cache_sound_def InvalidateAuthCache_def NewValidator_def)

lemma cache_sound_forget_token: "cache_sound bc cred v \<Longrightarrow> cache_sound bc cred (InvalidateToken i v)"
  by (auto simp: cache_sound_def InvalidateToken_def gm_get_drop split: option.splits if_splits)

lemma auth_run_sound:
  assumes "tokens_ok cred m" and "cache_sound bc cred v"
    and "issues cred evs"
    and "(now, u, p, s, Inr tc) \<in> set (auth_run bc evs m v)"
  shows "tokens_ok cred s \<and> granted control_auth_reads now (trim_space u) tc s
    \<and> (\<exists>q. ProxyTokenLookupHash q = ProxyTokenLookupHash p \<and> matches bc cred (tc_TokenID tc) q)"
  using assms
proof (induction bc evs m v rule: auth_run.induct)
  case (2 bc now' ev evs m v)
  have "tokens_ok cred (token_step now' ev m)" using 2(2,4) by (intro tokens_ok_step) (auto simp: issues_def)
  with 2 show ?case by (simp add: issues_def)
next
  case (3 bc now' u' p' evs m v)
  obtain res v' where a: "Authenticate control_auth_reads bc now' u' p' v m = (res, v')" by fastforce
  note snd3 = pa.Authenticate_sound [OF 3(2,3) a]
  from 3(5) a consider "(now, u, p, s, Inr tc) = (now', u', p', m, res)" | "(now, u, p, s, Inr tc) \<in> set (auth_run bc evs m v')"
    by auto
  then show ?case
  proof cases
    case 1 with snd3 3(2) show ?thesis by auto
  next
    case 2 with 3(1) [OF a [symmetric] refl] snd3 3(2,4) show ?thesis by (simp add: issues_def)
  qed
qed (auto simp: cache_sound_forget_token issues_def)

lemma tokens_ok_new [simp]: "tokens_ok cred NewControlStore"
  by (simp add: tokens_ok_def NewControlStore_def)

section \<open>Properties\<close>

text \<open>C34. Soundness of authentication over every history of the store and the validator: when a login
  succeeds, the context names the trimmed user as the tenant and a token that is in the store
  at that moment, belongs to that tenant, is neither revoked nor expired and is bound to the
  connection of the context; and the credential issued with that token matches the password,
  up to the lookup hash the code compares (or, for a token without one, by bcrypt).  The
  positive cache never weakens this.  \<open>cred\<close> gives the hashes each token id is issued with.\<close>

theorem auth_grants_only_issued_tokens:
  assumes "issues cred evs"
    and "(now, u, p, s, Inr tc) \<in> set (auth_run bc evs NewControlStore NewValidator)"
  shows "tc_TenantID tc = trim_space u
    \<and> (\<exists>tok. GetTokenByID (tc_TokenID tc) s = Inr tok \<and> tk_TenantID tok = trim_space u \<and> token_active now tok
      \<and> tk_ConnectionID tok = tc_ConnectionID tc)
    \<and> (\<exists>q. ProxyTokenLookupHash q = ProxyTokenLookupHash p \<and>
      (snd (cred (tc_TokenID tc)) = ProxyTokenLookupHash q \<or>
       snd (cred (tc_TokenID tc)) = '''' \<and> bc (fst (cred (tc_TokenID tc))) q))"
  using auth_run_sound [OF tokens_ok_new cache_sound_forget(2) assms]
  by (auto simp: granted_def control_auth_reads_def matches_def)

text \<open>A tenant with one connection and one token, used by the witnesses.\<close>

definition demo_token :: Token where
  "demo_token = \<lparr>tk_ID = ''t1'', tk_TenantID = ''acme'', tk_ConnectionID = ''c1'', tk_Description = '''',
     tk_CreatedAt = 0, tk_ExpiresAt = Some 100, tk_RevokedAt = None, tk_ReenableUntil = None\<rparr>"

definition demo_tenant :: "bytes \<Rightarrow> Tenant" where
  "demo_tenant st = \<lparr>tn_ID = ''acme'', tn_Name = '''', tn_Status = st, tn_CreatedAt = 0, tn_UpdatedAt = 0\<rparr>"

definition demo_conn :: Connection where
  "demo_conn = \<lparr>cn_ID = ''c1'', cn_TenantID = ''acme'', cn_Name = ''main'', cn_URICiphertext = '''', cn_Nonce = '''',
     cn_DEKVersion = '''', cn_AutoInvalidateOnWrite = False, cn_LastValidatedAt = None, cn_CreatedAt = 0,
     cn_UpdatedAt = 0\<rparr>"

definition demo_history :: "(time \<times> auth_event) list" where
  "demo_history = [(0, StoreEvent (OpCreateTenant (demo_tenant ''active''))), (0, StoreEvent (OpCreateConnection demo_conn)),
     (0, StoreEvent (OpCreateToken demo_token ''h'' (ProxyTokenLookupHash ''pw''))), (5, LoginEvent ''acme'' ''pw'')]"

definition demo_store :: ControlStore where
  "demo_store = token_step 0 (OpCreateToken demo_token ''h'' (ProxyTokenLookupHash ''pw''))
     (token_step 0 (OpCreateConnection demo_conn) (token_step 0 (OpCreateTenant (demo_tenant ''active'')) NewControlStore))"

definition demo_tc :: TenantContext where
  "demo_tc = \<lparr>tc_TenantID = ''acme'', tc_ConnectionID = ''c1'', tc_TokenID = ''t1''\<rparr>"

lemma ProxyTokenLookupHash_nonempty [simp]: "ProxyTokenLookupHash p \<noteq> ''''"
proof -
  have "length (ProxyTokenLookupHash p) = 64" by (simp add: ProxyTokenLookupHash_def)
  thus ?thesis by force
qed

lemma trim_acme [simp]: "trim_space ''acme'' = ''acme''"
  by code_simp

lemma demo_store_get:
  "GetTenant ''acme'' demo_store = Inr (demo_tenant ''active'')" "GetConnection ''c1'' demo_store = Inr demo_conn"
  "GetTokenByID ''t1'' demo_store = Inr demo_token"
  "m_tokens demo_store = [(''t1'', \<lparr>tr_tok = demo_token, tr_hash = ''h'', tr_lookup = ProxyTokenLookupHash ''pw''\<rparr>)]"
  by (simp_all add: demo_store_def CreateTenant_def CreateConnection_def CreateToken_def GetTenant_def GetConnection_def
      GetTokenByID_def NewControlStore_def gm_put_def gm_get_def gm_del_def demo_tenant_def demo_conn_def demo_token_def)

lemma demo_login:
  "Authenticate control_auth_reads bc 5 ''acme'' ''pw'' NewValidator demo_store =
     (Inr demo_tc, cachePut 5 (''acme'' @ [CHR 0x00] @ ProxyTokenLookupHash ''pw'') demo_tc NewValidator)"
  by (simp add: Authenticate_def authenticate_store_def accept_row_def tenantContextFromRow_def control_auth_reads_def Let_def
      NewValidator_def cacheGet_def GetActiveTokenByLookup_def hash_row_def demo_store_get demo_tc_def
      token_active_def demo_token_def demo_tenant_def)

lemma demo_run: "(5, ''acme'', ''pw'', demo_store, Inr demo_tc) \<in> set (auth_run bc demo_history NewControlStore NewValidator)"
  unfolding demo_history_def auth_run.simps demo_store_def [symmetric] demo_login by simp

lemma auth_grants_only_issued_tokens_witness:
  "\<exists>tok. GetTokenByID ''t1'' demo_store = Inr tok \<and> token_active 5 tok"
proof -
  have "issues (\<lambda>_. (''h'', ProxyTokenLookupHash ''pw'')) demo_history"
    by (simp add: demo_history_def issues_def)
  from auth_grants_only_issued_tokens [OF this demo_run] show ?thesis by (auto simp: demo_tc_def)
qed

lemma lookup_finds:
  assumes "r \<in> set (map snd (m_tokens m))" and "tk_TenantID (tr_tok r) = t" and "tr_lookup r = l" and "l \<noteq> ''''"
    and "token_active now (tr_tok r)"
  obtains row where "GetActiveTokenByLookup now t l m = Inr row"
proof -
  define ok where "ok = (\<lambda>r::tokenRow. tk_TenantID (tr_tok r) = t \<and> tr_lookup r = l \<and> token_active now (tr_tok r))"
  have "filter ok (map snd (m_tokens m)) \<noteq> []"
    using assms by (simp only: ok_def filter_empty_conv) blast
  then obtain r' rs where "filter ok (map snd (m_tokens m)) = r' # rs" by (cases "filter ok (map snd (m_tokens m))") auto
  hence "GetActiveTokenByLookup now t l m = Inr (hash_row r')"
    using assms(4) by (simp add: GetActiveTokenByLookup_def ok_def)
  thus thesis by (rule that)
qed

text \<open>Completeness of authentication on the in-memory store: a tenant that is active, with a usable token
  issued under the lookup hash of the password and all its tokens' connections present, logs in
  whatever the positive cache holds.\<close>

theorem auth_accepts_issued_token:
  assumes "GetTenant (trim_space u) m = Inr t" and "tn_Status t = '''' \<or> tn_Status t = ''active''"
    and "r \<in> set (map snd (m_tokens m))" and "tk_TenantID (tr_tok r) = trim_space u"
    and "tr_lookup r = ProxyTokenLookupHash p" and "token_active now (tr_tok r)"
    and "\<forall>r \<in> set (map snd (m_tokens m)). \<exists>c. GetConnection (tk_ConnectionID (tr_tok r)) m = Inr c"
    and "trim_space u \<noteq> ''''" and "p \<noteq> ''''"
  shows "\<exists>tc v'. Authenticate control_auth_reads bc now u p v m = (Inr tc, v')"
proof -
  obtain row where row: "GetActiveTokenByLookup now (trim_space u) (ProxyTokenLookupHash p) m = Inr row"
    using lookup_finds [OF assms(3,4,5) ProxyTokenLookupHash_nonempty assms(6)] .
  then obtain r' where r': "r' \<in> set (map snd (m_tokens m))" "row = hash_row r'" "token_active now (tr_tok r')"
    by (auto elim: lookup_row)
  then obtain c where c: "GetConnection (th_ConnectionID row) m = Inr c"
    using assms(7) by (auto simp: hash_row_def)
  moreover have "th_ConnectionID row \<noteq> ''''" using r' by (simp add: hash_row_def token_active_def)
  ultimately obtain tc where "tenantContextFromRow control_auth_reads (trim_space u) row m = Inr tc"
    by (simp add: tenantContextFromRow_def control_auth_reads_def)
  hence store: "\<exists>v'. authenticate_store control_auth_reads bc now (trim_space u) p w m = (Inr tc, v')" for w
    using assms(1,2) row by (auto simp: authenticate_store_def accept_row_def control_auth_reads_def Let_def)
  show ?thesis
    using store [of v] store [of "cacheDelete (trim_space u @ [CHR 0x00] @ ProxyTokenLookupHash p) v"] assms(8,9)
    by (auto simp: Authenticate_def Let_def split: option.splits sum.splits)
qed

lemma auth_accepts_issued_token_witness:
  "\<exists>tc v'. Authenticate control_auth_reads (\<lambda>h p. False) 5 ''acme'' ''pw'' NewValidator demo_store = (Inr tc, v')"
  by (rule auth_accepts_issued_token [of "''acme''" demo_store "demo_tenant ''active''"
        "\<lparr>tr_tok = demo_token, tr_hash = ''h'', tr_lookup = ProxyTokenLookupHash ''pw''\<rparr>" "''pw''" 5])
    (simp_all add: demo_store_get demo_tenant_def demo_token_def token_active_def)

text \<open>C35. While a login is in the positive cache and its token is still usable, the tenant record is not read:
  the answer is the same for every content of the tenants table, in particular for a tenant
  that was suspended or removed in the meantime.\<close>

theorem cached_auth_ignores_tenant:
  assumes "cacheGet now (trim_space u @ [CHR 0x00] @ ProxyTokenLookupHash p) v = Some tc" and "va_cacheTTL v > 0"
    and "GetTokenByID (tc_TokenID tc) m = Inr tok" and "tk_TenantID tok = tc_TenantID tc" and "token_active now tok"
    and "trim_space u \<noteq> ''''" and "p \<noteq> ''''"
  shows "Authenticate control_auth_reads bc now u p v (m\<lparr>m_tenants := ts\<rparr>) =
    (Inr (tc\<lparr>tc_ConnectionID := tk_ConnectionID tok\<rparr>), v)"
proof -
  have "GetTokenByID (tc_TokenID tc) (m\<lparr>m_tenants := ts\<rparr>) = Inr tok"
    using assms(3) by (simp add: GetTokenByID_def)
  hence "revalidateToken control_auth_reads now tc (m\<lparr>m_tenants := ts\<rparr>) = Inr (tc\<lparr>tc_ConnectionID := tk_ConnectionID tok\<rparr>)"
    using assms(4,5) by (auto simp: revalidateToken_def control_auth_reads_def token_active_def split: option.splits)
  with assms show ?thesis by (simp add: Authenticate_def)
qed

lemma cached_auth_ignores_tenant_witness:
  "Authenticate control_auth_reads (\<lambda>h p. False) 10 ''acme'' ''pw''
     (cachePut 5 (''acme'' @ [CHR 0x00] @ ProxyTokenLookupHash ''pw'') demo_tc NewValidator)
     (demo_store\<lparr>m_tenants := [(''acme'', demo_tenant ''suspended'')]\<rparr>) =
   (Inr demo_tc, cachePut 5 (''acme'' @ [CHR 0x00] @ ProxyTokenLookupHash ''pw'') demo_tc NewValidator)"
proof -
  let ?v = "cachePut 5 (''acme'' @ [CHR 0x00] @ ProxyTokenLookupHash ''pw'') demo_tc NewValidator"
  have hit: "cacheGet 10 (trim_space ''acme'' @ [CHR 0x00] @ ProxyTokenLookupHash ''pw'') ?v = Some demo_tc"
    by (simp add: cachePut_def cacheGet_def NewValidator_def)
  have "Authenticate control_auth_reads (\<lambda>h p. False) 10 ''acme'' ''pw'' ?v
      (demo_store\<lparr>m_tenants := [(''acme'', demo_tenant ''suspended'')]\<rparr>)
      = (Inr (demo_tc\<lparr>tc_ConnectionID := tk_ConnectionID demo_token\<rparr>), ?v)"
    by (rule cached_auth_ignores_tenant [OF hit])
      (simp_all add: demo_store_get demo_tc_def demo_token_def token_active_def cachePut_def NewValidator_def)
  thus ?thesis by (simp add: demo_tc_def demo_token_def)
qed

section \<open>SASL PLAIN payloads\<close>

lemma split_on_single: "split_on c s = [x] \<longleftrightarrow> s = x \<and> c \<notin> set x"
proof (cases "c \<in> set s")
  case True
  then obtain a t where "s = a @ c # t" "c \<notin> set a" by (blast dest: split_list_first)
  thus ?thesis by auto
qed auto

lemma split_on_more:
  "split_on c s = x # y # ps \<longleftrightarrow> (\<exists>t. s = x @ c # t \<and> c \<notin> set x \<and> split_on c t = y # ps)"
proof (cases "c \<in> set s")
  case True
  then obtain a t where s: "s = a @ c # t" "c \<notin> set a" by (blast dest: split_list_first)
  show ?thesis
  proof
    assume "split_on c s = x # y # ps"
    with s show "\<exists>t. s = x @ c # t \<and> c \<notin> set x \<and> split_on c t = y # ps" by auto
  qed auto
qed auto

lemma split_on_2: "split_on c s = [x, y] \<longleftrightarrow> s = x @ c # y \<and> c \<notin> set x \<and> c \<notin> set y"
  by (auto simp: split_on_more split_on_single)

lemma split_on_3: "split_on c s = [x, y, z] \<longleftrightarrow> s = x @ c # y @ c # z \<and> c \<notin> set x \<and> c \<notin> set y \<and> c \<notin> set z"
  by (auto simp: split_on_more split_on_single)

lemma split_on_4: "split_on c s = [x, y, z, w] \<longleftrightarrow>
    s = x @ c # y @ c # z @ c # w \<and> c \<notin> set x \<and> c \<notin> set y \<and> c \<notin> set z \<and> c \<notin> set w"
  by (auto simp: split_on_more split_on_single)

text \<open>C36. \<open>ParsePLAINPayload\<close> accepts exactly the messages \<open>user NUL password\<close> and
  \<open>authzid NUL user NUL password\<close>, the latter with an optional trailing NUL, and returns that
  user and password; every other payload is an authentication failure.\<close>

theorem ParsePLAINPayload_exact:
  "ParsePLAINPayload s = Inr (u, p) \<longleftrightarrow> CHR 0x00 \<notin> set u \<and> CHR 0x00 \<notin> set p \<and>
     (s = u @ CHR 0x00 # p \<or>
      (\<exists>z. CHR 0x00 \<notin> set z \<and> (s = z @ CHR 0x00 # u @ CHR 0x00 # p \<or>
         s = z @ CHR 0x00 # u @ CHR 0x00 # p @ [CHR 0x00])))"
  (is "?l \<longleftrightarrow> ?r")
proof
  assume l: ?l
  then consider "split_on (CHR 0x00) s = [u, p]" | z where "split_on (CHR 0x00) s = [z, u, p]"
    | z where "split_on (CHR 0x00) s = [z, u, p, '''']"
    by (auto simp: ParsePLAINPayload_def split: list.splits if_splits)
  then show ?r
  proof cases
    case 1 then show ?r by (simp add: split_on_2)
  next
    case 2 then show ?r unfolding split_on_3 by blast
  next
    case 3 then show ?r unfolding split_on_4 by auto
  qed
next
  assume ?r
  then show ?l
    by (auto simp: ParsePLAINPayload_def)
qed

end
