(* ===== verification/Crypto.thy ===== *)
theory Crypto
  imports Go_Lang
begin

text \<open>
  \<open>internal/crypto/crypto.go\<close>: the master key and the encryption of connection URIs, with
  the two decoders of \<open>encoding/base64\<close> it uses.  AES-GCM is the parameter \<open>aead\<close>.
\<close>

section \<open>encoding/base64\<close>

definition b64_digit :: "char \<Rightarrow> int option" where
  "b64_digit c = (let n = of_char c in
     if 65 \<le> n \<and> n \<le> 90 then Some (n - 65)
     else if 97 \<le> n \<and> n \<le> 122 then Some (n - 71)
     else if 48 \<le> n \<and> n \<le> 57 then Some (n + 4)
     else if n = 43 then Some 62 else if n = 47 then Some 63 else None)"

definition byte_of :: "int \<Rightarrow> char" where
  "byte_of n = char_of (nat (n mod 256))"

text \<open>\<open>pad\<close> selects \<open>StdEncoding\<close> (padding required) or \<open>RawStdEncoding\<close>
  (no padding); both skip CR and LF wherever they stand.\<close>

fun b64_quanta :: "bool \<Rightarrow> bytes \<Rightarrow> bytes option" where
  "b64_quanta pad [] = Some []"
| "b64_quanta pad [a] = None"
| "b64_quanta pad [a, b] = (case (b64_digit a, b64_digit b) of
     (Some x, Some y) \<Rightarrow> if pad then None else Some [byte_of (4 * x + y div 16)] | _ \<Rightarrow> None)"
| "b64_quanta pad [a, b, c] = (case (b64_digit a, b64_digit b, b64_digit c) of
     (Some x, Some y, Some z) \<Rightarrow>
       if pad then None else Some [byte_of (4 * x + y div 16), byte_of (16 * y + z div 4)]
   | _ \<Rightarrow> None)"
| "b64_quanta pad (a # b # c # d # rest) = (case (b64_digit a, b64_digit b, b64_digit c, b64_digit d) of
     (Some x, Some y, Some z, Some w) \<Rightarrow>
       map_option (\<lambda>t. [byte_of (4 * x + y div 16), byte_of (16 * y + z div 4), byte_of (64 * z + w)] @ t)
         (b64_quanta pad rest)
   | (Some x, Some y, Some z, None) \<Rightarrow>
       if pad \<and> d = CHR ''='' \<and> rest = [] then Some [byte_of (4 * x + y div 16), byte_of (16 * y + z div 4)] else None
   | (Some x, Some y, None, _) \<Rightarrow>
       if pad \<and> c = CHR ''='' \<and> d = CHR ''='' \<and> rest = [] then Some [byte_of (4 * x + y div 16)] else None
   | _ \<Rightarrow> None)"

definition b64_decode :: "bool \<Rightarrow> bytes \<Rightarrow> bytes option" where
  "b64_decode pad s = b64_quanta pad (filter (\<lambda>c. c \<noteq> CHR 0x0A \<and> c \<noteq> CHR 0x0D) s)"

section \<open>Keys, encryption and decryption\<close>

datatype crypto_err = ErrNoMasterKey | ErrInvalidKeySize | ErrInvalidCipher
  | ErrKeyEncoding | ErrNonceSource | ErrDecryptionFailed

record aead =
  ae_seal :: "bytes \<Rightarrow> bytes \<Rightarrow> bytes \<Rightarrow> bytes \<Rightarrow> bytes"           \<comment> \<open>key, nonce, plaintext, additional data\<close>
  ae_open :: "bytes \<Rightarrow> bytes \<Rightarrow> bytes \<Rightarrow> bytes \<Rightarrow> bytes option"    \<comment> \<open>key, nonce, ciphertext, additional data\<close>

definition NewConfigFromEnv :: "bytes \<Rightarrow> crypto_err + bytes" where
  "NewConfigFromEnv raw =
     (if raw = '''' then Inl ErrNoMasterKey
      else case (if length raw = 32 then Some raw
                 else case b64_decode True raw of Some k \<Rightarrow> Some k | None \<Rightarrow> b64_decode False raw) of
          None \<Rightarrow> Inl ErrKeyEncoding
        | Some key \<Rightarrow> if length key \<noteq> 32 then Inl ErrInvalidKeySize else Inr key)"

text \<open>\<open>rnd\<close> is what \<open>rand.Reader\<close> delivers for the 12-byte nonce.\<close>

definition Encrypt :: "aead \<Rightarrow> bytes \<Rightarrow> bytes option \<Rightarrow> bytes \<Rightarrow> bytes \<Rightarrow> crypto_err + (bytes \<times> bytes \<times> bytes)" where
  "Encrypt A masterKey rnd plaintext tenantID =
     (if length masterKey \<noteq> 32 then Inl ErrInvalidKeySize
      else case rnd of None \<Rightarrow> Inl ErrNonceSource
        | Some nonce \<Rightarrow> Inr (ae_seal A masterKey nonce plaintext [], nonce, ''v1''))"

definition Decrypt :: "aead \<Rightarrow> bytes \<Rightarrow> bytes \<Rightarrow> bytes \<Rightarrow> bytes \<Rightarrow> crypto_err + bytes" where
  "Decrypt A masterKey ciphertext nonce tenantID =
     (if length masterKey \<noteq> 32 then Inl ErrInvalidKeySize
      else if length nonce = 0 \<or> length ciphertext = 0 then Inl ErrInvalidCipher
      else if length nonce \<noteq> 12 then Inl ErrInvalidCipher
      else case ae_open A masterKey nonce ciphertext [] of
          None \<Rightarrow> Inl ErrDecryptionFailed | Some plaintext \<Rightarrow> Inr plaintext)"

fun find_sub :: "bytes \<Rightarrow> bytes \<Rightarrow> nat option" where
  "find_sub pat [] = (if pat = [] then Some 0 else None)"
| "find_sub pat (c # cs) = (if has_prefix (c # cs) pat then Some 0 else map_option Suc (find_sub pat cs))"

definition RedactMongoURI :: "bytes \<Rightarrow> bytes" where
  "RedactMongoURI uri =
     (if uri = '''' then ''''
      else case find_sub ''://'' uri of
          None \<Rightarrow> ''mongodb://***''
        | Some idx \<Rightarrow> let rest = drop (idx + 3) uri in
            (case find_sub ''@'' rest of
               None \<Rightarrow> ''mongodb://***''
             | Some k \<Rightarrow> take (idx + 3) uri @ ''***:***@'' @ drop (k + 1) rest))"

section \<open>Properties\<close>

text \<open>The documented behaviour of AES-GCM: opening what was sealed gives the plaintext, and the
  ciphertext carries a 16-byte tag.\<close>

definition aead_ok :: "aead \<Rightarrow> bool" where
  "aead_ok A \<longleftrightarrow> (\<forall>k n p a. ae_open A k n (ae_seal A k n p a) a = Some p \<and>
     length (ae_seal A k n p a) = length p + 16)"

text \<open>A toy AEAD that satisfies it: the tag is a fixed string.\<close>

definition toy_aead :: aead where
  "toy_aead = \<lparr>ae_seal = (\<lambda>k n p a. p @ replicate 16 (CHR ''t'')),
     ae_open = (\<lambda>k n c a. Some (take (length c - 16) c))\<rparr>"

lemma toy_aead_ok: "aead_ok toy_aead"
  by (simp add: aead_ok_def toy_aead_def)

text \<open>What was encrypted for a tenant with a well-sized key and nonce decrypts to the plaintext, whatever
  tenant the decryption is asked for: the tenant is not bound into the ciphertext.\<close>

theorem Decrypt_Encrypt:
  assumes "aead_ok A" and "length n = 12"
    and "Encrypt A key (Some n) plaintext t = Inr (ct, nonce, ver)"
  shows "Decrypt A key ct nonce t' = Inr plaintext \<and> ver = ''v1''"
proof -
  from assms(3) have e: "length key = 32" "ct = ae_seal A key n plaintext []" "nonce = n" "ver = ''v1''"
    by (auto simp: Encrypt_def split: if_splits)
  have "ae_open A key n ct [] = Some plaintext" "length ct = length plaintext + 16"
    using assms(1) by (simp_all add: aead_ok_def e)
  thus ?thesis using e assms(2) by (auto simp: Decrypt_def)
qed

lemma Decrypt_Encrypt_witness:
  "Decrypt toy_aead (replicate 32 (CHR ''k'')) (''mongodb://h'' @ replicate 16 (CHR ''t'')) (replicate 12 (CHR ''n'')) ''other''
     = Inr ''mongodb://h''"
  using Decrypt_Encrypt [OF toy_aead_ok, of "replicate 12 (CHR ''n'')" "replicate 32 (CHR ''k'')" "''mongodb://h''" "''acme''"
      "''mongodb://h'' @ replicate 16 (CHR ''t'')" "replicate 12 (CHR ''n'')" "''v1''" "''other''"]
  by (simp add: Encrypt_def toy_aead_def)

lemma find_sub_char: "CHR ''@'' \<notin> set a \<Longrightarrow> find_sub ''@'' (a @ CHR ''@'' # b) = Some (length a)"
  by (induction a) (auto simp: has_prefix_def)

lemma find_sub_scheme:
  "CHR '':'' \<notin> set a \<Longrightarrow> find_sub ''://'' (a @ ''://'' @ b) = Some (length a)"
  by (induction a) (auto simp: has_prefix_def)

text \<open>Redaction removes the whole user information of a connection URI: the result does not depend on it,
  as long as it contains no at-sign of its own.\<close>

theorem RedactMongoURI_hides_userinfo:
  assumes "CHR '':'' \<notin> set scheme" and "CHR ''@'' \<notin> set userinfo"
  shows "RedactMongoURI (scheme @ ''://'' @ userinfo @ ''@'' @ rest) = scheme @ ''://***:***@'' @ rest"
proof -
  have "find_sub ''://'' (scheme @ ''://'' @ userinfo @ ''@'' @ rest) = Some (length scheme)"
    by (rule find_sub_scheme [OF assms(1)])
  moreover have "find_sub ''@'' (userinfo @ ''@'' @ rest) = Some (length userinfo)"
    using find_sub_char [OF assms(2)] by simp
  ultimately show ?thesis by (simp add: RedactMongoURI_def Let_def)
qed

lemma RedactMongoURI_hides_userinfo_witness:
  "RedactMongoURI ''mongodb://root:secret@db:27017/x'' = ''mongodb://***:***@db:27017/x''"
  using RedactMongoURI_hides_userinfo [of "''mongodb''" "''root:secret''" "''db:27017/x''"] by simp

end
