(* ===== verification/Pool.thy ===== *)
theory Pool
  imports Control_Store Crypto
begin

text \<open>
  \<open>internal/proxy/pool/pool.go\<close>: the pool of backend clients.  A \<open>*mongo.Client\<close> is
  a number; the driver is the record \<open>mongo_dialer\<close> of what \<open>mongo.Connect\<close> and
  \<open>Ping\<close> answer.  The manager keeps, beside its own fields, the clients it has disconnected
  and the series of the gauge \<open>ProxyBackendClients\<close>.  \<open>Get\<close> is split at its lock
  boundaries, so that the interleavings of concurrent calls are sequences of these steps.
\<close>

section \<open>State\<close>

type_synonym client = nat

record tenantClient =
  cl_client :: "client option"
  cl_tenantID :: bytes
  cl_lastUsed :: time
  cl_refs :: int

record PoolManager =
  pm_clients :: "(bytes, tenantClient) gomap"
  pm_gaugeTenants :: "bytes list"
  pm_idleTimeout :: int
  pm_evictEvery :: int
  pm_disconnected :: "client list"
  pm_gauge :: "(bytes \<times> bytes, int) gomap"
  pm_created :: "bytes list"
  pm_evicted :: "bytes list"

text \<open>The fields of \<open>proxyconfig.Config\<close> the pool reads.\<close>

record pool_config =
  pc_MaxPoolSize :: int
  pc_MinPoolSize :: int
  pc_ConnectTimeout :: int
  pc_IdleTimeout :: int
  pc_IdleEvictInterval :: int

record client_opts =
  co_URI :: bytes
  co_MaxPoolSize :: "int option"
  co_MinPoolSize :: "int option"
  co_ConnectTimeout :: "int option"
  co_ServerSelectionTimeout :: "int option"

record mongo_dialer =
  md_Connect :: "client_opts \<Rightarrow> bytes + client"
  md_Ping :: "client \<Rightarrow> bytes option"

section \<open>Operations\<close>

definition NewManager :: "pool_config option \<Rightarrow> PoolManager" where
  "NewManager cfg =
     (let idle = (case cfg of None \<Rightarrow> 15 * 60 * 1000000000 | Some c \<Rightarrow> pc_IdleTimeout c);
          every = (case cfg of None \<Rightarrow> 60 * 1000000000
            | Some c \<Rightarrow> if pc_IdleEvictInterval c > 0 then pc_IdleEvictInterval c else 60 * 1000000000) in
      \<lparr>pm_clients = [], pm_gaugeTenants = [], pm_idleTimeout = idle, pm_evictEvery = every,
        pm_disconnected = [], pm_gauge = [], pm_created = [], pm_evicted = []\<rparr>)"

definition store_err_text :: "store_err \<Rightarrow> bytes" where
  "store_err_text e = (case e of ErrNotFound \<Rightarrow> ''not found'' | ErrDuplicate \<Rightarrow> ''duplicate'' | StoreError t \<Rightarrow> t)"

definition crypto_err_text :: "crypto_err \<Rightarrow> bytes" where
  "crypto_err_text e = (case e of
      ErrNoMasterKey \<Rightarrow> ''NANCE_MASTER_KEY is not set''
    | ErrInvalidKeySize \<Rightarrow> ''master key must be 32 bytes (base64 encoded 44 chars or raw 32 bytes)''
    | ErrInvalidCipher \<Rightarrow> ''invalid ciphertext or nonce''
    | ErrKeyEncoding \<Rightarrow> ''failed to decode NANCE_MASTER_KEY as base64''
    | ErrNonceSource \<Rightarrow> ''random source''
    | ErrDecryptionFailed \<Rightarrow> ''decryption failed: cipher: message authentication failed'')"

definition connect_opts :: "pool_config option \<Rightarrow> bytes \<Rightarrow> client_opts" where
  "connect_opts cfg uri = (case cfg of
      None \<Rightarrow> \<lparr>co_URI = uri, co_MaxPoolSize = None, co_MinPoolSize = None, co_ConnectTimeout = None,
        co_ServerSelectionTimeout = None\<rparr>
    | Some c \<Rightarrow> \<lparr>co_URI = uri,
        co_MaxPoolSize = (if pc_MaxPoolSize c > 0 then Some (pc_MaxPoolSize c) else None),
        co_MinPoolSize = (if pc_MinPoolSize c > 0 then Some (pc_MinPoolSize c) else None),
        co_ConnectTimeout = (if pc_ConnectTimeout c > 0 then Some (pc_ConnectTimeout c) else None),
        co_ServerSelectionTimeout = (if pc_ConnectTimeout c > 0 then Some (pc_ConnectTimeout c) else None)\<rparr>)"

text \<open>A client that answers no ping is disconnected before the error is returned.\<close>

definition connect ::
  "mongo_dialer \<Rightarrow> aead \<Rightarrow> bytes \<Rightarrow> pool_config option \<Rightarrow> bytes \<Rightarrow> ControlStore \<Rightarrow> PoolManager
     \<Rightarrow> (bytes + (client \<times> bytes)) \<times> PoolManager" where
  "connect D A masterKey cfg connectionID s m = (case GetConnection connectionID s of
      Inl err \<Rightarrow> (Inl (''connection lookup: '' @ store_err_text err), m)
    | Inr conn \<Rightarrow> (case Decrypt A masterKey (cn_URICiphertext conn) (cn_Nonce conn) (cn_TenantID conn) of
          Inl err \<Rightarrow> (Inl (''decrypt connection uri: '' @ crypto_err_text err), m)
        | Inr uri \<Rightarrow> (case md_Connect D (connect_opts cfg uri) of
              Inl err \<Rightarrow> (Inl (''mongo connect: '' @ err), m)
            | Inr c \<Rightarrow> (case md_Ping D c of
                  Some err \<Rightarrow> (Inl (''backend ping: '' @ err), m\<lparr>pm_disconnected := c # pm_disconnected m\<rparr>)
                | None \<Rightarrow> (Inr (c, cn_TenantID conn), m)))))"

section \<open>Gauges\<close>

text \<open>The number of clients of a tenant in each state, over the entries with a tenant.\<close>

definition count_state :: "bytes \<Rightarrow> bool \<Rightarrow> PoolManager \<Rightarrow> int" where
  "count_state tid busy m = gm_sum (\<lambda>e. if cl_tenantID e = tid \<and> (cl_refs e > 0) = busy then 1 else 0) (pm_clients m)"

definition by_tenant :: "PoolManager \<Rightarrow> bytes list" where
  "by_tenant m = remdups (filter (\<lambda>t. t \<noteq> '''') (map (cl_tenantID \<circ> snd) (pm_clients m)))"

definition set_gauge :: "bytes \<Rightarrow> bytes \<Rightarrow> int \<Rightarrow> (bytes \<times> bytes, int) gomap \<Rightarrow> (bytes \<times> bytes, int) gomap" where
  "set_gauge tid st n g = (if n > 0 then gm_put g (tid, st) n else gm_del g (tid, st))"

definition recomputeBackendGauges :: "PoolManager \<Rightarrow> PoolManager" where
  "recomputeBackendGauges m =
     (let seen = by_tenant m;
          g1 = fold (\<lambda>tid g. set_gauge tid ''idle'' (count_state tid False m)
            (set_gauge tid ''in_use'' (count_state tid True m) g)) seen (pm_gauge m);
          g2 = fold (\<lambda>tid g. if \<not> List.member seen tid then gm_del (gm_del g (tid, ''in_use'')) (tid, ''idle'') else g)
            (pm_gaugeTenants m) g1 in
      m\<lparr>pm_gauge := g2, pm_gaugeTenants := seen\<rparr>)"

section \<open>Get and Release\<close>

definition pool_hit :: "time \<Rightarrow> bytes \<Rightarrow> PoolManager \<Rightarrow> (client \<times> PoolManager) option" where
  "pool_hit now connectionID m = (case gm_get (pm_clients m) connectionID of
      Some e \<Rightarrow> (case cl_client e of
          Some c \<Rightarrow> Some (c, recomputeBackendGauges (m\<lparr>pm_clients := gm_put (pm_clients m) connectionID
            (e\<lparr>cl_refs := cl_refs e + 1, cl_lastUsed := now\<rparr>)\<rparr>))
        | None \<Rightarrow> None)
    | None \<Rightarrow> None)"

text \<open>The end of the flight's function, after \<open>connect\<close> returned a client.\<close>

definition pool_install :: "time \<Rightarrow> bytes \<Rightarrow> client \<Rightarrow> bytes \<Rightarrow> PoolManager \<Rightarrow> client \<times> PoolManager" where
  "pool_install now connectionID c tid m = (case pool_hit now connectionID m of
      Some (c', m') \<Rightarrow> (c', m'\<lparr>pm_disconnected := c # pm_disconnected m'\<rparr>)
    | None \<Rightarrow> (c, recomputeBackendGauges
        (m\<lparr>pm_clients := gm_put (pm_clients m) connectionID
             \<lparr>cl_client = Some c, cl_tenantID = tid, cl_lastUsed = now, cl_refs = 1\<rparr>,
           pm_created := (if tid \<noteq> '''' then tid # pm_created m else pm_created m)\<rparr>)))"

text \<open>A call of \<open>Get\<close> during which no other goroutine runs.\<close>

definition PoolGet ::
  "mongo_dialer \<Rightarrow> aead \<Rightarrow> bytes \<Rightarrow> pool_config option \<Rightarrow> time \<Rightarrow> bytes \<Rightarrow> ControlStore \<Rightarrow> PoolManager
     \<Rightarrow> (bytes + client) \<times> PoolManager" where
  "PoolGet D A masterKey cfg now connectionID s m =
     (if connectionID = '''' then (Inl ''connection id required'', m)
      else case pool_hit now connectionID m of
          Some (c, m') \<Rightarrow> (Inr c, m')
        | None \<Rightarrow> (case connect D A masterKey cfg connectionID s m of
              (Inl err, m') \<Rightarrow> (Inl err, m')
            | (Inr (c, tid), m') \<Rightarrow> (let (c', m'') = pool_install now connectionID c tid m' in (Inr c', m''))))"

definition Release :: "time \<Rightarrow> bytes \<Rightarrow> PoolManager \<Rightarrow> PoolManager" where
  "Release now connectionID m =
     (if connectionID = '''' then m
      else case gm_get (pm_clients m) connectionID of
          None \<Rightarrow> m
        | Some e \<Rightarrow> recomputeBackendGauges (m\<lparr>pm_clients := gm_put (pm_clients m) connectionID
            (e\<lparr>cl_refs := (if cl_refs e > 0 then cl_refs e - 1 else cl_refs e), cl_lastUsed := now\<rparr>)\<rparr>))"

section \<open>Eviction, shutdown and observation\<close>

definition idle_client :: "time \<Rightarrow> int \<Rightarrow> tenantClient \<Rightarrow> bool" where
  "idle_client now idle e \<longleftrightarrow> \<not> cl_refs e > 0 \<and> \<not> now - cl_lastUsed e < idle"

definition evictIdle :: "time \<Rightarrow> PoolManager \<Rightarrow> PoolManager" where
  "evictIdle now m =
     (if pm_idleTimeout m \<le> 0 then m
      else let toClose = filter (idle_client now (pm_idleTimeout m)) (map snd (pm_clients m)) in
        recomputeBackendGauges (m\<lparr>pm_clients := gm_drop (idle_client now (pm_idleTimeout m)) (pm_clients m),
          pm_evicted := filter (\<lambda>t. t \<noteq> '''') (map cl_tenantID toClose) @ pm_evicted m,
          pm_disconnected := List.map_filter cl_client toClose @ pm_disconnected m\<rparr>))"

definition DisconnectAll :: "PoolManager \<Rightarrow> PoolManager" where
  "DisconnectAll m = m\<lparr>pm_clients := [],
     pm_disconnected := List.map_filter (cl_client \<circ> snd) (pm_clients m) @ pm_disconnected m\<rparr>"

definition ClientCount :: "PoolManager \<Rightarrow> int" where
  "ClientCount m = int (length (pm_clients m))"

definition RefsForTest :: "bytes \<Rightarrow> PoolManager \<Rightarrow> int" where
  "RefsForTest i m = (case gm_get (pm_clients m) i of Some e \<Rightarrow> cl_refs e | None \<Rightarrow> -1)"

definition InjectClientForTest :: "bytes \<Rightarrow> client option \<Rightarrow> time \<Rightarrow> int \<Rightarrow> PoolManager \<Rightarrow> PoolManager" where
  "InjectClientForTest i c lastUsed refs m = m\<lparr>pm_clients := gm_put (pm_clients m) i
     \<lparr>cl_client = c, cl_tenantID = i, cl_lastUsed = lastUsed, cl_refs = refs\<rparr>\<rparr>"

definition SetIdleTimeoutForTest :: "int \<Rightarrow> PoolManager \<Rightarrow> PoolManager" where
  "SetIdleTimeoutForTest d m = m\<lparr>pm_idleTimeout := d\<rparr>"

record BackendSnap =
  bs_ConnectionID :: bytes
  bs_TenantID :: bytes
  bs_Refs :: int
  bs_State :: bytes

definition PoolSnapshot :: "PoolManager \<Rightarrow> BackendSnap list" where
  "PoolSnapshot m = map (\<lambda>(i, e). \<lparr>bs_ConnectionID = i, bs_TenantID = cl_tenantID e, bs_Refs = cl_refs e,
     bs_State = (if cl_refs e > 0 then ''in_use'' else ''idle'')\<rparr>) (pm_clients m)"

section \<open>Concurrent callers\<close>

text \<open>
  A goroutine that finds no client joins the flight of its connection in
  \<open>singleflight.Group\<close> or starts one; the flight's function runs once, in two atomic parts
  around \<open>connect\<close>, and every caller of the flight gets its client.  \<open>sy_held\<close> records
  who holds which client between \<open>Get\<close> and \<open>Release\<close>.  A step that is not enabled
  changes nothing, so the runs over all event lists are all interleavings.
\<close>

record flight =
  fl_callers :: "nat list"
  fl_checked :: bool

record pool_sys =
  sy_mgr :: PoolManager
  sy_flights :: "(bytes, flight) gomap"
  sy_held :: "(nat \<times> bytes \<times> client) list"

datatype pool_ev =
    GetCall time nat bytes
  | FlightCheck time bytes
  | FlightConnected time bytes "bytes + (client \<times> bytes)"
  | ReleaseCall time nat bytes client
  | EvictCall time

definition deliver :: "bytes \<Rightarrow> flight \<Rightarrow> client \<Rightarrow> PoolManager \<Rightarrow> pool_sys \<Rightarrow> pool_sys" where
  "deliver cid f c m s = s\<lparr>sy_mgr := m, sy_flights := gm_del (sy_flights s) cid,
     sy_held := map (\<lambda>g. (g, cid, c)) (fl_callers f) @ sy_held s\<rparr>"

fun pool_step :: "pool_ev \<Rightarrow> pool_sys \<Rightarrow> pool_sys" where
  "pool_step (GetCall now g cid) s =
     (if cid = '''' then s
      else case pool_hit now cid (sy_mgr s) of
          Some (c, m') \<Rightarrow> s\<lparr>sy_mgr := m', sy_held := (g, cid, c) # sy_held s\<rparr>
        | None \<Rightarrow> (case gm_get (sy_flights s) cid of
              None \<Rightarrow> s\<lparr>sy_flights := gm_put (sy_flights s) cid \<lparr>fl_callers = [g], fl_checked = False\<rparr>\<rparr>
            | Some f \<Rightarrow> s\<lparr>sy_flights := gm_put (sy_flights s) cid (f\<lparr>fl_callers := fl_callers f @ [g]\<rparr>)\<rparr>))"
| "pool_step (FlightCheck now cid) s = (case gm_get (sy_flights s) cid of
      None \<Rightarrow> s
    | Some f \<Rightarrow>
        if fl_checked f then s
        else (case pool_hit now cid (sy_mgr s) of
            Some (c, m') \<Rightarrow> deliver cid f c m' s
          | None \<Rightarrow> s\<lparr>sy_flights := gm_put (sy_flights s) cid (f\<lparr>fl_checked := True\<rparr>)\<rparr>))"
| "pool_step (FlightConnected now cid res) s = (case gm_get (sy_flights s) cid of
      None \<Rightarrow> s
    | Some f \<Rightarrow>
        if \<not> fl_checked f then s
        else (case res of
            Inl err \<Rightarrow> s\<lparr>sy_flights := gm_del (sy_flights s) cid\<rparr>
          | Inr (c, tid) \<Rightarrow> (let (c', m') = pool_install now cid c tid (sy_mgr s) in deliver cid f c' m' s)))"
| "pool_step (ReleaseCall now g cid c) s =
     (if (g, cid, c) \<in> set (sy_held s)
      then s\<lparr>sy_mgr := Release now cid (sy_mgr s), sy_held := remove1 (g, cid, c) (sy_held s)\<rparr> else s)"
| "pool_step (EvictCall now) s = s\<lparr>sy_mgr := evictIdle now (sy_mgr s)\<rparr>"

definition pool_init :: "pool_config option \<Rightarrow> pool_sys" where
  "pool_init cfg = \<lparr>sy_mgr = NewManager cfg, sy_flights = [], sy_held = []\<rparr>"

definition pool_run :: "pool_ev list \<Rightarrow> pool_sys \<Rightarrow> pool_sys" where
  "pool_run evs s = fold pool_step evs s"

definition holders :: "bytes \<Rightarrow> pool_sys \<Rightarrow> int" where
  "holders cid s = int (length (filter (\<lambda>(g, i, c). i = cid) (sy_held s)))"

text \<open>No caller ever joins a flight another one started.\<close>

definition joins :: "pool_ev \<Rightarrow> pool_sys \<Rightarrow> bool" where
  "joins ev s = (case ev of GetCall now g cid \<Rightarrow>
      cid \<noteq> '''' \<and> pool_hit now cid (sy_mgr s) = None \<and> gm_get (sy_flights s) cid \<noteq> None | _ \<Rightarrow> False)"

fun unshared :: "pool_ev list \<Rightarrow> pool_sys \<Rightarrow> bool" where
  "unshared [] s = True"
| "unshared (ev # evs) s \<longleftrightarrow> \<not> joins ev s \<and> unshared evs (pool_step ev s)"

section \<open>Lemmas on the steps\<close>

lemma recompute_clients [simp]:
  "pm_clients (recomputeBackendGauges m) = pm_clients m" "pm_disconnected (recomputeBackendGauges m) = pm_disconnected m"
  "pm_idleTimeout (recomputeBackendGauges m) = pm_idleTimeout m"
  by (simp_all add: recomputeBackendGauges_def Let_def)

lemma pool_hit_SomeE:
  assumes "pool_hit now cid m = Some (c, m')"
  obtains e where "gm_get (pm_clients m) cid = Some e" "cl_client e = Some c"
    "pm_clients m' = gm_put (pm_clients m) cid (e\<lparr>cl_refs := cl_refs e + 1, cl_lastUsed := now\<rparr>)"
  using assms by (auto simp: pool_hit_def split: option.splits)

lemma pool_hit_None:
  "pool_hit now cid m = None \<longleftrightarrow> (\<forall>e. gm_get (pm_clients m) cid = Some e \<longrightarrow> cl_client e = None)"
  by (auto simp: pool_hit_def split: option.splits)

lemma pool_install_clients:
  assumes "pool_install now cid c tid m = (c', m')"
  shows "\<exists>e. pm_clients m' = gm_put (pm_clients m) cid e \<and> cl_client e = Some c' \<and>
    (case gm_get (pm_clients m) cid of
       Some e0 \<Rightarrow> (if cl_client e0 = None then cl_refs e = 1 else cl_client e0 = Some c' \<and> cl_refs e = cl_refs e0 + 1)
     | None \<Rightarrow> cl_refs e = 1)"
proof (cases "pool_hit now cid m")
  case None
  with assms show ?thesis by (auto simp: pool_install_def pool_hit_None split: option.splits)
next
  case (Some p)
  then obtain c1 m1 where p: "pool_hit now cid m = Some (c1, m1)" by (cases p) auto
  with assms show ?thesis by (auto simp: pool_install_def elim!: pool_hit_SomeE)
qed

lemma holders_simps [simp]:
  "holders cid (s\<lparr>sy_mgr := m\<rparr>) = holders cid s" "holders cid (s\<lparr>sy_flights := fs\<rparr>) = holders cid s"
  "holders cid (s\<lparr>sy_held := (g, i, c) # sy_held s\<rparr>) = holders cid s + (if i = cid then 1 else 0)"
  by (simp_all add: holders_def)

lemma holders_deliver [simp]:
  "holders cid (deliver i f c m s) = holders cid s + (if i = cid then int (length (fl_callers f)) else 0)"
proof -
  have "filter (\<lambda>(g, j, c). j = cid) (map (\<lambda>g. (g, i, c)) gs) = (if i = cid then map (\<lambda>g. (g, i, c)) gs else [])" for gs
    by (induction gs) auto
  thus ?thesis by (simp add: deliver_def holders_def)
qed

lemma holders_remove:
  assumes "(g, i, c) \<in> set (sy_held s)"
  shows "holders cid (s\<lparr>sy_mgr := m, sy_held := remove1 (g, i, c) (sy_held s)\<rparr>) = holders cid s - (if i = cid then 1 else 0)"
proof -
  have "int (length (filter P (remove1 x xs))) = int (length (filter P xs)) - (if P x then 1 else 0)" if "x \<in> set xs"
    for P and x :: "nat \<times> bytes \<times> client" and xs
    using that by (induction xs) auto
  thus ?thesis using assms by (simp add: holders_def)
qed

lemma holders_nonneg [simp]: "0 \<le> holders cid s"
  by (simp add: holders_def)

lemma deliver_simps [simp]: "sy_mgr (deliver i f c m s) = m" "sy_flights (deliver i f c m s) = gm_del (sy_flights s) i"
  by (simp_all add: deliver_def)

section \<open>Reference counts never exceed the holders\<close>

definition pool_le :: "pool_sys \<Rightarrow> bool" where
  "pool_le s \<longleftrightarrow> gm_wf (pm_clients (sy_mgr s)) \<and> gm_wf (sy_flights s) \<and>
     (\<forall>cid f. gm_get (sy_flights s) cid = Some f \<longrightarrow> cid \<noteq> '''' \<and> fl_callers f \<noteq> []) \<and>
     (\<forall>cid e. gm_get (pm_clients (sy_mgr s)) cid = Some e \<longrightarrow> cid \<noteq> '''' \<and> cl_client e \<noteq> None \<and> 0 \<le> cl_refs e \<and> cl_refs e \<le> holders cid s)"

lemma pool_leD:
  assumes "pool_le s"
  shows "gm_wf (pm_clients (sy_mgr s))" "gm_wf (sy_flights s)"
    and "gm_get (sy_flights s) cid = Some f \<Longrightarrow> cid \<noteq> '''' \<and> fl_callers f \<noteq> []"
    and "gm_get (pm_clients (sy_mgr s)) cid = Some e \<Longrightarrow>
      cid \<noteq> '''' \<and> cl_client e \<noteq> None \<and> 0 \<le> cl_refs e \<and> cl_refs e \<le> holders cid s"
  using assms unfolding pool_le_def by blast+

lemma pool_le_hit:
  assumes "pool_le s" and "pool_hit now cid (sy_mgr s) = Some (c, m')"
  shows "gm_wf (pm_clients m')" and "gm_get (pm_clients m') i = Some e \<Longrightarrow>
    i \<noteq> '''' \<and> cl_client e \<noteq> None \<and> 0 \<le> cl_refs e \<and> cl_refs e \<le> holders i s + (if cid = i then 1 else 0)"
proof -
  from assms(2) obtain e0 where e0: "gm_get (pm_clients (sy_mgr s)) cid = Some e0" "cl_client e0 = Some c"
    "pm_clients m' = gm_put (pm_clients (sy_mgr s)) cid (e0\<lparr>cl_refs := cl_refs e0 + 1, cl_lastUsed := now\<rparr>)"
    by (rule pool_hit_SomeE)
  show "gm_wf (pm_clients m')" using e0(3) pool_leD(1) [OF assms(1)] by simp
  show "i \<noteq> '''' \<and> cl_client e \<noteq> None \<and> 0 \<le> cl_refs e \<and> cl_refs e \<le> holders i s + (if cid = i then 1 else 0)"
    if "gm_get (pm_clients m') i = Some e"
    using that pool_leD(4) [OF assms(1) e0(1)] pool_leD(4) [OF assms(1), of i e] e0 by (auto split: if_splits)
qed

lemma pool_le_install:
  assumes "pool_le s" and "cid \<noteq> ''''" and "pool_install now cid c tid (sy_mgr s) = (c', m')"
  shows "gm_wf (pm_clients m')" and "gm_get (pm_clients m') i = Some e \<Longrightarrow>
    i \<noteq> '''' \<and> cl_client e \<noteq> None \<and> 0 \<le> cl_refs e \<and> cl_refs e \<le> holders i s + (if cid = i then 1 else 0)"
proof -
  obtain e' where e': "pm_clients m' = gm_put (pm_clients (sy_mgr s)) cid e'" "cl_client e' = Some c'"
    and r: "case gm_get (pm_clients (sy_mgr s)) cid of
       Some e0 \<Rightarrow> (if cl_client e0 = None then cl_refs e' = 1 else cl_client e0 = Some c' \<and> cl_refs e' = cl_refs e0 + 1)
     | None \<Rightarrow> cl_refs e' = 1"
    using pool_install_clients [OF assms(3)] by blast
  have "0 \<le> cl_refs e' \<and> cl_refs e' \<le> holders cid s + 1"
  proof (cases "gm_get (pm_clients (sy_mgr s)) cid")
    case None with r show ?thesis by simp
  next
    case (Some e0)
    hence "0 \<le> cl_refs e0 \<and> cl_refs e0 \<le> holders cid s" using assms(1) unfolding pool_le_def by blast
    with Some r show ?thesis by (auto split: if_splits)
  qed
  with e' assms(1,2) show "gm_wf (pm_clients m')" and "gm_get (pm_clients m') i = Some e \<Longrightarrow>
    i \<noteq> '''' \<and> cl_client e \<noteq> None \<and> 0 \<le> cl_refs e \<and> cl_refs e \<le> holders i s + (if cid = i then 1 else 0)"
    by (auto simp: pool_le_def split: if_splits)
qed

lemma pool_le_deliver:
  assumes "pool_le s" and "gm_get (sy_flights s) cid = Some f" and "gm_wf (pm_clients m')"
    and "\<And>i e. gm_get (pm_clients m') i = Some e \<Longrightarrow>
      i \<noteq> '''' \<and> cl_client e \<noteq> None \<and> 0 \<le> cl_refs e \<and> cl_refs e \<le> holders i s + (if cid = i then 1 else 0)"
  shows "pool_le (deliver cid f c m' s)"
proof -
  have "fl_callers f \<noteq> []" using assms(1,2) by (auto simp: pool_le_def)
  hence len: "1 \<le> int (length (fl_callers f))" by (cases "fl_callers f") auto
  have "i \<noteq> '''' \<and> cl_client e \<noteq> None \<and> 0 \<le> cl_refs e \<and> cl_refs e \<le> holders i (deliver cid f c m' s)"
    if "gm_get (pm_clients m') i = Some e" for i e
    using assms(4) [OF that] len by auto
  moreover have "gm_wf (gm_del (sy_flights s) cid)" "\<forall>i f'. gm_get (gm_del (sy_flights s) cid) i = Some f' \<longrightarrow> i \<noteq> '''' \<and> fl_callers f' \<noteq> []"
    using assms(1) by (auto simp: pool_le_def)
  ultimately show ?thesis using assms(3) by (simp add: pool_le_def)
qed

lemma Release_clients:
  "pm_clients (Release now cid m) = (if cid = '''' then pm_clients m else case gm_get (pm_clients m) cid of
      None \<Rightarrow> pm_clients m
    | Some e \<Rightarrow> gm_put (pm_clients m) cid
        (e\<lparr>cl_refs := (if cl_refs e > 0 then cl_refs e - 1 else cl_refs e), cl_lastUsed := now\<rparr>))"
  by (simp add: Release_def split: option.splits)

lemma evictIdle_clients:
  "pm_clients (evictIdle now m) = (if pm_idleTimeout m \<le> 0 then pm_clients m
     else gm_drop (idle_client now (pm_idleTimeout m)) (pm_clients m))"
  by (simp add: evictIdle_def Let_def)

lemma pool_le_step: "pool_le s \<Longrightarrow> pool_le (pool_step ev s)"
proof (induction ev s rule: pool_step.induct)
  case (1 now g cid s)
  show ?case
  proof (cases "cid = ''''")
    case False
    show ?thesis
    proof (cases "pool_hit now cid (sy_mgr s)")
      case None
      with 1 False show ?thesis by (auto simp: pool_le_def split: option.splits if_splits)
    next
      case (Some p)
      then obtain c m' where p: "pool_hit now cid (sy_mgr s) = Some (c, m')" by (cases p) auto
      have "holders i (s\<lparr>sy_mgr := m', sy_held := (g, cid, c) # sy_held s\<rparr>) = holders i s + (if cid = i then 1 else 0)" for i
        by (simp add: holders_def)
      with pool_le_hit [OF 1 p] 1 p False show ?thesis by (auto simp: pool_le_def)
    qed
  qed (use 1 in simp)
next
  case (2 now cid s)
  show ?case
  proof (cases "gm_get (sy_flights s) cid")
    case (Some f)
    show ?thesis
    proof (cases "\<not> fl_checked f \<and> pool_hit now cid (sy_mgr s) \<noteq> None")
      case True
      then obtain c m' where p: "pool_hit now cid (sy_mgr s) = Some (c, m')" "\<not> fl_checked f" by auto
      have "pool_le (deliver cid f c m' s)"
        by (rule pool_le_deliver [OF 2 Some pool_le_hit(1) [OF 2 p(1)] pool_le_hit(2) [OF 2 p(1)]])
      with p Some show ?thesis by simp
    next
      case False
      hence "pool_step (FlightCheck now cid) s = s \<or> pool_step (FlightCheck now cid) s =
          s\<lparr>sy_flights := gm_put (sy_flights s) cid (f\<lparr>fl_checked := True\<rparr>)\<rparr>"
        using Some by (cases "pool_hit now cid (sy_mgr s)") auto
      moreover have "pool_le (s\<lparr>sy_flights := gm_put (sy_flights s) cid (f\<lparr>fl_checked := True\<rparr>)\<rparr>)"
        using 2 pool_leD(3) [OF 2 Some] by (auto simp: pool_le_def split: if_splits)
      ultimately show ?thesis using 2 by metis
    qed
  qed (use 2 in simp)
next
  case (3 now cid res s)
  show ?case
  proof (cases "gm_get (sy_flights s) cid")
    case (Some f)
    show ?thesis
    proof (cases "fl_checked f \<and> (\<exists>r. res = Inr r)")
      case True
      then obtain c tid where r: "fl_checked f" "res = Inr (c, tid)" by auto
      obtain c' m' where i: "pool_install now cid c tid (sy_mgr s) = (c', m')" by fastforce
      have ne: "cid \<noteq> ''''" using 3 Some by (auto simp: pool_le_def)
      have "pool_le (deliver cid f c' m' s)"
        by (rule pool_le_deliver [OF 3 Some pool_le_install(1) [OF 3 ne i] pool_le_install(2) [OF 3 ne i]])
      with r i Some show ?thesis by simp
    next
      case False
      with 3 Some show ?thesis by (cases res) (auto simp: pool_le_def split: if_splits)
    qed
  qed (use 3 in simp)
next
  case (4 now g cid c s)
  show ?case
  proof (cases "(g, cid, c) \<in> set (sy_held s)")
    case True
    note h = holders_remove [OF True]
    have "1 \<le> holders cid s" using h [of cid "sy_mgr s"] holders_nonneg [of cid] by (metis diff_ge_0_iff_ge)
    moreover have "cl_refs e \<le> holders i s - (if cid = i then 1 else 0)"
      if "gm_get (pm_clients (Release now cid (sy_mgr s))) i = Some e" for i e
    proof (cases "cid = i")
      case False
      with 4 that have "gm_get (pm_clients (sy_mgr s)) i = Some e"
        by (auto simp: Release_clients split: if_splits option.splits)
      with 4 False show ?thesis by (simp add: pool_le_def)
    next
      case eq: True
      show ?thesis
      proof (cases "gm_get (pm_clients (sy_mgr s)) i")
        case None with that eq show ?thesis by (simp add: Release_clients split: if_splits)
      next
        case (Some e0)
        with 4 have "i \<noteq> ''''" "cl_refs e0 \<le> holders i s" by (auto simp: pool_le_def)
        with \<open>1 \<le> holders cid s\<close> Some that eq show ?thesis by (auto simp: Release_clients split: if_splits)
      qed
    qed
    moreover have "gm_wf (pm_clients (Release now cid (sy_mgr s)))"
      using 4 by (auto simp: pool_le_def Release_clients split: option.splits)
    moreover have "i \<noteq> '''' \<and> cl_client e \<noteq> None \<and> 0 \<le> cl_refs e"
      if "gm_get (pm_clients (Release now cid (sy_mgr s))) i = Some e" for i e
      using 4 that by (auto simp: pool_le_def Release_clients split: option.splits if_splits)
    ultimately show ?thesis using 4 True h by (simp add: pool_le_def)
  qed (use 4 in simp)
next
  case (5 now s)
  thus ?case by (auto simp: pool_le_def evictIdle_clients gm_get_drop split: option.splits if_splits)
qed

lemma pool_le_init [simp]: "pool_le (pool_init cfg)"
  by (simp add: pool_le_def pool_init_def NewManager_def)

lemma pool_le_run: "pool_le s \<Longrightarrow> pool_le (pool_run evs s)"
  unfolding pool_run_def by (induction evs arbitrary: s) (auto intro: pool_le_step)

section \<open>Exact counts when no flight is shared\<close>

definition pool_eq :: "pool_sys \<Rightarrow> bool" where
  "pool_eq s \<longleftrightarrow> pool_le s \<and>
     (\<forall>cid f. gm_get (sy_flights s) cid = Some f \<longrightarrow> length (fl_callers f) = 1) \<and>
     (\<forall>cid. (case gm_get (pm_clients (sy_mgr s)) cid of None \<Rightarrow> 0 | Some e \<Rightarrow> cl_refs e) = holders cid s) \<and>
     (\<forall>g cid c e. (g, cid, c) \<in> set (sy_held s) \<longrightarrow> gm_get (pm_clients (sy_mgr s)) cid = Some e \<longrightarrow> cl_client e = Some c)"

lemma pool_eqD:
  assumes "pool_eq s"
  shows "pool_le s" and "gm_get (sy_flights s) cid = Some f \<Longrightarrow> length (fl_callers f) = 1"
    and "(case gm_get (pm_clients (sy_mgr s)) cid of None \<Rightarrow> 0 | Some e \<Rightarrow> cl_refs e) = holders cid s"
    and "(g, cid, c) \<in> set (sy_held s) \<Longrightarrow> gm_get (pm_clients (sy_mgr s)) cid = Some e \<Longrightarrow> cl_client e = Some c"
  using assms unfolding pool_eq_def by blast+

lemma holders_pos: "(g, cid, c) \<in> set (sy_held s) \<Longrightarrow> 0 < holders cid s"
  by (auto simp: holders_def length_pos_if_in_set filter_empty_conv intro!: gr0I) 

lemma held_pooled:
  assumes "pool_eq s" and "(g, cid, c) \<in> set (sy_held s)"
  shows "\<exists>e. gm_get (pm_clients (sy_mgr s)) cid = Some e \<and> cl_client e = Some c \<and> 0 < cl_refs e"
  using holders_pos [OF assms(2)] pool_eqD(3) [OF assms(1), of cid] pool_eqD(4) [OF assms(1,2)]
  by (cases "gm_get (pm_clients (sy_mgr s)) cid") auto

text \<open>One more holder \<open>(g, cid, c)\<close>, with the entry of \<open>cid\<close> updated to count it.\<close>

lemma pool_eq_add:
  assumes eq: "pool_eq s" and s': "pool_le s'"
    and fl: "sy_flights s' = sy_flights s \<or> sy_flights s' = gm_del (sy_flights s) cid"
    and held: "sy_held s' = (g, cid, c) # sy_held s"
    and cl: "pm_clients (sy_mgr s') = gm_put (pm_clients (sy_mgr s)) cid e" and e: "cl_client e = Some c"
    and r: "(case gm_get (pm_clients (sy_mgr s)) cid of Some e0 \<Rightarrow> cl_client e0 = Some c \<and> cl_refs e = cl_refs e0 + 1
        | None \<Rightarrow> cl_refs e = 1)"
  shows "pool_eq s'"
proof -
  have h: "holders i s' = holders i s + (if cid = i then 1 else 0)" for i
    by (simp add: holders_def held)
  have "(case gm_get (pm_clients (sy_mgr s')) i of None \<Rightarrow> 0 | Some e \<Rightarrow> cl_refs e) = holders i s'" for i
    using pool_eqD(3) [OF eq, of i] r by (auto simp: cl h split: option.splits)
  moreover have "length (fl_callers f) = 1" if "gm_get (sy_flights s') i = Some f" for i f
    using that fl pool_eqD(2) [OF eq] by (auto split: if_splits)
  moreover have "cl_client e' = Some c'"
    if "(g', i, c') \<in> set (sy_held s')" "gm_get (pm_clients (sy_mgr s')) i = Some e'" for g' i c' e'
  proof (cases "i = cid")
    case True
    with that e have e': "e' = e" by (simp add: cl)
    show ?thesis
    proof (cases "(g', i, c') \<in> set (sy_held s)")
      case True
      with held_pooled [OF eq True] r \<open>i = cid\<close> e e' show ?thesis by auto
    next
      case False with that(1) e e' held show ?thesis by simp
    qed
  next
    case False
    with that held cl pool_eqD(4) [OF eq, of g' i c' e'] show ?thesis by auto
  qed
  ultimately show ?thesis using s' by (simp add: pool_eq_def)
qed

lemma pool_eq_step:
  assumes "pool_eq s" and "\<not> joins ev s"
  shows "pool_eq (pool_step ev s)"
  using assms
proof (induction ev s rule: pool_step.induct)
  case (1 now g cid s)
  note le = pool_le_step [OF pool_eqD(1) [OF 1(1)], of "GetCall now g cid"]
  show ?case
  proof (cases "cid = '''' \<or> pool_hit now cid (sy_mgr s) = None")
    case True
    with 1 le show ?thesis by (auto simp: joins_def pool_eq_def split: option.splits if_splits)
  next
    case False
    then obtain c m' where p: "pool_hit now cid (sy_mgr s) = Some (c, m')" by auto
    then obtain e where e: "gm_get (pm_clients (sy_mgr s)) cid = Some e" "cl_client e = Some c"
      "pm_clients m' = gm_put (pm_clients (sy_mgr s)) cid (e\<lparr>cl_refs := cl_refs e + 1, cl_lastUsed := now\<rparr>)"
      by (rule pool_hit_SomeE)
    show ?thesis
      by (rule pool_eq_add [OF 1(1) le, where cid = cid and c = c and g = g and e = "e\<lparr>cl_refs := cl_refs e + 1, cl_lastUsed := now\<rparr>"]) (use p e False in auto)
  qed
next
  case (2 now cid s)
  note le = pool_le_step [OF pool_eqD(1) [OF 2(1)], of "FlightCheck now cid"]
  show ?case
  proof (cases "\<exists>f p. gm_get (sy_flights s) cid = Some f \<and> \<not> fl_checked f \<and> pool_hit now cid (sy_mgr s) = Some p")
    case True
    then obtain f c m' where f: "gm_get (sy_flights s) cid = Some f" "\<not> fl_checked f"
      and p: "pool_hit now cid (sy_mgr s) = Some (c, m')" by auto
    obtain g where g: "fl_callers f = [g]" using pool_eqD(2) [OF 2(1) f(1)] by (auto simp: length_Suc_conv)
    from p obtain e where e: "gm_get (pm_clients (sy_mgr s)) cid = Some e" "cl_client e = Some c"
      "pm_clients m' = gm_put (pm_clients (sy_mgr s)) cid (e\<lparr>cl_refs := cl_refs e + 1, cl_lastUsed := now\<rparr>)"
      by (rule pool_hit_SomeE)
    show ?thesis
      by (rule pool_eq_add [OF 2(1) le, where cid = cid and c = c and g = g and e = "e\<lparr>cl_refs := cl_refs e + 1, cl_lastUsed := now\<rparr>"]) (use f p e g in \<open>auto simp: deliver_def\<close>)
  next
    case False
    with 2 le show ?thesis by (auto simp: pool_eq_def split: option.splits if_splits)
  qed
next
  case (3 now cid res s)
  note le = pool_le_step [OF pool_eqD(1) [OF 3(1)], of "FlightConnected now cid res"]
  show ?case
  proof (cases "\<exists>f r. gm_get (sy_flights s) cid = Some f \<and> fl_checked f \<and> res = Inr r")
    case True
    then obtain f c tid where f: "gm_get (sy_flights s) cid = Some f" "fl_checked f" "res = Inr (c, tid)" by auto
    obtain g where g: "fl_callers f = [g]" using pool_eqD(2) [OF 3(1) f(1)] by (auto simp: length_Suc_conv)
    obtain c' m' where i: "pool_install now cid c tid (sy_mgr s) = (c', m')" by fastforce
    from pool_install_clients [OF i] obtain e where e: "pm_clients m' = gm_put (pm_clients (sy_mgr s)) cid e"
        "cl_client e = Some c'" and r: "case gm_get (pm_clients (sy_mgr s)) cid of
       Some e0 \<Rightarrow> (if cl_client e0 = None then cl_refs e = 1 else cl_client e0 = Some c' \<and> cl_refs e = cl_refs e0 + 1)
     | None \<Rightarrow> cl_refs e = 1" by blast
    have r': "case gm_get (pm_clients (sy_mgr s)) cid of Some e0 \<Rightarrow> cl_client e0 = Some c' \<and> cl_refs e = cl_refs e0 + 1
        | None \<Rightarrow> cl_refs e = 1"
      using r pool_leD(4) [OF pool_eqD(1) [OF 3(1)], of cid] by (auto split: option.splits if_splits)
    show ?thesis
      by (rule pool_eq_add [OF 3(1) le, where cid = cid and c = c' and g = g and e = e])
        (use f i e r' g in \<open>auto simp: deliver_def\<close>)
  next
    case False
    hence "pool_step (FlightConnected now cid res) s = s
        \<or> pool_step (FlightConnected now cid res) s = s\<lparr>sy_flights := gm_del (sy_flights s) cid\<rparr>"
      by (cases "gm_get (sy_flights s) cid") (auto split: sum.splits)
    with 3 le show ?thesis by (auto simp: pool_eq_def split: if_splits)
  qed
next
  case (4 now g cid c s)
  note le = pool_le_step [OF pool_eqD(1) [OF 4(1)], of "ReleaseCall now g cid c"]
  show ?case
  proof (cases "(g, cid, c) \<in> set (sy_held s)")
    case True
    obtain e where e: "gm_get (pm_clients (sy_mgr s)) cid = Some e" "cl_client e = Some c" "0 < cl_refs e"
      using held_pooled [OF 4(1) True] by blast
    have ne: "cid \<noteq> ''''" using pool_leD(4) [OF pool_eqD(1) [OF 4(1)] e(1)] by simp
    have cl: "pm_clients (Release now cid (sy_mgr s)) =
        gm_put (pm_clients (sy_mgr s)) cid (e\<lparr>cl_refs := cl_refs e - 1, cl_lastUsed := now\<rparr>)"
      using e ne by (simp add: Release_clients)
    have "(case gm_get (pm_clients (Release now cid (sy_mgr s))) i of None \<Rightarrow> 0 | Some e \<Rightarrow> cl_refs e)
        = holders i s - (if cid = i then 1 else 0)" for i
      using pool_eqD(3) [OF 4(1), of i] e by (auto simp: cl)
    moreover have "cl_client e' = Some c'" if "(g', i, c') \<in> set (remove1 (g, cid, c) (sy_held s))"
        "gm_get (pm_clients (Release now cid (sy_mgr s))) i = Some e'" for g' i c' e'
      using that(2) pool_eqD(4) [OF 4(1) subsetD [OF set_remove1_subset that(1)]] e
      by (auto simp: cl split: if_splits)
    ultimately show ?thesis
      using le True holders_remove [OF True] pool_eqD(2) [OF 4(1)] by (simp add: pool_eq_def)
  qed (use 4 in simp)
next
  case (5 now s)
  note le = pool_le_step [OF pool_eqD(1) [OF 5(1)], of "EvictCall now"]
  have get: "gm_get (pm_clients (evictIdle now (sy_mgr s))) i = (case gm_get (pm_clients (sy_mgr s)) i of None \<Rightarrow> None
      | Some e \<Rightarrow> if pm_idleTimeout (sy_mgr s) > 0 \<and> idle_client now (pm_idleTimeout (sy_mgr s)) e then None else Some e)" for i
    using pool_leD(1) [OF pool_eqD(1) [OF 5(1)]] by (auto simp: evictIdle_clients gm_get_drop split: option.splits)
  have "(case gm_get (pm_clients (evictIdle now (sy_mgr s))) i of None \<Rightarrow> 0 | Some e \<Rightarrow> cl_refs e) = holders i s" for i
    using pool_eqD(3) [OF 5(1), of i] pool_leD(4) [OF pool_eqD(1) [OF 5(1)], of i]
    by (auto simp: get idle_client_def not_less split: option.splits intro: order.antisym)
  moreover have "cl_client e = Some c" if "(g, i, c) \<in> set (sy_held s)"
      "gm_get (pm_clients (evictIdle now (sy_mgr s))) i = Some e" for g i c e
    using that pool_eqD(4) [OF 5(1) that(1)] by (auto simp: get split: option.splits if_splits)
  ultimately show ?case using le pool_eqD(2) [OF 5(1)] by (simp add: pool_eq_def)
qed

lemma pool_eq_init [simp]: "pool_eq (pool_init cfg)"
  by (simp add: pool_eq_def pool_init_def NewManager_def pool_le_def holders_def)

lemma pool_eq_run: "pool_eq s \<Longrightarrow> unshared evs s \<Longrightarrow> pool_eq (pool_run evs s)"
  unfolding pool_run_def by (induction evs arbitrary: s) (auto intro: pool_eq_step)

section \<open>Properties of the pool\<close>

text \<open>C37. While no caller joins another's flight, the reference count of a client is the number of
  callers between \<open>Get\<close> and \<open>Release\<close>, a held client is the pooled one, and no
  eviction pass, at whatever time, disconnects a client that is held.\<close>

theorem pool_safe_unshared:
  assumes "unshared evs (pool_init cfg)" and "(g, cid, c) \<in> set (sy_held (pool_run evs (pool_init cfg)))"
  shows "\<exists>e. gm_get (pm_clients (sy_mgr (pool_run evs (pool_init cfg)))) cid = Some e \<and> cl_client e = Some c
      \<and> cl_refs e = holders cid (pool_run evs (pool_init cfg))
      \<and> gm_get (pm_clients (evictIdle now (sy_mgr (pool_run evs (pool_init cfg))))) cid = Some e"
proof -
  let ?s = "pool_run evs (pool_init cfg)"
  have eq: "pool_eq ?s" using pool_eq_run [OF pool_eq_init assms(1)] .
  obtain e where e: "gm_get (pm_clients (sy_mgr ?s)) cid = Some e" "cl_client e = Some c" "0 < cl_refs e"
    using held_pooled [OF eq assms(2)] by blast
  moreover have "cl_refs e = holders cid ?s" using pool_eqD(3) [OF eq, of cid] e(1) by simp
  moreover have "gm_get (pm_clients (evictIdle now (sy_mgr ?s))) cid = Some e"
    using e pool_leD(1) [OF pool_eqD(1) [OF eq]] by (simp add: evictIdle_clients gm_get_drop idle_client_def)
  ultimately show ?thesis by blast
qed

definition demo_pool_cfg :: "pool_config option" where
  "demo_pool_cfg = Some \<lparr>pc_MaxPoolSize = 50, pc_MinPoolSize = 0, pc_ConnectTimeout = 10, pc_IdleTimeout = 100,
     pc_IdleEvictInterval = 10\<rparr>"

lemmas pool_eval = pool_run_def pool_init_def NewManager_def demo_pool_cfg_def pool_hit_def pool_install_def deliver_def
  joins_def gm_get_def gm_put_def gm_del_def Release_def evictIdle_def Let_def idle_client_def gm_drop_def holders_def

lemma pool_safe_unshared_witness:
  "\<exists>e. gm_get (pm_clients (evictIdle 500 (sy_mgr (pool_run [GetCall 0 1 ''c'', FlightCheck 1 ''c'',
     FlightConnected 2 ''c'' (Inr (7, ''acme''))] (pool_init demo_pool_cfg))))) ''c'' = Some e"
proof -
  let ?evs = "[GetCall 0 1 ''c'', FlightCheck 1 ''c'', FlightConnected 2 ''c'' (Inr (7, ''acme''))]"
  have "unshared ?evs (pool_init demo_pool_cfg)" by (simp add: pool_eval)
  moreover have "(1, ''c'', 7) \<in> set (sy_held (pool_run ?evs (pool_init demo_pool_cfg)))" by (simp add: pool_eval)
  ultimately show ?thesis using pool_safe_unshared by blast
qed

text \<open>C38. In every interleaving, a client's reference count is at most the number of its holders; so once
  nobody holds it, an eviction pass after the idle timeout removes it: no client is leaked.\<close>

theorem pool_no_leak:
  assumes "holders cid (pool_run evs (pool_init cfg)) = 0"
    and "gm_get (pm_clients (sy_mgr (pool_run evs (pool_init cfg)))) cid = Some e"
    and "0 < pm_idleTimeout (sy_mgr (pool_run evs (pool_init cfg)))"
    and "cl_lastUsed e + pm_idleTimeout (sy_mgr (pool_run evs (pool_init cfg))) \<le> now"
  shows "cl_refs e = 0 \<and> gm_get (pm_clients (evictIdle now (sy_mgr (pool_run evs (pool_init cfg))))) cid = None
    \<and> (\<forall>c. cl_client e = Some c \<longrightarrow> c \<in> set (pm_disconnected (evictIdle now (sy_mgr (pool_run evs (pool_init cfg))))))"
proof -
  let ?s = "pool_run evs (pool_init cfg)"
  note le = pool_le_run [OF pool_le_init, of evs cfg]
  have r: "cl_refs e = 0" using pool_leD(4) [OF le assms(2)] assms(1) by simp
  hence idle: "idle_client now (pm_idleTimeout (sy_mgr ?s)) e" using assms(4) by (simp add: idle_client_def)
  have mem: "(cid, e) \<in> set (pm_clients (sy_mgr ?s))" using assms(2) pool_leD(1) [OF le] by (simp add: gm_get_in_set)
  have "c \<in> set (pm_disconnected (evictIdle now (sy_mgr ?s)))" if "cl_client e = Some c" for c
    using idle mem that assms(3) unfolding evictIdle_def Let_def
    by (auto simp: map_filter_def image_iff intro!: bexI [of _ "(cid, e)"] bexI [of _ e])
  with r idle assms(2,3) pool_leD(1) [OF le] show ?thesis by (simp add: evictIdle_clients gm_get_drop)
qed

lemma pool_no_leak_witness:
  "gm_get (pm_clients (evictIdle 500 (sy_mgr (pool_run [GetCall 0 1 ''c'', FlightCheck 1 ''c'',
     FlightConnected 2 ''c'' (Inr (7, ''acme'')), ReleaseCall 3 1 ''c'' 7] (pool_init demo_pool_cfg))))) ''c'' = None"
proof -
  let ?e = "\<lparr>cl_client = Some 7, cl_tenantID = ''acme'', cl_lastUsed = 3, cl_refs = 0\<rparr>"
  let ?s = "pool_run [GetCall 0 1 ''c'', FlightCheck 1 ''c'', FlightConnected 2 ''c'' (Inr (7, ''acme'')),
     ReleaseCall 3 1 ''c'' 7] (pool_init demo_pool_cfg)"
  have "holders ''c'' ?s = 0" "gm_get (pm_clients (sy_mgr ?s)) ''c'' = Some ?e" "pm_idleTimeout (sy_mgr ?s) = 100"
    by (simp_all add: pool_eval)
  from pool_no_leak [OF this(1,2), of 500] this(3) show ?thesis by simp
qed

text \<open>When two callers share a flight, the count is one for two holders: after the first has released, an
  eviction pass disconnects the client that the second still holds.\<close>

theorem pool_shared_flight_evicts_held:
  "let s = pool_run [GetCall 0 1 ''c'', GetCall 0 2 ''c'', FlightCheck 1 ''c'', FlightConnected 2 ''c'' (Inr (7, ''acme'')),
       ReleaseCall 3 1 ''c'' 7, EvictCall 500] (pool_init demo_pool_cfg) in
   sy_held s = [(2, ''c'', 7)] \<and> 7 \<in> set (pm_disconnected (sy_mgr s)) \<and> pm_clients (sy_mgr s) = []"
  by (simp add: pool_eval map_filter_def)

section \<open>The backend gauges\<close>

definition gauge_exact :: "PoolManager \<Rightarrow> bool" where
  "gauge_exact m \<longleftrightarrow> (\<forall>tid st. gm_get (pm_gauge m) (tid, st) =
     (let n = (if st = ''in_use'' then count_state tid True m else if st = ''idle'' then count_state tid False m else 0) in
      if tid \<noteq> '''' \<and> n > 0 then Some n else None))"

definition gauge_known :: "PoolManager \<Rightarrow> bool" where
  "gauge_known m \<longleftrightarrow> (\<forall>tid st. gm_get (pm_gauge m) (tid, st) \<noteq> None \<longrightarrow>
     tid \<in> set (pm_gaugeTenants m) \<and> (st = ''in_use'' \<or> st = ''idle''))"

lemma set_gauge_get:
  "gm_get (set_gauge t st n g) k = (if k = (t, st) then (if n > 0 then Some n else None) else gm_get g k)"
  by (auto simp: set_gauge_def)

lemma fold_set_gauge:
  "gm_get (fold (\<lambda>tid g. set_gauge tid ''idle'' (f tid) (set_gauge tid ''in_use'' (b tid) g)) ts g) (t, st) =
    (if t \<in> set ts \<and> st = ''in_use'' then (if b t > 0 then Some (b t) else None)
     else if t \<in> set ts \<and> st = ''idle'' then (if f t > 0 then Some (f t) else None) else gm_get g (t, st))"
  by (induction ts arbitrary: g) (auto simp: set_gauge_get)

lemma fold_del_gauge:
  "gm_get (fold (\<lambda>tid g. if \<not> List.member seen tid then gm_del (gm_del g (tid, ''in_use'')) (tid, ''idle'') else g) ts g) (t, st) =
    (if t \<in> set ts \<and> t \<notin> set seen \<and> (st = ''in_use'' \<or> st = ''idle'') then None else gm_get g (t, st))"
  by (induction ts arbitrary: g) (auto simp: List.member_iff)

lemma count_state_zero:
  assumes "tid \<notin> set (by_tenant m)" and "tid \<noteq> ''''"
  shows "count_state tid busy m = 0"
proof -
  have "gm_sum (\<lambda>e. if cl_tenantID e = tid \<and> (cl_refs e > 0) = busy then 1 else 0) m' = 0"
    if "tid \<notin> set (map (cl_tenantID \<circ> snd) m')" for m' :: "(bytes, tenantClient) gomap"
    using that by (induction m') auto
  with assms show ?thesis by (simp add: count_state_def by_tenant_def)
qed

lemma recompute_gauge_exact:
  assumes "gauge_known m"
  shows "gauge_exact (recomputeBackendGauges m) \<and> gauge_known (recomputeBackendGauges m)"
proof -
  have seen: "\<And>t. t \<in> set (by_tenant m) \<Longrightarrow> t \<noteq> ''''" by (auto simp: by_tenant_def)
  have count: "count_state t b (recomputeBackendGauges m) = count_state t b m" for t b
    by (simp add: count_state_def)
  have get: "gm_get (pm_gauge (recomputeBackendGauges m)) (t, st) =
      (if t \<in> set (by_tenant m) \<and> st = ''in_use'' then (if count_state t True m > 0 then Some (count_state t True m) else None)
       else if t \<in> set (by_tenant m) \<and> st = ''idle'' then (if count_state t False m > 0 then Some (count_state t False m) else None)
       else None)" for t st
  proof -
    have "gm_get (pm_gauge (recomputeBackendGauges m)) (t, st) =
      (if t \<in> set (pm_gaugeTenants m) \<and> t \<notin> set (by_tenant m) \<and> (st = ''in_use'' \<or> st = ''idle'') then None
       else gm_get (fold (\<lambda>tid g. set_gauge tid ''idle'' (count_state tid False m)
         (set_gauge tid ''in_use'' (count_state tid True m) g)) (by_tenant m) (pm_gauge m)) (t, st))"
      by (simp add: recomputeBackendGauges_def Let_def fold_del_gauge del: List.member_iff)
    moreover have "gm_get (pm_gauge m) (t, st) = None \<or> t \<in> set (pm_gaugeTenants m) \<and> (st = ''in_use'' \<or> st = ''idle'')"
      using assms by (auto simp: gauge_known_def)
    ultimately show ?thesis by (auto simp: fold_set_gauge)
  qed
  have "gauge_exact (recomputeBackendGauges m)"
    unfolding gauge_exact_def get count Let_def 
    by (intro allI, rename_tac t st, case_tac "t = ''''"; case_tac "t \<in> set (by_tenant m)")
      (auto simp: count_state_zero dest: seen)
  moreover have "pm_gaugeTenants (recomputeBackendGauges m) = by_tenant m"
    by (simp add: recomputeBackendGauges_def Let_def)
  hence "gauge_known (recomputeBackendGauges m)"
    unfolding gauge_known_def get by auto
  ultimately show ?thesis by blast
qed

lemma gauge_cong:
  "pm_gauge m' = pm_gauge m \<Longrightarrow> pm_gaugeTenants m' = pm_gaugeTenants m \<Longrightarrow> gauge_known m' = gauge_known m"
  by (simp add: gauge_known_def)

lemma gauge_exact_cong:
  "pm_gauge m' = pm_gauge m \<Longrightarrow> pm_clients m' = pm_clients m \<Longrightarrow> gauge_exact m' = gauge_exact m"
  by (simp add: gauge_exact_def count_state_def)

definition gauge_inv :: "PoolManager \<Rightarrow> bool" where
  "gauge_inv m \<longleftrightarrow> gauge_exact m \<and> gauge_known m"

lemma gauge_inv_recompute:
  "gauge_inv m \<Longrightarrow> pm_gauge m' = pm_gauge m \<Longrightarrow> pm_gaugeTenants m' = pm_gaugeTenants m \<Longrightarrow>
   gauge_inv (recomputeBackendGauges m')"
  using recompute_gauge_exact [of m'] gauge_cong [of m' m] by (simp add: gauge_inv_def)

lemma gauge_inv_disconnected: "gauge_inv (m\<lparr>pm_disconnected := ds\<rparr>) = gauge_inv m"
  by (simp add: gauge_inv_def gauge_exact_def gauge_known_def count_state_def)

lemma gauge_inv_hit: "gauge_inv m \<Longrightarrow> pool_hit now cid m = Some (c, m') \<Longrightarrow> gauge_inv m'"
  by (auto simp: pool_hit_def split: option.splits intro!: gauge_inv_recompute)

lemma gauge_inv_install:
  assumes "gauge_inv m" and "pool_install now cid c tid m = (c', m')"
  shows "gauge_inv m'"
proof (cases "pool_hit now cid m")
  case None
  with assms show ?thesis by (auto simp: pool_install_def intro!: gauge_inv_recompute)
next
  case (Some p)
  then obtain c1 m1 where p: "pool_hit now cid m = Some (c1, m1)" by (cases p) auto
  with gauge_inv_hit [OF assms(1) p] assms(2) show ?thesis
    by (auto simp: pool_install_def gauge_inv_disconnected)
qed

lemma gauge_inv_step: "gauge_inv (sy_mgr s) \<Longrightarrow> gauge_inv (sy_mgr (pool_step ev s))"
proof (induction ev s rule: pool_step.induct)
  case (4 now g cid c s)
  then show ?case by (auto simp: Release_def split: option.splits intro!: gauge_inv_recompute)
next
  case (5 now s)
  then show ?case by (auto simp: evictIdle_def Let_def intro!: gauge_inv_recompute)
qed (auto split: option.splits sum.splits prod.splits intro: gauge_inv_hit gauge_inv_install)

lemma gauge_inv_run: "gauge_inv (sy_mgr s) \<Longrightarrow> gauge_inv (sy_mgr (pool_run evs s))"
  unfolding pool_run_def by (induction evs arbitrary: s) (auto intro: gauge_inv_step)

text \<open>After every interleaving of calls, flights, releases and eviction passes, the backend gauge shows
  for each tenant and state exactly the number of pooled clients, with no stale series left
  behind for a tenant or state that has none.\<close>

theorem pool_gauges_exact:
  "gauge_exact (sy_mgr (pool_run evs (pool_init cfg)))"
proof -
  have "gauge_inv (sy_mgr (pool_init cfg))"
    by (simp add: gauge_inv_def gauge_exact_def gauge_known_def pool_init_def NewManager_def count_state_def)
  from gauge_inv_run [OF this] show ?thesis by (simp add: gauge_inv_def)
qed

end
