(* ===== verification/Command_Doc.thy ===== *)
theory Command_Doc
  imports Bson Wire
begin

text \<open>
  The BSON field helpers at the end of \<open>internal/proxy/handler/handler.go\<close>, with the merge
  of document sequences and the test for an error reply.  A slice that may be nil is an
  \<open>option\<close>.
\<close>

section \<open>Reading fields\<close>

fun fieldString :: "doc \<Rightarrow> bytes \<Rightarrow> bytes" where
  "fieldString [] key = ''''"
| "fieldString ((k, v) # es) key =
     (if k = key then (case v of BStr s \<Rightarrow> s | _ \<Rightarrow> fieldString es key) else fieldString es key)"

fun fieldDoc :: "bson_lib \<Rightarrow> doc \<Rightarrow> bytes \<Rightarrow> doc option" where
  "fieldDoc L [] key = None"
| "fieldDoc L ((k, v) # es) key =
     (if k = key then
        (case v of BD d \<Rightarrow> Some d | BM d \<Rightarrow> Some d | BMapAny d \<Rightarrow> Some d
         | BRaw b \<Rightarrow> (case bl_UnmarshalD L b of Inr d \<Rightarrow> Some d | Inl _ \<Rightarrow> fieldDoc L es key)
         | _ \<Rightarrow> fieldDoc L es key)
      else fieldDoc L es key)"

fun fieldArray :: "doc \<Rightarrow> bytes \<Rightarrow> bval list option" where
  "fieldArray [] key = None"
| "fieldArray ((k, v) # es) key =
     (if k = key then (case v of BA a \<Rightarrow> Some a | _ \<Rightarrow> fieldArray es key) else fieldArray es key)"

fun fieldInt64 :: "bson_lib \<Rightarrow> doc \<Rightarrow> bytes \<Rightarrow> int option" where
  "fieldInt64 L [] key = None"
| "fieldInt64 L ((k, v) # es) key =
     (if k = key then
        (case v of BInt32 i \<Rightarrow> Some i | BInt64 i \<Rightarrow> Some i | BInt i \<Rightarrow> Some i
         | BF64 f \<Rightarrow> Some (f64_int64 (bl_f64conv L) f) | _ \<Rightarrow> fieldInt64 L es key)
      else fieldInt64 L es key)"

fun fieldBool :: "doc \<Rightarrow> bytes \<Rightarrow> bool option" where
  "fieldBool [] key = None"
| "fieldBool ((k, v) # es) key =
     (if k = key then (case v of BBool b \<Rightarrow> Some b | _ \<Rightarrow> fieldBool es key) else fieldBool es key)"

definition fieldBoolTrue :: "doc \<Rightarrow> bytes \<Rightarrow> bool" where
  "fieldBoolTrue cmd key \<longleftrightarrow> fieldBool cmd key = Some True"

definition hasSessionFields :: "doc \<Rightarrow> bool" where
  "hasSessionFields cmd \<longleftrightarrow> list_ex (\<lambda>(k, v). k = ''lsid'' \<or> k = ''txnNumber'') cmd"

section \<open>Rewriting commands and replies\<close>

fun set_field :: "doc \<Rightarrow> bytes \<Rightarrow> bval \<Rightarrow> doc" where
  "set_field [] key v = [(key, v)]"
| "set_field ((k, w) # es) key v = (if k = key then (k, v) # es else (k, w) # set_field es key v)"

definition setFieldString :: "doc \<Rightarrow> bytes \<Rightarrow> bytes \<Rightarrow> doc" where
  "setFieldString cmd key value = set_field cmd key (BStr value)"

definition stripSessionFields :: "doc \<Rightarrow> doc" where
  "stripSessionFields cmd =
     filter (\<lambda>(k, v). \<not> List.member [''lsid'', ''txnNumber'', ''autocommit'', ''startTransaction''] k) cmd"

definition mapToD :: "doc \<Rightarrow> doc" where
  "mapToD m = (case gm_get m ''ok'' of Some v \<Rightarrow> (''ok'', v) # gm_del m ''ok'' | None \<Rightarrow> m)"

fun seq_docs :: "bson_lib \<Rightarrow> bytes list \<Rightarrow> bval list" where
  "seq_docs L [] = []"
| "seq_docs L (raw # raws) = (case bl_UnmarshalM L raw of
     Inl _ \<Rightarrow> seq_docs L raws | Inr m \<Rightarrow> BM m # seq_docs L raws)"

definition mergeDocumentSequences :: "bson_lib \<Rightarrow> doc \<Rightarrow> DocumentSequence list \<Rightarrow> doc" where
  "mergeDocumentSequences L cmd seqs = fold (\<lambda>sq cmd.
     if Identifier sq = '''' then cmd else set_field cmd (Identifier sq) (BA (seq_docs L (Documents sq)))) seqs cmd"

definition int64SliceToA :: "int list \<Rightarrow> bval list" where
  "int64SliceToA ids = map BInt64 ids"

text \<open>The scan of a \<open>bson.D\<close> reply: the first \<open>ok\<close> of a recognised numeric type decides.\<close>

fun error_scan :: "doc \<Rightarrow> bool" where
  "error_scan [] = False"
| "error_scan ((k, v) # es) =
     (if k = ''ok'' then (case v of BF64 f \<Rightarrow> f = F64 0 | BInt32 i \<Rightarrow> i = 0 | BInt i \<Rightarrow> i = 0 | _ \<Rightarrow> error_scan es)
      else error_scan es)"

definition isErrorReply :: "bval \<Rightarrow> bool" where
  "isErrorReply reply = (case reply of
      BD r \<Rightarrow> error_scan r
    | BM r \<Rightarrow> (case gm_get r ''ok'' of Some (BF64 f) \<Rightarrow> f = F64 0 | Some (BInt32 i) \<Rightarrow> i = 0 | _ \<Rightarrow> False)
    | _ \<Rightarrow> False)"

text \<open>The cursor ids of a \<open>killCursors\<close> document; an undecodable body has none.\<close>

definition cursor_ids :: "bson_lib \<Rightarrow> bytes \<Rightarrow> int list" where
  "cursor_ids L body = (case bl_UnmarshalM L body of Inl _ \<Rightarrow> [] | Inr m \<Rightarrow>
     (case gm_get m ''cursors'' of
        Some (BA arr) \<Rightarrow> List.map_filter (\<lambda>v. case v of BInt64 n \<Rightarrow> Some n | BInt32 n \<Rightarrow> Some n
          | BF64 f \<Rightarrow> Some (f64_int64 (bl_f64conv L) f) | _ \<Rightarrow> None) arr
      | _ \<Rightarrow> []))"

section \<open>Lemmas\<close>

lemma set_field_get: "map_of (set_field cmd key v) k = (if k = key then Some v else map_of cmd k)"
  by (induction cmd key v rule: set_field.induct) auto

lemma set_field_keys: "map fst (set_field cmd key v) = (if key \<in> fst ` set cmd then map fst cmd else map fst cmd @ [key])"
  by (induction cmd key v rule: set_field.induct) auto

lemma strip_no_session: "\<not> hasSessionFields (stripSessionFields cmd)"
  by (auto simp: hasSessionFields_def stripSessionFields_def list_ex_iff)

lemma strip_get: "k \<notin> {''lsid'', ''txnNumber'', ''autocommit'', ''startTransaction''} \<Longrightarrow>
    map_of (stripSessionFields cmd) k = map_of cmd k"
  by (induction cmd) (auto simp: stripSessionFields_def)

text \<open>Merging the document sequences of an OP_MSG: each identified field of the command ends up holding
  the decodable documents of the last sequence that names it, every other field keeps its value,
  and no field is duplicated.\<close>

theorem mergeDocumentSequences_spec:
  "map_of (mergeDocumentSequences L cmd seqs) k =
     (case find (\<lambda>sq. Identifier sq = k \<and> k \<noteq> '''') (rev seqs) of
        Some sq \<Rightarrow> Some (BA (seq_docs L (Documents sq))) | None \<Rightarrow> map_of cmd k)
   \<and> distinct (map fst (mergeDocumentSequences L cmd seqs)) = distinct (map fst cmd)"
proof (induction seqs rule: rev_induct)
  case (snoc sq seqs)
  let ?m = "mergeDocumentSequences L cmd seqs"
  have step: "mergeDocumentSequences L cmd (seqs @ [sq]) = (if Identifier sq = '''' then ?m
      else set_field ?m (Identifier sq) (BA (seq_docs L (Documents sq))))"
    by (simp add: mergeDocumentSequences_def)
  show ?case using snoc by (auto simp: step set_field_get set_field_keys)
qed (simp add: mergeDocumentSequences_def)

end
