(* ===== verification/Handler.thy ===== *)
theory Handler
  imports Command Command_Doc Cache_Key Coordinator Cached_Cursor Cursor_Registry Cache_Result Reply Metrics
    Rate_Limit Policy Proxy_Auth Pool
begin

text \<open>
  \<open>internal/proxy/handler/handler.go\<close>: the dispatch of one client message.  The components
  it is given (\<open>Deps\<close>) are split into what never changes (\<open>Deps\<close> here) and the
  state they keep (\<open>Proxy\<close>).  The MongoDB driver is the record \<open>backend\<close> over a state
  of its own; a driver cursor is a number.  One call of \<open>Handle\<close> runs alone and reads one
  clock value; the only interleaving kept is the sharing of a \<open>singleflight\<close> result, the
  field \<open>cl_shared\<close>.  The counters the handler adds to are appended to \<open>px_metrics\<close>;
  durations are left out.
\<close>

section \<open>State\<close>

type_synonym mcursor = nat

record find_opts =
  fo_Projection :: "doc option"
  fo_Sort :: "doc option"
  fo_Skip :: "int option"
  fo_Limit :: "int option"
  fo_BatchSize :: "int option"

text \<open>The calls on the driver; \<open>be_Next\<close> moves a cursor, \<open>be_Decode\<close> reads its document.\<close>

record 'b backend =
  be_Find :: "client \<Rightarrow> bytes \<Rightarrow> bytes \<Rightarrow> doc \<Rightarrow> find_opts \<Rightarrow> 'b \<Rightarrow> (mongo_error + mcursor) \<times> 'b"
  be_Aggregate :: "client \<Rightarrow> bytes \<Rightarrow> bytes \<Rightarrow> bval list \<Rightarrow> 'b \<Rightarrow> (mongo_error + mcursor) \<times> 'b"
  be_RunCommand :: "client \<Rightarrow> bytes \<Rightarrow> doc \<Rightarrow> 'b \<Rightarrow> (mongo_error + doc) \<times> 'b"
  be_Next :: "mcursor \<Rightarrow> 'b \<Rightarrow> bool \<times> 'b"
  be_Decode :: "mcursor \<Rightarrow> 'b \<Rightarrow> mongo_error + doc"
  be_Err :: "mcursor \<Rightarrow> 'b \<Rightarrow> mongo_error option"
  be_Close :: "mcursor \<Rightarrow> 'b \<Rightarrow> 'b"

record ConnState =
  cs_ID :: int
  cs_Key :: bytes
  cs_Tenant :: "TenantContext option"
  cs_Authed :: bool
  cs_RemoteAddr :: bytes
  cs_AllowUnauth :: bool
  cs_TenantCounted :: bool
  cs_CountedTenantID :: bytes
  cs_InFlight :: int

text \<open>
  \<open>dp_Cache\<close> is \<open>None\<close> for a nil coordinator and \<open>Some None\<close> for one with a nil
  store; \<open>dp_HasStore\<close> says whether \<open>Deps.Store\<close> is set.
\<close>

record ('m, 'b) Deps =
  dp_bson :: bson_lib
  dp_Cache :: "'m Store option option"
  dp_backend :: "'b backend"
  dp_dialer :: mongo_dialer
  dp_aead :: aead
  dp_masterKey :: bytes
  dp_poolCfg :: "pool_config option"
  dp_bcrypt :: "bytes \<Rightarrow> bytes \<Rightarrow> bool"
  dp_rnd :: "rat \<Rightarrow> rat"
  dp_HasStore :: bool
  dp_DefaultBatch :: int

record ('m, 'b) Proxy =
  px_auth :: Validator
  px_pool :: PoolManager
  px_cursors :: "mcursor Registry"
  px_cached :: "CursorStore option"
  px_cache :: 'm
  px_recorder :: "Recorder option"
  px_cacheStats :: "StatsTracker option"
  px_policies :: "Engine option"
  px_limiter :: "Limiter option"
  px_connID :: int
  px_metrics :: "metric list"
  px_store :: ControlStore
  px_backend :: 'b

text \<open>What a call reads from outside: the clock and the result of a flight it joins.\<close>

record call_ctx =
  cl_now :: time
  cl_shared :: "(cache_err + (bytes \<times> bool)) option"

definition emit :: "metric list \<Rightarrow> ('m, 'b) Proxy \<Rightarrow> ('m, 'b) Proxy" where
  "emit ms w = w\<lparr>px_metrics := px_metrics w @ ms\<rparr>"

definition tenant_id :: "ConnState \<Rightarrow> bytes" where
  "tenant_id cs = (case cs_Tenant cs of None \<Rightarrow> '''' | Some tc \<Rightarrow> tc_TenantID tc)"

section \<open>Backend commands\<close>

text \<open>The batch loops: at most \<open>n\<close> documents, stopping when \<open>Next\<close> fails or one does not decode.\<close>

primrec fetch_batch :: "'b backend \<Rightarrow> mcursor \<Rightarrow> nat \<Rightarrow> 'b \<Rightarrow> (mongo_error + bval list) \<times> 'b" where
  "fetch_batch B cur 0 b = (Inr [], b)"
| "fetch_batch B cur (Suc n) b = (case be_Next B cur b of
      (False, b1) \<Rightarrow> (Inr [], b1)
    | (True, b1) \<Rightarrow> (case be_Decode B cur b1 of
          Inl err \<Rightarrow> (Inl err, b1)
        | Inr d \<Rightarrow> (case fetch_batch B cur n b1 of
              (Inl err, b2) \<Rightarrow> (Inl err, b2)
            | (Inr ds, b2) \<Rightarrow> (Inr (BM d # ds), b2))))"

definition on_backend :: "('b \<Rightarrow> 'a \<times> 'b) \<Rightarrow> ('m, 'b) Proxy \<Rightarrow> 'a \<times> ('m, 'b) Proxy" where
  "on_backend f w = (case f (px_backend w) of (r, b) \<Rightarrow> (r, w\<lparr>px_backend := b\<rparr>))"

definition close_cursors :: "'b backend \<Rightarrow> mcursor list \<Rightarrow> ('m, 'b) Proxy \<Rightarrow> ('m, 'b) Proxy" where
  "close_cursors B curs w = w\<lparr>px_backend := fold (be_Close B) curs (px_backend w)\<rparr>"

definition cursor_reply :: "bytes \<Rightarrow> int \<Rightarrow> bytes \<Rightarrow> bval list \<Rightarrow> bval" where
  "cursor_reply field i ns batch =
     BD [(''cursor'', BD [(''id'', BInt64 i), (''ns'', BStr ns), (field, BA batch)]), (''ok'', BF64 (F64 1))]"

definition firstBatchFromCursor ::
  "('m, 'b) Deps \<Rightarrow> call_ctx \<Rightarrow> ConnState \<Rightarrow> mcursor \<Rightarrow> bytes \<Rightarrow> bytes \<Rightarrow> int \<Rightarrow> bool \<Rightarrow> ('m, 'b) Proxy
     \<Rightarrow> bval \<times> ('m, 'b) Proxy" where
  "firstBatchFromCursor D x cs cur dbName collName batchSize singleBatch w =
     (let B = dp_backend D; ns = FormatNS dbName collName;
          batchSize = (if batchSize \<le> 0 then 101 else batchSize) in
      case on_backend (fetch_batch B cur (nat batchSize)) w of
        (Inl err, w1) \<Rightarrow> (BD (MongoErrorToReply (Some err)), close_cursors B [cur] w1)
      | (Inr firstBatch, w1) \<Rightarrow> (case be_Err B cur (px_backend w1) of
            Some err \<Rightarrow> (BD (MongoErrorToReply (Some err)), close_cursors B [cur] w1)
          | None \<Rightarrow>
              if \<not> singleBatch \<and> int (length firstBatch) \<ge> batchSize
              then (let (cursorID, r) = RegisterCursor (cl_now x) (tenant_id cs) (cs_Key cs) ns (Some cur) (px_cursors w1) in
                (cursor_reply ''firstBatch'' cursorID ns firstBatch, w1\<lparr>px_cursors := r\<rparr>))
              else (cursor_reply ''firstBatch'' 0 ns firstBatch, close_cursors B [cur] w1)))"

text \<open>The collection, filter, options, batch size and single-batch flag \<open>handleFind\<close> reads.\<close>

definition find_args :: "bson_lib \<Rightarrow> doc \<Rightarrow> Info \<Rightarrow> bytes \<times> doc \<times> find_opts \<times> int \<times> bool" where
  "find_args L cmd info =
     (let batch = (case fieldInt64 L cmd ''batchSize'' of
            Some n \<Rightarrow> if n > 0 then Some (wrap32 n) else None | None \<Rightarrow> None) in
      (if Collection info = '''' then fieldString cmd ''find'' else Collection info,
       case fieldDoc L cmd ''filter'' of None \<Rightarrow> [] | Some d \<Rightarrow> d,
       \<lparr>fo_Projection = fieldDoc L cmd ''projection'', fo_Sort = fieldDoc L cmd ''sort'',
         fo_Skip = fieldInt64 L cmd ''skip'',
         fo_Limit = (case fieldInt64 L cmd ''limit'' of Some n \<Rightarrow> if n > 0 then Some n else None | None \<Rightarrow> None),
         fo_BatchSize = batch\<rparr>,
       case batch of Some n \<Rightarrow> n | None \<Rightarrow> 101,
       fieldBoolTrue cmd ''singleBatch''))"

definition handleFind ::
  "('m, 'b) Deps \<Rightarrow> call_ctx \<Rightarrow> ConnState \<Rightarrow> client \<Rightarrow> bytes \<Rightarrow> doc \<Rightarrow> Info \<Rightarrow> ('m, 'b) Proxy \<Rightarrow> bval \<times> ('m, 'b) Proxy" where
  "handleFind D x cs c dbName cmd info w =
     (case find_args (dp_bson D) cmd info of (collName, filt, opts, batchSize, singleBatch) \<Rightarrow>
      case on_backend (be_Find (dp_backend D) c dbName collName filt opts) w of
        (Inl err, w1) \<Rightarrow> (BD (MongoErrorToReply (Some err)), w1)
      | (Inr cur, w1) \<Rightarrow> firstBatchFromCursor D x cs cur dbName collName batchSize singleBatch w1)"

definition maybeRewriteCursor :: "ConnState \<Rightarrow> bytes \<Rightarrow> bval \<Rightarrow> bytes \<Rightarrow> bytes \<Rightarrow> bval \<times> bool" where
  "maybeRewriteCursor cs tenantID curVal dbName coll = (curVal, False)"

definition runCommandRaw ::
  "('m, 'b) Deps \<Rightarrow> ConnState \<Rightarrow> client \<Rightarrow> bytes \<Rightarrow> doc \<Rightarrow> Info \<Rightarrow> ('m, 'b) Proxy \<Rightarrow> bval \<times> ('m, 'b) Proxy" where
  "runCommandRaw D cs c dbName cmd info w =
     (let tenantID = tenant_id cs in
      case on_backend (be_RunCommand (dp_backend D) c dbName (stripSessionFields cmd)) w of
        (Inl err, w1) \<Rightarrow> (BD (MongoErrorToReply (Some err)),
          if tenantID \<noteq> '''' then emit [(''ProxyBackendErrors'', [tenantID], 1)] w1 else w1)
      | (Inr result, w1) \<Rightarrow>
          let result1 = (case gm_get result ''cursor'' of
              Some curVal \<Rightarrow> (case maybeRewriteCursor cs tenantID curVal dbName (Collection info) of
                  (rewritten, True) \<Rightarrow> gm_put result ''cursor'' rewritten | _ \<Rightarrow> result)
            | None \<Rightarrow> result) in
          (BD (mapToD result1), w1))"

text \<open>The last \<open>batchSize\<close> of the cursor option that is an integer.\<close>

fun agg_batch :: "doc \<Rightarrow> int \<Rightarrow> int" where
  "agg_batch [] n = n"
| "agg_batch ((k, v) # es) n = agg_batch es (if k = ''batchSize'' then
     (case v of BInt32 i \<Rightarrow> i | BInt64 i \<Rightarrow> wrap32 i | BInt i \<Rightarrow> wrap32 i | _ \<Rightarrow> n) else n)"

definition handleAggregate ::
  "('m, 'b) Deps \<Rightarrow> call_ctx \<Rightarrow> ConnState \<Rightarrow> client \<Rightarrow> bytes \<Rightarrow> doc \<Rightarrow> Info \<Rightarrow> ('m, 'b) Proxy \<Rightarrow> bval \<times> ('m, 'b) Proxy" where
  "handleAggregate D x cs c dbName cmd info w =
     (let collName = (if Collection info = '''' then fieldString cmd ''aggregate'' else Collection info);
          pipeline = (case fieldArray cmd ''pipeline'' of None \<Rightarrow> [] | Some a \<Rightarrow> a);
          batchSize = (case fieldDoc (dp_bson D) cmd ''cursor'' of None \<Rightarrow> 101 | Some d \<Rightarrow> agg_batch d 101) in
      if collName = ''1'' \<or> collName = '''' then runCommandRaw D cs c dbName cmd info w
      else case on_backend (be_Aggregate (dp_backend D) c dbName collName pipeline) w of
          (Inl err, w1) \<Rightarrow> (BD (MongoErrorToReply (Some err)), w1)
        | (Inr cur, w1) \<Rightarrow> firstBatchFromCursor D x cs cur dbName collName batchSize False w1)"

text \<open>The choice made at both places where a command is sent to the backend.\<close>

definition run_backend ::
  "('m, 'b) Deps \<Rightarrow> call_ctx \<Rightarrow> ConnState \<Rightarrow> client \<Rightarrow> bytes \<Rightarrow> bytes \<Rightarrow> doc \<Rightarrow> Info \<Rightarrow> ('m, 'b) Proxy
     \<Rightarrow> bval \<times> ('m, 'b) Proxy" where
  "run_backend D x cs c cmdLower dbName cmd info w =
     (if cmdLower = ''find'' then handleFind D x cs c dbName cmd info w
      else if cmdLower = ''aggregate'' then handleAggregate D x cs c dbName cmd info w
      else runCommandRaw D cs c dbName cmd info w)"

definition pool_get :: "('m, 'b) Deps \<Rightarrow> call_ctx \<Rightarrow> bytes \<Rightarrow> ('m, 'b) Proxy \<Rightarrow> (bytes + client) \<times> ('m, 'b) Proxy" where
  "pool_get D x connectionID w =
     (case PoolGet (dp_dialer D) (dp_aead D) (dp_masterKey D) (dp_poolCfg D) (cl_now x) connectionID (px_store w) (px_pool w) of
        (r, p) \<Rightarrow> (r, w\<lparr>px_pool := p\<rparr>))"

definition pool_release :: "call_ctx \<Rightarrow> bytes \<Rightarrow> ('m, 'b) Proxy \<Rightarrow> ('m, 'b) Proxy" where
  "pool_release x connectionID w = w\<lparr>px_pool := Release (cl_now x) connectionID (px_pool w)\<rparr>"

section \<open>The cache around reads\<close>

definition recordCache ::
  "bytes \<Rightarrow> bytes \<Rightarrow> bytes \<Rightarrow> bytes \<Rightarrow> bytes \<Rightarrow> Outcome \<Rightarrow> int \<Rightarrow> bytes \<Rightarrow> ('m, 'b) Proxy \<Rightarrow> ('m, 'b) Proxy" where
  "recordCache tenantID db coll nsLabel cmdLower result n bypassReason w =
     (case px_recorder w of
        Some rec \<Rightarrow> (case RecordCacheOutcome tenantID db coll nsLabel cmdLower result n bypassReason (Some rec) of
            (ms, r') \<Rightarrow> emit ms (w\<lparr>px_recorder := r'\<rparr>))
      | None \<Rightarrow> (case RecordCacheOutcome tenantID db coll nsLabel cmdLower result n bypassReason
              (Some \<lparr>rec_CacheStats = px_cacheStats w, rec_Savings = None, rec_LegacyNS = True\<rparr>) of
            (ms, r') \<Rightarrow> emit ms (w\<lparr>px_cacheStats := (case r' of None \<Rightarrow> px_cacheStats w | Some rc \<Rightarrow> rec_CacheStats rc)\<rparr>)))"

definition cache_decision :: "bytes \<Rightarrow> bytes \<Rightarrow> bytes \<Rightarrow> ('m, 'b) Proxy \<Rightarrow> Decision" where
  "cache_decision connectionID dbName collName w = (case px_policies w of
      Some e \<Rightarrow> Resolve connectionID dbName collName e
    | None \<Rightarrow> \<lparr>de_Enabled = True, de_TTL = DefaultTTLSeconds * 1000000000, de_MaxResultBytes = 1048576,
        de_CacheKeyVersion = 1\<rparr>)"

definition on_cache :: "('m \<Rightarrow> 'a \<times> 'm) \<Rightarrow> ('m, 'b) Proxy \<Rightarrow> 'a \<times> ('m, 'b) Proxy" where
  "on_cache f w = (case f (px_cache w) of (r, m) \<Rightarrow> (r, w\<lparr>px_cache := m\<rparr>))"

definition cache_set ::
  "('m, 'b) Deps \<Rightarrow> call_ctx \<Rightarrow> bytes \<Rightarrow> bytes \<Rightarrow> bytes \<Rightarrow> bytes \<Rightarrow> bytes \<Rightarrow> bytes \<Rightarrow> int \<Rightarrow> ('m, 'b) Proxy \<Rightarrow> ('m, 'b) Proxy" where
  "cache_set D x tenantID connectionID dbName collName key value ttl w = (case dp_Cache D of
      None \<Rightarrow> w
    | Some S \<Rightarrow> w\<lparr>px_cache := BestEffortSet S (cl_now x) tenantID connectionID dbName collName key value ttl (px_cache w)\<rparr>)"

text \<open>The documents stored for a reply: those of its cursor, or the reply itself.\<close>

definition envelope :: "bson_lib \<Rightarrow> bytes \<Rightarrow> bval \<Rightarrow> bytes + (bytes \<times> bytes list)" where
  "envelope L nsLabel reply = (case DocsFromCursorReply L reply of
      (ns, docs, True) \<Rightarrow> Inr (ns, docs)
    | (_, _, False) \<Rightarrow> (case bl_Marshal L reply of Inl e \<Rightarrow> Inl e | Inr raw \<Rightarrow> Inr (nsLabel, [raw])))"

text \<open>The function run inside the flight on a miss.\<close>

definition load_from_backend ::
  "('m, 'b) Deps \<Rightarrow> call_ctx \<Rightarrow> ConnState \<Rightarrow> bytes \<Rightarrow> bytes \<Rightarrow> bytes \<Rightarrow> bytes \<Rightarrow> bytes \<Rightarrow> bytes \<Rightarrow> Info \<Rightarrow> doc
     \<Rightarrow> Decision \<Rightarrow> bytes \<Rightarrow> ('m, 'b) Proxy \<Rightarrow> (cache_err + bytes) \<times> ('m, 'b) Proxy" where
  "load_from_backend D x cs tenantID connectionID dbName collName nsLabel cmdLower info cmdDoc dec key w =
     (case pool_get D x connectionID w of
        (Inl err, w1) \<Rightarrow> (Inl (ErrOther err), w1)
      | (Inr c, w1) \<Rightarrow> (case run_backend D x cs c cmdLower dbName cmdDoc info w1 of (reply, w2) \<Rightarrow>
          (if isErrorReply reply then (Inl errBackendCommand, pool_release x connectionID w2)
           else case envelope (dp_bson D) nsLabel reply of
               Inl e \<Rightarrow> (Inl (ErrOther e), pool_release x connectionID w2)
             | Inr (ns, docs) \<Rightarrow> (case Serialize (dp_bson D) ns cmdLower docs of
                 Inl e \<Rightarrow> (Inl (ErrOther e), pool_release x connectionID w2)
               | Inr serialized \<Rightarrow>
                   if int (length serialized) > de_MaxResultBytes dec
                   then (Inl errTooBig, pool_release x connectionID
                     (recordCache tenantID dbName collName nsLabel cmdLower OutcomeBypass 0 ''size'' w2))
                   else (Inr serialized, pool_release x connectionID
                     (recordCache tenantID dbName collName nsLabel cmdLower OutcomeMiss (int (length serialized)) ''''
                       (emit [(''CacheResultBytes'', [], int (length serialized))]
                         (cache_set D x tenantID connectionID dbName collName key serialized (de_TTL dec) w2))))))))"

text \<open>A cached single document of a command that answers without a cursor.\<close>

definition count_doc :: "bson_lib \<Rightarrow> bytes \<Rightarrow> CachedResult \<Rightarrow> doc option" where
  "count_doc L cmdLower cr =
     (if cmdLower = ''count'' \<or> cmdLower = ''estimateddocumentcount'' \<or> cmdLower = ''distinct''
      then (case cr_Docs cr of [d] \<Rightarrow> (case bl_UnmarshalM L d of Inr m \<Rightarrow> Some m | Inl _ \<Rightarrow> None) | _ \<Rightarrow> None)
      else None)"

definition default_batch :: "('m, 'b) Deps \<Rightarrow> int" where
  "default_batch D = (if dp_DefaultBatch D \<le> 0 then 101 else dp_DefaultBatch D)"

text \<open>The reply built from a payload, after the lookup or the load; \<open>None\<close> when it is not handled here.\<close>

definition reply_from_payload ::
  "('m, 'b) Deps \<Rightarrow> call_ctx \<Rightarrow> ConnState \<Rightarrow> bytes \<Rightarrow> bytes \<Rightarrow> bytes \<Rightarrow> bytes \<Rightarrow> bytes \<Rightarrow> bytes \<Rightarrow> bool
     \<Rightarrow> ('m, 'b) Proxy \<Rightarrow> bval option \<times> ('m, 'b) Proxy" where
  "reply_from_payload D x cs tenantID dbName collName nsLabel cmdLower payload hit w =
     (case Deserialize (dp_bson D) payload of
        Inl err \<Rightarrow> (None, w)
      | Inr cr \<Rightarrow>
          let w1 = (if hit then recordCache tenantID dbName collName nsLabel cmdLower OutcomeHit (int (length payload)) '''' w
                    else w) in
          (case count_doc (dp_bson D) cmdLower cr of
             Some m \<Rightarrow> (Some (BD (mapToD m)), w1)
           | None \<Rightarrow> (case px_cached w1 of
                  Some cc \<Rightarrow>
                    if cmdLower = ''find'' \<or> cmdLower = ''aggregate''
                    then (case RegisterCached (cl_now x) tenantID (cs_Key cs) (cr_NS cr) (cr_Docs cr) (default_batch D) cc of
                        ((cid, first, _), cc') \<Rightarrow>
                          (Some (BD (ReplyFromCacheWithCursor (dp_bson D) cr cid (Some first))), w1\<lparr>px_cached := Some cc'\<rparr>))
                    else (Some (BD (ReplyFromCache (dp_bson D) cr)), w1)
                | None \<Rightarrow> (Some (BD (ReplyFromCache (dp_bson D) cr)), w1))))"

definition tryCacheRead ::
  "('m, 'b) Deps \<Rightarrow> call_ctx \<Rightarrow> ConnState \<Rightarrow> bytes \<Rightarrow> bytes \<Rightarrow> bytes \<Rightarrow> bytes \<Rightarrow> bytes \<Rightarrow> bytes \<Rightarrow> Msg \<Rightarrow> Info \<Rightarrow> doc
     \<Rightarrow> ('m, 'b) Proxy \<Rightarrow> bval option \<times> ('m, 'b) Proxy" where
  "tryCacheRead D x cs tenantID connectionID dbName collName nsLabel cmdLower msg info cmdDoc w =
     (case dp_Cache D of None \<Rightarrow> (None, w) | Some S \<Rightarrow>
      if collName = '''' then (None, w)
      else case ShouldBypassCache (dp_bson D) (Name info) (Body msg) (IsTxn info) of
          (True, reason) \<Rightarrow> (None, recordCache tenantID dbName collName nsLabel cmdLower OutcomeBypass 0 reason w)
        | (False, _) \<Rightarrow>
            let dec = cache_decision connectionID dbName collName w in
            (case CacheKey (dp_bson D) tenantID connectionID dbName collName (Name info) (Body msg) (de_CacheKeyVersion dec) of
               Inl err \<Rightarrow> (None, recordCache tenantID dbName collName nsLabel cmdLower OutcomeBypass 0 ''bad_key'' w)
             | Inr key \<Rightarrow>
                 (case GetOrLoad (map_option (\<lambda>st. on_cache (GetKey st (cl_now x) key)) S) (cl_shared x)
                     (load_from_backend D x cs tenantID connectionID dbName collName nsLabel cmdLower info cmdDoc dec key) w of
                    (Inl (ErrUnavailable e), w1) \<Rightarrow> (None, emit [(''CacheUnavailable'', [], 1)] w1)
                  | (Inl err, w1) \<Rightarrow> (None, w1)
                  | (Inr (payload, hit), w1) \<Rightarrow>
                      reply_from_payload D x cs tenantID dbName collName nsLabel cmdLower payload hit w1)))"

definition maybePopulateCache ::
  "('m, 'b) Deps \<Rightarrow> call_ctx \<Rightarrow> bytes \<Rightarrow> bytes \<Rightarrow> bytes \<Rightarrow> bytes \<Rightarrow> bytes \<Rightarrow> bytes \<Rightarrow> bytes \<Rightarrow> Info \<Rightarrow> bval
     \<Rightarrow> ('m, 'b) Proxy \<Rightarrow> ('m, 'b) Proxy" where
  "maybePopulateCache D x tenantID connectionID dbName collName nsLabel cmdLower raw info reply w =
     (if dp_Cache D = None \<or> isErrorReply reply then w
      else if fst (ShouldBypassCache (dp_bson D) (Name info) raw (IsTxn info)) then w
      else let dec = cache_decision connectionID dbName collName w in
        case CacheKey (dp_bson D) tenantID connectionID dbName collName (Name info) raw (de_CacheKeyVersion dec) of
          Inl err \<Rightarrow> w
        | Inr key \<Rightarrow> (case envelope (dp_bson D) nsLabel reply of
            Inl err \<Rightarrow> w
          | Inr (ns, docs) \<Rightarrow> (case Serialize (dp_bson D) ns cmdLower docs of
              Inl err \<Rightarrow> w
            | Inr serialized \<Rightarrow> if int (length serialized) > de_MaxResultBytes dec then w
                else cache_set D x tenantID connectionID dbName collName key serialized (de_TTL dec) w)))"

definition maybeAutoInvalidateOnWrite ::
  "('m, 'b) Deps \<Rightarrow> bytes \<Rightarrow> bytes \<Rightarrow> bytes \<Rightarrow> bytes \<Rightarrow> ('m, 'b) Proxy \<Rightarrow> ('m, 'b) Proxy" where
  "maybeAutoInvalidateOnWrite D tenantID connectionID dbName collName w =
     (case dp_Cache D of None \<Rightarrow> w | Some S \<Rightarrow>
      if \<not> dp_HasStore D then w
      else case GetConnection connectionID (px_store w) of
          Inl err \<Rightarrow> w
        | Inr conn \<Rightarrow>
            if \<not> cn_AutoInvalidateOnWrite conn then w
            else let r = fst (ResolveCacheCollection collName); realColl = (if r = '''' then collName else r) in
              snd (on_cache (BestEffortInvalidate S tenantID connectionID dbName realColl) w))"

section \<open>Commands on tenant data\<close>

text \<open>
  What \<open>handlePassthrough\<close> derives from the decoded command: the database, the real collection,
  whether the client opted in to the cache, the command to send and the updated metadata.
\<close>

definition resolve_request :: "bson_lib \<Rightarrow> Msg \<Rightarrow> Info \<Rightarrow> doc \<Rightarrow> bytes \<Rightarrow> bytes \<times> bytes \<times> bool \<times> doc \<times> Info" where
  "resolve_request L msg info cmd0 db0 =
     (let dbName = (if db0 = '''' then DB info else db0);
          cmd1 = mergeDocumentSequences L cmd0 (Sequences msg);
          coll0 = (if Collection info = '''' then fieldString cmd1 (Name info) else Collection info);
          (realColl, useCache) = ResolveCacheCollection coll0 in
      (dbName, realColl, useCache,
       if realColl \<noteq> coll0 then setFieldString cmd1 (Name info) realColl else cmd1,
       if realColl \<noteq> coll0 then info\<lparr>Collection := realColl\<rparr> else info))"

text \<open>The part that follows the cache: the backend call and what is written to the cache after it.\<close>

definition passthrough_backend ::
  "('m, 'b) Deps \<Rightarrow> call_ctx \<Rightarrow> ConnState \<Rightarrow> bytes \<Rightarrow> bytes \<Rightarrow> bytes \<Rightarrow> bytes \<Rightarrow> bytes \<Rightarrow> bytes \<Rightarrow> Msg \<Rightarrow> Info \<Rightarrow> doc
     \<Rightarrow> bool \<Rightarrow> ('m, 'b) Proxy \<Rightarrow> bval \<times> ('m, 'b) Proxy" where
  "passthrough_backend D x cs tenantID connectionID dbName collName nsLabel cmdLower msg info cmdDoc useCache w =
     (case pool_get D x connectionID w of
        (Inl err, w2) \<Rightarrow> (BD (ErrorReply 6 ''HostUnreachable'' (''failed to reach tenant backend: '' @ err)),
          emit [(''ProxyBackendErrors'', [tenantID], 1)] w2)
      | (Inr c, w2) \<Rightarrow> (case run_backend D x cs c cmdLower dbName cmdDoc info w2 of (reply, w3) \<Rightarrow>
          (let w4 = (if useCache \<and> InfoKind info = KindRead \<and> collName \<noteq> ''''
                     then maybePopulateCache D x tenantID connectionID dbName collName nsLabel cmdLower (Body msg) info reply w3
                     else w3);
               w5 = (if InfoKind info = KindWrite \<and> collName \<noteq> '''' \<and> \<not> isErrorReply reply
                     then maybeAutoInvalidateOnWrite D tenantID connectionID dbName collName w4 else w4) in
           (reply, pool_release x connectionID w5))))"

definition handlePassthrough ::
  "('m, 'b) Deps \<Rightarrow> call_ctx \<Rightarrow> ConnState \<Rightarrow> Msg \<Rightarrow> Info \<Rightarrow> ('m, 'b) Proxy \<Rightarrow> bval \<times> ('m, 'b) Proxy" where
  "handlePassthrough D x cs msg info w =
     (let tenantID = tenant_id cs;
          connectionID = (case cs_Tenant cs of None \<Rightarrow> '''' | Some tc \<Rightarrow> tc_ConnectionID tc) in
      if tenantID = '''' \<or> connectionID = '''' then (BD (NotAuthorized ''no tenant context''), w)
      else case StripForRunCommand (dp_bson D) (Body msg) of
        Inl err \<Rightarrow> (BD (ErrorReply 2 ''BadValue'' err), w)
      | Inr (cmd0, db0) \<Rightarrow> (case resolve_request (dp_bson D) msg info cmd0 db0 of
          (dbName, collName, useCache, cmdDoc, info1) \<Rightarrow>
            let nsLabel = FormatNS dbName collName; cmdLower = to_lower (Name info) in
            (case (if useCache
                   then tryCacheRead D x cs tenantID connectionID dbName collName nsLabel cmdLower msg info1 cmdDoc w
                   else (None, w)) of
               (Some reply, w1) \<Rightarrow> (reply, w1)
             | (None, w1) \<Rightarrow>
                 passthrough_backend D x cs tenantID connectionID dbName collName nsLabel cmdLower msg info1 cmdDoc useCache w1)))"

section \<open>Cursors\<close>

definition cursor_id_of :: "bson_lib \<Rightarrow> bytes \<Rightarrow> int" where
  "cursor_id_of L body = (let i = LookupInt64 L body ''getMore'' in
     if i = 0 then LookupInt64 L body ''getmore'' else i)"

definition handleCachedGetMore ::
  "('m, 'b) Deps \<Rightarrow> call_ctx \<Rightarrow> ConnState \<Rightarrow> bytes \<Rightarrow> ('m, 'b) Proxy \<Rightarrow> (panic + bval option) \<times> ('m, 'b) Proxy" where
  "handleCachedGetMore D x cs body w = (case (px_cached w, cs_Authed cs, cs_Tenant cs) of
      (Some cc, True, Some tc) \<Rightarrow>
        let L = dp_bson D; cursorID = cursor_id_of L body; batchSize = LookupInt32 L body ''batchSize'' in
        (case NextBatch (cl_now x) cursorID (tc_TenantID tc) (cs_Key cs) batchSize cc of
           (Inl p, cc') \<Rightarrow> (Inl p, w\<lparr>px_cached := Some cc'\<rparr>)
         | (Inr (ns, docs, exhausted, ok), cc') \<Rightarrow>
             if \<not> ok then (Inr None, w\<lparr>px_cached := Some cc'\<rparr>)
             else (Inr (Some (cursor_reply ''nextBatch'' (if exhausted then 0 else cursorID) ns (map (batch_item L) docs))),
               w\<lparr>px_cached := Some cc'\<rparr>))
    | _ \<Rightarrow> (Inr None, w))"

definition handleKillCachedCursors :: "('m, 'b) Deps \<Rightarrow> ConnState \<Rightarrow> bytes \<Rightarrow> ('m, 'b) Proxy \<Rightarrow> ('m, 'b) Proxy" where
  "handleKillCachedCursors D cs body w = (case (px_cached w, cs_Tenant cs) of
      (Some cc, Some tc) \<Rightarrow>
        w\<lparr>px_cached := Some (KillManyCached (cursor_ids (dp_bson D) body) (tc_TenantID tc) (cs_Key cs) cc)\<rparr>
    | _ \<Rightarrow> w)"

definition remove_cursor :: "('m, 'b) Deps \<Rightarrow> int \<Rightarrow> bytes \<Rightarrow> bytes \<Rightarrow> ('m, 'b) Proxy \<Rightarrow> ('m, 'b) Proxy" where
  "remove_cursor D i tenantID connKey w = (case RemoveCursor i tenantID connKey (px_cursors w) of
     (gone, r) \<Rightarrow> close_cursors (dp_backend D) gone (w\<lparr>px_cursors := r\<rparr>))"

text \<open>
  \<open>int32(len(nextBatch)) < batchSize\<close> holds exactly when the loop stopped early, as the
  batch never exceeds the positive 32-bit \<open>batchSize\<close>.
\<close>

definition handleGetMore ::
  "('m, 'b) Deps \<Rightarrow> call_ctx \<Rightarrow> ConnState \<Rightarrow> bytes \<Rightarrow> ('m, 'b) Proxy \<Rightarrow> (panic + bval) \<times> ('m, 'b) Proxy" where
  "handleGetMore D x cs body w = (case cs_Tenant cs of
      None \<Rightarrow> (Inr (BD (NotAuthorized '''')), w)
    | Some tc \<Rightarrow>
        if \<not> cs_Authed cs then (Inr (BD (NotAuthorized '''')), w)
        else let L = dp_bson D; B = dp_backend D; cursorID = cursor_id_of L body;
                 bs = LookupInt32 L body ''batchSize''; batchSize = (if bs \<le> 0 then 101 else bs) in
          (case GetCursor (cl_now x) cursorID (tc_TenantID tc) (cs_Key cs) (px_cursors w) of
             (None, r) \<Rightarrow> (Inr (BD (ErrorReply 43 ''CursorNotFound'' ''cursor id not found'')), w\<lparr>px_cursors := r\<rparr>)
           | (Some st, r) \<Rightarrow> (let w1 = w\<lparr>px_cursors := r\<rparr> in
               case st_Cursor st of
                 None \<Rightarrow> (Inl NilDereference, w1)
               | Some cur \<Rightarrow>
                   (case on_backend (fetch_batch B cur (nat batchSize)) w1 of
                      (Inl err, w2) \<Rightarrow> (Inr (BD (MongoErrorToReply (Some err))),
                        remove_cursor D cursorID (tc_TenantID tc) (cs_Key cs) w2)
                    | (Inr nextBatch, w2) \<Rightarrow> (case be_Err B cur (px_backend w2) of
                          Some err \<Rightarrow> (Inr (BD (MongoErrorToReply (Some err))),
                            remove_cursor D cursorID (tc_TenantID tc) (cs_Key cs) w2)
                        | None \<Rightarrow>
                            if int (length nextBatch) < batchSize
                            then (Inr (cursor_reply ''nextBatch'' 0 (st_NS st) nextBatch),
                              remove_cursor D cursorID (tc_TenantID tc) (cs_Key cs) w2)
                            else (Inr (cursor_reply ''nextBatch'' cursorID (st_NS st) nextBatch), w2))))))"

definition handleKillCursors :: "('m, 'b) Deps \<Rightarrow> ConnState \<Rightarrow> bytes \<Rightarrow> ('m, 'b) Proxy \<Rightarrow> bval \<times> ('m, 'b) Proxy" where
  "handleKillCursors D cs body w = (case cs_Tenant cs of
      None \<Rightarrow> (BD (NotAuthorized ''''), w)
    | Some tc \<Rightarrow>
        if \<not> cs_Authed cs then (BD (NotAuthorized ''''), w)
        else let ids = cursor_ids (dp_bson D) body in
          (case KillManyCursors ids (tc_TenantID tc) (cs_Key cs) (px_cursors w) of (gone, r) \<Rightarrow>
             (BD [(''cursorsKilled'', BA (int64SliceToA ids)), (''cursorsNotFound'', BA []), (''cursorsAlive'', BA []),
                (''cursorsUnknown'', BA []), (''ok'', BF64 (F64 1))],
              close_cursors (dp_backend D) gone (w\<lparr>px_cursors := r\<rparr>))))"

section \<open>Handshake and authentication\<close>

definition handleHello :: "call_ctx \<Rightarrow> ConnState \<Rightarrow> bytes \<Rightarrow> ('m, 'b) Proxy \<Rightarrow> doc \<times> ConnState \<times> ('m, 'b) Proxy" where
  "handleHello x cs cmdName w =
     (if cs_ID cs = 0
      then let cid = wrap32 (px_connID w + 1) in
        (HelloReply (cl_now x) cid cmdName, cs\<lparr>cs_ID := cid\<rparr>, w\<lparr>px_connID := cid\<rparr>)
      else (HelloReply (cl_now x) (cs_ID cs) cmdName, cs, w))"

definition handleConnectionStatus :: "ConnState \<Rightarrow> doc" where
  "handleConnectionStatus cs =
     (let authUsers = (case cs_Tenant cs of
          Some tc \<Rightarrow> if cs_Authed cs then [BD [(''user'', BStr (tc_TenantID tc)), (''db'', BStr ''$external'')]] else []
        | None \<Rightarrow> []) in
      [(''authInfo'', BD [(''authenticatedUsers'', BA authUsers), (''authenticatedUserRoles'', BA [])]),
       (''ok'', BF64 (F64 1))])"

definition extractPayload :: "bson_lib \<Rightarrow> bytes \<Rightarrow> bytes option" where
  "extractPayload L body = (case bl_LookupErr L body ''payload'' of
      Inl err \<Rightarrow> None
    | Inr val \<Rightarrow> (case BinaryOK val of
        Some (subtype, data) \<Rightarrow> Some data
      | None \<Rightarrow> (case StringValueOK val of Some s \<Rightarrow> b64_decode True s | None \<Rightarrow> Some [])))"

definition handleSaslStart ::
  "('m, 'b) Deps \<Rightarrow> call_ctx \<Rightarrow> ConnState \<Rightarrow> bytes \<Rightarrow> ('m, 'b) Proxy \<Rightarrow> doc \<times> ConnState \<times> ('m, 'b) Proxy" where
  "handleSaslStart D x cs body w =
     (let mech = LookupString (dp_bson D) body ''mechanism'' in
      if \<not> equal_fold mech ''PLAIN''
      then (ErrorReply 334 ''MechanismUnavailable''
        ''Only PLAIN is supported in Phase 1. Use authMechanism=PLAIN&authSource=$external'', cs, w)
      else case extractPayload (dp_bson D) body of
        None \<Rightarrow> (AuthFailed ''missing PLAIN payload'', cs, w)
      | Some payload \<Rightarrow>
          if payload = '''' then (AuthFailed ''missing PLAIN payload'', cs, w)
          else case ParsePLAINPayload payload of
            Inl err \<Rightarrow> (AuthFailed '''', cs, w)
          | Inr (username, password) \<Rightarrow>
              (case Authenticate control_auth_reads (dp_bcrypt D) (cl_now x) username password (px_auth w) (px_store w) of
                 (Inl err, v) \<Rightarrow> (AuthFailed '''', cs, emit [(''ProxyAuthFailures'', [], 1)] (w\<lparr>px_auth := v\<rparr>))
               | (Inr tc, v) \<Rightarrow> (AuthOK, cs\<lparr>cs_Tenant := Some tc, cs_Authed := True\<rparr>,
                   emit [(''ProxyAuthSuccess'', [tc_TenantID tc], 1)] (w\<lparr>px_auth := v\<rparr>))))"

section \<open>Dispatch\<close>

text \<open>The \<open>switch\<close> of \<open>Handle\<close>, after the authentication gate and the rate limit.\<close>

definition dispatch ::
  "('m, 'b) Deps \<Rightarrow> call_ctx \<Rightarrow> ConnState \<Rightarrow> Msg \<Rightarrow> Info \<Rightarrow> ('m, 'b) Proxy
     \<Rightarrow> (panic + bval) \<times> ConnState \<times> ('m, 'b) Proxy" where
  "dispatch D x cs msg info w =
     (let c = to_lower (Name info); ok1 = (''ok'', BF64 (F64 1)) in
      if c = ''hello'' \<or> c = ''ismaster''
      then (case handleHello x cs (Name info) w of (d, cs', w') \<Rightarrow> (Inr (BD d), cs', w'))
      else if c = ''buildinfo'' then (Inr (BD BuildInfoReply), cs, w)
      else if c = ''ping'' then (Inr (BD PingReply), cs, w)
      else if c = ''getcmdlineopts''
      then (Inr (BD [(''argv'', BA [BStr ''nance-proxy'']), (''parsed'', BD []), ok1]), cs, w)
      else if c = ''whatsmyuri'' then (Inr (BD [(''you'', BStr (cs_RemoteAddr cs)), ok1]), cs, w)
      else if c = ''getlog'' then (Inr (BD [(''log'', BA []), ok1]), cs, w)
      else if c = ''listcommands'' then (Inr (BD [(''commands'', BD []), ok1]), cs, w)
      else if c = ''connectionstatus'' then (Inr (BD (handleConnectionStatus cs)), cs, w)
      else if c = ''hostinfo''
      then (Inr (BD [(''os'', BD [(''type'', BStr ''Linux''), (''name'', BStr ''nance'')]), ok1]), cs, w)
      else if c = ''features'' then (Inr (BD OKReply), cs, w)
      else if c = ''saslstart''
      then (case handleSaslStart D x cs (Body msg) w of (d, cs', w') \<Rightarrow> (Inr (BD d), cs', w'))
      else if c = ''saslcontinue'' then (Inr (BD (AuthFailed ''SASL conversation not in progress'')), cs, w)
      else if c = ''logout'' then (Inr (BD OKReply), cs\<lparr>cs_Authed := False, cs_Tenant := None\<rparr>, w)
      else if c = ''authenticate''
      then (Inr (BD (ErrorReply 2 ''BadValue''
        ''Use authMechanism=PLAIN with tenant id as username and API token as password'')), cs, w)
      else if c = ''getnonce'' then (Inr (BD [(''nonce'', BStr ''0000000000000000''), ok1]), cs, w)
      else if c = ''getmore''
      then (case handleCachedGetMore D x cs (Body msg) w of
          (Inl p, w1) \<Rightarrow> (Inl p, cs, w1)
        | (Inr (Some reply), w1) \<Rightarrow> (Inr reply, cs, w1)
        | (Inr None, w1) \<Rightarrow> (case handleGetMore D x cs (Body msg) w1 of (r, w2) \<Rightarrow> (r, cs, w2)))
      else if c = ''killcursors''
      then (case handleKillCursors D cs (Body msg) (handleKillCachedCursors D cs (Body msg) w) of (r, w1) \<Rightarrow> (Inr r, cs, w1))
      else if \<not> cs_Authed cs \<and> \<not> cs_AllowUnauth cs then (Inr (BD (NotAuthorized '''')), cs, w)
      else if cs_Tenant cs = None \<and> \<not> cs_AllowUnauth cs then (Inr (BD (NotAuthorized '''')), cs, w)
      else (case handlePassthrough D x cs msg info w of (r, w1) \<Rightarrow> (Inr r, cs, w1)))"

definition Handle ::
  "('m, 'b) Deps \<Rightarrow> call_ctx \<Rightarrow> ConnState \<Rightarrow> Msg \<Rightarrow> ('m, 'b) Proxy \<Rightarrow> (panic + bval) \<times> ConnState \<times> ('m, 'b) Proxy" where
  "Handle D x cs msg w = (case Classify (dp_bson D) (Body msg) of
      Inl err \<Rightarrow> (Inr (BD (ErrorReply 2 ''BadValue'' err)), cs, w)
    | Inr info \<Rightarrow>
        let cmdLabel = CommandLabel (Name info);
            tenantLabel = (case cs_Tenant cs of None \<Rightarrow> ''unauth'' | Some tc \<Rightarrow> tc_TenantID tc);
            finish = (\<lambda>(r, cs', w'). (r, cs', emit [(''ProxyCommands'', [tenantLabel, cmdLabel], 1)] w')) in
        if \<not> cs_Authed cs \<and> \<not> cs_AllowUnauth cs \<and> \<not> IsPreAuthAllowed (Name info)
        then finish (Inr (BD (NotAuthorized '''')), cs, w)
        else case (cs_Authed cs, cs_Tenant cs, px_limiter w, IsPreAuthAllowed (Name info)) of
            (True, Some tc, Some l, False) \<Rightarrow>
              (case Allow (dp_rnd D) (cl_now x) (tc_TenantID tc) (Some l) of
                 (False, l') \<Rightarrow> finish (Inr (BD (ErrorReply 16500 ''RateLimitExceeded''
                   ''tenant command rate limit exceeded; retry with backoff'')), cs,
                   emit [(''ProxyRateLimited'', [tc_TenantID tc], 1)] (w\<lparr>px_limiter := l'\<rparr>))
               | (True, l') \<Rightarrow> finish (dispatch D x cs msg info (w\<lparr>px_limiter := l'\<rparr>)))
          | _ \<Rightarrow> finish (dispatch D x cs msg info w))"

end
