(* ===== verification/Handler_Props.thy ===== *)
theory Handler_Props
  imports Handler
begin

text \<open>
  Properties of the message handler: who reaches the backend and the cache, what the cache
  changes about an answer, and what a disconnected or unauthenticated client can touch.
\<close>

section \<open>What a backend command leaves alone\<close>

definition rb_frame :: "('m, 'b) Proxy \<Rightarrow> ('m, 'b) Proxy \<Rightarrow> bool" where
  "rb_frame w w' \<longleftrightarrow> px_auth w' = px_auth w \<and> px_pool w' = px_pool w \<and> px_cached w' = px_cached w \<and>
     px_cache w' = px_cache w \<and> px_recorder w' = px_recorder w \<and> px_cacheStats w' = px_cacheStats w \<and>
     px_policies w' = px_policies w \<and> px_limiter w' = px_limiter w \<and> px_connID w' = px_connID w \<and> px_store w' = px_store w"

lemma rb_frame_refl [simp]: "rb_frame w w"
  by (simp add: rb_frame_def)

lemma rb_frame_trans: "rb_frame w1 w2 \<Longrightarrow> rb_frame w2 w3 \<Longrightarrow> rb_frame w1 w3"
  by (simp add: rb_frame_def)

lemma rb_frame_simps [simp]:
  "rb_frame w (emit ms w') = rb_frame w w'" "rb_frame w (close_cursors B cs w') = rb_frame w w'"
  "rb_frame w (w'\<lparr>px_cursors := r\<rparr>) = rb_frame w w'"
  by (simp_all add: rb_frame_def emit_def close_cursors_def)

lemma on_backend_frame [simp]: "on_backend f w = (r, w') \<Longrightarrow> rb_frame w0 w' = rb_frame w0 w"
  by (auto simp: on_backend_def rb_frame_def split: prod.splits)

lemma firstBatch_frame: "rb_frame w (snd (firstBatchFromCursor D x cs cur db coll n sb w))"
  by (simp add: firstBatchFromCursor_def Let_def split: prod.splits sum.splits option.splits)

lemma on_backend_frameD: "on_backend f w = (r, w') \<Longrightarrow> rb_frame w w'"
  by simp

lemma firstBatch_frame2: "rb_frame w w1 \<Longrightarrow> rb_frame w (snd (firstBatchFromCursor D x cs cur db coll n sb w1))"
  by (rule rb_frame_trans [OF _ firstBatch_frame])

lemma handleFind_frame: "rb_frame w (snd (handleFind D x cs c db cmd info w))"
  unfolding handleFind_def Let_def
  by (auto split: prod.splits sum.splits simp del: on_backend_frame intro!: firstBatch_frame2 dest: on_backend_frameD)

lemma runCommandRaw_frame: "rb_frame w (snd (runCommandRaw D cs c db cmd info w))"
  by (auto simp: runCommandRaw_def Let_def split: prod.splits sum.splits)

lemma handleAggregate_frame: "rb_frame w (snd (handleAggregate D x cs c db cmd info w))"
  unfolding handleAggregate_def Let_def
  by (auto simp: runCommandRaw_frame split: prod.splits sum.splits simp del: on_backend_frame
      intro!: firstBatch_frame2 dest: on_backend_frameD)

lemma run_backend_frame: "rb_frame w (snd (run_backend D x cs c cmdLower db cmd info w))"
  by (simp add: run_backend_def handleFind_frame handleAggregate_frame runCommandRaw_frame)

section \<open>Without a tenant nothing is reached\<close>

definition same_data :: "('m, 'b) Proxy \<Rightarrow> ('m, 'b) Proxy \<Rightarrow> bool" where
  "same_data w w' \<longleftrightarrow> px_backend w' = px_backend w \<and> px_pool w' = px_pool w \<and> px_cache w' = px_cache w \<and>
     px_cursors w' = px_cursors w \<and> px_cached w' = px_cached w \<and> px_limiter w' = px_limiter w"

lemma same_data_simps [simp]: "same_data w w" "same_data w (emit ms w') = same_data w w'"
  "same_data w (w'\<lparr>px_connID := i\<rparr>) = same_data w w'" "same_data w (w'\<lparr>px_auth := v\<rparr>) = same_data w w'"
  by (simp_all add: same_data_def emit_def)

text \<open>The connection state after a message from a client without a tenant.\<close>

definition fresh_login :: "('m, 'b) Deps \<Rightarrow> call_ctx \<Rightarrow> Msg \<Rightarrow> ('m, 'b) Proxy \<Rightarrow> TenantContext \<Rightarrow> bool" where
  "fresh_login D x msg w tc \<longleftrightarrow> (\<exists>info payload u p v.
     Classify (dp_bson D) (Body msg) = Inr info \<and> to_lower (Name info) = ''saslstart'' \<and>
     extractPayload (dp_bson D) (Body msg) = Some payload \<and> ParsePLAINPayload payload = Inr (u, p) \<and>
     Authenticate control_auth_reads (dp_bcrypt D) (cl_now x) u p (px_auth w) (px_store w) = (Inr tc, v))"

lemma dispatch_no_tenant:
  assumes "cs_Tenant cs = None" and "dispatch D x cs msg info w = (r, cs', w')"
    and "Classify (dp_bson D) (Body msg) = Inr info"
  shows "same_data w w' \<and> (cs_Tenant cs' = None \<or> (\<exists>tc. cs_Tenant cs' = Some tc \<and> fresh_login D x msg w tc))"
proof -
  have sasl: "same_data w w1 \<and> (cs_Tenant cs1 = None \<or> (\<exists>tc. cs_Tenant cs1 = Some tc \<and> fresh_login D x msg w tc))"
    if "handleSaslStart D x cs (Body msg) w = (d, cs1, w1)" "to_lower (Name info) = ''saslstart''" for d cs1 w1
    using that assms(1,3) by (auto simp: handleSaslStart_def Let_def fresh_login_def split: if_splits option.splits sum.splits prod.splits)
  have hello: "same_data w w1 \<and> cs_Tenant cs1 = None" if "handleHello x cs c w = (d, cs1, w1)" for c d cs1 w1
    using that assms(1) by (auto simp: handleHello_def Let_def split: if_splits)
  have none: "handleCachedGetMore D x cs (Body msg) w = (Inr None, w)" "handleGetMore D x cs (Body msg) w = (Inr (BD (NotAuthorized '''')), w)"
      "handleKillCachedCursors D cs (Body msg) w = w" "handleKillCursors D cs (Body msg) w = (BD (NotAuthorized ''''), w)"
      "handlePassthrough D x cs msg info w = (BD (NotAuthorized ''no tenant context''), w)"
    using assms(1) by (simp_all add: handleCachedGetMore_def handleGetMore_def handleKillCachedCursors_def
        handleKillCursors_def handlePassthrough_def tenant_id_def Let_def split: option.splits bool.splits)
  show ?thesis
    using assms(1,2) unfolding dispatch_def Let_def none using none(2)
    by (auto split: if_splits prod.splits dest: sasl hello)
qed

text \<open>C5. A client that has no tenant, authenticated or not and even on a proxy that allows unauthenticated
  clients, reaches nothing: whatever it sends, the backend, the client pool, the cached results, the
  cursors and the rate limiter are as before, and the only way its connection gets a tenant is a
  \<open>saslStart\<close> whose payload the validator accepted.\<close>

theorem no_tenant_reaches_nothing:
  assumes "cs_Tenant cs = None" and "Handle D x cs msg w = (r, cs', w')"
  shows "px_backend w' = px_backend w \<and> px_pool w' = px_pool w \<and> px_cache w' = px_cache w \<and>
    px_cursors w' = px_cursors w \<and> px_cached w' = px_cached w \<and> px_limiter w' = px_limiter w \<and>
    (cs_Tenant cs' = None \<or> (\<exists>tc. cs_Tenant cs' = Some tc \<and> fresh_login D x msg w tc))"
proof (cases "Classify (dp_bson D) (Body msg)")
  case (Inl e)
  with assms show ?thesis by (simp add: Handle_def)
next
  case (Inr info)
  obtain r1 cs1 w1 where d: "dispatch D x cs msg info w = (r1, cs1, w1)" by (metis prod_cases3)
  note dn = dispatch_no_tenant [OF assms(1) d Inr]
  from assms Inr d consider "cs' = cs" "\<exists>ms. w' = emit ms w" | "cs' = cs1" "\<exists>ms. w' = emit ms w1"
    by (cases "cs_Authed cs") (auto simp: Handle_def Let_def split: if_splits)
  then show ?thesis
    by cases (use assms(1) dn in \<open>auto simp: same_data_def emit_def\<close>)
qed

text \<open>A backend that answers every query with the same documents, used by the witnesses: the state maps a
  cursor to the document it stands on, followed by those it has left.\<close>

definition demo_backend :: "doc list \<Rightarrow> (mcursor \<Rightarrow> doc list) backend" where
  "demo_backend init = \<lparr>be_Find = (\<lambda>c db coll f fo b. (Inr 0, b(0 := [] # init))),
     be_Aggregate = (\<lambda>c db coll p b. (Inr 1, b(1 := [] # init))),
     be_RunCommand = (\<lambda>c db cmd b. (Inr [(''ok'', BF64 (F64 1))], b)),
     be_Next = (\<lambda>cur b. if tl (b cur) = [] then (False, b) else (True, b(cur := tl (b cur)))), be_Decode = (\<lambda>cur b. case b cur of [] \<Rightarrow> Inl (MOtherError '''') | d # _ \<Rightarrow> Inr d),
     be_Err = (\<lambda>cur b. None), be_Close = (\<lambda>cur b. b(cur := []))\<rparr>"

definition demo_deps :: "doc list \<Rightarrow> bson_lib \<Rightarrow> MemoryStore Store option option \<Rightarrow> (MemoryStore, mcursor \<Rightarrow> doc list) Deps" where
  "demo_deps docs L S = \<lparr>dp_bson = L, dp_Cache = S, dp_backend = demo_backend docs,
     dp_dialer = \<lparr>md_Connect = (\<lambda>opts. Inr 7), md_Ping = (\<lambda>c. None)\<rparr>, dp_aead = toy_aead, dp_masterKey = replicate 32 (CHR ''k''),
     dp_poolCfg = None, dp_bcrypt = (\<lambda>h p. False), dp_rnd = id, dp_HasStore = True, dp_DefaultBatch = 101\<rparr>"

definition demo_proxy :: "MemoryStore \<Rightarrow> (MemoryStore, mcursor \<Rightarrow> doc list) Proxy" where
  "demo_proxy m = \<lparr>px_auth = NewValidator, px_pool = NewManager None, px_cursors = NewRegistry 0,
     px_cached = Some (NewCursorStore 0 0), px_cache = m, px_recorder = None, px_cacheStats = None, px_policies = None,
     px_limiter = None, px_connID = 0, px_metrics = [], px_store = NewControlStore, px_backend = (\<lambda>_. [])\<rparr>"

definition demo_conn_state :: ConnState where
  "demo_conn_state = \<lparr>cs_ID = 0, cs_Key = ''k'', cs_Tenant = None, cs_Authed = False, cs_RemoteAddr = ''r'',
     cs_AllowUnauth = True, cs_TenantCounted = False, cs_CountedTenantID = '''', cs_InFlight = 0\<rparr>"

definition demo_msg :: "bytes \<Rightarrow> Msg" where
  "demo_msg body = \<lparr>MsgHeader = \<lparr>MessageLength = 0, RequestID = 1, ResponseTo = 0, OpCode = 2013\<rparr>, FlagBits = 0,
     Body = body, Sequences = [], Checksum = None\<rparr>"

lemma no_tenant_reaches_nothing_witness:
  "px_backend (snd (snd (Handle (demo_deps [] (table_lib []) None) \<lparr>cl_now = 1, cl_shared = None\<rparr> demo_conn_state (demo_msg ''b'')
     (demo_proxy NewMemoryStore)))) = (\<lambda>_. [])"
proof -
  obtain r cs' w' where h: "Handle (demo_deps [] (table_lib []) None) \<lparr>cl_now = 1, cl_shared = None\<rparr> demo_conn_state (demo_msg ''b'')
     (demo_proxy NewMemoryStore) = (r, cs', w')" by (metis prod_cases3)
  have "cs_Tenant demo_conn_state = None" by (simp add: demo_conn_state_def)
  from no_tenant_reaches_nothing [OF this h] h show ?thesis by (simp add: demo_proxy_def)
qed

section \<open>The cache does not change answers when it is unavailable\<close>

text \<open>Two proxies that differ at most in the cached results, the statistics and the metrics.\<close>

definition sim :: "('m, 'b) Proxy \<Rightarrow> ('m, 'b) Proxy \<Rightarrow> bool" where
  "sim w1 w2 \<longleftrightarrow> px_auth w1 = px_auth w2 \<and> px_pool w1 = px_pool w2 \<and> px_cursors w1 = px_cursors w2 \<and>
     px_cached w1 = px_cached w2 \<and> px_policies w1 = px_policies w2 \<and> px_limiter w1 = px_limiter w2 \<and>
     px_connID w1 = px_connID w2 \<and> px_store w1 = px_store w2 \<and> px_backend w1 = px_backend w2"

definition same :: "'r \<times> ('m, 'b) Proxy \<Rightarrow> 'r \<times> ('m, 'b) Proxy \<Rightarrow> bool" where
  "same p q \<longleftrightarrow> fst p = fst q \<and> sim (snd p) (snd q)"

lemma sim_refl [simp]: "sim w w" by (simp add: sim_def)
lemma sim_sym: "sim w1 w2 \<Longrightarrow> sim w2 w1" by (simp add: sim_def)
lemma sim_trans: "sim w1 w2 \<Longrightarrow> sim w2 w3 \<Longrightarrow> sim w1 w3" by (simp add: sim_def)

lemma sim_emit [simp]: "sim (emit ms w1) w2 = sim w1 w2" "sim w1 (emit ms w2) = sim w1 w2"
  by (simp_all add: sim_def emit_def)

lemma sim_cache [simp]: "sim (w1\<lparr>px_cache := m\<rparr>) w2 = sim w1 w2" "sim w1 (w2\<lparr>px_cache := m\<rparr>) = sim w1 w2"
  by (simp_all add: sim_def)

lemma sim_record [simp]: "sim (recordCache t d c n l res k why w1) w2 = sim w1 w2"
  by (auto simp: recordCache_def sim_def emit_def split: option.splits prod.splits)

lemma sim_on_cache: "on_cache f w = (r, w') \<Longrightarrow> sim w w'"
  by (auto simp: on_cache_def split: prod.splits)

lemma on_backend_sim:
  assumes "sim w1 w2"
  obtains r b where "on_backend f w1 = (r, w1\<lparr>px_backend := b\<rparr>)" "on_backend f w2 = (r, w2\<lparr>px_backend := b\<rparr>)"
    "sim (w1\<lparr>px_backend := b\<rparr>) (w2\<lparr>px_backend := b\<rparr>)"
proof -
  obtain r b where "f (px_backend w1) = (r, b)" by fastforce
  with assms show thesis by (intro that [of r b]) (simp_all add: on_backend_def sim_def)
qed

lemma sim_close [simp]: "sim w1 w2 \<Longrightarrow> sim (close_cursors B cs w1) (close_cursors B cs w2)"
  by (simp add: sim_def close_cursors_def)

lemma sim_cursors [simp]: "sim w1 w2 \<Longrightarrow> sim (w1\<lparr>px_cursors := r\<rparr>) (w2\<lparr>px_cursors := r\<rparr>)"
  by (simp add: sim_def)

lemma firstBatch_same:
  assumes "sim w1 w2"
  shows "same (firstBatchFromCursor D x cs cur db coll n sb w1) (firstBatchFromCursor (D\<lparr>dp_Cache := z\<rparr>) x cs cur db coll n sb w2)"
proof -
  define n' where "n' = (if n \<le> 0 then 101 else n)"
  obtain r b where r: "on_backend (fetch_batch (dp_backend D) cur (nat n')) w1 = (r, w1\<lparr>px_backend := b\<rparr>)"
      "on_backend (fetch_batch (dp_backend D) cur (nat n')) w2 = (r, w2\<lparr>px_backend := b\<rparr>)"
      "sim (w1\<lparr>px_backend := b\<rparr>) (w2\<lparr>px_backend := b\<rparr>)"
    by (rule on_backend_sim [OF assms])
  have c: "px_cursors w1 = px_cursors w2" using assms by (simp add: sim_def)
  show ?thesis
  proof (cases r)
    case (Inl e)
    with r show ?thesis by (simp add: firstBatchFromCursor_def Let_def n'_def [symmetric] same_def)
  next
    case (Inr ds)
    with r c show ?thesis
      by (cases "be_Err (dp_backend D) cur b"; cases "\<not> sb \<and> int (length ds) \<ge> n'")
        (auto simp: firstBatchFromCursor_def Let_def n'_def [symmetric] same_def split_beta)
  qed
qed

lemma handleFind_same:
  assumes "sim w1 w2"
  shows "same (handleFind D x cs c db cmd info w1) (handleFind (D\<lparr>dp_Cache := z\<rparr>) x cs c db cmd info w2)"
proof -
  obtain coll filt opts n sb where a: "find_args (dp_bson D) cmd info = (coll, filt, opts, n, sb)" by (metis prod_cases5)
  obtain r b where r: "on_backend (be_Find (dp_backend D) c db coll filt opts) w1 = (r, w1\<lparr>px_backend := b\<rparr>)"
      "on_backend (be_Find (dp_backend D) c db coll filt opts) w2 = (r, w2\<lparr>px_backend := b\<rparr>)"
      "sim (w1\<lparr>px_backend := b\<rparr>) (w2\<lparr>px_backend := b\<rparr>)"
    by (rule on_backend_sim [OF assms])
  show ?thesis
    using r by (cases r) (simp_all add: handleFind_def a firstBatch_same, simp add: same_def)
qed

lemma runCommandRaw_same:
  assumes "sim w1 w2"
  shows "same (runCommandRaw D cs c db cmd info w1) (runCommandRaw (D\<lparr>dp_Cache := z\<rparr>) cs c db cmd info w2)"
proof -
  obtain r b where r: "on_backend (be_RunCommand (dp_backend D) c db (stripSessionFields cmd)) w1 = (r, w1\<lparr>px_backend := b\<rparr>)"
      "on_backend (be_RunCommand (dp_backend D) c db (stripSessionFields cmd)) w2 = (r, w2\<lparr>px_backend := b\<rparr>)"
      "sim (w1\<lparr>px_backend := b\<rparr>) (w2\<lparr>px_backend := b\<rparr>)"
    by (rule on_backend_sim [OF assms])
  thus ?thesis by (cases r) (simp_all add: runCommandRaw_def Let_def same_def)
qed

lemma handleAggregate_same:
  assumes "sim w1 w2"
  shows "same (handleAggregate D x cs c db cmd info w1) (handleAggregate (D\<lparr>dp_Cache := z\<rparr>) x cs c db cmd info w2)"
proof -
  define coll where "coll = (if Collection info = '''' then fieldString cmd ''aggregate'' else Collection info)"
  define f where "f = be_Aggregate (dp_backend D) c db coll (case fieldArray cmd ''pipeline'' of None \<Rightarrow> [] | Some a \<Rightarrow> a)"
  obtain r b where r: "on_backend f w1 = (r, w1\<lparr>px_backend := b\<rparr>)" "on_backend f w2 = (r, w2\<lparr>px_backend := b\<rparr>)"
      "sim (w1\<lparr>px_backend := b\<rparr>) (w2\<lparr>px_backend := b\<rparr>)"
    by (rule on_backend_sim [OF assms])
  show ?thesis
  proof (cases "coll = ''1'' \<or> coll = ''''")
    case True
    with runCommandRaw_same [OF assms] show ?thesis
      unfolding handleAggregate_def Let_def coll_def [symmetric] by simp
  next
    case False
    with r show ?thesis
      unfolding handleAggregate_def Let_def coll_def [symmetric] f_def
      by (cases r) (simp_all add: firstBatch_same, simp add: same_def)
  qed
qed

lemma run_backend_same:
  "sim w1 w2 \<Longrightarrow> same (run_backend D x cs c l db cmd info w1) (run_backend (D\<lparr>dp_Cache := z\<rparr>) x cs c l db cmd info w2)"
  by (simp add: run_backend_def handleFind_same handleAggregate_same runCommandRaw_same)

text \<open>A store that answers no lookup, as \<open>NoopStore\<close> or a Redis that is down.\<close>

definition unavailable :: "'m Store \<Rightarrow> bool" where
  "unavailable S \<longleftrightarrow> (\<forall>now key m. \<exists>e. fst (GetKey S now key m) = Inl (ErrUnavailable e))"

lemma GetOrLoad_unavailable:
  assumes "unavailable S"
  shows "\<exists>e m. GetOrLoad (Some (on_cache (GetKey S now key))) None load w = (Inl (ErrUnavailable e), w\<lparr>px_cache := m\<rparr>)"
proof -
  obtain e where "fst (GetKey S now key (px_cache w)) = Inl (ErrUnavailable e)" using assms unfolding unavailable_def by blast
  then obtain m where "GetKey S now key (px_cache w) = (Inl (ErrUnavailable e), m)" by (metis prod.collapse)
  thus ?thesis by (auto simp: GetOrLoad_def load_once_def on_cache_def)
qed

lemma tryCacheRead_unavailable:
  assumes "unavailable S" and "dp_Cache D = Some (Some S)" and "cl_shared x = None"
  shows "\<exists>w'. tryCacheRead D x cs t conn db coll ns l msg info cmd w = (None, w') \<and> sim w' w"
proof -
  obtain byp why where b: "ShouldBypassCache (dp_bson D) (Name info) (Body msg) (IsTxn info) = (byp, why)" by fastforce
  show ?thesis
  proof (cases "coll = '''' \<or> byp")
    case True
    with b assms(2) show ?thesis by (cases byp) (auto simp: tryCacheRead_def)
  next
    case False
    show ?thesis
    proof (cases "CacheKey (dp_bson D) t conn db coll (Name info) (Body msg) (de_CacheKeyVersion (cache_decision conn db coll w))")
      case (Inl e)
      with False b assms show ?thesis by (auto simp: tryCacheRead_def Let_def)
    next
      case (Inr key)
      obtain e m where "GetOrLoad (Some (on_cache (GetKey S (cl_now x) key))) None
          (load_from_backend D x cs t conn db coll ns l info cmd (cache_decision conn db coll w) key) w
          = (Inl (ErrUnavailable e), w\<lparr>px_cache := m\<rparr>)"
        using GetOrLoad_unavailable [OF assms(1)] by blast
      with False b assms Inr show ?thesis by (auto simp: tryCacheRead_def Let_def)
    qed
  qed
qed

lemma pool_get_sim:
  assumes "sim w1 w2"
  obtains r p where "pool_get D x conn w1 = (r, w1\<lparr>px_pool := p\<rparr>)" "pool_get (D\<lparr>dp_Cache := z\<rparr>) x conn w2 = (r, w2\<lparr>px_pool := p\<rparr>)"
    "sim (w1\<lparr>px_pool := p\<rparr>) (w2\<lparr>px_pool := p\<rparr>)"
proof -
  obtain r p where "PoolGet (dp_dialer D) (dp_aead D) (dp_masterKey D) (dp_poolCfg D) (cl_now x) conn (px_store w1) (px_pool w1)
      = (r, p)" by fastforce
  with assms show thesis by (intro that [of r p]) (simp_all add: pool_get_def sim_def)
qed

lemma sim_cache_writes [simp]:
  "sim (cache_set D x t conn db coll k v ttl w1) w2 = sim w1 w2"
  "sim (maybePopulateCache D x t conn db coll ns l raw info reply w1) w2 = sim w1 w2"
  "sim (maybeAutoInvalidateOnWrite D t conn db coll w1) w2 = sim w1 w2"
  by (auto simp: cache_set_def maybePopulateCache_def maybeAutoInvalidateOnWrite_def Let_def on_cache_def sim_def
      split: option.splits sum.splits prod.splits)

lemma maybe_writes_off [simp]:
  "maybePopulateCache (D\<lparr>dp_Cache := None\<rparr>) x t conn db coll ns l raw info reply w = w"
  "maybeAutoInvalidateOnWrite (D\<lparr>dp_Cache := None\<rparr>) t conn db coll w = w"
  by (simp_all add: maybePopulateCache_def maybeAutoInvalidateOnWrite_def)

lemma tryCacheRead_off [simp]: "tryCacheRead (D\<lparr>dp_Cache := None\<rparr>) x cs t conn db coll ns l msg info cmd w = (None, w)"
  by (simp add: tryCacheRead_def)

lemma sim_release: "sim w1 w2 \<Longrightarrow> sim (pool_release x conn w1) (pool_release x conn w2)"
  by (simp add: sim_def pool_release_def)

lemma passthrough_backend_same:
  assumes "sim w1 w2"
  shows "same (passthrough_backend D x cs t conn db coll ns l msg info cmd useCache w1)
    (passthrough_backend (D\<lparr>dp_Cache := None\<rparr>) x cs t conn db coll ns l msg info cmd useCache w2)"
proof -
  obtain r p where g: "pool_get D x conn w1 = (r, w1\<lparr>px_pool := p\<rparr>)" "pool_get (D\<lparr>dp_Cache := None\<rparr>) x conn w2 = (r, w2\<lparr>px_pool := p\<rparr>)"
    "sim (w1\<lparr>px_pool := p\<rparr>) (w2\<lparr>px_pool := p\<rparr>)"
    by (rule pool_get_sim [OF assms])
  show ?thesis
  proof (cases r)
    case (Inl e)
    with g show ?thesis by (simp add: passthrough_backend_def same_def)
  next
    case (Inr c)
    obtain r1 v1 where b1: "run_backend D x cs c l db cmd info (w1\<lparr>px_pool := p\<rparr>) = (r1, v1)" by fastforce
    obtain r2 v2 where b2: "run_backend (D\<lparr>dp_Cache := None\<rparr>) x cs c l db cmd info (w2\<lparr>px_pool := p\<rparr>) = (r2, v2)" by fastforce
    from run_backend_same [OF g(3), of D x cs c l db cmd info None] have "r1 = r2" "sim v1 v2"
      by (simp_all add: same_def b1 b2)
    with g Inr b1 b2 show ?thesis
      by (auto simp: passthrough_backend_def same_def Let_def intro!: sim_release)
  qed
qed

lemma handlePassthrough_same:
  assumes "unavailable S" and "dp_Cache D = Some (Some S)" and "cl_shared x = None" and "sim w1 w2"
  shows "same (handlePassthrough D x cs msg info w1) (handlePassthrough (D\<lparr>dp_Cache := None\<rparr>) x cs msg info w2)"
proof (cases "tenant_id cs = '''' \<or> (case cs_Tenant cs of None \<Rightarrow> '''' | Some tc \<Rightarrow> tc_ConnectionID tc) = ''''")
  case True
  with assms(4) show ?thesis unfolding handlePassthrough_def Let_def by (simp add: same_def)
next
  case False
  show ?thesis
  proof (cases "StripForRunCommand (dp_bson D) (Body msg)")
    case (Inl e)
    with False assms(4) show ?thesis unfolding handlePassthrough_def Let_def by (simp add: same_def)
  next
    case (Inr p)
    obtain db coll u cmd info1 where rr: "resolve_request (dp_bson D) msg info (fst p) (snd p) = (db, coll, u, cmd, info1)"
      by (metis prod_cases5)
    let ?conn = "case cs_Tenant cs of None \<Rightarrow> '''' | Some tc \<Rightarrow> tc_ConnectionID tc"
    obtain w' where "tryCacheRead D x cs (tenant_id cs) ?conn db coll (FormatNS db coll) (to_lower (Name info)) msg info1 cmd w1
        = (None, w')" "sim w' w1"
      using tryCacheRead_unavailable [OF assms(1,2,3)] by blast
    moreover from this(2) assms(4) have "sim w' w2" by (rule sim_trans)
    ultimately show ?thesis
      using False Inr rr assms(4) unfolding handlePassthrough_def Let_def
      by (cases u) (simp_all add: split_beta passthrough_backend_same)
  qed
qed

definition same3 :: "'r \<times> 's \<times> ('m, 'b) Proxy \<Rightarrow> 'r \<times> 's \<times> ('m, 'b) Proxy \<Rightarrow> bool" where
  "same3 p q \<longleftrightarrow> fst p = fst q \<and> fst (snd p) = fst (snd q) \<and> sim (snd (snd p)) (snd (snd q))"

lemma same3I [simp]: "same3 (r1, s1, w1) (r2, s2, w2) \<longleftrightarrow> r1 = r2 \<and> s1 = s2 \<and> sim w1 w2"
  by (simp add: same3_def)

lemma same_pair [simp]: "same (r1, w1) (r2, w2) \<longleftrightarrow> r1 = r2 \<and> sim w1 w2"
  by (simp add: same_def)

lemma cachedGetMore_same:
  assumes "sim w1 w2"
  shows "same (handleCachedGetMore D x cs body w1) (handleCachedGetMore (D\<lparr>dp_Cache := z\<rparr>) x cs body w2)"
proof -
  have c: "px_cached w1 = px_cached w2" using assms by (simp add: sim_def)
  have s: "sim (w1\<lparr>px_cached := v\<rparr>) (w2\<lparr>px_cached := v\<rparr>)" for v using assms by (simp add: sim_def)
  show ?thesis unfolding handleCachedGetMore_def c
    by (auto simp: assms s Let_def split: option.splits bool.splits sum.splits prod.splits)
qed

lemma remove_cursor_sim: "sim w1 w2 \<Longrightarrow> sim (remove_cursor D i t k w1) (remove_cursor (D\<lparr>dp_Cache := z\<rparr>) i t k w2)"
  by (simp add: remove_cursor_def sim_def close_cursors_def split: prod.splits)

lemma handleGetMore_same:
  assumes "sim w1 w2"
  shows "same (handleGetMore D x cs body w1) (handleGetMore (D\<lparr>dp_Cache := z\<rparr>) x cs body w2)"
proof (cases "cs_Tenant cs")
  case None with assms show ?thesis by (simp add: handleGetMore_def)
next
  case (Some tc)
  define i where "i = cursor_id_of (dp_bson D) body"
  define n where "n = (if LookupInt32 (dp_bson D) body ''batchSize'' \<le> 0 then 101 else LookupInt32 (dp_bson D) body ''batchSize'')"
  obtain so r where g: "GetCursor (cl_now x) i (tc_TenantID tc) (cs_Key cs) (px_cursors w1) = (so, r)" by fastforce
  have c: "px_cursors w2 = px_cursors w1" using assms by (simp add: sim_def)
  note s = sim_cursors [OF assms, of r]
  show ?thesis
  proof (cases "cs_Authed cs \<and> so \<noteq> None \<and> st_Cursor (the so) \<noteq> None")
    case False
    with Some g c s assms show ?thesis
      by (auto simp: handleGetMore_def Let_def i_def [symmetric] n_def [symmetric] split: option.splits)
  next
    case True
    then obtain st cur where st: "so = Some st" "st_Cursor st = Some cur" "cs_Authed cs" by auto
    obtain q b where q: "on_backend (fetch_batch (dp_backend D) cur (nat n)) (w1\<lparr>px_cursors := r\<rparr>) = (q, w1\<lparr>px_cursors := r, px_backend := b\<rparr>)"
        "on_backend (fetch_batch (dp_backend D) cur (nat n)) (w2\<lparr>px_cursors := r\<rparr>) = (q, w2\<lparr>px_cursors := r, px_backend := b\<rparr>)"
        "sim (w1\<lparr>px_cursors := r, px_backend := b\<rparr>) (w2\<lparr>px_cursors := r, px_backend := b\<rparr>)"
      by (rule on_backend_sim [OF s])
    show ?thesis
      using Some st g c q remove_cursor_sim [OF q(3)]
      by (cases q; cases "be_Err (dp_backend D) cur b")
        (auto simp: handleGetMore_def Let_def i_def [symmetric] n_def [symmetric])
  qed
qed

lemma kill_same:
  assumes "sim w1 w2"
  shows "same (handleKillCursors D cs body (handleKillCachedCursors D cs body w1))
    (handleKillCursors (D\<lparr>dp_Cache := z\<rparr>) cs body (handleKillCachedCursors (D\<lparr>dp_Cache := z\<rparr>) cs body w2))"
proof -
  have k: "sim (handleKillCachedCursors D cs body w1) (handleKillCachedCursors (D\<lparr>dp_Cache := z\<rparr>) cs body w2)"
    using assms by (auto simp: handleKillCachedCursors_def sim_def split: option.splits)
  have "same (handleKillCursors D cs body v1) (handleKillCursors (D\<lparr>dp_Cache := z\<rparr>) cs body v2)" if "sim v1 v2" for v1 v2
    using that by (auto simp: handleKillCursors_def Let_def sim_def close_cursors_def split: option.splits prod.splits)
  with k show ?thesis by blast
qed

lemma hello_same: "sim w1 w2 \<Longrightarrow> same3 (handleHello x cs c w1) (handleHello x cs c w2)"
  by (auto simp: handleHello_def Let_def sim_def)

lemma sasl_same:
  "sim w1 w2 \<Longrightarrow> same3 (handleSaslStart D x cs body w1) (handleSaslStart (D\<lparr>dp_Cache := z\<rparr>) x cs body w2)"
  by (simp add: handleSaslStart_def Let_def sim_def emit_def split: option.splits sum.splits prod.splits)

lemma same_case2: "same p q \<Longrightarrow> same3 (case p of (r, w) \<Rightarrow> (f r, s, w)) (case q of (r, w) \<Rightarrow> (f r, s, w))"
  by (cases p; cases q) simp

lemma same3_case: "same3 p q \<Longrightarrow> same3 (case p of (d, sw) \<Rightarrow> (f d, sw)) (case q of (d, sw) \<Rightarrow> (f d, sw))"
  by (cases p; cases q) simp

lemma getmore_same:
  assumes "sim w1 w2"
  shows "same3 (case handleCachedGetMore D x cs body w1 of (Inl p, v) \<Rightarrow> (Inl p, cs, v) | (Inr (Some reply), v) \<Rightarrow> (Inr reply, cs, v)
        | (Inr None, v) \<Rightarrow> (case handleGetMore D x cs body v of (r, v') \<Rightarrow> (r, cs, v')))
    (case handleCachedGetMore (D\<lparr>dp_Cache := z\<rparr>) x cs body w2 of (Inl p, v) \<Rightarrow> (Inl p, cs, v) | (Inr (Some reply), v) \<Rightarrow> (Inr reply, cs, v)
        | (Inr None, v) \<Rightarrow> (case handleGetMore (D\<lparr>dp_Cache := z\<rparr>) x cs body v of (r, v') \<Rightarrow> (r, cs, v')))"
proof -
  obtain r1 v1 where 1: "handleCachedGetMore D x cs body w1 = (r1, v1)" by fastforce
  obtain r2 v2 where 2: "handleCachedGetMore (D\<lparr>dp_Cache := z\<rparr>) x cs body w2 = (r2, v2)" by fastforce
  from cachedGetMore_same [OF assms, of D x cs body z] 1 2 have "r1 = r2" "sim v1 v2" by simp_all
  with 1 2 same_case2 [OF handleGetMore_same [OF \<open>sim v1 v2\<close>, of D x cs body z], of id cs] show ?thesis
    by (cases r2; cases "projr r2") (auto split: option.splits)
qed

lemma dispatch_same:
  assumes "unavailable S" and "dp_Cache D = Some (Some S)" and "cl_shared x = None" and "sim w1 w2"
  shows "same3 (dispatch D x cs msg info w1) (dispatch (D\<lparr>dp_Cache := None\<rparr>) x cs msg info w2)"
  unfolding dispatch_def Let_def
  by (simp add: assms(4) same3_case hello_same sasl_same getmore_same same_case2 kill_same
      handlePassthrough_same [OF assms])

lemma Handle_same:
  assumes "unavailable S" and "dp_Cache D = Some (Some S)" and "cl_shared x = None"
  shows "same3 (Handle D x cs msg w) (Handle (D\<lparr>dp_Cache := None\<rparr>) x cs msg w)"
proof -
  have fin: "same3 (case p of (r, s, v) \<Rightarrow> (r, s, emit ms v)) (case q of (r, s, v) \<Rightarrow> (r, s, emit ms v))"
    if "same3 p q" for p q :: "(panic + bval) \<times> ConnState \<times> ('a, 'b) Proxy" and ms
    using that by (cases p; cases q) simp
  show ?thesis
    unfolding Handle_def Let_def
    by (auto simp: fin dispatch_same [OF assms] split: sum.split bool.split option.split prod.split)
qed

text \<open>C1. Failing open: with a cache whose store answers no lookup, every message gets exactly the answer it
  gets from a proxy with no cache, and the backend, the client pool, the cursors and the connection end
  up the same; only the store's own state, the statistics and the metrics may differ.\<close>

theorem handler_fails_open:
  assumes "unavailable S" and "dp_Cache D = Some (Some S)" and "cl_shared x = None"
    and "Handle D x cs msg w = (r, cs', w')" and "Handle (D\<lparr>dp_Cache := None\<rparr>) x cs msg w = (r0, cs0, w0)"
  shows "r = r0 \<and> cs' = cs0 \<and> px_backend w' = px_backend w0 \<and> px_pool w' = px_pool w0 \<and>
    px_cursors w' = px_cursors w0 \<and> px_cached w' = px_cached w0"
  using Handle_same [OF assms(1,2,3), of cs msg w] by (simp add: assms(4,5) sim_def)

lemma handler_fails_open_witness:
  "fst (Handle (demo_deps [] (table_lib []) (Some (Some noop_store))) \<lparr>cl_now = 1, cl_shared = None\<rparr> demo_conn_state (demo_msg ''b'')
      (demo_proxy NewMemoryStore)) =
   fst (Handle (demo_deps [] (table_lib []) None) \<lparr>cl_now = 1, cl_shared = None\<rparr> demo_conn_state (demo_msg ''b'')
      (demo_proxy NewMemoryStore))"
proof -
  let ?D = "demo_deps [] (table_lib []) (Some (Some noop_store))" and ?x = "\<lparr>cl_now = 1, cl_shared = None\<rparr>"
  let ?w = "demo_proxy NewMemoryStore"
  obtain r cs' w' where h: "Handle ?D ?x demo_conn_state (demo_msg ''b'') ?w = (r, cs', w')" by (metis prod_cases3)
  obtain r0 cs0 w0 where h0: "Handle (?D\<lparr>dp_Cache := None\<rparr>) ?x demo_conn_state (demo_msg ''b'') ?w = (r0, cs0, w0)"
    by (metis prod_cases3)
  have "unavailable (noop_store :: MemoryStore Store)" by (simp add: unavailable_def noop_store_def)
  from handler_fails_open [OF this _ _ h h0] have "r = r0" by (simp add: demo_deps_def)
  with h h0 show ?thesis by (simp add: demo_deps_def)
qed

end
