(* ===== verification/Handler_Cache.thy ===== *)
theory Handler_Cache
  imports Handler_Props
begin

text \<open>
  The read-through cache as the handler uses it, on the in-memory store: what is read back, when
  a write clears it, and what an answer from the cache loses.
\<close>

section \<open>The state after a load\<close>

lemma recordCache_frame [simp]:
  "px_cache (recordCache t d c n l res k why w) = px_cache w" "px_cached (recordCache t d c n l res k why w) = px_cached w"
  "px_backend (recordCache t d c n l res k why w) = px_backend w" "px_pool (recordCache t d c n l res k why w) = px_pool w"
  "px_policies (recordCache t d c n l res k why w) = px_policies w" "px_cursors (recordCache t d c n l res k why w) = px_cursors w"
  "px_store (recordCache t d c n l res k why w) = px_store w"
  by (simp_all add: recordCache_def emit_def split: option.splits prod.splits)

lemma emit_frame [simp]:
  "px_cache (emit ms w) = px_cache w" "px_cached (emit ms w) = px_cached w" "px_backend (emit ms w) = px_backend w"
  "px_pool (emit ms w) = px_pool w" "px_cursors (emit ms w) = px_cursors w" "px_store (emit ms w) = px_store w"
  by (simp_all add: emit_def)

lemma release_frame [simp]:
  "px_cache (pool_release x conn w) = px_cache w" "px_cached (pool_release x conn w) = px_cached w"
  "px_backend (pool_release x conn w) = px_backend w"
  "px_store (pool_release x conn w) = px_store w" "px_cursors (pool_release x conn w) = px_cursors w"
  by (simp_all add: pool_release_def)

lemma pool_get_frame:
  assumes "pool_get D x conn w = (r, w')"
  shows "px_cache w' = px_cache w" "px_cached w' = px_cached w" "px_backend w' = px_backend w" "px_store w' = px_store w"
  using assms by (auto simp: pool_get_def split: prod.splits)

lemma run_backend_cache:
  assumes "run_backend D x cs c l db cmd info w = (r, w')"
  shows "px_cache w' = px_cache w" "px_cached w' = px_cached w" "px_store w' = px_store w"
  using run_backend_frame [of w D x cs c l db cmd info] assms by (simp_all add: rb_frame_def)

lemma load_Inr:
  assumes "load_from_backend D x cs t conn db coll ns l info cmd dec key w = (Inr payload, w')"
    and "dp_Cache D = Some (Some S)"
  shows "px_cache w' = BestEffortSet (Some S) (cl_now x) t conn db coll key payload (de_TTL dec) (px_cache w)"
    and "px_cached w' = px_cached w" and "\<exists>cr. bl_MarshalCR (dp_bson D) cr = Inr payload"
proof -
  from assms(1) obtain c w1 where g: "pool_get D x conn w = (Inr c, w1)"
    by (auto simp: load_from_backend_def split: prod.splits sum.splits)
  obtain reply w2 where b: "run_backend D x cs c l db cmd info w1 = (reply, w2)" by fastforce
  from assms g b have e: "\<exists>cr. bl_MarshalCR (dp_bson D) cr = Inr payload"
      "px_cache w' = BestEffortSet (Some S) (cl_now x) t conn db coll key payload (de_TTL dec) (px_cache w2)"
      "px_cached w' = px_cached w2"
    by (auto simp: load_from_backend_def Serialize_def cache_set_def split: if_splits sum.splits prod.splits)
  show "px_cache w' = BestEffortSet (Some S) (cl_now x) t conn db coll key payload (de_TTL dec) (px_cache w)"
    "px_cached w' = px_cached w" "\<exists>cr. bl_MarshalCR (dp_bson D) cr = Inr payload"
    using e pool_get_frame [OF g] run_backend_cache [OF b] by simp_all
qed

section \<open>Answers from a payload\<close>

text \<open>The same documents, under the same or another cursor id.\<close>

definition same_answer :: "bson_lib \<Rightarrow> bval \<Rightarrow> bval \<Rightarrow> bool" where
  "same_answer L r1 r2 \<longleftrightarrow> r1 = r2 \<or> (\<exists>cr first i j. r1 = BD (ReplyFromCacheWithCursor L cr i (Some first))
     \<and> r2 = BD (ReplyFromCacheWithCursor L cr j (Some first)))"

lemma reply_from_payload_frame:
  assumes "reply_from_payload D x cs t db coll ns l payload hit w = (r, w')"
  shows "px_backend w' = px_backend w \<and> px_pool w' = px_pool w \<and> px_cache w' = px_cache w \<and> px_cursors w' = px_cursors w"
proof (cases "Deserialize (dp_bson D) payload")
  case (Inl e)
  with assms show ?thesis by (simp add: reply_from_payload_def)
next
  case (Inr cr)
  show ?thesis
  proof (cases "px_cached w")
    case None
    with assms Inr show ?thesis
      by (cases hit; cases "count_doc (dp_bson D) l cr") (auto simp: reply_from_payload_def Let_def)
  next
    case (Some cc)
    obtain p cc' where "RegisterCached (cl_now x) t (cs_Key cs) (cr_NS cr) (cr_Docs cr) (default_batch D) cc = (p, cc')"
      by fastforce
    with assms Inr Some show ?thesis
      by (cases p; cases hit; cases "count_doc (dp_bson D) l cr") (auto simp: reply_from_payload_def Let_def split: if_splits)
  qed
qed

text \<open>The first batch handed out, which does not depend on the table of cached cursors.\<close>

definition first_docs :: "('m, 'b) Deps \<Rightarrow> CachedResult \<Rightarrow> bytes list" where
  "first_docs D cr = (if default_batch D \<ge> int (length (cr_Docs cr)) then cr_Docs cr
     else take (nat (default_batch D)) (cr_Docs cr))"

lemma default_batch_pos: "0 < default_batch D"
  by (simp add: default_batch_def)

lemma reply_from_payload_form:
  assumes cr: "Deserialize (dp_bson D) payload = Inr cr"
  shows "\<exists>r w'. reply_from_payload D x cs t db coll ns l payload hit w = (Some r, w') \<and>
      (case count_doc (dp_bson D) l cr of Some m \<Rightarrow> r = BD (mapToD m)
       | None \<Rightarrow> if px_cached w \<noteq> None \<and> (l = ''find'' \<or> l = ''aggregate'')
           then \<exists>i. r = BD (ReplyFromCacheWithCursor (dp_bson D) cr i (Some (first_docs D cr)))
             \<and> (default_batch D \<ge> int (length (cr_Docs cr)) \<longrightarrow> i = 0)
           else r = BD (ReplyFromCache (dp_bson D) cr))"
proof (cases "count_doc (dp_bson D) l cr")
  case (Some m)
  with cr show ?thesis by (simp add: reply_from_payload_def Let_def)
next
  case c: None
  show ?thesis
  proof (cases "px_cached w")
    case None
    with cr c show ?thesis by (simp add: reply_from_payload_def Let_def)
  next
    case (Some cc)
    obtain cid pos cc' where "RegisterCached (cl_now x) t (cs_Key cs) (cr_NS cr) (cr_Docs cr) (default_batch D) cc
        = ((cid, first_docs D cr, pos), cc')" "default_batch D \<ge> int (length (cr_Docs cr)) \<longrightarrow> cid = 0"
      using default_batch_pos [of D] by (cases "default_batch D \<ge> int (length (cr_Docs cr))")
        (simp_all add: RegisterCached_def first_docs_def Let_def)
    with Some cr c show ?thesis by (cases hit) (auto simp: reply_from_payload_def Let_def)
  qed
qed

lemma reply_from_payload_same:
  assumes "reply_from_payload D x cs t db coll ns l payload hit w = (Some r, w')"
    and "(px_cached w2 = None) = (px_cached w = None)"
  obtains r2 w2' where "reply_from_payload D x2 cs2 t db coll ns l payload hit2 w2 = (Some r2, w2')"
    "same_answer (dp_bson D) r r2"
proof -
  from assms(1) obtain cr where cr: "Deserialize (dp_bson D) payload = Inr cr"
    by (cases "Deserialize (dp_bson D) payload") (auto simp: reply_from_payload_def Let_def)
  from reply_from_payload_form [OF cr, of x cs t db coll ns l hit w]
    reply_from_payload_form [OF cr, of x2 cs2 t db coll ns l hit2 w2] assms that show thesis
    by (cases "count_doc (dp_bson D) l cr") (auto simp: same_answer_def split: if_splits)
qed

section \<open>Reading through the cache twice\<close>

text \<open>The codec writes no empty payload, as every BSON document has a length prefix.\<close>

definition codec_ok :: "bson_lib \<Rightarrow> bool" where
  "codec_ok L \<longleftrightarrow> bson_ok L \<and> (\<forall>cr b. bl_MarshalCR L cr = Inr b \<longrightarrow> b \<noteq> '''')"

lemma on_cache_get_hit:
  assumes "mem_invar (px_cache w)" and "mem_view now (px_cache w) key = Some payload"
  shows "\<exists>m. on_cache (GetKey memory_store now key) w = (Inr payload, w\<lparr>px_cache := m\<rparr>)"
proof -
  have "fst (GetKey memory_store now key (px_cache w)) = Inr payload"
    using mem.get [OF assms(1), of now key] assms(2) by simp
  then obtain m where "GetKey memory_store now key (px_cache w) = (Inr payload, m)" by (metis prod.collapse)
  thus ?thesis by (auto simp: on_cache_def)
qed

lemma on_cache_get_miss:
  assumes "mem_invar (px_cache w)" and "mem_view now (px_cache w) key = None"
  shows "\<exists>m. on_cache (GetKey memory_store now key) w = (Inl ErrMiss, w\<lparr>px_cache := m\<rparr>) \<and> mem_invar m"
proof -
  have "fst (GetKey memory_store now key (px_cache w)) = Inl ErrMiss"
    using mem.get [OF assms(1), of now key] assms(2) by simp
  then obtain m where m: "GetKey memory_store now key (px_cache w) = (Inl ErrMiss, m)" by (metis prod.collapse)
  with mem.get_invar [OF assms(1), of now key] show ?thesis by (auto simp: on_cache_def)
qed

text \<open>A handled miss leaves the payload it answered from in the store.\<close>

lemma miss_stores:
  assumes D: "dp_Cache D = Some (Some memory_store)" "codec_ok (dp_bson D)"
    and inv: "mem_invar (px_cache w)" and sh: "cl_shared x = None"
    and key: "CacheKey (dp_bson D) t conn db coll (Name info) (Body msg) (de_CacheKeyVersion (cache_decision conn db coll w)) = Inr key"
    and miss: "mem_view (cl_now x) (px_cache w) key = None"
    and r: "tryCacheRead D x cs t conn db coll ns l msg info cmd w = (Some r, w')"
  obtains payload v where "reply_from_payload D x cs t db coll ns l payload False v = (Some r, w')" "px_cached v = px_cached w"
    "mem_invar (px_cache w')" "0 \<le> cl_now x \<Longrightarrow> cl_now x \<le> now' \<Longrightarrow> mem_view now' (px_cache w') key =
      (if 0 < de_TTL (cache_decision conn db coll w) \<and> cl_now x + de_TTL (cache_decision conn db coll w) < now' then None else Some payload)"
proof -
  let ?dec = "cache_decision conn db coll w"
  obtain m where m: "on_cache (GetKey memory_store (cl_now x) key) w = (Inl ErrMiss, w\<lparr>px_cache := m\<rparr>)" "mem_invar m"
    using on_cache_get_miss [OF inv miss] by blast
  let ?load = "load_from_backend D x cs t conn db coll ns l info cmd ?dec key"
  have "fst (ShouldBypassCache (dp_bson D) (Name info) (Body msg) (IsTxn info)) = False" "coll \<noteq> ''''"
    using r D(1) by (auto simp: tryCacheRead_def split: if_splits prod.splits bool.splits)
  then obtain payload v where l: "?load (w\<lparr>px_cache := m\<rparr>) = (Inr payload, v)"
      "reply_from_payload D x cs t db coll ns l payload False v = (Some r, w')"
    using r D(1) key sh m(1) by (cases "ShouldBypassCache (dp_bson D) (Name info) (Body msg) (IsTxn info)")
      (auto simp: tryCacheRead_def GetOrLoad_def load_once_def Let_def split: prod.splits sum.splits cache_err.splits)
  note ld = load_Inr [OF l(1) D(1)]
  have ne: "payload \<noteq> ''''" using ld(3) D(2) by (auto simp: codec_ok_def)
  have c: "px_cache w' = px_cache v" using reply_from_payload_frame [OF l(2)] by simp
  show thesis
  proof (rule that [OF l(2)])
    show "px_cached v = px_cached w" using ld(2) by simp
    show "mem_invar (px_cache w')"
      using m(2) by (simp add: c ld(1) BestEffortSet_def mem.set_invar mem.reg_invar)
    show "mem_view now' (px_cache w') key = (if 0 < de_TTL ?dec \<and> cl_now x + de_TTL ?dec < now' then None else Some payload)"
      if "0 \<le> cl_now x" "cl_now x \<le> now'"
      using mem.set_then_view [of m "cl_now x" now' payload t conn db coll key "de_TTL ?dec"] m(2) that ne
      by (simp add: c ld(1))
  qed
qed

text \<open>C2. Read-through: after an opted-in read has been answered through the cache, the same command, sent by
  any connection of the tenant while the time to live has not passed and the policy has not changed, is
  answered with the same documents without touching the backend or the client pool.\<close>

theorem second_read_from_cache:
  assumes "dp_Cache D = Some (Some memory_store)" and "codec_ok (dp_bson D)"
    and "mem_invar (px_cache w)" and "cl_shared x = None" and "cl_shared x2 = None"
    and "CacheKey (dp_bson D) t conn db coll (Name info) (Body msg) (de_CacheKeyVersion (cache_decision conn db coll w)) = Inr key"
    and "mem_view (cl_now x) (px_cache w) key = None"
    and "tryCacheRead D x cs t conn db coll ns l msg info cmd w = (Some r, w')"
    and "0 \<le> cl_now x" and "cl_now x \<le> cl_now x2" and "cl_now x2 \<le> cl_now x + de_TTL (cache_decision conn db coll w)"
    and "px_cache w2 = px_cache w'" and "px_policies w2 = px_policies w" and "(px_cached w2 = None) = (px_cached w = None)"
  shows "\<exists>r2 w2'. tryCacheRead D x2 cs2 t conn db coll ns l msg info cmd w2 = (Some r2, w2') \<and>
    same_answer (dp_bson D) r r2 \<and> px_backend w2' = px_backend w2 \<and> px_pool w2' = px_pool w2"
proof -
  obtain payload v where p: "reply_from_payload D x cs t db coll ns l payload False v = (Some r, w')"
    "px_cached v = px_cached w" "mem_invar (px_cache w')"
    and vw: "0 \<le> cl_now x \<Longrightarrow> cl_now x \<le> cl_now x2 \<Longrightarrow> mem_view (cl_now x2) (px_cache w') key =
      (if 0 < de_TTL (cache_decision conn db coll w) \<and> cl_now x + de_TTL (cache_decision conn db coll w) < cl_now x2 then None
       else Some payload)"
    using miss_stores [OF assms(1-4,6-8), of "cl_now x2"] by blast
  have hit: "mem_view (cl_now x2) (px_cache w2) key = Some payload"
    using vw assms(9,10,11,12) by auto
  obtain m where g: "on_cache (GetKey memory_store (cl_now x2) key) w2 = (Inr payload, w2\<lparr>px_cache := m\<rparr>)"
    using on_cache_get_hit [OF _ hit] p(3) assms(12) by auto
  obtain r2 w2' where r2: "reply_from_payload D x2 cs2 t db coll ns l payload True (w2\<lparr>px_cache := m\<rparr>) = (Some r2, w2')"
    "same_answer (dp_bson D) r r2"
    using reply_from_payload_same [OF p(1), of "w2\<lparr>px_cache := m\<rparr>" x2 cs2 True] p(2) assms(14) by auto
  have dec: "cache_decision conn db coll w2 = cache_decision conn db coll w"
    using assms(13) by (simp add: cache_decision_def)
  have "fst (ShouldBypassCache (dp_bson D) (Name info) (Body msg) (IsTxn info)) = False" "coll \<noteq> ''''"
    using assms(1,8) by (auto simp: tryCacheRead_def split: if_splits prod.splits bool.splits)
  hence "tryCacheRead D x2 cs2 t conn db coll ns l msg info cmd w2 = (Some r2, w2')"
    using assms(1,5,6) g r2(1) dec by (cases "ShouldBypassCache (dp_bson D) (Name info) (Body msg) (IsTxn info)")
      (simp add: tryCacheRead_def GetOrLoad_def load_once_def Let_def)
  with r2(2) reply_from_payload_frame [OF r2(1)] show ?thesis by auto
qed


text \<open>A codec for the witnesses: the command \<open>q\<close> finds in collection \<open>c\<close> with a batch size of two, every
  document is written as \<open>?\<close>, and a cached result of such documents is written by their number.\<close>

definition demo_table :: bson_lib where
  "demo_table = table_lib [(''q'', [], [(''find'', BStr ''c'')]), (''?'', [], [(''x'', BInt32 1)])]"

definition demo_codec :: bson_lib where
  "demo_codec = demo_table
     \<lparr>bl_MarshalCR := (\<lambda>cr. if cr_NS cr = ''d.c'' \<and> cr_Cmd cr = ''find'' \<and> (\<forall>d \<in> set (cr_Docs cr). d = ''?'')
        then Inr (replicate (Suc (length (cr_Docs cr))) (CHR ''?'')) else Inl ''unsupported''),
      bl_UnmarshalCR := (\<lambda>b. Inr \<lparr>cr_NS = ''d.c'', cr_Docs = replicate (length b - 1) ''?'', cr_Cmd = ''find''\<rparr>)\<rparr>"

lemma demo_codec_ok: "codec_ok demo_codec"
proof -
  have "bl_UnmarshalCR demo_codec b = Inr cr" if "bl_MarshalCR demo_codec cr = Inr b" for cr b
  proof -
    from that have "cr_NS cr = ''d.c''" "cr_Cmd cr = ''find''" "cr_Docs cr = replicate (length (cr_Docs cr)) ''?''"
      "b = replicate (Suc (length (cr_Docs cr))) (CHR ''?'')"
      by (auto simp: demo_codec_def replicate_length_same split: if_splits)
    thus ?thesis by (simp add: demo_codec_def)
  qed
  moreover have "bl_Elements demo_codec = bl_Elements demo_table" "bl_LookupErr demo_codec = bl_LookupErr demo_table"
    by (simp_all add: demo_codec_def)
  moreover have "bson_ok demo_table" by (simp add: demo_table_def table_lib_ok)
  moreover have "b \<noteq> ''''" if "bl_MarshalCR demo_codec cr = Inr b" for cr b
    using that by (auto simp: demo_codec_def split: if_splits)
  ultimately show ?thesis unfolding codec_ok_def bson_ok_def by metis
qed

definition demo_info :: Info where
  "demo_info = \<lparr>Name = ''find'', DB = ''d'', Collection = ''c'', InfoKind = KindRead, IsTxn = False, Raw = ''q''\<rparr>"

text \<open>A proxy that already holds a backend client for connection \<open>c1\<close>.\<close>

definition demo_cached_proxy :: "(MemoryStore, mcursor \<Rightarrow> doc list) Proxy" where
  "demo_cached_proxy = (demo_proxy NewMemoryStore)\<lparr>px_pool := InjectClientForTest ''c1'' (Some 7) 0 0 (NewManager None)\<rparr>"

definition demo_cmd :: doc where
  "demo_cmd = [(''find'', BStr ''c''), (''batchSize'', BInt32 2)]"

definition demo_ctx :: call_ctx where
  "demo_ctx = \<lparr>cl_now = 1, cl_shared = None\<rparr>"

abbreviation "demo_D docs \<equiv> demo_deps docs demo_codec (Some (Some memory_store))"

lemma demo_find_args: "find_args demo_codec demo_cmd demo_info = (''c'', [],
    \<lparr>fo_Projection = None, fo_Sort = None, fo_Skip = None, fo_Limit = None, fo_BatchSize = Some 2\<rparr>, 2, False)"
  by (simp add: find_args_def demo_cmd_def demo_info_def fieldBoolTrue_def wrap32_def)

text \<open>A collection of one document, which fits the batch, and one of three, which does not.\<close>

definition demo_docs :: "bool \<Rightarrow> doc list" where
  "demo_docs big = (if big then replicate 3 [(''x'', BInt32 1)] else [[(''x'', BInt32 1)]])"

lemma demo_run_backend: "\<exists>i w'. run_backend (demo_D (demo_docs big)) x cs c ''find'' ''d'' demo_cmd demo_info w =
    (cursor_reply ''firstBatch'' i ''d.c'' (map BM (take 2 (demo_docs big))), w') \<and>
    (i = 0 \<longleftrightarrow> (big \<longrightarrow> wrap64 (rg_nextID (px_cursors w) + 1) = 0))"
  by (cases big) (simp_all add: demo_docs_def run_backend_def handleFind_def demo_deps_def demo_find_args on_backend_def
      demo_backend_def firstBatchFromCursor_def Let_def numeral_eq_Suc FormatNS_def close_cursors_def cursor_reply_def
      RegisterCursor_def)

lemma demo_not_bypassed: "ShouldBypassCache demo_codec (Name demo_info) (Body (demo_msg ''q'')) (IsTxn demo_info) = (False, '''')"
proof -
  have l: "to_lower ''find'' = ''find''" by code_simp
  show ?thesis
    by (simp add: ShouldBypassCache_def demo_info_def demo_msg_def has_key_def demo_codec_def demo_table_def table_lib_def
        IsCacheableCommand_def l del: to_lower.simps)
qed

definition demo_key :: bytes where
  "demo_key = projr (CacheKey demo_codec ''t'' ''c1'' ''d'' ''c'' ''find'' ''q'' 1)"

lemma demo_key: "CacheKey demo_codec ''t'' ''c1'' ''d'' ''c'' (Name demo_info) (Body (demo_msg ''q'')) 1 = Inr demo_key"
proof -
  obtain k where "CacheKey demo_codec ''t'' ''c1'' ''d'' ''c'' ''find'' ''q'' 1 = Inr k"
    by (auto simp: CacheKey_cases NormalizeCommand_def demo_codec_def demo_table_def table_lib_def)
  thus ?thesis by (simp add: demo_key_def demo_info_def demo_msg_def)
qed

lemma demo_decision: "cache_decision conn db coll demo_cached_proxy = \<lparr>de_Enabled = True, de_TTL = DefaultTTLSeconds * 1000000000,
    de_MaxResultBytes = 1048576, de_CacheKeyVersion = 1\<rparr>"
  by (simp add: cache_decision_def demo_cached_proxy_def demo_proxy_def)

lemma demo_pool_get: "\<exists>p. pool_get D x ''c1'' (demo_cached_proxy\<lparr>px_cache := m\<rparr>)
    = (Inr 7, demo_cached_proxy\<lparr>px_cache := m, px_pool := p\<rparr>)"
  by (simp add: pool_get_def PoolGet_def pool_hit_def demo_cached_proxy_def demo_proxy_def InjectClientForTest_def NewManager_def)

definition demo_payload :: "bool \<Rightarrow> bytes" where
  "demo_payload big = (if big then ''???'' else ''??'')"

lemma demo_load: "\<exists>w'. load_from_backend (demo_D (demo_docs big)) x cs ''t'' ''c1'' ''d'' ''c'' ''d.c'' ''find'' demo_info demo_cmd
    (cache_decision ''c1'' ''d'' ''c'' demo_cached_proxy) key (demo_cached_proxy\<lparr>px_cache := m\<rparr>) = (Inr (demo_payload big), w')"
proof -
  let ?D = "demo_D (demo_docs big)" and ?docs = "map BM (take 2 (demo_docs big))"
  obtain p where p: "pool_get ?D x ''c1'' (demo_cached_proxy\<lparr>px_cache := m\<rparr>)
    = (Inr 7, demo_cached_proxy\<lparr>px_cache := m, px_pool := p\<rparr>)" using demo_pool_get by blast
  obtain i w1 where w1: "run_backend ?D x cs 7 ''find'' ''d'' demo_cmd demo_info (demo_cached_proxy\<lparr>px_cache := m, px_pool := p\<rparr>)
    = (cursor_reply ''firstBatch'' i ''d.c'' ?docs, w1)" using demo_run_backend by blast
  have L: "dp_bson ?D = demo_codec" by (simp add: demo_deps_def)
  have e: "envelope demo_codec ''d.c'' (cursor_reply ''firstBatch'' i ''d.c'' ?docs) =
      Inr (''d.c'', if big then [''?'', ''?''] else [''?''])"
    by (simp add: envelope_def cursor_reply_def DocsFromCursorReply_batch demo_codec_def demo_table_def table_lib_def
        demo_docs_def numeral_eq_Suc)
  have "Serialize demo_codec ''d.c'' ''find'' (if big then [''?'', ''?''] else [''?'']) = Inr (demo_payload big)"
    by (simp add: Serialize_def demo_codec_def demo_payload_def)
  moreover have "\<not> isErrorReply (cursor_reply ''firstBatch'' i ''d.c'' ?docs)"
    by (simp add: isErrorReply_def cursor_reply_def)
  moreover have "length (demo_payload big) \<le> 3" by (simp add: demo_payload_def)
  ultimately show ?thesis
    using p w1 e by (simp add: load_from_backend_def L demo_decision)
qed

lemma demo_first_read: "\<exists>r w'. tryCacheRead (demo_D (demo_docs big)) demo_ctx cs ''t'' ''c1'' ''d'' ''c'' ''d.c'' ''find'' (demo_msg ''q'')
    demo_info demo_cmd demo_cached_proxy = (Some r, w')"
proof -
  let ?dec = "cache_decision ''c1'' ''d'' ''c'' demo_cached_proxy"
  have inv: "mem_invar (px_cache demo_cached_proxy)" and miss: "mem_view 1 (px_cache demo_cached_proxy) demo_key = None"
    by (simp_all add: demo_cached_proxy_def demo_proxy_def NewMemoryStore_def mem_invar_def mem_view_def)
  obtain m where m: "on_cache (GetKey memory_store 1 demo_key) demo_cached_proxy = (Inl ErrMiss, demo_cached_proxy\<lparr>px_cache := m\<rparr>)"
    using on_cache_get_miss [OF inv miss] by blast
  obtain w1 where w1: "load_from_backend (demo_D (demo_docs big)) demo_ctx cs ''t'' ''c1'' ''d'' ''c'' ''d.c'' ''find'' demo_info demo_cmd
    ?dec demo_key (demo_cached_proxy\<lparr>px_cache := m\<rparr>) = (Inr (demo_payload big), w1)" using demo_load by blast
  have L: "dp_bson (demo_D (demo_docs big)) = demo_codec" "dp_Cache (demo_D (demo_docs big)) = Some (Some memory_store)" by (simp_all add: demo_deps_def)
  have "\<exists>cr. Deserialize (dp_bson (demo_D (demo_docs big))) (demo_payload big) = Inr cr"
    unfolding L Deserialize_def by (simp add: demo_codec_def)
  then obtain cr where cr: "Deserialize (dp_bson (demo_D (demo_docs big))) (demo_payload big) = Inr cr" by blast
  from reply_from_payload_form [OF cr, of demo_ctx cs "''t''" "''d''" "''c''" "''d.c''" "''find''" False w1]
  obtain r w' where "reply_from_payload (demo_D (demo_docs big)) demo_ctx cs ''t'' ''d'' ''c'' ''d.c'' ''find'' (demo_payload big) False w1 = (Some r, w')"
    by blast
  with m w1 demo_key demo_not_bypassed show ?thesis
    by (simp add: tryCacheRead_def L Let_def GetOrLoad_def load_once_def demo_decision demo_ctx_def)
qed

lemma second_read_from_cache_witness:
  "\<exists>r w' r2 w2'. tryCacheRead (demo_D (demo_docs False)) demo_ctx demo_conn_state ''t'' ''c1'' ''d'' ''c'' ''d.c'' ''find'' (demo_msg ''q'') demo_info demo_cmd
      demo_cached_proxy = (Some r, w') \<and>
    tryCacheRead (demo_D (demo_docs False)) (demo_ctx\<lparr>cl_now := 5\<rparr>) demo_conn_state ''t'' ''c1'' ''d'' ''c'' ''d.c'' ''find'' (demo_msg ''q'') demo_info demo_cmd
      (demo_cached_proxy\<lparr>px_cache := px_cache w'\<rparr>) = (Some r2, w2') \<and> same_answer demo_codec r r2"
proof -
  obtain r w' where first: "tryCacheRead (demo_D (demo_docs False)) demo_ctx demo_conn_state ''t'' ''c1'' ''d'' ''c'' ''d.c'' ''find'' (demo_msg ''q'')
    demo_info demo_cmd demo_cached_proxy = (Some r, w')" using demo_first_read by blast
  have "\<exists>r2 w2'. tryCacheRead (demo_D (demo_docs False)) (demo_ctx\<lparr>cl_now := 5\<rparr>) demo_conn_state ''t'' ''c1'' ''d'' ''c'' ''d.c'' ''find'' (demo_msg ''q'')
      demo_info demo_cmd (demo_cached_proxy\<lparr>px_cache := px_cache w'\<rparr>) = (Some r2, w2') \<and>
    same_answer (dp_bson (demo_D (demo_docs False))) r r2 \<and> px_backend w2' = px_backend (demo_cached_proxy\<lparr>px_cache := px_cache w'\<rparr>)
    \<and> px_pool w2' = px_pool (demo_cached_proxy\<lparr>px_cache := px_cache w'\<rparr>)"
  proof (rule second_read_from_cache [OF _ _ _ _ _ _ _ first])
    show "codec_ok (dp_bson (demo_D (demo_docs False)))" by (simp add: demo_deps_def demo_codec_ok)
    show "CacheKey (dp_bson (demo_D (demo_docs False))) ''t'' ''c1'' ''d'' ''c'' (Name demo_info) (Body (demo_msg ''q''))
        (de_CacheKeyVersion (cache_decision ''c1'' ''d'' ''c'' demo_cached_proxy)) = Inr demo_key"
      using demo_key by (simp add: demo_deps_def demo_decision)
    show "mem_invar (px_cache demo_cached_proxy)" "mem_view (cl_now demo_ctx) (px_cache demo_cached_proxy) demo_key = None"
      by (simp_all add: demo_cached_proxy_def demo_proxy_def NewMemoryStore_def mem_invar_def mem_view_def)
  qed (simp_all add: demo_deps_def demo_ctx_def demo_decision DefaultTTLSeconds_def)
  with first show ?thesis by (auto simp: demo_deps_def)
qed

section \<open>What an answer through the cache loses\<close>

lemma error_not_cursor [simp]: "MongoErrorToReply (Some e) \<noteq> (''cursor'', v) # d" "ErrorReply n a b \<noteq> (''cursor'', v) # d"
  by (auto simp: MongoErrorToReply_def ErrorReply_def split: mongo_error.splits option.splits list.splits prod.splits)

lemma firstBatch_registers:
  assumes "firstBatchFromCursor D x cs cur db coll n sb w = (cursor_reply f i ns batch, w')" and "i \<noteq> 0"
  shows "rg_lookup (px_cursors w') i \<noteq> None"
proof -
  let ?n = "if n \<le> 0 then 101 else n"
  obtain res w1 where r: "on_backend (fetch_batch (dp_backend D) cur (nat ?n)) w = (res, w1)" by fastforce
  obtain j rg where j: "RegisterCursor (cl_now x) (tenant_id cs) (cs_Key cs) (FormatNS db coll) (Some cur) (px_cursors w1) = (j, rg)"
    by fastforce
  from assms r j have "i = j" "px_cursors w' = rg"
    by (auto simp: firstBatchFromCursor_def Let_def cursor_reply_def split: sum.splits option.splits if_splits)
  moreover have "rg_lookup (snd (RegisterCursor now t k s (Some cur) R)) (fst (RegisterCursor now t k s (Some cur) R)) \<noteq> None"
    for now t k s R by (simp add: RegisterCursor_def Let_def rg_lookup_def)
  ultimately show ?thesis using j by (metis fst_conv snd_conv)
qed

lemma run_find_registers:
  assumes "run_backend D x cs c ''find'' db cmd info w = (cursor_reply f i ns batch, w')" and "i \<noteq> 0"
  shows "rg_lookup (px_cursors w') i \<noteq> None"
  using assms firstBatch_registers
  by (fastforce simp: run_backend_def handleFind_def cursor_reply_def split: prod.splits sum.splits)

lemma marshal_items_length: "length (marshal_items L vs) \<le> length vs"
  by (induction vs) (auto split: sum.split)

lemma load_sim_cursors:
  assumes "run_backend D x cs c l db cmd info w1 = (reply, v1)" and "sim w1 w2"
  obtains v2 where "run_backend D x cs c l db cmd info w2 = (reply, v2)" "px_cursors v2 = px_cursors v1"
proof -
  obtain r2 v2 where b: "run_backend D x cs c l db cmd info w2 = (r2, v2)" by fastforce
  have "same (run_backend D x cs c l db cmd info w1) (run_backend (D\<lparr>dp_Cache := dp_Cache D\<rparr>) x cs c l db cmd info w2)"
    by (rule run_backend_same [OF assms(2)])
  with assms(1) b that show thesis by (auto simp: sim_def)
qed

lemma load_stores_first_batch:
  assumes "pool_get D x conn w = (Inr c, w2)" and "sim w w0"
    and "run_backend D x cs c l db cmd info w2 = (cursor_reply ''firstBatch'' i ns batch, w3)"
    and "load_from_backend D x cs t conn db coll nsl l info cmd dec key w0 = (Inr payload, v)"
  shows "bl_MarshalCR (dp_bson D) \<lparr>cr_NS = ns, cr_Docs = marshal_items (dp_bson D) batch, cr_Cmd = l\<rparr> = Inr payload
    \<and> px_cursors v = px_cursors w3"
proof -
  obtain p where p: "pool_get D x conn w0 = (Inr c, w0\<lparr>px_pool := p\<rparr>)" "sim w2 (w0\<lparr>px_pool := p\<rparr>)"
  proof (rule pool_get_sim [OF assms(2), of D x conn "dp_Cache D"])
    fix res p
    assume "pool_get D x conn w = (res, w\<lparr>px_pool := p\<rparr>)" "pool_get (D\<lparr>dp_Cache := dp_Cache D\<rparr>) x conn w0 = (res, w0\<lparr>px_pool := p\<rparr>)"
      "sim (w\<lparr>px_pool := p\<rparr>) (w0\<lparr>px_pool := p\<rparr>)"
    with assms(1) that [of p] show thesis by simp
  qed
  obtain v2 where v2: "run_backend D x cs c l db cmd info (w0\<lparr>px_pool := p\<rparr>) = (cursor_reply ''firstBatch'' i ns batch, v2)"
    "px_cursors v2 = px_cursors w3" using load_sim_cursors [OF assms(3) p(2)] by blast
  have e: "envelope (dp_bson D) nsl (cursor_reply ''firstBatch'' i ns batch) = Inr (ns, marshal_items (dp_bson D) batch)"
    by (simp add: envelope_def cursor_reply_def DocsFromCursorReply_batch)
  have "\<not> isErrorReply (cursor_reply ''firstBatch'' i ns batch)" by (simp add: isErrorReply_def cursor_reply_def)
  note eqs = this p(1) v2(1) e
  have cs: "px_cursors (cache_set D x t conn db coll k val ttl u) = px_cursors u" for k val ttl u
    by (simp add: cache_set_def split: option.split)
  show ?thesis
  proof (cases "bl_MarshalCR (dp_bson D) \<lparr>cr_NS = ns, cr_Docs = marshal_items (dp_bson D) batch, cr_Cmd = l\<rparr>")
    case (Inl err)
    with assms(4) eqs show ?thesis by (simp add: load_from_backend_def Serialize_def)
  next
    case (Inr b)
    then have "Serialize (dp_bson D) ns l (marshal_items (dp_bson D) batch) = Inr b" by (simp add: Serialize_def)
    with assms(4) eqs have "payload = b" "px_cursors v = px_cursors v2"
      unfolding load_from_backend_def by (auto simp: cs split: if_splits)
    with Inr v2(2) show ?thesis by simp
  qed
qed




section \<open>Writes\<close>

lemma invalidate_view:
  assumes "dp_Cache D = Some (Some memory_store)" and "mem_invar (px_cache w)" and "dp_HasStore D"
    and "GetConnection conn (px_store w) = Inr c" and "cn_AutoInvalidateOnWrite c"
    and "fst (ResolveCacheCollection coll) = coll"
  shows "mem_view now (px_cache (maybeAutoInvalidateOnWrite D t conn db coll w)) k =
    (if k \<in> mem_members (px_cache w) (registryKey t conn db coll) then None else mem_view now (px_cache w) k)"
proof -
  have "(if fst (ResolveCacheCollection coll) = '''' then coll else fst (ResolveCacheCollection coll)) = coll"
    using assms(6) by simp
  then have "px_cache (maybeAutoInvalidateOnWrite D t conn db coll w) =
      snd (InvalidateNamespace memory_store t conn db coll (px_cache w))"
    using assms(1,3-5) by (simp add: maybeAutoInvalidateOnWrite_def Let_def on_cache_def BestEffortInvalidate_def split: prod.split)
  then show ?thesis by (simp add: mem.inval_view [OF assms(2)])
qed


text \<open>An \<open>insert\<close> into collection \<open>c\<close> over connection \<open>c1\<close>, which has the flag set, with one result
  of \<open>c\<close> and one of another collection in the cache.\<close>

definition write_table :: bson_lib where
  "write_table = table_lib [(''i'', [], [(''insert'', BStr ''c''), (''documents'', BA [])])]"

definition write_info :: Info where
  "write_info = \<lparr>Name = ''insert'', DB = ''d'', Collection = ''c'', InfoKind = KindWrite, IsTxn = False, Raw = ''i''\<rparr>"

definition write_cache :: MemoryStore where
  "write_cache = BestEffortSet (Some memory_store) 0 ''acme'' ''c1'' ''d'' ''other'' ''k2'' ''v2'' 0
     (BestEffortSet (Some memory_store) 0 ''acme'' ''c1'' ''d'' ''c'' ''k'' ''v'' 0 NewMemoryStore)"

definition write_proxy :: "(MemoryStore, mcursor \<Rightarrow> doc list) Proxy" where
  "write_proxy = demo_cached_proxy\<lparr>px_cache := write_cache,
     px_store := NewControlStore\<lparr>m_connections := [(''c1'', demo_conn\<lparr>cn_AutoInvalidateOnWrite := True\<rparr>)]\<rparr>\<rparr>"

definition write_conn_state :: ConnState where
  "write_conn_state = demo_conn_state\<lparr>cs_Tenant := Some demo_tc, cs_Authed := True\<rparr>"

lemma write_cache_facts:
  "mem_invar write_cache" "mem_members write_cache (registryKey ''acme'' ''c1'' ''d'' ''c'') = {''k''}"
  "mem_view 5 write_cache ''k'' = Some ''v''" "mem_view 5 write_cache ''k2'' = Some ''v2''"
proof -
  have r: "registryKey ''acme'' ''c1'' ''d'' ''c'' \<noteq> registryKey ''acme'' ''c1'' ''d'' ''other''"
    by (simp add: registryKey_def)
  note laws = write_cache_def BestEffortSet_def mem.set_invar mem.reg_invar mem.reg_members mem.set_members
        mem.reg_view mem.set_view mem_empty
  show "mem_invar write_cache" "mem_view 5 write_cache ''k'' = Some ''v''" "mem_view 5 write_cache ''k2'' = Some ''v2''"
    by (simp_all add: laws)
  show "mem_members write_cache (registryKey ''acme'' ''c1'' ''d'' ''c'') = {''k''}"
    using r by (simp add: laws)
qed

lemma write_request:
  "StripForRunCommand write_table ''i'' = Inr ([(''insert'', BStr ''c''), (''documents'', BA [])], '''')"
  "resolve_request write_table (demo_msg ''i'') write_info [(''insert'', BStr ''c''), (''documents'', BA [])] ''''
     = (''d'', ''c'', False, [(''insert'', BStr ''c''), (''documents'', BA [])], write_info)"
  by (simp_all add: StripForRunCommand_def write_table_def table_lib_def resolve_request_def Let_def write_info_def
      ResolveCacheCollection_def CacheCollectionSuffix_def has_suffix_def mergeDocumentSequences_def demo_msg_def)

lemma write_reply: "\<exists>w'. handlePassthrough (demo_deps [] write_table (Some (Some memory_store))) demo_ctx write_conn_state
    (demo_msg ''i'') write_info write_proxy = (BD [(''ok'', BF64 (F64 1))], w')"
proof -
  let ?D = "demo_deps [] write_table (Some (Some memory_store))"
  have l: "to_lower (Name write_info) = ''insert''" unfolding write_info_def by code_simp
  obtain p where "pool_get ?D demo_ctx ''c1'' write_proxy = (Inr 7, write_proxy\<lparr>px_pool := p\<rparr>)"
    by (simp add: pool_get_def PoolGet_def pool_hit_def write_proxy_def demo_cached_proxy_def InjectClientForTest_def NewManager_def)
  moreover have rb: "\<exists>w'. run_backend ?D demo_ctx write_conn_state 7 ''insert'' ''d'' cmd write_info w = (BD [(''ok'', BF64 (F64 1))], w')"
    for cmd w
    by (simp add: run_backend_def runCommandRaw_def Let_def on_backend_def demo_deps_def demo_backend_def gm_get_def gm_del_def mapToD_def)
  moreover obtain w3 where "run_backend ?D demo_ctx write_conn_state 7 ''insert'' ''d'' [(''insert'', BStr ''c''), (''documents'', BA [])]
      write_info (write_proxy\<lparr>px_pool := p\<rparr>) = (BD [(''ok'', BF64 (F64 1))], w3)" using rb by blast
  moreover have "dp_bson ?D = write_table" "Body (demo_msg ''i'') = ''i''" by (simp_all add: demo_deps_def demo_msg_def)
  ultimately show ?thesis
    by (simp add: handlePassthrough_def tenant_id_def Let_def write_conn_state_def demo_tc_def passthrough_backend_def write_request l del: to_lower.simps)
qed



end
