(* ===== verification/Handler_Cursors.thy ===== *)
theory Handler_Cursors
  imports Handler_Cache
begin

text \<open>
  What one message can do to the backend cursors registered for other connections.
\<close>

section \<open>Keeping a registered cursor\<close>

text \<open>The cursor \<open>st\<close> is registered under \<open>i\<close>, with room for \<open>k\<close> more ids below the end of the range.\<close>

definition keeps :: "int \<Rightarrow> 'c CursorState \<Rightarrow> int \<Rightarrow> 'c Registry \<Rightarrow> bool" where
  "keeps i st k R \<longleftrightarrow> rg_invar R \<and> rg_nextID R + k < 2 ^ 63 - 1 \<and> rg_lookup R i = Some st"

lemma keeps_mono: "keeps i st k R \<Longrightarrow> j \<le> k \<Longrightarrow> keeps i st j R"
  by (simp add: keeps_def)

lemma keeps_Register:
  assumes "keeps i st k R" and "0 \<le> k"
  shows "keeps i st (k - 1) (snd (RegisterCursor now t c ns cur R))"
proof -
  have inv: "rg_invar R" "rg_nextID R < 2 ^ 63 - 1" using assms by (auto simp: keeps_def)
  have w: "wrap64 (rg_nextID R + 1) = rg_nextID R + 1"
    using inv by (intro wrap64_succ) (simp_all add: rg_invar_def)
  have "i \<noteq> rg_nextID R + 1" using rg_fresh [OF inv(1)] assms(1) by (auto simp: keeps_def rg_lookup_def)
  with RegisterCursor_invar [OF inv, of now t c ns cur] assms w show ?thesis
    by (simp add: keeps_def RegisterCursor_def Let_def rg_lookup_def)
qed

lemma keeps_Get:
  assumes "keeps i st k R" and "rg_scope st \<noteq> (t, c)"
  shows "keeps i st k (snd (GetCursor now j t c R))"
  using assms rg_invar_put [of R j]
  by (auto simp: keeps_def GetCursor_def Let_def rg_lookup_def rg_scope_def split: option.splits)

lemma keeps_Remove:
  assumes "keeps i st k R" and "rg_scope st \<noteq> (t, c)"
  shows "keeps i st k (snd (RemoveCursor j t c R))"
  using assms rg_invar_del [of R j]
  by (auto simp: keeps_def RemoveCursor_def rg_lookup_def rg_scope_def split: option.splits)

lemma keeps_KillMany:
  "keeps i st k R \<Longrightarrow> rg_scope st \<noteq> (t, c) \<Longrightarrow> keeps i st k (snd (KillManyCursors ids t c R))"
proof (induction ids arbitrary: R)
  case (Cons j ids)
  from Cons.IH [OF keeps_Remove [OF Cons.prems]] Cons.prems(2) show ?case by (simp add: split_beta)
qed simp

section \<open>Through the handler\<close>

lemma on_backend_cursors [simp]: "on_backend f w = (r, w') \<Longrightarrow> px_cursors w' = px_cursors w"
  by (auto simp: on_backend_def split: prod.splits)

lemma cursors_frame [simp]:
  "px_cursors (close_cursors B cs w) = px_cursors w"
  "px_cursors (cache_set D x t conn db coll key v ttl w) = px_cursors w"
  "px_cursors (maybePopulateCache D x t conn db coll ns l raw info reply w) = px_cursors w"
  "px_cursors (maybeAutoInvalidateOnWrite D t conn db coll w) = px_cursors w"
  by (auto simp: close_cursors_def cache_set_def maybePopulateCache_def
      maybeAutoInvalidateOnWrite_def on_cache_def Let_def split: option.splits prod.splits sum.splits)

lemma pool_get_cursors [simp]: "pool_get D x conn w = (r, w') \<Longrightarrow> px_cursors w' = px_cursors w"
  by (auto simp: pool_get_def split: prod.splits)

lemma firstBatch_keeps:
  assumes "keeps i st k (px_cursors w)" and "0 < k"
  shows "keeps i st (k - 1) (px_cursors (snd (firstBatchFromCursor D x cs cur db coll n sb w)))"
proof -
  define n' where "n' = (if n \<le> 0 then 101 else n)"
  obtain r w1 where r: "on_backend (fetch_batch (dp_backend D) cur (nat n')) w = (r, w1)" by fastforce
  have c: "px_cursors w1 = px_cursors w" by (rule on_backend_cursors [OF r])
  have "keeps i st (k - 1) (px_cursors w)" using assms by (intro keeps_mono [OF assms(1)]) simp
  moreover have "keeps i st (k - 1) (snd (RegisterCursor (cl_now x) (tenant_id cs) (cs_Key cs) (FormatNS db coll) (Some cur) (px_cursors w)))"
    using assms by (intro keeps_Register) simp_all
  ultimately show ?thesis
    by (cases r; cases "be_Err (dp_backend D) cur (px_backend w1)")
      (simp_all add: firstBatchFromCursor_def Let_def n'_def [symmetric] r c split_beta)
qed

lemma run_backend_keeps:
  assumes "keeps i st k (px_cursors w)" and "0 < k"
  shows "keeps i st (k - 1) (px_cursors (snd (run_backend D x cs c l db cmd info w)))"
proof -
  have mono: "keeps i st (k - 1) (px_cursors w)" using assms by (intro keeps_mono [OF assms(1)]) simp
  have raw: "keeps i st (k - 1) (px_cursors (snd (runCommandRaw D cs c db cmd info w)))"
    using mono by (auto simp: runCommandRaw_def Let_def split: prod.splits sum.splits)
  have fst: "keeps i st (k - 1) (px_cursors (snd (firstBatchFromCursor D x cs cur db coll n sb w1)))"
    if "on_backend f w = (r, w1)" for f r w1 cur coll n sb
    using firstBatch_keeps [of i st k w1] assms on_backend_cursors [OF that] by simp
  have "keeps i st (k - 1) (px_cursors (snd (handleFind D x cs c db cmd info w)))"
    using mono by (auto simp: handleFind_def intro!: fst split: prod.splits sum.splits)
  moreover have "keeps i st (k - 1) (px_cursors (snd (handleAggregate D x cs c db cmd info w)))"
    using mono raw by (auto simp: handleAggregate_def Let_def intro!: fst split: prod.splits sum.splits)
  ultimately show ?thesis using raw by (simp add: run_backend_def)
qed

lemma reply_from_payload_cursors:
  "px_cursors (snd (reply_from_payload D x cs t db coll ns l payload hit w)) = px_cursors w"
  using reply_from_payload_frame [of D x cs t db coll ns l payload hit w]
  by (cases "reply_from_payload D x cs t db coll ns l payload hit w") simp

lemma load_keeps:
  assumes "keeps i st k (px_cursors w)" and "0 < k"
  shows "keeps i st (k - 1) (px_cursors (snd (load_from_backend D x cs t conn db coll ns l info cmd dec key w)))"
proof -
  obtain g w1 where g: "pool_get D x conn w = (g, w1)" by fastforce
  have c: "px_cursors w1 = px_cursors w" by (rule pool_get_cursors [OF g])
  show ?thesis
  proof (cases g)
    case (Inl e)
    with g c keeps_mono [OF assms(1), of "k - 1"] show ?thesis by (simp add: load_from_backend_def)
  next
    case (Inr cl)
    obtain reply w2 where b: "run_backend D x cs cl l db cmd info w1 = (reply, w2)" by fastforce
    have "keeps i st (k - 1) (px_cursors w2)"
      using run_backend_keeps [of i st k w1 D x cs cl l db cmd info] assms c b by simp
    with g Inr b show ?thesis
      by (auto simp: load_from_backend_def split: sum.split)
  qed
qed

lemma GetOrLoad_keeps:
  assumes "P w" and get: "\<And>r v. map_option (\<lambda>g. g w) get = Some (r, v) \<Longrightarrow> P v"
    and load: "\<And>v. P v \<Longrightarrow> Q (snd (load v))" and "\<And>v. P v \<Longrightarrow> Q v"
  shows "Q (snd (GetOrLoad get sh load w))"
proof (cases get)
  case None
  with load [OF assms(1)] show ?thesis by (cases "load w") (auto simp: GetOrLoad_def split: sum.split)
next
  case (Some g)
  obtain r v where g: "g w = (r, v)" by fastforce
  with get Some have P: "P v" by simp
  obtain r' v' where l: "load v = (r', v')" by fastforce
  from load [OF P] assms(4) [OF P] assms(4) [OF assms(1)] Some g l show ?thesis
    by (cases r') (auto simp: GetOrLoad_def load_once_def split: option.split sum.split cache_err.split)
qed

lemma tryCacheRead_keeps:
  assumes "keeps i st k (px_cursors w)" and "0 < k"
  shows "keeps i st (k - 1) (px_cursors (snd (tryCacheRead D x cs t conn db coll ns l msg info cmd w)))"
proof -
  have mono: "keeps i st (k - 1) R" if "keeps i st k R" for R using that by (rule keeps_mono) simp
  have load: "keeps i st (k - 1) (px_cursors (snd (GetOrLoad (map_option (\<lambda>s. on_cache (GetKey s (cl_now x) key)) S) sh
      (load_from_backend D x cs t conn db coll ns l info cmd dec key) w)))" for S sh dec key
    by (rule GetOrLoad_keeps [where P = "\<lambda>v. keeps i st k (px_cursors v)"])
      (use assms mono load_keeps in \<open>auto simp: on_cache_def split: prod.splits\<close>)
  obtain byp why where b: "ShouldBypassCache (dp_bson D) (Name info) (Body msg) (IsTxn info) = (byp, why)" by fastforce
  show ?thesis
  proof (cases "dp_Cache D = None \<or> coll = '''' \<or> byp")
    case True
    with b mono assms show ?thesis by (cases byp) (auto simp: tryCacheRead_def split: option.split)
  next
    case False
    then obtain S where S: "dp_Cache D = Some S" by auto
    let ?dec = "cache_decision conn db coll w"
    show ?thesis
    proof (cases "CacheKey (dp_bson D) t conn db coll (Name info) (Body msg) (de_CacheKeyVersion ?dec)")
      case (Inl e)
      with False S b mono assms show ?thesis by (simp add: tryCacheRead_def Let_def)
    next
      case (Inr key)
      obtain r v where g: "GetOrLoad (map_option (\<lambda>s. on_cache (GetKey s (cl_now x) key)) S) (cl_shared x)
          (load_from_backend D x cs t conn db coll ns l info cmd ?dec key) w = (r, v)" by fastforce
      have "keeps i st (k - 1) (px_cursors v)" using load [of key S "cl_shared x" ?dec] g by simp
      with False S b Inr g show ?thesis
        by (cases r) (auto simp: tryCacheRead_def Let_def reply_from_payload_cursors split: cache_err.split)
    qed
  qed
qed

lemma passthrough_keeps:
  assumes "keeps i st k (px_cursors w)" and "0 < k"
  shows "keeps i st (k - 1) (px_cursors (snd (passthrough_backend D x cs t conn db coll ns l msg info cmd u w)))"
proof -
  obtain g w1 where g: "pool_get D x conn w = (g, w1)" by fastforce
  have c: "px_cursors w1 = px_cursors w" by (rule pool_get_cursors [OF g])
  show ?thesis
  proof (cases g)
    case (Inl e)
    with g c keeps_mono [OF assms(1), of "k - 1"] show ?thesis by (simp add: passthrough_backend_def)
  next
    case (Inr cl)
    with g c run_backend_keeps [of i st k w1 D x cs cl l db cmd info] assms show ?thesis
      by (auto simp: passthrough_backend_def Let_def split: prod.splits)
  qed
qed

lemma handlePassthrough_keeps:
  assumes "keeps i st 2 (px_cursors w)"
  shows "keeps i st 0 (px_cursors (snd (handlePassthrough D x cs msg info w)))"
proof -
  have tr: "keeps i st 1 (px_cursors v)" if "tryCacheRead D x cs t conn db coll ns l msg info1 cmd w = (r, v)"
    for t conn db coll ns l info1 cmd r v
    using tryCacheRead_keeps [OF assms, of D x cs t conn db coll ns l msg info1 cmd] that by simp
  have pass: "keeps i st 0 (px_cursors (snd (passthrough_backend D x cs t conn db coll ns l msg info1 cmd u v)))"
    if "keeps i st 1 (px_cursors v)" for t conn db coll ns l info1 cmd u v
    using passthrough_keeps [OF that, of D x cs t conn db coll ns l msg info1 cmd u] by simp
  have m: "keeps i st 0 (px_cursors w)" "keeps i st 1 (px_cursors w)" "keeps i st 1 R \<Longrightarrow> keeps i st 0 R" for R
    by (rule keeps_mono [OF assms], simp)+ (erule keeps_mono, simp)
  show ?thesis
    unfolding handlePassthrough_def Let_def
    by (auto simp: m(1) split: sum.split prod.split option.split intro: pass m tr m(3) [OF tr])
qed

section \<open>Every message\<close>

lemma getMore_keeps:
  assumes "keeps i st k (px_cursors w)" and "rg_scope st \<noteq> (tenant_id cs, cs_Key cs)"
  shows "keeps i st k (px_cursors (snd (handleGetMore D x cs body w)))"
proof (cases "cs_Tenant cs")
  case None with assms show ?thesis by (simp add: handleGetMore_def)
next
  case (Some tc)
  let ?t = "tc_TenantID tc" and ?c = "cs_Key cs"
  have sc: "rg_scope st \<noteq> (?t, ?c)" using assms(2) Some by (simp add: tenant_id_def)
  define j where "j = cursor_id_of (dp_bson D) body"
  obtain so r where g: "GetCursor (cl_now x) j ?t ?c (px_cursors w) = (so, r)" by fastforce
  have r: "keeps i st k r" using keeps_Get [OF assms(1) sc, of "cl_now x" j] g by simp
  have bk: "keeps i st k (px_cursors v)" if "on_backend f (w\<lparr>px_cursors := r\<rparr>) = (q, v)" for f q v
    using on_backend_cursors [OF that] r by simp
  have rm: "keeps i st k (px_cursors (remove_cursor D j ?t ?c v))" if "keeps i st k (px_cursors v)" for v
    using keeps_Remove [OF that sc, of j] by (simp add: remove_cursor_def close_cursors_def split_beta)
  show ?thesis
    using assms(1) Some g r
    by (auto simp: handleGetMore_def Let_def j_def [symmetric] intro: bk rm [OF bk] split: option.split sum.split prod.split)
qed

lemma killCursors_keeps:
  assumes "keeps i st k (px_cursors w)" and "rg_scope st \<noteq> (tenant_id cs, cs_Key cs)"
  shows "keeps i st k (px_cursors (snd (handleKillCursors D cs body w)))"
  using assms keeps_KillMany [OF assms(1), of "tenant_id cs" "cs_Key cs" "cursor_ids (dp_bson D) body"]
  by (auto simp: handleKillCursors_def Let_def tenant_id_def close_cursors_def split: option.split prod.splits)

lemma other_handlers_cursors [simp]:
  "px_cursors (handleKillCachedCursors D cs body w) = px_cursors w"
  "px_cursors (snd (snd (handleHello x cs n w))) = px_cursors w"
  "px_cursors (snd (snd (handleSaslStart D x cs body w))) = px_cursors w"
  by (auto simp: handleKillCachedCursors_def handleHello_def handleSaslStart_def Let_def split: option.split sum.split prod.split)

lemma cachedGetMore_cursors: "px_cursors (snd (handleCachedGetMore D x cs body w)) = px_cursors w"
proof -
  have *: "px_cursors (snd (case p of (Inl e, cc') \<Rightarrow> (Inl e, w\<lparr>px_cached := Some cc'\<rparr>)
      | (Inr (ns, docs, ex, ok), cc') \<Rightarrow> if \<not> ok then (Inr None, w\<lparr>px_cached := Some cc'\<rparr>)
        else (Inr (Some (f ns docs ex)), w\<lparr>px_cached := Some cc'\<rparr>))) = px_cursors w" for p f
    by (auto split: prod.split sum.split)
  show ?thesis by (auto simp: handleCachedGetMore_def Let_def * split: option.split bool.split)
qed

lemma case_snd2: "snd (snd (case p of (r, v) \<Rightarrow> (f r, s, v))) = snd p"
  by (simp add: split_beta)

lemma case_snd3: "snd (case p of (d, v) \<Rightarrow> (f d, v)) = snd p"
  by (simp add: split_beta)

lemma getmore_dispatch_keeps:
  assumes "keeps i st k (px_cursors w)" and "rg_scope st \<noteq> (tenant_id cs, cs_Key cs)"
  shows "keeps i st k (px_cursors (snd (snd (case handleCachedGetMore D x cs body w of
      (Inl p, v) \<Rightarrow> (Inl p, cs, v) | (Inr (Some reply), v) \<Rightarrow> (Inr reply, cs, v)
    | (Inr None, v) \<Rightarrow> (case handleGetMore D x cs body v of (r, v') \<Rightarrow> (r, cs, v'))))))"
proof -
  obtain r v where h: "handleCachedGetMore D x cs body w = (r, v)" by fastforce
  have "keeps i st k (px_cursors v)" using cachedGetMore_cursors [of D x cs body w] assms(1) h by simp
  with getMore_keeps [OF this assms(2), of D x body] h show ?thesis
    by (auto simp: case_snd2 split: sum.split option.split prod.splits)
qed

lemma dispatch_keeps:
  assumes "keeps i st 2 (px_cursors w)" and "rg_scope st \<noteq> (tenant_id cs, cs_Key cs)"
  shows "keeps i st 0 (px_cursors (snd (snd (dispatch D x cs msg info w))))"
proof -
  have m: "keeps i st 0 (px_cursors w)" using assms(1) by (rule keeps_mono) simp
  note kill = killCursors_keeps [OF _ assms(2), of i 0]
  show ?thesis
    unfolding dispatch_def Let_def
    by (simp add: m case_snd2 case_snd3 kill getmore_dispatch_keeps [OF m assms(2)] handlePassthrough_keeps [OF assms(1)])
qed


text \<open>A \<open>killCursors\<close> of another tenant's cursor 2.\<close>

definition kill_table :: bson_lib where
  "kill_table = table_lib [(''b'', [(''killCursors'', RString ''c'')],
     [(''killCursors'', BStr ''c''), (''cursors'', BA [BInt64 2])])]"

definition kill_proxy :: "(MemoryStore, mcursor \<Rightarrow> doc list) Proxy" where
  "kill_proxy = demo_cached_proxy\<lparr>px_cursors := snd (RegisterCursor 0 ''other'' ''k2'' ''d.c'' (Some 0) (NewRegistry 0))\<rparr>"


end
