(* ===== verification/Server.thy ===== *)
theory Server
  imports Handler
begin

text \<open>
  \<open>internal/proxy/server/server.go\<close> and the gauge helpers of
  \<open>internal/telemetry/telemetry.go\<close>: what happens between a client socket and the message
  handler.  A connection is a reader (the bytes the client will send) and a writer; the socket
  calls that may fail and the clock are read from an environment, \<open>io_env\<close>.  Deferred
  functions run where Go runs them, so a panic raised by one is a panic of the call.  The listener,
  the ticker that repeats the pruning and the sleep while draining are not modelled; pruning, the
  bookkeeping of open connections and the hard close are.
\<close>

section \<open>State\<close>

record server_config =
  sc_MaxConnsPerTenant :: int
  sc_AllowUnauthenticated :: bool

record ('m, 'b) Server =
  sv_proxy :: "('m, 'b) Proxy"
  sv_conns :: "(nat, unit) gomap"
  sv_tenantN :: "(bytes, int) gomap"
  sv_authN :: "(bytes, int) gomap"
  sv_connSeq :: int
  sv_reqID :: int
  sv_closed :: bool
  sv_draining :: bool
  sv_busyGauge :: "(bytes, int) gomap"
  sv_authGauge :: "(bytes, int) gomap"

text \<open>Reading a missing key of a map of counters gives 0.\<close>

definition gm_int :: "(bytes, int) gomap \<Rightarrow> bytes \<Rightarrow> int" where
  "gm_int m k = (case gm_get m k of None \<Rightarrow> 0 | Some n \<Rightarrow> n)"

record io_env =
  ie_ctx :: call_ctx
  ie_readDeadline :: bool
  ie_writeDeadline :: bool

datatype srv_err = WireErr wire_err | EncodeErr bytes | DeadlineErr

definition NewServer :: "('m, 'b) Proxy \<Rightarrow> ('m, 'b) Server" where
  "NewServer w = \<lparr>sv_proxy = w, sv_conns = [], sv_tenantN = [], sv_authN = [], sv_connSeq = 0, sv_reqID = 1,
     sv_closed = False, sv_draining = False, sv_busyGauge = [], sv_authGauge = []\<rparr>"

section \<open>Gauges and per-tenant counts\<close>

definition SetGaugeTenant :: "bytes \<Rightarrow> int \<Rightarrow> (bytes, int) gomap \<Rightarrow> (bytes, int) gomap" where
  "SetGaugeTenant tenant value g =
     (if tenant = '''' then g else if value \<le> 0 then gm_del g tenant else gm_put g tenant value)"

definition IncGaugeTenant :: "bytes \<Rightarrow> (bytes, int) gomap \<Rightarrow> (bytes, int) gomap" where
  "IncGaugeTenant tenant g = (if tenant = '''' then g else gm_put g tenant (gm_int g tenant + 1))"

definition DecGaugeTenant :: "bytes \<Rightarrow> (bytes, int) gomap \<Rightarrow> (bytes, int) gomap" where
  "DecGaugeTenant tenant g = (if tenant = '''' then g else gm_put g tenant (gm_int g tenant - 1))"

definition tryAcquireTenantConn :: "server_config \<Rightarrow> bytes \<Rightarrow> ('m, 'b) Server \<Rightarrow> bool \<times> ('m, 'b) Server" where
  "tryAcquireTenantConn C tenantID s =
     (if sc_MaxConnsPerTenant C \<le> 0 then (True, s)
      else if gm_int (sv_tenantN s) tenantID \<ge> sc_MaxConnsPerTenant C then (False, s)
      else (True, s\<lparr>sv_tenantN := gm_put (sv_tenantN s) tenantID (gm_int (sv_tenantN s) tenantID + 1)\<rparr>))"

definition releaseTenantConn :: "server_config \<Rightarrow> bytes \<Rightarrow> ('m, 'b) Server \<Rightarrow> ('m, 'b) Server" where
  "releaseTenantConn C tenantID s =
     (if sc_MaxConnsPerTenant C \<le> 0 then s
      else if gm_int (sv_tenantN s) tenantID > 0
      then let n = gm_int (sv_tenantN s) tenantID - 1; m = gm_put (sv_tenantN s) tenantID n in
        s\<lparr>sv_tenantN := (if n = 0 then gm_del m tenantID else m)\<rparr>
      else s)"

definition incAuthenticated :: "bytes \<Rightarrow> ('m, 'b) Server \<Rightarrow> ('m, 'b) Server" where
  "incAuthenticated tenantID s =
     (if tenantID = '''' then s
      else let n = gm_int (sv_authN s) tenantID + 1 in
        s\<lparr>sv_authN := gm_put (sv_authN s) tenantID n, sv_authGauge := SetGaugeTenant tenantID n (sv_authGauge s)\<rparr>)"

definition decAuthenticated :: "bytes \<Rightarrow> ('m, 'b) Server \<Rightarrow> ('m, 'b) Server" where
  "decAuthenticated tenantID s =
     (if tenantID = '''' then s
      else let m = (if gm_int (sv_authN s) tenantID > 0
               then gm_put (sv_authN s) tenantID (gm_int (sv_authN s) tenantID - 1) else sv_authN s);
             n = gm_int m tenantID in
        s\<lparr>sv_authN := (if n = 0 then gm_del m tenantID else m),
          sv_authGauge := SetGaugeTenant tenantID n (sv_authGauge s)\<rparr>)"

definition trackConn :: "nat \<Rightarrow> bool \<Rightarrow> ('m, 'b) Server \<Rightarrow> ('m, 'b) Server" where
  "trackConn c add s = (if add then s\<lparr>sv_conns := gm_put (sv_conns s) c ()\<rparr> else s\<lparr>sv_conns := gm_del (sv_conns s) c\<rparr>)"

section \<open>Replies\<close>

definition encodeReply :: "bson_lib \<Rightarrow> bval \<Rightarrow> bytes + bytes" where
  "encodeReply L doc = (case doc of BRaw v \<Rightarrow> Inr v | _ \<Rightarrow> EncodeBody L doc)"

text \<open>The body sent for a reply that does not encode; empty when that does not encode either.\<close>

definition reply_body :: "bson_lib \<Rightarrow> bval \<Rightarrow> bytes" where
  "reply_body L doc = (case encodeReply L doc of
      Inr body \<Rightarrow> body
    | Inl err \<Rightarrow> (case EncodeBody L (BMapAny [(''ok'', BInt 0), (''errmsg'', BStr err), (''code'', BInt 1)]) of
        Inr body \<Rightarrow> body | Inl _ \<Rightarrow> ''''))"

definition writeErrorMsg ::
  "bson_lib \<Rightarrow> writer \<Rightarrow> int \<Rightarrow> int \<Rightarrow> bytes \<Rightarrow> bytes \<Rightarrow> ('m, 'b) Server \<Rightarrow> (wire_err + writer) \<times> ('m, 'b) Server" where
  "writeErrorMsg L conn requestID code codeName msg s =
     (let body = (case EncodeBody L (BD [(''ok'', BF64 (F64 0)), (''errmsg'', BStr msg), (''code'', BInt32 code),
            (''codeName'', BStr codeName)]) of Inr b \<Rightarrow> b | Inl _ \<Rightarrow> '''');
          respID = wrap32 (sv_reqID s + 1) in
      (WriteMsg conn respID requestID body, s\<lparr>sv_reqID := respID\<rparr>))"

definition writeOpReply :: "bson_lib \<Rightarrow> writer \<Rightarrow> int \<Rightarrow> bval \<Rightarrow> srv_err + writer" where
  "writeOpReply L conn responseTo doc = (case encodeReply L doc of
      Inl err \<Rightarrow> Inl (EncodeErr err)
    | Inr raw \<Rightarrow>
        let bodyLen = 4 + 8 + 4 + 4 + length raw; total = MsgHeaderSize + bodyLen;
            h = \<lparr>MessageLength = wrap32 (int total), RequestID = 1, ResponseTo = responseTo, OpCode = OpReply\<rparr>;
            meta = replicate 16 (CHR 0x00) @ put_u32 1 in
        (case WriteHeader conn h of
           Inl e \<Rightarrow> Inl (WireErr e)
         | Inr w1 \<Rightarrow> (case Write w1 meta of
             Inl e \<Rightarrow> Inl (WireErr e)
           | Inr w2 \<Rightarrow> (case Write w2 raw of Inl e \<Rightarrow> Inl (WireErr e) | Inr w3 \<Rightarrow> Inr w3))))"

section \<open>One OP_MSG\<close>

text \<open>The busy gauge at the start of \<open>handleMsg\<close>.\<close>

definition enter_busy :: "TenantContext \<Rightarrow> ConnState \<Rightarrow> ('m, 'b) Server \<Rightarrow> ConnState \<times> ('m, 'b) Server" where
  "enter_busy tc cs s = (let n = wrap32 (cs_InFlight cs + 1) in
     (cs\<lparr>cs_InFlight := n\<rparr>,
      if n = 1 then s\<lparr>sv_busyGauge := IncGaugeTenant (tc_TenantID tc) (sv_busyGauge s)\<rparr> else s))"

text \<open>The deferred function: it reads the tenant of the connection as it is then.\<close>

definition leave_busy :: "ConnState \<Rightarrow> ('m, 'b) Server \<Rightarrow> panic option \<times> ConnState \<times> ('m, 'b) Server" where
  "leave_busy cs s = (let n = wrap32 (cs_InFlight cs - 1); cs' = cs\<lparr>cs_InFlight := n\<rparr> in
     if n = 0 then (case cs_Tenant cs of
         None \<Rightarrow> (Some NilDereference, cs', s)
       | Some tc \<Rightarrow> (None, cs', s\<lparr>sv_busyGauge := DecGaugeTenant (tc_TenantID tc) (sv_busyGauge s)\<rparr>))
     else (None, cs', s))"

text \<open>The limit and the gauge of authenticated connections: the reply and whether the connection is
  closed on return.\<close>

definition count_conn ::
  "server_config \<Rightarrow> ConnState \<Rightarrow> bval \<Rightarrow> ('m, 'b) Server \<Rightarrow> bval \<times> bool \<times> ConnState \<times> ('m, 'b) Server" where
  "count_conn C cs reply s = (case cs_Tenant cs of
      Some tc \<Rightarrow>
        if cs_Authed cs \<and> \<not> cs_TenantCounted cs
        then (case tryAcquireTenantConn C (tc_TenantID tc) s of
            (False, s1) \<Rightarrow> (BD TooManyConnectionsDoc, True, cs, s1)
          | (True, s1) \<Rightarrow> (reply, False, cs\<lparr>cs_TenantCounted := True, cs_CountedTenantID := tc_TenantID tc\<rparr>,
              incAuthenticated (tc_TenantID tc) s1))
        else (reply, False, cs, s)
    | None \<Rightarrow> (reply, False, cs, s))"

definition busy_tenant :: "ConnState \<Rightarrow> TenantContext option" where
  "busy_tenant cs = (if cs_Authed cs then cs_Tenant cs else None)"

text \<open>
  \<open>Handle\<close> returns no Go error, so \<open>handlerErrorDoc\<close> is never used.  The first component is a
  panic, or whether the connection was closed and the writer or the error returned.
\<close>

definition handleMsg ::
  "server_config \<Rightarrow> ('m, 'b) Deps \<Rightarrow> io_env \<Rightarrow> ConnState \<Rightarrow> Msg \<Rightarrow> writer \<Rightarrow> ('m, 'b) Server
     \<Rightarrow> (panic + (bool \<times> (srv_err + writer))) \<times> ConnState \<times> ('m, 'b) Server" where
  "handleMsg C D env cs msg conn s =
     (case (case busy_tenant cs of None \<Rightarrow> (cs, s) | Some tc \<Rightarrow> enter_busy tc cs s) of (cs1, s1) \<Rightarrow>
      case Handle D (ie_ctx env) cs1 msg (sv_proxy s1) of
        (Inl p, cs2, w) \<Rightarrow> (Inl p, cs2, s1\<lparr>sv_proxy := w\<rparr>)
      | (Inr reply0, cs2, w) \<Rightarrow>
          (case count_conn C cs2 reply0 (s1\<lparr>sv_proxy := w\<rparr>) of (reply, shut, cs3, s3) \<Rightarrow>
            (let respID = wrap32 (sv_reqID s3 + 1);
                 res = (if ie_writeDeadline env
                   then (case WriteMsg conn respID (RequestID (MsgHeader msg)) (reply_body (dp_bson D) reply) of
                       Inl e \<Rightarrow> Inl (WireErr e) | Inr w' \<Rightarrow> Inr w')
                   else Inl DeadlineErr);
                 s4 = s3\<lparr>sv_reqID := respID\<rparr> in
             if busy_tenant cs = None then (Inr (shut, res), cs3, s4)
             else (case leave_busy cs3 s4 of
                 (Some p, cs4, s5) \<Rightarrow> (Inl p, cs4, s5)
               | (None, cs4, s5) \<Rightarrow> (Inr (shut, res), cs4, s5)))))"


section \<open>Legacy OP_QUERY\<close>

text \<open>The query document of an OP_QUERY body; every slice is checked.\<close>

definition query_doc :: "bytes \<Rightarrow> wire_err + bytes" where
  "query_doc body =
     (if length body < 4 then Inl UnexpectedEOF
      else case IndexByte (drop 4 body) (CHR 0x00) of
        None \<Rightarrow> Inl UnexpectedEOF
      | Some n \<Rightarrow> (case go_slice Panicked body 4 (4 + n) of
          Inl e \<Rightarrow> Inl e
        | Inr collName \<Rightarrow>
            let off = 4 + n + 1 in
            if off + 8 > length body then Inl UnexpectedEOF
            else let off = off + 8 in
              if off + 4 > length body then Inl UnexpectedEOF
              else (case go_slice Panicked body off (off + 4) of
                  Inl e \<Rightarrow> Inl e
                | Inr lb \<Rightarrow> let qlen = nat (le_u32 lb) in
                    if off + qlen > length body then Inl UnexpectedEOF
                    else go_slice Panicked body off (off + qlen))))"

definition query_command :: "bson_lib \<Rightarrow> bytes \<Rightarrow> bytes" where
  "query_command L queryRaw =
     (let cmdName = (case CommandName L queryRaw of Inl _ \<Rightarrow> '''' | Inr n \<Rightarrow> n) in
      if cmdName \<noteq> '''' then cmdName
      else if has_key L queryRaw ''isMaster'' then ''isMaster''
      else if has_key L queryRaw ''ismaster'' then ''ismaster''
      else if has_key L queryRaw ''hello'' then ''hello'' else '''')"

definition HandleHelloOnly :: "call_ctx \<Rightarrow> ConnState \<Rightarrow> bytes \<Rightarrow> ('m, 'b) Proxy \<Rightarrow> doc \<times> ConnState \<times> ('m, 'b) Proxy" where
  "HandleHelloOnly x cs cmdName w = handleHello x cs cmdName w"

definition legacy_reply ::
  "('m, 'b) Deps \<Rightarrow> call_ctx \<Rightarrow> ConnState \<Rightarrow> bytes \<Rightarrow> ('m, 'b) Server \<Rightarrow> bval \<times> ConnState \<times> ('m, 'b) Server" where
  "legacy_reply D x cs queryRaw s =
     (if List.member [''hello'', ''isMaster'', ''ismaster'', ''''] (query_command (dp_bson D) queryRaw)
      then (case HandleHelloOnly x cs ''isMaster'' (sv_proxy s) of (d, cs', w) \<Rightarrow> (BD d, cs', s\<lparr>sv_proxy := w\<rparr>))
      else (BMapAny [(''ok'', BInt 0), (''errmsg'', BStr ''legacy OP_QUERY only supported for isMaster/hello''),
          (''code'', BInt 2)], cs, s))"

definition handleLegacyQuery ::
  "('m, 'b) Deps \<Rightarrow> call_ctx \<Rightarrow> ConnState \<Rightarrow> Header \<Rightarrow> bytes \<Rightarrow> writer \<Rightarrow> ('m, 'b) Server
     \<Rightarrow> (srv_err + (bytes \<times> writer)) \<times> ConnState \<times> ('m, 'b) Server" where
  "handleLegacyQuery D x cs hdr r conn s = (case BodyLength hdr of
      Inl e \<Rightarrow> (Inl (WireErr e), cs, s)
    | Inr bodyLen \<Rightarrow> (case ReadFull r bodyLen of
        Inl e \<Rightarrow> (Inl (WireErr e), cs, s)
      | Inr (body, r') \<Rightarrow> (case query_doc body of
          Inl e \<Rightarrow> (Inl (WireErr e), cs, s)
        | Inr queryRaw \<Rightarrow> (case legacy_reply D x cs queryRaw s of (reply, cs', s') \<Rightarrow>
            (case writeOpReply (dp_bson D) conn (RequestID hdr) reply of
               Inl e \<Rightarrow> (Inl e, cs', s') | Inr w \<Rightarrow> (Inr (r', w), cs', s'))))))"

section \<open>The loop of a connection\<close>

text \<open>A frame with another opcode: its body is skipped and the error of writing the reply is ignored;
  a writer that has failed once keeps failing.\<close>

definition reject_opcode ::
  "bson_lib \<Rightarrow> Header \<Rightarrow> bytes \<Rightarrow> writer \<Rightarrow> ('m, 'b) Server \<Rightarrow> (bytes \<times> writer) \<times> ('m, 'b) Server" where
  "reject_opcode L hdr r conn s =
     (let r' = (case BodyLength hdr of Inr bl \<Rightarrow> drop bl r | Inl _ \<Rightarrow> r) in
      case writeErrorMsg L conn (RequestID hdr) 2 ''BadValue''
          (''unsupported opcode '' @ itoa (OpCode hdr) @ ''; use modern driver with OP_MSG'') s of
        (Inl e, s') \<Rightarrow> ((r', conn\<lparr>w_quota := 0\<rparr>), s')
      | (Inr w, s') \<Rightarrow> ((r', w), s'))"

text \<open>One turn of the loop: a panic, the end of the connection, or what is left to read and to write to.\<close>

definition serve_turn ::
  "server_config \<Rightarrow> ('m, 'b) Deps \<Rightarrow> io_env \<Rightarrow> ConnState \<Rightarrow> bytes \<Rightarrow> writer \<Rightarrow> ('m, 'b) Server
     \<Rightarrow> (panic + (bytes \<times> writer) option) \<times> ConnState \<times> ('m, 'b) Server" where
  "serve_turn C D env cs r conn s =
     (if \<not> ie_readDeadline env then (Inr None, cs, s)
      else case ReadHeader r of
        Inl e \<Rightarrow> (Inr None, cs, s)
      | Inr (hdr, r1) \<Rightarrow>
          if OpCode hdr = OpMsg then
            (case ReadMsg r1 hdr of
               Inl e \<Rightarrow> (if e = Panicked then Inl SliceOutOfRange else Inr None, cs, s)
             | Inr (msg, r2) \<Rightarrow> (case handleMsg C D env cs msg conn s of
                 (Inl p, cs', s') \<Rightarrow> (Inl p, cs', s')
               | (Inr (shut, Inl e), cs', s') \<Rightarrow> (Inr None, cs', s')
               | (Inr (shut, Inr w), cs', s') \<Rightarrow> (Inr (if shut then None else Some (r2, w)), cs', s')))
          else if OpCode hdr = OpQuery then
            (case handleLegacyQuery D (ie_ctx env) cs hdr r1 conn s of
               (Inl e, cs', s') \<Rightarrow> (if e = WireErr Panicked then Inl SliceOutOfRange else Inr None, cs', s')
             | (Inr (r2, w), cs', s') \<Rightarrow> (Inr (Some (r2, w)), cs', s'))
          else (case reject_opcode (dp_bson D) hdr r1 conn s of ((r2, w), s') \<Rightarrow> (Inr (Some (r2, w)), cs, s')))"

lemma ReadHeader_takes: "ReadHeader r = Inr (h, r1) \<Longrightarrow> length r = length r1 + 16"
  by (auto simp: ReadHeader_def ReadFull_def MsgHeaderSize_def split: if_splits)

lemma ReadFull_shorter: "ReadFull r n = Inr (b, r1) \<Longrightarrow> length r1 \<le> length r"
  by (auto simp: ReadFull_def split: if_splits)

lemma ReadMsg_shorter: "ReadMsg r h = Inr (m, r1) \<Longrightarrow> length r1 \<le> length r"
  by (auto simp: ReadMsg_def Let_def dest: ReadFull_shorter split: if_splits sum.splits)

lemma serve_turn_takes:
  assumes "serve_turn C D env cs r conn s = (Inr (Some (r', conn')), cs', s')"
  shows "length r' + 16 \<le> length r"
proof -
  obtain hdr r1 where h: "ReadHeader r = Inr (hdr, r1)"
    using assms by (auto simp: serve_turn_def split: if_splits sum.splits)
  have "length r' \<le> length r1"
  proof (cases "OpCode hdr = OpMsg")
    case True
    with assms h show ?thesis
      by (auto simp: serve_turn_def dest: ReadMsg_shorter split: if_splits sum.splits prod.splits)
  next
    case False
    with assms h show ?thesis
      by (auto simp: serve_turn_def handleLegacyQuery_def reject_opcode_def Let_def dest: ReadFull_shorter
          split: if_splits sum.splits prod.splits)
  qed
  with ReadHeader_takes [OF h] show ?thesis by simp
qed

lemma serve_turn_shorter:
  "serve_turn C D env cs r conn s = (Inr (Some (r', conn')), cs', s') \<Longrightarrow> length r' < length r"
  using serve_turn_takes by fastforce

text \<open>The loop ends by itself, each turn reading a header; \<open>env n\<close> is the environment of turn \<open>n\<close>.\<close>

function serve_loop ::
  "server_config \<Rightarrow> ('m, 'b) Deps \<Rightarrow> (nat \<Rightarrow> io_env) \<Rightarrow> nat \<Rightarrow> ConnState \<Rightarrow> bytes \<Rightarrow> writer \<Rightarrow> ('m, 'b) Server
     \<Rightarrow> panic option \<times> ConnState \<times> ('m, 'b) Server" where
  "serve_loop C D env n cs r conn s = (case serve_turn C D (env n) cs r conn s of
      (Inl p, cs', s') \<Rightarrow> (Some p, cs', s')
    | (Inr None, cs', s') \<Rightarrow> (None, cs', s')
    | (Inr (Some (r', conn')), cs', s') \<Rightarrow> serve_loop C D env (Suc n) cs' r' conn' s')"
  by pat_completeness auto
termination
  by (relation "measure (\<lambda>(C, D, env, n, cs, r, conn, s). length r)") (auto dest: serve_turn_shorter [OF sym])

declare serve_loop.simps [simp del]

text \<open>The start of \<open>serveConn\<close> and its deferred cleanup.\<close>

definition open_conn :: "server_config \<Rightarrow> bytes \<Rightarrow> ('m, 'b) Server \<Rightarrow> ConnState \<times> ('m, 'b) Server" where
  "open_conn C remote s = (let n = (sv_connSeq s + 1) mod 2 ^ 64 in
     (\<lparr>cs_ID = 0, cs_Key = remote @ ''-'' @ itoa n, cs_Tenant = None, cs_Authed = False, cs_RemoteAddr = remote,
        cs_AllowUnauth = sc_AllowUnauthenticated C, cs_TenantCounted = False, cs_CountedTenantID = '''', cs_InFlight = 0\<rparr>,
      s\<lparr>sv_connSeq := n\<rparr>))"

definition cleanup_conn :: "server_config \<Rightarrow> ('m, 'b) Deps \<Rightarrow> ConnState \<Rightarrow> ('m, 'b) Server \<Rightarrow> ('m, 'b) Server" where
  "cleanup_conn C D cs s =
     (case CleanupConnCursors (cs_Key cs) (px_cursors (sv_proxy s)) of (gone, reg) \<Rightarrow>
      let w = close_cursors (dp_backend D) gone (sv_proxy s\<lparr>px_cursors := reg\<rparr>);
          w1 = w\<lparr>px_cached := map_option (CleanupConnCached (cs_Key cs)) (px_cached w)\<rparr>;
          s1 = s\<lparr>sv_proxy := w1\<rparr>;
          tid = (if cs_CountedTenantID cs = '''' then tenant_id cs else cs_CountedTenantID cs) in
      if cs_TenantCounted cs then releaseTenantConn C tid (decAuthenticated tid s1) else s1)"

text \<open>A panic ends the process, so there is no state after it.\<close>

definition serveConn ::
  "server_config \<Rightarrow> ('m, 'b) Deps \<Rightarrow> (nat \<Rightarrow> io_env) \<Rightarrow> bytes \<Rightarrow> bytes \<Rightarrow> nat \<Rightarrow> ('m, 'b) Server \<Rightarrow> panic + ('m, 'b) Server" where
  "serveConn C D env remote r quota s = (case open_conn C remote s of (cs, s1) \<Rightarrow>
     (case serve_loop C D env 0 cs r \<lparr>w_out = [], w_quota = quota\<rparr> s1 of
        (Some p, cs', s2) \<Rightarrow> Inl p
      | (None, cs', s2) \<Rightarrow> Inr (cleanup_conn C D cs' s2)))"

section \<open>The listener's bookkeeping\<close>

text \<open>An accepted connection: refused while draining, otherwise tracked, served and untracked.\<close>

definition accept_conn ::
  "server_config \<Rightarrow> ('m, 'b) Deps \<Rightarrow> (nat \<Rightarrow> io_env) \<Rightarrow> nat \<Rightarrow> bytes \<Rightarrow> bytes \<Rightarrow> nat \<Rightarrow> ('m, 'b) Server \<Rightarrow> panic + ('m, 'b) Server" where
  "accept_conn C D env c remote r quota s =
     (if sv_draining s then Inr s
      else case serveConn C D env remote r quota (trackConn c True s) of
          Inl p \<Rightarrow> Inl p | Inr s' \<Rightarrow> Inr (trackConn c False s'))"

text \<open>One tick of the prune loop.\<close>

definition prune_tick :: "('m, 'b) Deps \<Rightarrow> time \<Rightarrow> ('m, 'b) Server \<Rightarrow> ('m, 'b) Server" where
  "prune_tick D now s = (let w = sv_proxy s in
     case PruneIdleCursors now (px_cursors w) of ((n, gone), reg) \<Rightarrow>
       let w1 = close_cursors (dp_backend D) gone (w\<lparr>px_cursors := reg\<rparr>);
           w2 = (case px_cached w1 of None \<Rightarrow> w1 | Some cc \<Rightarrow> let cc' = snd (PruneIdleCached now cc) in
             emit [(''ProxyCachedCursorsActive'', [], CountCached cc')] (w1\<lparr>px_cached := Some cc'\<rparr>));
           w3 = (case px_limiter w2 of None \<Rightarrow> w2
             | Some l \<Rightarrow> w2\<lparr>px_limiter := Prune now (30 * 60 * 1000000000) (Some l)\<rparr>) in
       s\<lparr>sv_proxy := w3\<rparr>)"

text \<open>The parts of \<open>Close\<close> that change state; the connections it closes are those still tracked.\<close>

definition CloseServer :: "('m, 'b) Server \<Rightarrow> nat list \<times> ('m, 'b) Server" where
  "CloseServer s = (if sv_closed s then ([], s)
     else (map fst (sv_conns s), s\<lparr>sv_closed := True, sv_draining := True\<rparr>))"

end
