(* ===== verification/Server_Props.thy ===== *)
theory Server_Props
  imports Server Handler_Cursors
begin

text \<open>
  Properties of the server: the counts behind the connection limit, what a connection leaves
  behind, which message brings the process down, and the layout of a legacy query.
\<close>

section \<open>Logins have a tenant name\<close>

definition named :: "Validator \<Rightarrow> bool" where
  "named v \<longleftrightarrow> (\<forall>(k, e) \<in> set (va_cache v). tc_TenantID (ac_tc e) \<noteq> '''')"

lemma gm_put_new_set: "(k, v) \<in> set (gm_put m j w) \<Longrightarrow> (k = j \<and> v = w) \<or> (k, v) \<in> set m"
  by (induction m) (auto simp: gm_put_def split: if_splits)

lemma named_put: "named v \<Longrightarrow> tc_TenantID tc \<noteq> '''' \<Longrightarrow> named (cachePut now k tc v)"
  by (auto simp: named_def cachePut_def Let_def gm_drop_def dest!: gm_put_new_set split: if_splits)

lemma named_delete: "named v \<Longrightarrow> named (cacheDelete k v)"
  using gm_del_subset [of "va_cache v" k] by (auto simp: named_def cacheDelete_def)

lemma named_new: "named NewValidator"
  by (simp add: named_def NewValidator_def)

lemma accept_row_named:
  "named v \<Longrightarrow> u \<noteq> '''' \<Longrightarrow> accept_row R now u key row v s = (res, v') \<Longrightarrow>
   named v' \<and> (\<forall>tc. res = Inr tc \<longrightarrow> tc_TenantID tc \<noteq> '''')"
  by (auto simp: accept_row_def tenantContextFromRow_def named_put split: if_splits sum.splits store_err.splits)

lemma authenticate_store_named:
  "named v \<Longrightarrow> u \<noteq> '''' \<Longrightarrow> authenticate_store R bc now u p v s = (res, v') \<Longrightarrow>
   named v' \<and> (\<forall>tc. res = Inr tc \<longrightarrow> tc_TenantID tc \<noteq> '''')"
  by (auto simp: authenticate_store_def Let_def split: if_splits sum.splits store_err.splits option.splits
      dest: accept_row_named)

lemma Authenticate_named:
  assumes "named v" and "Authenticate R bc now u p v s = (res, v')"
  shows "named v' \<and> (\<forall>tc. res = Inr tc \<longrightarrow> tc_TenantID tc \<noteq> '''')"
proof -
  let ?u = "trim_space u" and ?k = "trim_space u @ [CHR 0x00] @ ProxyTokenLookupHash p"
  have re: "tc_TenantID tc' \<noteq> ''''" if "cacheGet now ?k v = Some tc" "revalidateToken R now tc s = Inr tc'" for tc tc'
  proof -
    from that(1) obtain e where "(?k, e) \<in> set (va_cache v)" "ac_tc e = tc"
      by (auto simp: cacheGet_def gm_get_def split: option.splits if_splits dest: map_of_SomeD)
    with assms(1) have "tc_TenantID tc \<noteq> ''''" by (auto simp: named_def)
    with that(2) show ?thesis by (auto simp: revalidateToken_def split: sum.splits if_splits)
  qed
  show ?thesis
    using assms re by (auto simp: Authenticate_def Let_def named_delete split: if_splits option.splits sum.splits
        dest: authenticate_store_named [rotated 2])
qed

section \<open>What a message changes of the connection and of the validator\<close>

lemma auth_frame [simp]:
  "px_auth (emit ms w) = px_auth w" "px_auth (close_cursors B gone w) = px_auth w" "px_auth (pool_release x conn w) = px_auth w"
  "px_auth (recordCache t d c n l res m why w) = px_auth w"
  "px_auth (cache_set D x t conn db coll key v ttl w) = px_auth w"
  "px_auth (maybePopulateCache D x t conn db coll ns l raw info reply w) = px_auth w"
  "px_auth (maybeAutoInvalidateOnWrite D t conn db coll w) = px_auth w"
  "px_auth (remove_cursor D i t k w) = px_auth w" "px_auth (handleKillCachedCursors D cs body w) = px_auth w"
  by (auto simp: emit_def close_cursors_def pool_release_def recordCache_def cache_set_def maybePopulateCache_def
      maybeAutoInvalidateOnWrite_def on_cache_def Let_def remove_cursor_def handleKillCachedCursors_def
      split: option.splits prod.splits sum.splits)

lemma on_auth [simp]: "on_backend f w = (r, w') \<Longrightarrow> px_auth w' = px_auth w" "on_cache g w = (q, w') \<Longrightarrow> px_auth w' = px_auth w"
  by (auto simp: on_backend_def on_cache_def split: prod.splits)

lemma pool_get_auth [simp]: "pool_get D x conn w = (r, w') \<Longrightarrow> px_auth w' = px_auth w"
  by (auto simp: pool_get_def split: prod.splits)

lemma run_backend_auth [simp]: "run_backend D x cs c l db cmd info w = (r, w') \<Longrightarrow> px_auth w' = px_auth w"
  using run_backend_frame [of w D x cs c l db cmd info] by (simp add: rb_frame_def)

lemma load_auth: "px_auth (snd (load_from_backend D x cs t conn db coll ns l info cmd dec key w)) = px_auth w"
  by (auto simp: load_from_backend_def split: sum.split prod.split)

lemma reply_auth: "px_auth (snd (reply_from_payload D x cs t db coll ns l payload hit w)) = px_auth w"
proof (cases "px_cached w")
  case None
  then show ?thesis by (simp add: reply_from_payload_def Let_def split: sum.split option.split)
next
  case (Some cc)
  then show ?thesis by (auto simp: reply_from_payload_def Let_def split: sum.split option.split prod.split)
qed

lemma tryCacheRead_auth: "tryCacheRead D x cs t conn db coll ns l msg info cmd w = (r, w') \<Longrightarrow> px_auth w' = px_auth w"
proof -
  have load: "px_auth (snd (GetOrLoad (map_option (\<lambda>s. on_cache (GetKey s (cl_now x) key)) S) sh
      (load_from_backend D x cs t conn db coll ns l info cmd dec key) w)) = px_auth w" for S sh dec key
    by (rule GetOrLoad_keeps [where P = "\<lambda>v. px_auth v = px_auth w"]) (auto simp: load_auth)
  have l2: "px_auth v = px_auth w" if "GetOrLoad (map_option (\<lambda>s. on_cache (GetKey s (cl_now x) key)) S) sh
      (load_from_backend D x cs t conn db coll ns l info cmd dec key) w = (q, v)" for S sh dec key q v
    using load [of key S sh dec] that by simp
  have l3: "px_auth u = px_auth v" if "reply_from_payload D x cs t db coll ns l payload hit v = (q, u)" for payload hit v q u
    using reply_auth [of D x cs t db coll ns l payload hit v] that by simp
  show "tryCacheRead D x cs t conn db coll ns l msg info cmd w = (r, w') \<Longrightarrow> px_auth w' = px_auth w"
    by (auto simp: tryCacheRead_def Let_def dest!: l2 l3 split: option.splits if_splits prod.splits bool.splits sum.splits cache_err.splits)
qed

lemma passthrough_auth: "passthrough_backend D x cs t conn db coll ns l msg info cmd u w = (r, w') \<Longrightarrow> px_auth w' = px_auth w"
  by (auto simp: passthrough_backend_def Let_def split: sum.splits prod.splits)

lemma handlePassthrough_auth: "handlePassthrough D x cs msg info w = (r, w') \<Longrightarrow> px_auth w' = px_auth w"
  by (auto simp: handlePassthrough_def Let_def split: if_splits sum.splits prod.splits option.splits
      dest!: passthrough_auth tryCacheRead_auth)

lemma getMore_auth: "handleGetMore D x cs body w = (r, w') \<Longrightarrow> px_auth w' = px_auth w"
  by (auto simp: handleGetMore_def Let_def split: option.splits if_splits prod.splits sum.splits)

lemma kill_auth: "handleKillCursors D cs body w = (r, w') \<Longrightarrow> px_auth w' = px_auth w"
  by (auto simp: handleKillCursors_def Let_def split: option.splits if_splits prod.splits)

lemma cachedGetMore_auth: "handleCachedGetMore D x cs body w = (r, w') \<Longrightarrow> px_auth w' = px_auth w"
  by (auto simp: handleCachedGetMore_def Let_def split: option.splits bool.splits if_splits prod.splits sum.splits)

text \<open>The parts of a connection no handler changes.\<close>

definition conn_frame :: "ConnState \<Rightarrow> ConnState \<Rightarrow> bool" where
  "conn_frame cs cs' \<longleftrightarrow> cs_Key cs' = cs_Key cs \<and> cs_TenantCounted cs' = cs_TenantCounted cs \<and>
     cs_CountedTenantID cs' = cs_CountedTenantID cs \<and> cs_InFlight cs' = cs_InFlight cs"

lemma conn_frame_refl [simp]: "conn_frame cs cs" by (simp add: conn_frame_def)

text \<open>Either the validator and the login are as before, or the client logged out, or it attempted a login.\<close>

definition login_step :: "('m, 'b) Deps \<Rightarrow> call_ctx \<Rightarrow> ConnState \<Rightarrow> ('m, 'b) Proxy \<Rightarrow> ConnState \<Rightarrow> ('m, 'b) Proxy \<Rightarrow> bool" where
  "login_step D x cs w cs' w' \<longleftrightarrow> (\<exists>u p res. Authenticate control_auth_reads (dp_bcrypt D) (cl_now x) u p (px_auth w) (px_store w) = (res, px_auth w')
     \<and> (case res of Inl _ \<Rightarrow> cs_Tenant cs' = cs_Tenant cs \<and> cs_Authed cs' = cs_Authed cs | Inr tc \<Rightarrow> cs_Tenant cs' = Some tc \<and> cs_Authed cs'))"

lemma login_step_tenant: "login_step D x cs w cs' w' \<Longrightarrow> cs_Tenant cs' = cs_Tenant cs \<or> (\<exists>tc. cs_Tenant cs' = Some tc)"
proof -
  assume "login_step D x cs w cs' w'"
  then obtain u p res where "Authenticate control_auth_reads (dp_bcrypt D) (cl_now x) u p (px_auth w) (px_store w) = (res, px_auth w')"
    "case res of Inl _ \<Rightarrow> cs_Tenant cs' = cs_Tenant cs \<and> cs_Authed cs' = cs_Authed cs | Inr tc \<Rightarrow> cs_Tenant cs' = Some tc \<and> cs_Authed cs'"
    unfolding login_step_def by blast
  then show ?thesis by (cases res) auto
qed

lemma sasl_step:
  assumes "handleSaslStart D x cs body w = (d, cs', w')"
  shows "conn_frame cs cs' \<and> (cs_Tenant cs' = cs_Tenant cs \<and> cs_Authed cs' = cs_Authed cs \<and> px_auth w' = px_auth w \<or> login_step D x cs w cs' w')"
proof -
  have "login_step D x cs w cs1 w1" if "Authenticate control_auth_reads (dp_bcrypt D) (cl_now x) u p (px_auth w) (px_store w) = (res, px_auth w1)"
      "case res of Inl _ \<Rightarrow> cs_Tenant cs1 = cs_Tenant cs \<and> cs_Authed cs1 = cs_Authed cs | Inr tc \<Rightarrow> cs_Tenant cs1 = Some tc \<and> cs_Authed cs1"
    for u p res cs1 w1
    using that unfolding login_step_def by blast
  note step = this
  have stepL: "login_step D x cs w cs (emit ms (w\<lparr>px_auth := v\<rparr>))"
    if "Authenticate control_auth_reads (dp_bcrypt D) (cl_now x) u p (px_auth w) (px_store w) = (Inl e, v)" for u p e v ms
    using that by (intro step) auto
  have stepR: "login_step D x cs w (cs\<lparr>cs_Tenant := Some tc, cs_Authed := True\<rparr>) (emit ms (w\<lparr>px_auth := v\<rparr>))"
    if "Authenticate control_auth_reads (dp_bcrypt D) (cl_now x) u p (px_auth w) (px_store w) = (Inr tc, v)" for u p tc v ms
    using that by (intro step) auto
  have frame: "conn_frame cs (cs\<lparr>cs_Tenant := t, cs_Authed := True\<rparr>)" for t by (simp add: conn_frame_def)
  show ?thesis
    using assms by (auto simp: handleSaslStart_def Let_def frame dest: stepL stepR split: if_splits option.splits sum.splits prod.splits)
qed

lemma hello_step: "handleHello x cs c w = (d, cs', w') \<Longrightarrow>
    conn_frame cs cs' \<and> cs_Tenant cs' = cs_Tenant cs \<and> cs_Authed cs' = cs_Authed cs \<and> px_auth w' = px_auth w"
  by (auto simp: handleHello_def Let_def conn_frame_def split: if_splits)

lemma dispatch_getmore:
  "to_lower (Name info) = ''getmore'' \<Longrightarrow> dispatch D x cs msg info w = (case handleCachedGetMore D x cs (Body msg) w of
     (Inl p, v) \<Rightarrow> (Inl p, cs, v) | (Inr (Some reply), v) \<Rightarrow> (Inr reply, cs, v)
   | (Inr None, v) \<Rightarrow> (case handleGetMore D x cs (Body msg) v of (r, v') \<Rightarrow> (r, cs, v')))"
  by (simp add: dispatch_def)

lemma getmore_step:
  assumes "to_lower (Name info) = ''getmore''" and "dispatch D x cs msg info w = (r, cs', w')"
  shows "cs' = cs \<and> px_auth w' = px_auth w"
proof -
  obtain q v where q: "handleCachedGetMore D x cs (Body msg) w = (q, v)" by fastforce
  obtain q2 v2 where q2: "handleGetMore D x cs (Body msg) v = (q2, v2)" by fastforce
  show ?thesis
    using assms(2) cachedGetMore_auth [OF q] getMore_auth [OF q2]
    by (cases q; cases "projr q") (auto simp: dispatch_getmore [OF assms(1)] q q2)
qed

lemma dispatch_step:
  assumes "dispatch D x cs msg info w = (r, cs', w')"
  shows "conn_frame cs cs' \<and> (if to_lower (Name info) = ''logout'' then cs_Tenant cs' = None \<and> px_auth w' = px_auth w
    else cs_Tenant cs' = cs_Tenant cs \<and> cs_Authed cs' = cs_Authed cs \<and> px_auth w' = px_auth w \<or> login_step D x cs w cs' w')"
proof (cases "to_lower (Name info) = ''getmore''")
  case True
  with getmore_step [OF True assms] show ?thesis by simp
next
  case False
  with assms show ?thesis unfolding dispatch_def Let_def
    by (auto simp: conn_frame_def dest!: hello_step sasl_step kill_auth handlePassthrough_auth
        simp del: to_lower.simps split: if_splits prod.splits)
qed

definition is_logout :: "bson_lib \<Rightarrow> Msg \<Rightarrow> bool" where
  "is_logout L msg \<longleftrightarrow> (\<exists>info. Classify L (Body msg) = Inr info \<and> to_lower (Name info) = ''logout'')"

lemma Handle_dispatch:
  assumes "Handle D x cs msg w = (r, cs', w')"
  obtains "cs' = cs" "px_auth w' = px_auth w" "\<not> is_logout (dp_bson D) msg" "\<exists>v. r = Inr v" |
    info l v where "Classify (dp_bson D) (Body msg) = Inr info"
      "dispatch D x cs msg info (w\<lparr>px_limiter := l\<rparr>) = (r, cs', v)" "px_auth w' = px_auth v"
proof (cases "Classify (dp_bson D) (Body msg)")
  case (Inl e)
  with assms show thesis by (intro that(1)) (auto simp: Handle_def is_logout_def)
next
  case (Inr info)
  show thesis
  proof (cases "is_logout (dp_bson D) msg")
    case True
    then have "IsPreAuthAllowed (Name info)" using Inr by (auto simp: is_logout_def IsPreAuthAllowed_def IsAuthCommand_def)
    moreover obtain v where "dispatch D x cs msg info w = (r, cs', v)" "w' = emit [(''ProxyCommands'',
        [case cs_Tenant cs of None \<Rightarrow> ''unauth'' | Some tc \<Rightarrow> tc_TenantID tc, CommandLabel (Name info)], 1)] v"
      using assms Inr calculation by (auto simp: Handle_def Let_def split: bool.splits option.splits prod.splits)
    ultimately show thesis
      using that(2) [of info "px_limiter w" v] Inr by simp
  next
    case False
    show thesis
    proof (cases "\<exists>l v. dispatch D x cs msg info (w\<lparr>px_limiter := l\<rparr>) = (r, cs', v) \<and> px_auth w' = px_auth v")
      case True
      with that(2) Inr show thesis by blast
    next
      case no: False
      then have no1: "px_auth w' \<noteq> px_auth v" if "dispatch D x cs msg info (w\<lparr>px_limiter := l\<rparr>) = (r, cs', v)" for l v
        using that by blast
      from this [of "px_limiter w"] have no2: "px_auth w' \<noteq> px_auth v" if "dispatch D x cs msg info w = (r, cs', v)" for v
        using that by simp
      from assms Inr have "cs' = cs \<and> px_auth w' = px_auth w \<and> (\<exists>v. r = Inr v)"
        by (auto simp: Handle_def Let_def dest: no1 no2 split: if_splits bool.splits option.splits prod.splits)
      with that(1) False show thesis by blast
    qed
  qed
qed

lemma login_step_limiter [simp]: "login_step D x cs (w\<lparr>px_limiter := l\<rparr>) cs' v = login_step D x cs w cs' v"
  by (simp add: login_step_def)

lemma Handle_step:
  assumes "Handle D x cs msg w = (r, cs', w')"
  shows "conn_frame cs cs' \<and> (if is_logout (dp_bson D) msg then cs_Tenant cs' = None \<and> px_auth w' = px_auth w
    else cs_Tenant cs' = cs_Tenant cs \<and> cs_Authed cs' = cs_Authed cs \<and> px_auth w' = px_auth w \<or> login_step D x cs w cs' w')"
  using assms
proof (cases rule: Handle_dispatch)
  case (2 info l v)
  with dispatch_step [OF 2(2)] show ?thesis
    by (auto simp: is_logout_def login_step_def simp del: to_lower.simps split: if_splits)
qed auto

section \<open>Which message brings the process down\<close>

text \<open>The tables of the two kinds of cursor as every operation keeps them: the cached cursors satisfy their
  invariant and a registered backend cursor is present.\<close>

definition tables_ok :: "('m, 'b) Proxy \<Rightarrow> bool" where
  "tables_ok w \<longleftrightarrow> (\<forall>cc. px_cached w = Some cc \<longrightarrow> cc_invar cc) \<and>
     (\<forall>i st. rg_lookup (px_cursors w) i = Some st \<longrightarrow> st_Cursor st \<noteq> None)"

lemma LookupInt32_range: "LookupInt32 L raw key < 2 ^ 31"
proof -
  have "int32_range (LookupInt32 L raw key)"
    by (simp add: LookupInt32_def split: sum.split option.split) (simp add: int32_range_def)
  thus ?thesis by (simp add: int32_range_def)
qed

lemma cachedGetMore_no_panic:
  assumes "tables_ok w"
  shows "\<exists>v. fst (handleCachedGetMore D x cs body w) = Inr v"
proof (cases "\<exists>cc tc. px_cached w = Some cc \<and> cs_Authed cs \<and> cs_Tenant cs = Some tc")
  case True
  then obtain cc tc where c: "px_cached w = Some cc" "cs_Authed cs" "cs_Tenant cs = Some tc" by blast
  let ?nb = "NextBatch (cl_now x) (cursor_id_of (dp_bson D) body) (tc_TenantID tc) (cs_Key cs) (LookupInt32 (dp_bson D) body ''batchSize'') cc"
  have "cc_invar cc" using assms c(1) by (simp add: tables_ok_def)
  from NextBatch_invar [OF this LookupInt32_range] obtain q where q: "fst ?nb = Inr q" by blast
  obtain ns docs ex ok cc' where "?nb = (Inr (ns, docs, ex, ok), cc')"
    using q by (cases ?nb; cases q) auto
  with c show ?thesis by (simp add: handleCachedGetMore_def Let_def)
qed (auto simp: handleCachedGetMore_def split: option.split bool.split)

lemma getMore_no_panic:
  assumes "\<forall>i st. rg_lookup (px_cursors w) i = Some st \<longrightarrow> st_Cursor st \<noteq> None"
  shows "\<exists>v. fst (handleGetMore D x cs body w) = Inr v"
proof -
  have got: "st_Cursor st \<noteq> None" if "GetCursor now i t c (px_cursors w) = (Some st, r)" for now i t c st r
    using that assms by (auto simp: GetCursor_def Let_def rg_lookup_def split: option.splits if_splits)
  show ?thesis by (auto dest: got simp: handleGetMore_def Let_def split: option.split prod.split sum.split)
qed

lemma dispatch_no_panic:
  assumes "tables_ok w" and "dispatch D x cs msg info w = (r, cs', w')"
  shows "\<exists>v. r = Inr v"
proof (cases "to_lower (Name info) = ''getmore''")
  case True
  obtain q v where q: "handleCachedGetMore D x cs (Body msg) w = (q, v)" by fastforce
  then obtain o1 where "q = Inr o1" using cachedGetMore_no_panic [OF assms(1), of D x cs "Body msg"] by auto
  moreover have "px_cursors v = px_cursors w" using cachedGetMore_cursors [of D x cs "Body msg" w] q by simp
  hence "\<exists>u. fst (handleGetMore D x cs (Body msg) v) = Inr u"
    using assms(1) by (intro getMore_no_panic) (simp add: tables_ok_def)
  ultimately show ?thesis
    using assms(2) q by (cases o1) (auto simp: dispatch_getmore [OF True] split: prod.splits)
next
  case False
  with assms show ?thesis unfolding dispatch_def Let_def
    by (auto simp del: to_lower.simps split: if_splits prod.splits)
qed

lemma Handle_no_panic:
  assumes "tables_ok w" and "Handle D x cs msg w = (r, cs', w')"
  shows "\<exists>v. r = Inr v"
  using assms(2)
proof (cases rule: Handle_dispatch)
  case (2 info l v)
  have "tables_ok (w\<lparr>px_limiter := l\<rparr>)" using assms(1) by (simp add: tables_ok_def)
  from dispatch_no_panic [OF this 2(2)] show ?thesis .
qed

lemma count_conn_conn:
  assumes "count_conn C cs reply s = (reply', shut, cs', s')"
  shows "cs_Tenant cs' = cs_Tenant cs" "cs_InFlight cs' = cs_InFlight cs" "cs_Key cs' = cs_Key cs" "cs_Authed cs' = cs_Authed cs"
  using assms by (auto simp: count_conn_def split: option.splits if_splits prod.splits bool.splits)

text \<open>C15. One message can end the whole process: while a connection serves one message at a time and the cursor
  tables are as their operations keep them, handling a message panics exactly when the client is logged
  in and the message is \<open>logout\<close>, whose deferred bookkeeping reads the tenant the command has just cleared.
  Every other message, whatever its contents, is answered without a panic.\<close>

theorem handleMsg_panics_iff_logout:
  assumes "tables_ok (sv_proxy s)" and "cs_InFlight cs = 0"
  shows "(\<exists>p. fst (handleMsg C D env cs msg conn s) = Inl p) \<longleftrightarrow> busy_tenant cs \<noteq> None \<and> is_logout (dp_bson D) msg"
proof -
  obtain cs1 s1 where e: "(case busy_tenant cs of None \<Rightarrow> (cs, s) | Some tc \<Rightarrow> enter_busy tc cs s) = (cs1, s1)" by fastforce
  have s1: "sv_proxy s1 = sv_proxy s" and cs1: "cs_Tenant cs1 = cs_Tenant cs" "cs_Authed cs1 = cs_Authed cs"
      "busy_tenant cs \<noteq> None \<Longrightarrow> cs_InFlight cs1 = 1"
    using e assms(2) by (auto simp: enter_busy_def Let_def wrap32_def split: option.splits if_splits)
  obtain r cs2 w where h: "Handle D (ie_ctx env) cs1 msg (sv_proxy s1) = (r, cs2, w)" by (metis prod_cases3)
  obtain reply0 where r: "r = Inr reply0" using Handle_no_panic [OF _ h] assms(1) s1 by auto
  obtain reply shut cs3 s3 where c: "count_conn C cs2 reply0 (s1\<lparr>sv_proxy := w\<rparr>) = (reply, shut, cs3, s3)" by (metis prod_cases4)
  note cc = count_conn_conn [OF c]
  have step: "cs_InFlight cs2 = cs_InFlight cs1" "if is_logout (dp_bson D) msg then cs_Tenant cs2 = None
      else cs_Tenant cs2 = cs_Tenant cs1 \<or> (\<exists>tc. cs_Tenant cs2 = Some tc)"
    using Handle_step [OF h] by (auto simp: conn_frame_def dest: login_step_tenant split: if_splits)
  show ?thesis
  proof (cases "busy_tenant cs = None")
    case True
    with e h r c show ?thesis by (simp add: handleMsg_def Let_def)
  next
    case False
    then have "cs_InFlight cs3 = 1" "cs_Tenant cs3 = cs_Tenant cs2" using cs1(3) step(1) cc by simp_all
    then have l: "fst (leave_busy cs3 s4) = (if cs_Tenant cs2 = None then Some NilDereference else None)" for s4 :: "('a, 'b) Server"
      by (simp add: leave_busy_def Let_def wrap32_def split: option.split)
    have "cs_Tenant cs2 = None \<longleftrightarrow> is_logout (dp_bson D) msg"
      using step(2) cs1(1) False by (auto simp: busy_tenant_def split: if_splits)
    with False e h r c l [of "s3\<lparr>sv_reqID := wrap32 (sv_reqID s3 + 1)\<rparr>"] show ?thesis
      by (auto simp: handleMsg_def Let_def split: prod.split option.split)
  qed
qed

section \<open>What one call does to the counts\<close>

lemma gm_int_put [simp]: "gm_int (gm_put m k v) t = (if t = k then v else gm_int m t)"
  by (simp add: gm_int_def)

lemma gm_int_del [simp]: "gm_int (gm_del m k) t = (if t = k then 0 else gm_int m t)"
  by (simp add: gm_int_def)

lemma gm_int_Nil [simp]: "gm_int [] t = 0"
  by (simp add: gm_int_def)

text \<open>What an open connection adds to the count of a tenant.\<close>

definition gain :: "ConnState \<Rightarrow> bytes \<Rightarrow> int" where
  "gain cs t = (if cs_TenantCounted cs \<and> cs_CountedTenantID cs = t then 1 else 0)"

text \<open>The counts move by \<open>d\<close>, the gauge follows, and the limit is not exceeded by the move.\<close>

definition counts_by :: "server_config \<Rightarrow> (bytes \<Rightarrow> int) \<Rightarrow> ('m, 'b) Server \<Rightarrow> ('m, 'b) Server \<Rightarrow> bool" where
  "counts_by C d s s' \<longleftrightarrow> (\<forall>t. t \<noteq> '''' \<longrightarrow> gm_int (sv_authN s') t = gm_int (sv_authN s) t + d t \<and>
       (gm_int (sv_authGauge s) t = gm_int (sv_authN s) t \<and> 0 \<le> gm_int (sv_authN s') t \<longrightarrow> gm_int (sv_authGauge s') t = gm_int (sv_authN s') t)) \<and>
     (\<forall>t. 0 < sc_MaxConnsPerTenant C \<longrightarrow> gm_int (sv_tenantN s') t = gm_int (sv_tenantN s) t + d t \<and>
       (gm_int (sv_tenantN s) t \<le> sc_MaxConnsPerTenant C \<longrightarrow> gm_int (sv_tenantN s') t \<le> sc_MaxConnsPerTenant C))"

lemma counts_by_0 [simp]: "sv_authN s' = sv_authN s \<Longrightarrow> sv_authGauge s' = sv_authGauge s \<Longrightarrow> sv_tenantN s' = sv_tenantN s \<Longrightarrow>
    counts_by C (\<lambda>_. 0) s s'"
  by (simp add: counts_by_def)

lemma count_conn_counts:
  assumes "count_conn C cs reply s = (reply', shut, cs', s')"
  shows "counts_by C (\<lambda>t. gain cs' t - gain cs t) s s' \<and> sv_proxy s' = sv_proxy s"
proof (cases "\<exists>tc. cs_Tenant cs = Some tc \<and> cs_Authed cs \<and> \<not> cs_TenantCounted cs")
  case True
  then obtain tc where tc: "cs_Tenant cs = Some tc" "cs_Authed cs" "\<not> cs_TenantCounted cs" by blast
  obtain ok s1 where a: "tryAcquireTenantConn C (tc_TenantID tc) s = (ok, s1)" by fastforce
  from a have s1: "ok \<Longrightarrow> counts_by C (\<lambda>t. if t = tc_TenantID tc then 1 else 0) s (incAuthenticated (tc_TenantID tc) s1)"
    "\<not> ok \<Longrightarrow> s1 = s" "sv_proxy (incAuthenticated (tc_TenantID tc) s1) = sv_proxy s"
    by (auto simp: tryAcquireTenantConn_def incAuthenticated_def counts_by_def SetGaugeTenant_def Let_def split: if_splits)
  have "(\<lambda>t. if t = tc_TenantID tc then 1 else 0) = (\<lambda>t. gain (cs\<lparr>cs_TenantCounted := True, cs_CountedTenantID := tc_TenantID tc\<rparr>) t - gain cs t)"
    using tc(3) by (auto simp: gain_def)
  with assms tc a s1 show ?thesis by (cases ok) (auto simp: count_conn_def)
next
  case False
  with assms have "cs' = cs" "s' = s" by (auto simp: count_conn_def split: option.splits if_splits)
  then show ?thesis by simp
qed

text \<open>The stages of \<open>handleMsg\<close>: what the deferred bookkeeping sees is the outcome of the limit check.\<close>

lemma handleMsg_parts:
  assumes "handleMsg C D env cs msg conn s = (res, cs', s')"
  obtains cs1 s1 r cs2 w where "(case busy_tenant cs of None \<Rightarrow> (cs, s) | Some tc \<Rightarrow> enter_busy tc cs s) = (cs1, s1)"
      "Handle D (ie_ctx env) cs1 msg (sv_proxy s1) = (r, cs2, w)"
      "(cs' = cs2 \<and> s' = s1\<lparr>sv_proxy := w\<rparr>) \<or> (\<exists>reply0 reply shut cs3 s3 p.
         count_conn C cs2 reply0 (s1\<lparr>sv_proxy := w\<rparr>) = (reply, shut, cs3, s3) \<and>
         ((cs' = cs3 \<and> s' = s3\<lparr>sv_reqID := wrap32 (sv_reqID s3 + 1)\<rparr>) \<or>
          leave_busy cs3 (s3\<lparr>sv_reqID := wrap32 (sv_reqID s3 + 1)\<rparr>) = (p, cs', s')))"
proof -
  obtain cs1 s1 where e: "(case busy_tenant cs of None \<Rightarrow> (cs, s) | Some tc \<Rightarrow> enter_busy tc cs s) = (cs1, s1)" by fastforce
  obtain r cs2 w where h: "Handle D (ie_ctx env) cs1 msg (sv_proxy s1) = (r, cs2, w)" by (metis prod_cases3)
  show thesis
  proof (cases r)
    case (Inl p)
    with assms e h show thesis by (intro that [OF e h]) (simp add: handleMsg_def)
  next
    case (Inr reply0)
    obtain reply shut cs3 s3 where c: "count_conn C cs2 reply0 (s1\<lparr>sv_proxy := w\<rparr>) = (reply, shut, cs3, s3)" by (metis prod_cases4)
    have "(cs' = cs3 \<and> s' = s3\<lparr>sv_reqID := wrap32 (sv_reqID s3 + 1)\<rparr>) \<or>
        (\<exists>p. leave_busy cs3 (s3\<lparr>sv_reqID := wrap32 (sv_reqID s3 + 1)\<rparr>) = (p, cs', s'))"
      using assms e h Inr c by (auto simp: handleMsg_def Let_def split: if_splits prod.splits option.splits)
    with c that [OF e h] show thesis by blast
  qed
qed

text \<open>A connection whose counted tenant and login are named.\<close>

definition conn_named :: "ConnState \<Rightarrow> bool" where
  "conn_named cs \<longleftrightarrow> (\<forall>tc. cs_Tenant cs = Some tc \<longrightarrow> tc_TenantID tc \<noteq> '''') \<and> (cs_TenantCounted cs \<longrightarrow> cs_CountedTenantID cs \<noteq> '''')"

lemma Handle_named:
  assumes "Handle D x cs msg w = (r, cs', w')" and "named (px_auth w)" and "conn_named cs"
  shows "named (px_auth w') \<and> conn_named cs' \<and> gain cs' = gain cs"
proof (cases "login_step D x cs w cs' w'")
  case True
  then obtain u p res where a: "Authenticate control_auth_reads (dp_bcrypt D) (cl_now x) u p (px_auth w) (px_store w) = (res, px_auth w')"
    "case res of Inl _ \<Rightarrow> cs_Tenant cs' = cs_Tenant cs \<and> cs_Authed cs' = cs_Authed cs | Inr tc \<Rightarrow> cs_Tenant cs' = Some tc \<and> cs_Authed cs'"
    unfolding login_step_def by blast
  from Authenticate_named [OF assms(2) a(1)] a(2) assms(3) Handle_step [OF assms(1)] show ?thesis
    by (cases res) (auto simp: conn_named_def conn_frame_def gain_def fun_eq_iff)
next
  case False
  with Handle_step [OF assms(1)] assms(2,3) show ?thesis
    by (auto simp: conn_named_def conn_frame_def gain_def fun_eq_iff split: if_splits)
qed

lemma count_conn_named: "count_conn C cs reply s = (reply', shut, cs', s') \<Longrightarrow> conn_named cs \<Longrightarrow> conn_named cs'"
  by (auto simp: count_conn_def conn_named_def split: option.splits if_splits prod.splits bool.splits)

lemma enter_busy_frame:
  assumes "(case busy_tenant cs of None \<Rightarrow> (cs, s) | Some tc \<Rightarrow> enter_busy tc cs s) = (cs1, s1)"
  shows "sv_proxy s1 = sv_proxy s" "gain cs1 = gain cs" "conn_named cs1 = conn_named cs" "cs_Key cs1 = cs_Key cs"
    "counts_by C d s1 s2 = counts_by C d s s2"
  using assms by (auto simp: enter_busy_def Let_def gain_def conn_named_def counts_by_def split: option.splits if_splits)

lemma leave_busy_frame:
  assumes "leave_busy cs s = (p, cs', s')"
  shows "sv_proxy s' = sv_proxy s" "gain cs' = gain cs" "conn_named cs' = conn_named cs" "cs_Key cs' = cs_Key cs"
    "counts_by C d s0 s' = counts_by C d s0 s"
  using assms by (auto simp: leave_busy_def Let_def gain_def conn_named_def counts_by_def split: option.splits if_splits)

lemma counts_by_frame [simp]:
  "counts_by C d (s\<lparr>sv_proxy := w\<rparr>) s' = counts_by C d s s'" "counts_by C d s (s'\<lparr>sv_proxy := w\<rparr>) = counts_by C d s s'"
  "counts_by C d s (s'\<lparr>sv_reqID := i\<rparr>) = counts_by C d s s'"
  by (simp_all add: counts_by_def)

lemma handleMsg_counts:
  assumes "handleMsg C D env cs msg conn s = (res, cs', s')" and "named (px_auth (sv_proxy s))" and "conn_named cs"
  shows "counts_by C (\<lambda>t. gain cs' t - gain cs t) s s' \<and> named (px_auth (sv_proxy s')) \<and> conn_named cs'"
  using assms(1)
proof (cases rule: handleMsg_parts)
  case (1 cs1 s1 r cs2 w)
  note e = enter_busy_frame [OF 1(1)]
  have h: "named (px_auth w) \<and> conn_named cs2 \<and> gain cs2 = gain cs"
    using Handle_named [OF 1(2)] assms(2,3) e by simp
  have s1: "counts_by C (\<lambda>_. 0) s1 (s1\<lparr>sv_proxy := w\<rparr>)" by simp
  from 1(3) show ?thesis
  proof (elim disjE exE conjE)
    assume "cs' = cs2" "s' = s1\<lparr>sv_proxy := w\<rparr>"
    moreover from h have "(\<lambda>t. gain cs2 t - gain cs t) = (\<lambda>_. 0)" by simp
    ultimately show ?thesis using h s1 by (simp only: e(5) [of C _ "s1\<lparr>sv_proxy := w\<rparr>", symmetric]) simp
  next
    fix reply0 reply shut cs3 s3 p
    assume c: "count_conn C cs2 reply0 (s1\<lparr>sv_proxy := w\<rparr>) = (reply, shut, cs3, s3)"
    note cc = count_conn_counts [OF c] count_conn_named [OF c]
    have c3: "counts_by C (\<lambda>t. gain cs3 t - gain cs t) s s3" using cc(1) h by (simp add: e(5) [symmetric])
    have n3: "named (px_auth (sv_proxy s3))" "conn_named cs3" using cc h by simp_all
    {
      assume "cs' = cs3" "s' = s3\<lparr>sv_reqID := wrap32 (sv_reqID s3 + 1)\<rparr>"
      with c3 n3 show ?thesis by simp
    next
      assume "leave_busy cs3 (s3\<lparr>sv_reqID := wrap32 (sv_reqID s3 + 1)\<rparr>) = (p, cs', s')"
      from leave_busy_frame [OF this] c3 n3 show ?thesis by simp
    }
  qed
qed

lemma cleanup_counts:
  assumes "conn_named cs" and "cs_TenantCounted cs \<Longrightarrow> 0 < gm_int (sv_authN s) (cs_CountedTenantID cs)"
    and "cs_TenantCounted cs \<Longrightarrow> 0 < sc_MaxConnsPerTenant C \<Longrightarrow> 0 < gm_int (sv_tenantN s) (cs_CountedTenantID cs)"
  shows "counts_by C (\<lambda>t. - gain cs t) s (cleanup_conn C D cs s) \<and> px_auth (sv_proxy (cleanup_conn C D cs s)) = px_auth (sv_proxy s)"
proof -
  let ?u = "cs_CountedTenantID cs"
  have dec: "counts_by C (\<lambda>t. - (if t = ?u then 1 else 0)) s2 (releaseTenantConn C ?u (decAuthenticated ?u s2)) \<and>
      sv_proxy (releaseTenantConn C ?u (decAuthenticated ?u s2)) = sv_proxy s2"
    if "?u \<noteq> ''''" "0 < gm_int (sv_authN s2) ?u" "0 < sc_MaxConnsPerTenant C \<Longrightarrow> 0 < gm_int (sv_tenantN s2) ?u" for s2 :: "('a, 'b) Server"
    using that by (auto simp: counts_by_def releaseTenantConn_def decAuthenticated_def SetGaugeTenant_def Let_def)
  have g: "cs_TenantCounted cs \<Longrightarrow> (\<lambda>t. - gain cs t) = (\<lambda>t. - (if t = ?u then 1 else 0))"
    "\<not> cs_TenantCounted cs \<Longrightarrow> (\<lambda>t. - gain cs t) = (\<lambda>_. 0)"
    by (auto simp: gain_def)
  have from_proxy: "counts_by C d (s\<lparr>sv_proxy := w\<rparr>) s' = counts_by C d s s'" for d w s' by simp
  show ?thesis
  proof (cases "cs_TenantCounted cs")
    case True
    then have u: "?u \<noteq> ''''" using assms(1) by (simp add: conn_named_def)
    obtain gone reg where c: "CleanupConnCursors (cs_Key cs) (px_cursors (sv_proxy s)) = (gone, reg)" by fastforce
    show ?thesis
      using dec [of "s\<lparr>sv_proxy := (close_cursors (dp_backend D) gone (sv_proxy s\<lparr>px_cursors := reg\<rparr>))\<lparr>px_cached :=
          map_option (CleanupConnCached (cs_Key cs)) (px_cached (close_cursors (dp_backend D) gone (sv_proxy s\<lparr>px_cursors := reg\<rparr>)))\<rparr>\<rparr>"]
        assms(2,3) True u c
      by (simp add: cleanup_conn_def Let_def g(1) from_proxy)
  next
    case False
    then show ?thesis by (auto simp: cleanup_conn_def Let_def g(2) split: prod.splits)
  qed
qed

lemma legacy_counts:
  assumes "handleLegacyQuery D x cs hdr r conn s = (res, cs', s')"
  shows "counts_by C (\<lambda>_. 0) s s' \<and> px_auth (sv_proxy s') = px_auth (sv_proxy s) \<and> conn_frame cs cs' \<and> cs_Tenant cs' = cs_Tenant cs"
proof -
  have l: "counts_by C (\<lambda>_. 0) s s1 \<and> px_auth (sv_proxy s1) = px_auth (sv_proxy s) \<and> conn_frame cs cs1 \<and> cs_Tenant cs1 = cs_Tenant cs"
    if "legacy_reply D x cs q s = (rep, cs1, s1)" for q rep cs1 s1
    using that by (auto simp: legacy_reply_def HandleHelloOnly_def dest!: hello_step split: if_splits prod.splits)
  show ?thesis
    using assms by (auto simp: handleLegacyQuery_def dest: l split: sum.splits prod.splits)
qed

lemma reject_counts:
  "reject_opcode L hdr r conn s = (res, s') \<Longrightarrow> counts_by C (\<lambda>_. 0) s s' \<and> sv_proxy s' = sv_proxy s"
  by (auto simp: reject_opcode_def writeErrorMsg_def Let_def split: sum.splits prod.splits)

section \<open>All interleavings\<close>

text \<open>
  The connections a server has open, by a number each.  A step is one connection being accepted,
  having one frame handled, or ending, or the pruning tick; any connection may move next.  The
  counts are guarded by one mutex in the code, so a message is one step.
\<close>

type_synonym ('m, 'b) sys = "('m, 'b) Server \<times> (nat \<Rightarrow> ConnState option)"

inductive srv_step :: "server_config \<Rightarrow> ('m, 'b) Deps \<Rightarrow> ('m, 'b) sys \<Rightarrow> ('m, 'b) sys \<Rightarrow> bool" for C D where
  accept: "conns k = None \<Longrightarrow> \<not> sv_draining s \<Longrightarrow> open_conn C remote (trackConn k True s) = (cs, s')
    \<Longrightarrow> srv_step C D (s, conns) (s', conns(k \<mapsto> cs))"
| message: "conns k = Some cs \<Longrightarrow> handleMsg C D env cs msg out s = (Inr res, cs', s')
    \<Longrightarrow> srv_step C D (s, conns) (s', conns(k \<mapsto> cs'))"
| legacy: "conns k = Some cs \<Longrightarrow> handleLegacyQuery D x cs hdr r out s = (lres, cs', s')
    \<Longrightarrow> srv_step C D (s, conns) (s', conns(k \<mapsto> cs'))"
| reject: "conns k = Some cs \<Longrightarrow> reject_opcode (dp_bson D) hdr r out s = (rres, s') \<Longrightarrow> srv_step C D (s, conns) (s', conns)"
| leave: "conns k = Some cs \<Longrightarrow> srv_step C D (s, conns) (trackConn k False (cleanup_conn C D cs s), conns(k := None))"
| prune: "srv_step C D (s, conns) (prune_tick D now s, conns)"
| stop: "srv_step C D (s, conns) (snd (CloseServer s), conns)"

inductive reachable :: "server_config \<Rightarrow> ('m, 'b) Deps \<Rightarrow> ('m, 'b) Proxy \<Rightarrow> ('m, 'b) sys \<Rightarrow> bool" for C D w where
  start: "reachable C D w (NewServer w, \<lambda>_. None)"
| step: "reachable C D w q \<Longrightarrow> srv_step C D q q' \<Longrightarrow> reachable C D w q'"

definition conn_total :: "(nat \<Rightarrow> ConnState option) \<Rightarrow> bytes \<Rightarrow> int" where
  "conn_total conns t = (\<Sum>k \<in> dom conns. gain (the (conns k)) t)"

lemma total_put:
  assumes "finite (dom conns)"
  shows "conn_total (conns(k \<mapsto> cs)) t = conn_total conns t + gain cs t - (case conns k of None \<Rightarrow> 0 | Some c \<Rightarrow> gain c t)"
proof -
  have "conn_total (conns(k \<mapsto> cs)) t = gain cs t + (\<Sum>j \<in> dom conns - {k}. gain (the (conns j)) t)"
    using assms by (simp add: conn_total_def sum.insert_remove)
  moreover have "conn_total conns t = (case conns k of None \<Rightarrow> 0 | Some c \<Rightarrow> gain c t) + (\<Sum>j \<in> dom conns - {k}. gain (the (conns j)) t)"
  proof (cases "conns k")
    case (Some c)
    then have "k \<in> dom conns" by auto
    from sum.remove [OF assms this, of "\<lambda>j. gain (the (conns j)) t"] Some show ?thesis by (simp add: conn_total_def)
  qed (simp add: conn_total_def domIff)
  ultimately show ?thesis by simp
qed

lemma total_drop:
  assumes "finite (dom conns)" and "conns k = Some c"
  shows "conn_total (conns(k := None)) t = conn_total conns t - gain c t"
  using assms sum.remove [of "dom conns" k "\<lambda>j. gain (the (conns j)) t"] by (simp add: conn_total_def domIff)

lemma total_card:
  assumes "finite (dom conns)"
  shows "conn_total conns t = int (card {k. \<exists>cs. conns k = Some cs \<and> cs_TenantCounted cs \<and> cs_CountedTenantID cs = t})"
proof -
  have "{k. \<exists>cs. conns k = Some cs \<and> cs_TenantCounted cs \<and> cs_CountedTenantID cs = t}
      = {k \<in> dom conns. cs_TenantCounted (the (conns k)) \<and> cs_CountedTenantID (the (conns k)) = t}"
    by (auto simp: dom_def)
  with assms show ?thesis by (simp add: conn_total_def gain_def flip: sum.inter_filter)
qed

definition srv_inv :: "server_config \<Rightarrow> ('m, 'b) sys \<Rightarrow> bool" where
  "srv_inv C q \<longleftrightarrow> (case q of (s, conns) \<Rightarrow> finite (dom conns) \<and> named (px_auth (sv_proxy s)) \<and>
     (\<forall>k cs. conns k = Some cs \<longrightarrow> conn_named cs) \<and>
     (\<forall>t. t \<noteq> '''' \<longrightarrow> gm_int (sv_authN s) t = conn_total conns t \<and> gm_int (sv_authGauge s) t = conn_total conns t) \<and>
     (0 < sc_MaxConnsPerTenant C \<longrightarrow> (\<forall>t. gm_int (sv_tenantN s) t = conn_total conns t \<and> conn_total conns t \<le> sc_MaxConnsPerTenant C)))"

lemma total_nonneg: "0 \<le> conn_total conns t"
  by (simp add: conn_total_def gain_def sum_nonneg)

text \<open>A step that moves the counts by as much as the connections move keeps the invariant.\<close>

lemma srv_inv_by:
  assumes "srv_inv C (s, conns)" and "counts_by C d s s'" and "\<And>t. conn_total conns' t = conn_total conns t + d t"
    and "finite (dom conns')" and "named (px_auth (sv_proxy s'))" and "\<And>k cs. conns' k = Some cs \<Longrightarrow> conn_named cs"
  shows "srv_inv C (s', conns')"
proof -
  have n: "0 \<le> conn_total conns t + d t" for t using total_nonneg [of conns' t] assms(3) by simp
  have a: "gm_int (sv_authN s') t = conn_total conns t + d t" "gm_int (sv_authGauge s') t = conn_total conns t + d t" if "t \<noteq> ''''" for t
  proof -
    show "gm_int (sv_authN s') t = conn_total conns t + d t" using assms(1,2) that by (simp add: srv_inv_def counts_by_def)
    with assms(1,2) that n show "gm_int (sv_authGauge s') t = conn_total conns t + d t" by (simp add: srv_inv_def counts_by_def)
  qed
  have b: "gm_int (sv_tenantN s') t = conn_total conns t + d t" "conn_total conns t + d t \<le> sc_MaxConnsPerTenant C"
    if "0 < sc_MaxConnsPerTenant C" for t
  proof -
    show "gm_int (sv_tenantN s') t = conn_total conns t + d t" using assms(1,2) that by (simp add: srv_inv_def counts_by_def)
    moreover have "gm_int (sv_tenantN s) t \<le> sc_MaxConnsPerTenant C" using assms(1) that by (simp add: srv_inv_def)
    with assms(2) that have "gm_int (sv_tenantN s') t \<le> sc_MaxConnsPerTenant C" unfolding counts_by_def by blast
    ultimately show "conn_total conns t + d t \<le> sc_MaxConnsPerTenant C" by simp
  qed
  show ?thesis unfolding srv_inv_def using assms(3-6) a b by simp
qed

lemma srv_step_inv:
  assumes "srv_step C D q q'" and "srv_inv C q"
  shows "srv_inv C q'"
  using assms
proof (induction rule: srv_step.induct)
  case (accept conns k s remote cs s')
  have f: "gain cs = (\<lambda>_. 0)" "conn_named cs" "counts_by C (\<lambda>_. 0) s s'" "sv_proxy s' = sv_proxy s"
    using accept by (auto simp: open_conn_def trackConn_def Let_def gain_def conn_named_def)
  show ?case
    by (rule srv_inv_by [OF accept.prems f(3)])
      (use accept.prems accept.hyps(1) f in \<open>auto simp: total_put srv_inv_def split: if_splits\<close>)
next
  case (message conns k cs env msg out s res cs' s')
  have inv: "named (px_auth (sv_proxy s))" "conn_named cs" using message by (auto simp: srv_inv_def)
  note h = handleMsg_counts [OF message.hyps(2) inv]
  show ?case
    by (rule srv_inv_by [OF message.prems conjunct1 [OF h]])
      (use message.prems message.hyps(1) h in \<open>auto simp: total_put srv_inv_def split: if_splits\<close>)
next
  case (legacy conns k cs x hdr r out s lres cs' s')
  note l = legacy_counts [OF legacy.hyps(2), of C]
  have g: "gain cs' = gain cs" "conn_named cs'"
    using l legacy by (auto simp: conn_frame_def gain_def conn_named_def srv_inv_def fun_eq_iff)
  show ?case
    by (rule srv_inv_by [OF legacy.prems conjunct1 [OF l]])
      (use legacy.prems legacy.hyps(1) l g in \<open>auto simp: total_put srv_inv_def split: if_splits\<close>)
next
  case (reject conns k cs hdr r out s rres s')
  from reject_counts [OF reject.hyps(2), of C] reject.prems show ?case
    by (intro srv_inv_by [OF reject.prems]) (auto simp: srv_inv_def)
next
  case (leave conns k cs s)
  have named: "conn_named cs" using leave by (auto simp: srv_inv_def)
  have fin: "finite (dom conns)" using leave.prems by (simp add: srv_inv_def)
  have pos: "1 \<le> conn_total conns (cs_CountedTenantID cs)" if "cs_TenantCounted cs"
    using total_drop [OF fin leave.hyps, of "cs_CountedTenantID cs"] total_nonneg [of "conns(k := None)" "cs_CountedTenantID cs"] that
    by (simp add: gain_def)
  have c: "counts_by C (\<lambda>t. - gain cs t) s (cleanup_conn C D cs s) \<and> px_auth (sv_proxy (cleanup_conn C D cs s)) = px_auth (sv_proxy s)"
    by (rule cleanup_counts [OF named]) (use leave.prems pos named in \<open>force simp: srv_inv_def conn_named_def\<close>)+
  have t: "counts_by C d s (trackConn k False s') = counts_by C d s s'" "sv_proxy (trackConn k False s') = sv_proxy s'" for d s'
    by (simp_all add: trackConn_def counts_by_def)
  show ?case
    by (rule srv_inv_by [OF leave.prems, of "\<lambda>t. - gain cs t"])
      (use leave.prems c t total_drop [OF fin leave.hyps] in \<open>auto simp: srv_inv_def split: if_splits\<close>)
next
  case (prune s conns now)
  have "px_auth (sv_proxy (prune_tick D now s)) = px_auth (sv_proxy s) \<and> counts_by C (\<lambda>_. 0) s (prune_tick D now s)"
    by (auto simp: prune_tick_def Let_def split: prod.split option.split)
  with prune show ?case by (intro srv_inv_by [OF prune]) (auto simp: srv_inv_def)
next
  case (stop s conns)
  have "px_auth (sv_proxy (snd (CloseServer s))) = px_auth (sv_proxy s) \<and> counts_by C (\<lambda>_. 0) s (snd (CloseServer s))"
    by (auto simp: CloseServer_def)
  with stop show ?case by (intro srv_inv_by [OF stop]) (auto simp: srv_inv_def)
qed

lemma reachable_inv:
  assumes "reachable C D w q" and "named (px_auth w)"
  shows "srv_inv C q"
  using assms(1)
proof induction
  case start
  with assms(2) show ?case by (simp add: srv_inv_def NewServer_def conn_total_def gain_def)
next
  case (step q q')
  then show ?case by (blast intro: srv_step_inv)
qed



text \<open>A server with a limit of one connection per tenant, on which a client logs in as \<open>acme\<close>.\<close>

definition login_body :: bytes where
  "login_body = [CHR 0x00] @ ''acme'' @ [CHR 0x00] @ ''pw''"

definition login_table :: bson_lib where
  "login_table = table_lib [(''s'', [(''saslStart'', RInt32 1), (''mechanism'', RString ''PLAIN''), (''payload'', RBinary 0 login_body)], []),
     (''l'', [(''logout'', RInt32 1)], [])]"

definition login_proxy :: "(MemoryStore, mcursor \<Rightarrow> doc list) Proxy" where
  "login_proxy = (demo_proxy NewMemoryStore)\<lparr>px_store := demo_store\<rparr>"

definition login_env :: io_env where
  "login_env = \<lparr>ie_ctx = \<lparr>cl_now = 5, cl_shared = None\<rparr>, ie_readDeadline = True, ie_writeDeadline = True\<rparr>"

definition login_config :: server_config where
  "login_config = \<lparr>sc_MaxConnsPerTenant = 1, sc_AllowUnauthenticated = False\<rparr>"

abbreviation "login_D \<equiv> demo_deps [] login_table None"

lemma login_classify: "\<exists>info. Classify login_table ''s'' = Inr info \<and> Name info = ''saslStart''"
  "\<exists>info. Classify login_table ''l'' = Inr info \<and> Name info = ''logout''"
  by (simp_all add: Classify_def CommandName_def login_table_def table_lib_def isMetaCommandKey_def Let_def)

lemma login_handled:
  assumes "cs_Authed cs = False" and "cs_AllowUnauth cs = False" and "cs_Tenant cs = None"
  shows "\<exists>reply w. Handle login_D (ie_ctx login_env) cs (demo_msg ''s'') login_proxy = (Inr reply, cs\<lparr>cs_Tenant := Some demo_tc, cs_Authed := True\<rparr>, w)
    \<and> tables_ok w"
proof -
  have ok: "tables_ok (emit ms' (emit ms (login_proxy\<lparr>px_auth := v\<rparr>)))" for ms ms' v
    by (simp add: tables_ok_def emit_def login_proxy_def demo_proxy_def NewCursorStore_invar NewRegistry_def rg_lookup_def)
  obtain info where i: "Classify login_table ''s'' = Inr info" "Name info = ''saslStart''" using login_classify by blast
  have l: "to_lower ''saslStart'' = ''saslstart''" "IsPreAuthAllowed ''saslStart''" "equal_fold ''PLAIN'' ''PLAIN''" by code_simp+
  have p: "extractPayload login_table ''s'' = Some login_body" "LookupString login_table ''s'' ''mechanism'' = ''PLAIN''"
    by (simp_all add: extractPayload_def login_table_def table_lib_def BinaryOK_def LookupString_def StringValueOK_def)
  have "ParsePLAINPayload login_body = Inr (''acme'', ''pw'')"
    unfolding login_body_def by (simp add: ParsePLAINPayload_def)
  then have "\<exists>d ms v. handleSaslStart login_D (ie_ctx login_env) cs ''s'' login_proxy = (d, cs\<lparr>cs_Tenant := Some demo_tc, cs_Authed := True\<rparr>,
      emit ms (login_proxy\<lparr>px_auth := v\<rparr>))"
    using demo_login [of "\<lambda>h p. False"] p l(3)
    by (auto simp: handleSaslStart_def demo_deps_def login_env_def login_proxy_def demo_proxy_def login_body_def)
  then obtain d ms v where "handleSaslStart login_D (ie_ctx login_env) cs ''s'' login_proxy = (d, cs\<lparr>cs_Tenant := Some demo_tc, cs_Authed := True\<rparr>,
      emit ms (login_proxy\<lparr>px_auth := v\<rparr>))" by blast
  then show ?thesis
    using i l(1,2) assms ok by (auto simp: Handle_def dispatch_def Let_def demo_deps_def demo_msg_def simp del: to_lower.simps split: prod.splits)
qed

definition login_open :: "ConnState \<times> (MemoryStore, mcursor \<Rightarrow> doc list) Server" where
  "login_open = open_conn login_config ''r'' (trackConn 0 True (NewServer login_proxy))"

lemma login_open_facts: "cs_Authed (fst login_open) = False" "cs_AllowUnauth (fst login_open) = False" "cs_Tenant (fst login_open) = None"
  "cs_TenantCounted (fst login_open) = False" "cs_InFlight (fst login_open) = 0"
  "sv_proxy (snd login_open) = login_proxy" "sv_tenantN (snd login_open) = []" "sv_authN (snd login_open) = []"
  by (simp_all add: login_open_def open_conn_def login_config_def Let_def trackConn_def NewServer_def)

lemma login_counted: "\<exists>res cs' s'. handleMsg login_config login_D login_env (fst login_open) (demo_msg ''s'') \<lparr>w_out = [], w_quota = 9\<rparr> (snd login_open)
    = (Inr res, cs', s') \<and> cs_TenantCounted cs' \<and> cs_CountedTenantID cs' = ''acme'' \<and> busy_tenant cs' = Some demo_tc \<and> cs_InFlight cs' = 0
    \<and> tables_ok (sv_proxy s')"
proof -
  obtain c0 s0 where o0: "login_open = (c0, s0)" by fastforce
  note f = login_open_facts [unfolded o0 fst_conv snd_conv]
  let ?cs = "c0\<lparr>cs_Tenant := Some demo_tc, cs_Authed := True\<rparr>"
  obtain reply w where h: "Handle login_D (ie_ctx login_env) c0 (demo_msg ''s'') login_proxy = (Inr reply, ?cs, w)" "tables_ok w"
    using login_handled [of c0] f by blast
  have b: "busy_tenant c0 = None" by (simp add: busy_tenant_def f)
  obtain s3 where c: "count_conn login_config ?cs reply (s0\<lparr>sv_proxy := w\<rparr>)
      = (reply, False, ?cs\<lparr>cs_TenantCounted := True, cs_CountedTenantID := ''acme''\<rparr>, s3)" "sv_proxy s3 = w"
    by (simp add: count_conn_def f tryAcquireTenantConn_def login_config_def demo_tc_def incAuthenticated_def Let_def)
  have "\<exists>out. handleMsg login_config login_D login_env c0 (demo_msg ''s'') \<lparr>w_out = [], w_quota = 9\<rparr> s0
      = (Inr (False, out), ?cs\<lparr>cs_TenantCounted := True, cs_CountedTenantID := ''acme''\<rparr>, s3\<lparr>sv_reqID := wrap32 (sv_reqID s3 + 1)\<rparr>)"
    using h b c by (simp add: handleMsg_def Let_def f)
  moreover have "busy_tenant (?cs\<lparr>cs_TenantCounted := True, cs_CountedTenantID := ''acme''\<rparr>) = Some demo_tc" by (simp add: busy_tenant_def)
  ultimately show ?thesis using c h unfolding o0 fst_conv snd_conv by (elim exE) (rule exI conjI | assumption | simp add: f)+
qed


lemma handleMsg_panics_iff_logout_witness:
  "\<exists>cs s. busy_tenant cs = Some demo_tc \<and>
    (\<exists>p. fst (handleMsg login_config login_D login_env cs (demo_msg ''l'') \<lparr>w_out = [], w_quota = 9\<rparr> s) = Inl p)"
proof -
  obtain cs' s' where m: "busy_tenant cs' = Some demo_tc" "cs_InFlight cs' = 0" "tables_ok (sv_proxy (s' :: (MemoryStore, mcursor \<Rightarrow> doc list) Server))"
    using login_counted by blast
  have l: "to_lower ''logout'' = ''logout''" by code_simp
  have "is_logout (dp_bson login_D) (demo_msg ''l'')"
    using login_classify(2) l by (auto simp: is_logout_def demo_deps_def demo_msg_def)
  with handleMsg_panics_iff_logout [OF m(3,2), of login_config login_D login_env "demo_msg ''l''" "\<lparr>w_out = [], w_quota = 9\<rparr>"] m(1)
  show ?thesis by blast
qed



lemma IndexByte_None: "IndexByte xs c = None \<longleftrightarrow> c \<notin> set xs"
  by (induction xs) auto

section \<open>Legacy queries\<close>

lemma query_doc_cases:
  assumes "length flags = 4" and "CHR 0x00 \<notin> set cname"
  shows "query_doc (flags @ cname @ CHR 0x00 # tail) =
    (if length tail < 12 then Inl UnexpectedEOF
     else let qlen = nat (le_u32 (take 4 (drop 8 tail))) in
       if length tail < 8 + qlen then Inl UnexpectedEOF else Inr (take qlen (drop 8 tail)))"
proof -
  have i: "IndexByte (drop 4 (flags @ cname @ CHR 0x00 # tail)) (CHR 0x00) = Some (length cname)"
    using assms by (simp add: IndexByte_append)
  have d: "drop (4 + length cname + 1 + n) (flags @ cname @ CHR 0x00 # tail) = drop n tail" for n
    using assms(1) by simp
  show ?thesis
    using assms(1) i d [of 8] by (auto simp: query_doc_def go_slice_def Let_def)
qed

lemma query_doc_split:
  "query_doc body = Inl UnexpectedEOF \<or>
   (\<exists>flags cname tail. body = flags @ cname @ CHR 0x00 # tail \<and> length flags = 4 \<and> CHR 0x00 \<notin> set cname)"
proof (cases "length body < 4 \<or> IndexByte (drop 4 body) (CHR 0x00) = None")
  case True
  then show ?thesis by (auto simp: query_doc_def)
next
  case False
  then have "CHR 0x00 \<in> set (drop 4 body)" by (simp add: IndexByte_None)
  then obtain cname tail where t: "drop 4 body = cname @ CHR 0x00 # tail" "CHR 0x00 \<notin> set cname"
    by (blast dest: split_list_first)
  then have "body = take 4 body @ cname @ CHR 0x00 # tail" by (metis append_take_drop_id)
  with False t(2) show ?thesis by (intro disjI2) (rule exI [of _ "take 4 body"], auto)
qed

text \<open>A legacy query is read exactly by its layout: four bytes of flags, a name ended by a zero byte, eight
  bytes, and a document whose first four bytes give its length, with anything after it ignored.  Every
  other body, however short or long the lengths in it claim to be, is refused as truncated; none
  indexes out of range.\<close>

theorem legacy_query_layout:
  "(query_doc body = Inr q \<longleftrightarrow> (\<exists>flags cname skip rest. body = flags @ cname @ CHR 0x00 # skip @ q @ rest \<and>
      length flags = 4 \<and> CHR 0x00 \<notin> set cname \<and> length skip = 8 \<and> 4 \<le> length (q @ rest) \<and>
      nat (le_u32 (take 4 (q @ rest))) = length q)) \<and>
   query_doc body \<in> insert (Inl UnexpectedEOF) (range Inr)"
  (is "(?l \<longleftrightarrow> ?r) \<and> ?s")
proof (intro conjI iffI)
  assume ?r
  then obtain flags cname skip rest where b: "body = flags @ cname @ CHR 0x00 # skip @ q @ rest"
      "length flags = 4" "CHR 0x00 \<notin> set cname" "length skip = 8" "4 \<le> length (q @ rest)"
      "nat (le_u32 (take 4 (q @ rest))) = length q" by blast
  from query_doc_cases [OF b(2,3), of "skip @ q @ rest"] b show ?l by (simp add: Let_def)
next
  assume l: ?l
  then obtain flags cname tail where b: "body = flags @ cname @ CHR 0x00 # tail" "length flags = 4" "CHR 0x00 \<notin> set cname"
    using query_doc_split [of body] by auto
  let ?n = "nat (le_u32 (take 4 (drop 8 tail)))"
  from l query_doc_cases [OF b(2,3), of tail] have t: "12 \<le> length tail" "8 + ?n \<le> length tail" "q = take ?n (drop 8 tail)"
    by (auto simp: b(1) Let_def split: if_splits)
  have q: "q @ drop ?n (drop 8 tail) = drop 8 tail" unfolding t(3) by (rule append_take_drop_id)
  then have "tail = take 8 tail @ q @ drop ?n (drop 8 tail)" by simp
  then have e: "body = flags @ cname @ CHR 0x00 # take 8 tail @ q @ drop ?n (drop 8 tail)" using b(1) by simp
  have "length (take 8 tail) = 8" "4 \<le> length (q @ drop ?n (drop 8 tail))" "nat (le_u32 (take 4 (q @ drop ?n (drop 8 tail)))) = length q"
    unfolding q using t by simp_all
  with e b(2,3) show ?r by blast
next
  show ?s
  proof (cases "query_doc body = Inl UnexpectedEOF")
    case False
    then obtain flags cname tail where b: "body = flags @ cname @ CHR 0x00 # tail" "length flags = 4" "CHR 0x00 \<notin> set cname"
      using query_doc_split [of body] by auto
    from query_doc_cases [OF b(2,3), of tail] show ?thesis by (simp add: b(1) Let_def)
  qed simp
qed

end
