(* ===== verification/Server_Ends.thy ===== *)
theory Server_Ends
  imports Server_Props
begin

text \<open>
  The loop of a connection ends: each turn reads a header, so the number of turns is bounded by
  the bytes the client has sent.
\<close>

text \<open>The states a connection passes through: \<open>conn_turns \<dots> n c m c'\<close> when the turns \<open>n\<close>, \<dots>, \<open>m - 1\<close> lead
  from \<open>c\<close> to \<open>c'\<close> and each of them goes on.\<close>

inductive conn_turns ::
  "server_config \<Rightarrow> ('m, 'b) Deps \<Rightarrow> (nat \<Rightarrow> io_env) \<Rightarrow> nat \<Rightarrow> ConnState \<times> bytes \<times> writer \<times> ('m, 'b) Server
     \<Rightarrow> nat \<Rightarrow> ConnState \<times> bytes \<times> writer \<times> ('m, 'b) Server \<Rightarrow> bool" for C D env where
  turns_none: "conn_turns C D env n c n c"
| turns_more: "serve_turn C D (env n) cs r conn s = (Inr (Some (r', conn')), cs', s') \<Longrightarrow>
    conn_turns C D env (Suc n) (cs', r', conn', s') m c \<Longrightarrow> conn_turns C D env n (cs, r, conn, s) m c"

text \<open>How a connection is left after its last turn.\<close>

fun last_turn :: "(panic + (bytes \<times> writer) option) \<times> ConnState \<times> ('m, 'b) Server \<Rightarrow> (panic option \<times> ConnState \<times> ('m, 'b) Server) option" where
  "last_turn (Inl p, cs, s) = Some (Some p, cs, s)"
| "last_turn (Inr None, cs, s) = Some (None, cs, s)"
| "last_turn (Inr (Some _), cs, s) = None"

lemma conn_turns_take:
  "conn_turns C D env n (cs, r, conn, s) m (cs', r', conn', s') \<Longrightarrow> n \<le> m \<and> length r' + 16 * (m - n) \<le> length r"
proof (induction n "(cs, r, conn, s)" m "(cs', r', conn', s')" arbitrary: cs r conn s rule: conn_turns.induct)
  case (turns_more n cs r conn s r1 conn1 cs1 s1 m)
  from serve_turn_takes [OF turns_more(1)] turns_more(3) show ?case
    by (auto simp: Suc_diff_le)
qed simp

lemma serve_loop_ends:
  "\<exists>m cs' r' conn' s'. conn_turns C D env n (cs, r, conn, s) m (cs', r', conn', s') \<and>
     last_turn (serve_turn C D (env m) cs' r' conn' s') = Some (serve_loop C D env n cs r conn s)"
proof (induction r arbitrary: n cs conn s rule: length_induct)
  case (1 r)
  obtain q cs1 s1 where t: "serve_turn C D (env n) cs r conn s = (q, cs1, s1)" by (metis prod_cases3)
  show ?case
  proof (cases "\<exists>r1 conn1. q = Inr (Some (r1, conn1))")
    case True
    then obtain r1 conn1 where q: "q = Inr (Some (r1, conn1))" by blast
    have "length r1 < length r" using serve_turn_shorter [of C D "env n" cs r conn s] t q by simp
    with 1 obtain m cs' r' conn' s' where
      "conn_turns C D env (Suc n) (cs1, r1, conn1, s1) m (cs', r', conn', s')"
      "last_turn (serve_turn C D (env m) cs' r' conn' s') = Some (serve_loop C D env (Suc n) cs1 r1 conn1 s1)"
      by blast
    moreover have "serve_loop C D env n cs r conn s = serve_loop C D env (Suc n) cs1 r1 conn1 s1"
      by (subst serve_loop.simps) (simp add: t q)
    ultimately show ?thesis using turns_more [of C D env n cs r conn s r1 conn1 cs1 s1] t q by metis
  next
    case False
    hence "last_turn (q, cs1, s1) = Some (serve_loop C D env n cs r conn s)"
      by (subst serve_loop.simps) (auto simp: t split: sum.split option.split)
    with t turns_none show ?thesis by metis
  qed
qed

text \<open>C17. The loop of a connection ends, whatever the client sends and whatever the proxy answers: after at most one
  turn for every 16 bytes received there is a turn that does not go on, and what the loop returns is how that turn
  leaves the connection.\<close>

theorem connection_loop_ends:
  "\<exists>m cs' r' conn' s'. 16 * m \<le> length r \<and> conn_turns C D env 0 (cs, r, conn, s) m (cs', r', conn', s') \<and>
     last_turn (serve_turn C D (env m) cs' r' conn' s') = Some (serve_loop C D env 0 cs r conn s)"
proof -
  obtain m cs' r' conn' s' where t: "conn_turns C D env 0 (cs, r, conn, s) m (cs', r', conn', s')"
    and l: "last_turn (serve_turn C D (env m) cs' r' conn' s') = Some (serve_loop C D env 0 cs r conn s)"
    using serve_loop_ends by blast
  from conn_turns_take [OF t] have "16 * m \<le> length r" by simp
  with t l show ?thesis by blast
qed

end
