(* ===== verification/Cache_History.thy ===== *)
theory Cache_History
  imports Coordinator
begin

text \<open>
  The abstract specification of the result cache: what a lookup returns is a function of the
  history of stores and invalidations alone.  Every store that keeps the contract of
  \<open>Cache_Store\<close> refines it.
\<close>

text \<open>The specification keeps the values that are live at time \<open>T\<close>, without expiry times and registries.\<close>

fun history_step :: "(bytes \<Rightarrow> bytes) \<Rightarrow> time \<Rightarrow> cache_op \<Rightarrow> (bytes \<Rightarrow> bytes option) \<Rightarrow> bytes \<Rightarrow> bytes option" where
  "history_step own T (OpSet now t c db coll k v ttl) f =
     (if v = '''' then f else f(k := if 0 < ttl \<and> now + ttl < T then None else Some v))"
| "history_step own T (OpInvalidate t c db coll) f = (\<lambda>k. if own k = registryKey t c db coll then None else f k)"
| "history_step own T (OpGet now k) f = f"

definition live_values :: "(bytes \<Rightarrow> bytes) \<Rightarrow> time \<Rightarrow> cache_op list \<Rightarrow> bytes \<Rightarrow> bytes option" where
  "live_values own T ops = fold (history_step own T) ops (\<lambda>k. None)"

context result_store
begin

lemma step_refines:
  assumes "registered own T s" and "members_own own s" and "owned own op" and "op_time_le T op"
  shows "view T (cache_step S op s) = history_step own T op (view T s)"
proof (cases op)
  case (OpSet now t c db coll k v ttl)
  show ?thesis
  proof (cases "v = ''''")
    case False
    with OpSet assms show ?thesis by (simp add: set_then_view registered_def)
  qed (use OpSet in \<open>simp add: BestEffortSet_def\<close>)
next
  case (OpInvalidate t c db coll)
  have "k \<in> members s (registryKey t c db coll) \<longleftrightarrow> own k = registryKey t c db coll" if "view T s k \<noteq> None" for k
    using assms(1,2) that by (force simp: registered_def members_own_def)
  hence "(if k \<in> members s (registryKey t c db coll) then None else view T s k) =
      (if own k = registryKey t c db coll then None else view T s k)" for k
    by (cases "view T s k = None") simp_all
  with OpInvalidate assms(1) show ?thesis
    by (simp add: BestEffortInvalidate_def inval_view registered_def fun_eq_iff)
next
  case (OpGet now k)
  with assms show ?thesis by (simp add: registered_def get_view)
qed

lemma run_refines:
  "registered own T s \<Longrightarrow> members_own own s \<Longrightarrow> list_all (owned own) ops \<Longrightarrow> list_all (op_time_le T) ops \<Longrightarrow>
   view T (cache_run S ops s) = fold (history_step own T) ops (view T s)"
proof (induction ops arbitrary: s)
  case (Cons op ops)
  hence "registered own T (cache_step S op s)" "members_own own (cache_step S op s)"
    "view T (cache_step S op s) = history_step own T op (view T s)"
    by (simp_all add: step_registered step_members step_refines)
  with Cons show ?case by (simp add: cache_run_def)
qed (simp add: cache_run_def)

lemma lookup_refines:
  assumes "invar s" and "view T s = (\<lambda>k. None)" and "\<And>rk. members s rk = {}"
    and "list_all (owned own) ops" and "list_all (op_time_le T) ops"
  shows "fst (GetKey S T k (cache_run S ops s)) = (case live_values own T ops k of None \<Rightarrow> Inl ErrMiss | Some v \<Rightarrow> Inr v)"
proof -
  have r: "registered own T s" and m: "members_own own s"
    using assms by (simp_all add: registered_def members_own_def)
  have "invar (cache_run S ops s)" using run_members [OF m assms(4)] by (simp add: members_own_def)
  with run_refines [OF r m assms(4,5)] assms(2) show ?thesis by (simp add: get live_values_def)
qed

end

text \<open>C18. The in-memory result store refines its specification: after any history of reads, writes and invalidations
  through the coordinator, in which a key is only ever stored under the namespace that owns it, a lookup returns the
  value of the latest store of the key that has neither expired nor been followed by an invalidation of its namespace,
  and misses when there is none.\<close>

theorem MemoryStore_refines_history:
  assumes "list_all (owned own) ops" and "list_all (op_time_le T) ops"
  shows "fst (MemGet T k (cache_run memory_store ops NewMemoryStore)) =
    (case live_values own T ops k of None \<Rightarrow> Inl ErrMiss | Some v \<Rightarrow> Inr v)"
  using mem.lookup_refines [of NewMemoryStore T own ops k] assms mem_empty by (simp add: memory_store_def fun_eq_iff)

theorem MemoryStore_refines_history_witness:
  "fst (MemGet 20 ''k1'' (cache_run memory_store [OpSet 5 ''t1'' ''c'' ''db'' ''orders'' ''k1'' ''v1'' 100,
      OpSet 6 ''t2'' ''c'' ''db'' ''orders'' ''k2'' ''v2'' 0, OpInvalidate ''t2'' ''c'' ''db'' ''orders'',
      OpSet 7 ''t1'' ''c'' ''db'' ''orders'' ''k1'' ''v3'' 13, OpGet 9 ''k2''] NewMemoryStore)) = Inr ''v3''"
proof -
  have o: "list_all (owned own_example) [OpSet 5 ''t1'' ''c'' ''db'' ''orders'' ''k1'' ''v1'' 100,
      OpSet 6 ''t2'' ''c'' ''db'' ''orders'' ''k2'' ''v2'' 0, OpInvalidate ''t2'' ''c'' ''db'' ''orders'',
      OpSet 7 ''t1'' ''c'' ''db'' ''orders'' ''k1'' ''v3'' 13, OpGet 9 ''k2'']"
    by (simp add: own_example_def)
  have d: "registryKey ''t1'' ''c'' ''db'' ''orders'' \<noteq> registryKey ''t2'' ''c'' ''db'' ''orders''"
    by (simp add: registryKey_def)
  from d show ?thesis
    by (subst MemoryStore_refines_history [OF o]) (simp_all add: live_values_def own_example_def)
qed

end
