(* ===== verification/Tenant_Service.thy ===== *)
theory Tenant_Service
  imports Control_Store Crypto Cache_Store Proxy_Auth
begin

text \<open>
  \<open>internal/controlplane/service/service.go\<close> and \<open>cache_adapter.go\<close>: tenants, connections,
  cache policies and proxy tokens, on the in-memory store of \<open>Control_Store\<close>.  What a call
  reads from outside is the record \<open>call_env\<close>: one clock value, and for its i-th read of
  \<open>n\<close> random bytes what \<open>rand.Read\<close> delivers (\<open>None\<close> when it fails).  bcrypt and the
  MongoDB driver are parameters.  An error that wraps another keeps it as a value.
\<close>

section \<open>Environment and errors\<close>

record call_env =
  en_now :: time
  en_rand :: "nat \<Rightarrow> nat \<Rightarrow> bytes option"
  en_salt :: bytes

record bcrypt_lib =
  bc_Generate :: "bytes \<Rightarrow> bytes \<Rightarrow> bytes option"   \<comment> \<open>salt, password\<close>
  bc_Compare :: "bytes \<Rightarrow> bytes \<Rightarrow> bool"           \<comment> \<open>hash, password\<close>

datatype svc_err =
    ErrTenantNotFound | ErrConnectionNotFound | ErrDuplicateName | ErrInvalidToken
  | ErrTokenNotRevoked | ErrReenableDisabled | ErrReenableWindowExpired
  | ErrInvalidEmail | ErrInvalidCode | ErrTooManyAttempts | ErrUnauthorized | ErrForbidden
  | ErrInviteNotFound | ErrInviteExpired | ErrAlreadyMember | ErrNotMember | ErrLastOwner
  | ErrPasswordAuthOff | ErrInvalidCredentials | ErrWeakPassword | ErrPasswordMismatch
  | ErrNoPasswordSet | ErrInvalidResetToken | ErrOrgCreationDisabled
  | SvcStore store_err | SvcText bytes | SvcRandom | SvcBcrypt | SvcCrypto bytes crypto_err | SvcCache cache_err

type_synonym 'a served = "(svc_err + 'a) \<times> ControlStore"

definition store_text :: "store_err \<Rightarrow> bytes" where
  "store_text e = (case e of ErrNotFound \<Rightarrow> ''not found'' | ErrDuplicate \<Rightarrow> ''duplicate'' | StoreError t \<Rightarrow> t)"

definition contains :: "bytes \<Rightarrow> bytes \<Rightarrow> bool" where
  "contains s pat \<longleftrightarrow> find_sub pat s \<noteq> None"

definition is_duplicate :: "store_err \<Rightarrow> bool" where
  "is_duplicate e \<longleftrightarrow> e = ErrDuplicate \<or> contains (store_text e) ''duplicate'' \<or> contains (store_text e) ''unique''"

text \<open>\<open>_ = s.store.RecordAudit(...)\<close>\<close>

definition audit :: "ControlStore \<Rightarrow> ControlStore" where
  "audit m = snd (RecordAudit m)"

text \<open>The alphabet of \<open>base64.RawURLEncoding\<close> and its encoder.\<close>

definition b64url_char :: "nat \<Rightarrow> char" where
  "b64url_char n = (if n < 26 then char_of (65 + n) else if n < 52 then char_of (71 + n)
     else if n < 62 then char_of (n - 4) else if n = 62 then CHR ''-'' else CHR ''_'')"

fun b64url_encode :: "bytes \<Rightarrow> bytes" where
  "b64url_encode [] = []"
| "b64url_encode [a] = (let x = of_char a in [b64url_char (x div 4), b64url_char (x mod 4 * 16)])"
| "b64url_encode [a, b] = (let x = of_char a; y = of_char b in
     [b64url_char (x div 4), b64url_char (x mod 4 * 16 + y div 16), b64url_char (y mod 16 * 4)])"
| "b64url_encode (a # b # c # rest) = (let x = of_char a; y = of_char b; z = of_char c in
     [b64url_char (x div 4), b64url_char (x mod 4 * 16 + y div 16), b64url_char (y mod 16 * 4 + z div 64),
      b64url_char (z mod 64)] @ b64url_encode rest)"

section \<open>TenantService\<close>

definition TenantCreate :: "call_env \<Rightarrow> bytes \<Rightarrow> bytes \<Rightarrow> ControlStore \<Rightarrow> Tenant served" where
  "TenantCreate x i name m =
     (if i = '''' \<or> name = '''' then (Inl (SvcText ''id and name are required''), m)
      else let t = \<lparr>tn_ID = i, tn_Name = name, tn_Status = ''active'', tn_CreatedAt = en_now x, tn_UpdatedAt = en_now x\<rparr> in
        (case CreateTenant t m of
           (Some err, m1) \<Rightarrow> (Inl (SvcStore err), m1)
         | (None, m1) \<Rightarrow> (Inr t, audit m1)))"

definition TenantGet :: "bytes \<Rightarrow> ControlStore \<Rightarrow> svc_err + Tenant" where
  "TenantGet i m = (case GetTenant i m of
      Inl ErrNotFound \<Rightarrow> Inl ErrTenantNotFound
    | Inl err \<Rightarrow> Inl (SvcStore err)
    | Inr t \<Rightarrow> Inr t)"

definition TenantList :: "ControlStore \<Rightarrow> svc_err + Tenant list" where
  "TenantList m = (case ListTenants m of Inl err \<Rightarrow> Inl (SvcStore err) | Inr ts \<Rightarrow> Inr ts)"

section \<open>ConnectionService\<close>

definition publicConnection :: "Connection \<Rightarrow> Connection" where
  "publicConnection c = c\<lparr>cn_URICiphertext := [], cn_Nonce := [], cn_DEKVersion := ''''\<rparr>"

text \<open>The lookup that begins every operation on a connection of a tenant.\<close>

definition owned_connection :: "bytes \<Rightarrow> bytes \<Rightarrow> ControlStore \<Rightarrow> svc_err + Connection" where
  "owned_connection tenantID connectionID m = (case GetConnection connectionID m of
      Inl ErrNotFound \<Rightarrow> Inl ErrConnectionNotFound
    | Inl err \<Rightarrow> Inl (SvcStore err)
    | Inr c \<Rightarrow> if cn_TenantID c \<noteq> tenantID then Inl ErrConnectionNotFound else Inr c)"

definition ConnCreate ::
  "aead \<Rightarrow> bytes \<Rightarrow> call_env \<Rightarrow> bytes \<Rightarrow> bytes \<Rightarrow> bytes \<Rightarrow> ControlStore \<Rightarrow> Connection served" where
  "ConnCreate A masterKey x tenantID name plaintextURI m =
     (let name = trim_space name in
      if name = '''' then (Inl (SvcText ''name is required''), m)
      else if plaintextURI = '''' then (Inl (SvcText ''uri is required''), m)
      else case GetTenant tenantID m of
        Inl ErrNotFound \<Rightarrow> (Inl ErrTenantNotFound, m)
      | Inl err \<Rightarrow> (Inl (SvcStore err), m)
      | Inr _ \<Rightarrow> (case Encrypt A masterKey (en_rand x 0 12) plaintextURI tenantID of
          Inl err \<Rightarrow> (Inl (SvcCrypto ''encryption failed: '' err), m)
        | Inr (ct, nonce, dekVer) \<Rightarrow> (case en_rand x 1 12 of
            None \<Rightarrow> (Inl SvcRandom, m)
          | Some buf \<Rightarrow>
              let c = \<lparr>cn_ID = ''conn_'' @ b64url_encode buf, cn_TenantID = tenantID, cn_Name = name,
                    cn_URICiphertext = ct, cn_Nonce = nonce, cn_DEKVersion = dekVer, cn_AutoInvalidateOnWrite = False,
                    cn_LastValidatedAt = None, cn_CreatedAt = en_now x, cn_UpdatedAt = en_now x\<rparr> in
              (case CreateConnection c m of
                 (Some err, m1) \<Rightarrow> (Inl (if is_duplicate err then ErrDuplicateName else SvcStore err), m1)
               | (None, m1) \<Rightarrow> (Inr (publicConnection c), audit m1)))))"

definition ConnList :: "bytes \<Rightarrow> ControlStore \<Rightarrow> svc_err + Connection list" where
  "ConnList tenantID m = (case ListConnections tenantID m of
      Inl err \<Rightarrow> Inl (SvcStore err) | Inr cs \<Rightarrow> Inr (map publicConnection cs))"

definition ConnGet :: "bytes \<Rightarrow> bytes \<Rightarrow> ControlStore \<Rightarrow> svc_err + Connection" where
  "ConnGet tenantID connectionID m = (case owned_connection tenantID connectionID m of
      Inl err \<Rightarrow> Inl err | Inr c \<Rightarrow> Inr (publicConnection c))"

definition ConnUpdateURI ::
  "aead \<Rightarrow> bytes \<Rightarrow> call_env \<Rightarrow> bytes \<Rightarrow> bytes \<Rightarrow> bytes \<Rightarrow> ControlStore \<Rightarrow> svc_err option \<times> ControlStore" where
  "ConnUpdateURI A masterKey x tenantID connectionID plaintextURI m =
     (if plaintextURI = '''' then (Some (SvcText ''uri is required''), m)
      else case owned_connection tenantID connectionID m of
        Inl err \<Rightarrow> (Some err, m)
      | Inr c \<Rightarrow> (case Encrypt A masterKey (en_rand x 0 12) plaintextURI tenantID of
          Inl err \<Rightarrow> (Some (SvcCrypto ''encryption failed: '' err), m)
        | Inr (ct, nonce, dekVer) \<Rightarrow> (case UpdateConnectionURI (en_now x) connectionID ct nonce dekVer m of
            (Some err, m1) \<Rightarrow> (Some (SvcStore err), m1)
          | (None, m1) \<Rightarrow> (None, audit m1))))"

definition ConnRename ::
  "call_env \<Rightarrow> bytes \<Rightarrow> bytes \<Rightarrow> bytes \<Rightarrow> ControlStore \<Rightarrow> svc_err option \<times> ControlStore" where
  "ConnRename x tenantID connectionID name m =
     (let name = trim_space name in
      if name = '''' then (Some (SvcText ''name is required''), m)
      else case owned_connection tenantID connectionID m of
        Inl err \<Rightarrow> (Some err, m)
      | Inr c \<Rightarrow> (case UpdateConnectionName (en_now x) connectionID name m of
          (Some err, m1) \<Rightarrow> (Some (if is_duplicate err then ErrDuplicateName else SvcStore err), m1)
        | (None, m1) \<Rightarrow> (None, audit m1)))"

definition ConnSetAutoInvalidate ::
  "call_env \<Rightarrow> bytes \<Rightarrow> bytes \<Rightarrow> bool \<Rightarrow> ControlStore \<Rightarrow> svc_err option \<times> ControlStore" where
  "ConnSetAutoInvalidate x tenantID connectionID enabled m = (case owned_connection tenantID connectionID m of
      Inl err \<Rightarrow> (Some err, m)
    | Inr c \<Rightarrow> (case UpdateConnectionAutoInvalidate (en_now x) connectionID enabled m of
        (Some err, m1) \<Rightarrow> (Some (SvcStore err), m1)
      | (None, m1) \<Rightarrow> (None, audit m1)))"

definition ConnDelete :: "bytes \<Rightarrow> bytes \<Rightarrow> ControlStore \<Rightarrow> svc_err option \<times> ControlStore" where
  "ConnDelete tenantID connectionID m = (case owned_connection tenantID connectionID m of
      Inl err \<Rightarrow> (Some err, m)
    | Inr c \<Rightarrow> (case DeleteConnection connectionID m of
        (Some err, m1) \<Rightarrow> (Some (SvcStore err), m1)
      | (None, m1) \<Rightarrow> (None, audit m1)))"

text \<open>The three driver calls of \<open>Test\<close>: each gives the text of its error.\<close>

record mongo_probe =
  mp_Connect :: "bytes \<Rightarrow> bytes option"
  mp_Ping :: "bytes \<Rightarrow> bytes option"
  mp_ListDatabases :: "bytes \<Rightarrow> bytes option"

definition ConnTest ::
  "mongo_probe \<Rightarrow> aead \<Rightarrow> bytes \<Rightarrow> call_env \<Rightarrow> bytes \<Rightarrow> bytes \<Rightarrow> ControlStore \<Rightarrow> svc_err option \<times> ControlStore" where
  "ConnTest P A masterKey x tenantID connectionID m = (case owned_connection tenantID connectionID m of
      Inl err \<Rightarrow> (Some err, m)
    | Inr c \<Rightarrow> (case Decrypt A masterKey (cn_URICiphertext c) (cn_Nonce c) tenantID of
        Inl err \<Rightarrow> (Some (SvcCrypto ''failed to decrypt connection uri: '' err), m)
      | Inr uri \<Rightarrow> (case mp_Connect P uri of
          Some err \<Rightarrow> (Some (SvcText (''failed to connect to real MongoDB: '' @ err)), m)
        | None \<Rightarrow> (case mp_Ping P uri of
            Some err \<Rightarrow> (Some (SvcText (''ping failed: '' @ err)), m)
          | None \<Rightarrow> (case mp_ListDatabases P uri of
              Some err \<Rightarrow> (Some (SvcText (''listDatabases failed: '' @ err)), m)
            | None \<Rightarrow> (None, audit (snd (UpdateConnectionValidated (en_now x) connectionID m))))))))"

section \<open>PolicyService\<close>

text \<open>\<open>RedisInvalidator\<close>: its cache store and whether \<open>Connections\<close> is set.\<close>

record 's invalidator =
  iv_Store :: "'s Store option"
  iv_Connections :: bool

fun invalidate_each ::
  "'s Store \<Rightarrow> bytes \<Rightarrow> bytes \<Rightarrow> bytes \<Rightarrow> Connection list \<Rightarrow> 's \<Rightarrow> svc_err option \<times> 's" where
  "invalidate_each S tenantID db coll [] s = (None, s)"
| "invalidate_each S tenantID db coll (c # cs) s =
     (case InvalidateNamespace S tenantID (cn_ID c) db coll s of
        (Some err, s1) \<Rightarrow> (Some (SvcCache err), s1)
      | (None, s1) \<Rightarrow> invalidate_each S tenantID db coll cs s1)"

definition AdapterInvalidateNamespace ::
  "'s invalidator \<Rightarrow> ControlStore \<Rightarrow> bytes \<Rightarrow> bytes \<Rightarrow> bytes \<Rightarrow> bytes \<Rightarrow> 's \<Rightarrow> svc_err option \<times> 's" where
  "AdapterInvalidateNamespace r m tenantID connectionID db coll s = (case iv_Store r of
      None \<Rightarrow> (None, s)
    | Some S \<Rightarrow>
        if connectionID \<noteq> '''' \<or> \<not> iv_Connections r
        then (case InvalidateNamespace S tenantID connectionID db coll s of (e, s1) \<Rightarrow> (map_option SvcCache e, s1))
        else (case ListConnections tenantID m of
            Inl err \<Rightarrow> (Some (SvcStore err), s)
          | Inr cs \<Rightarrow> invalidate_each S tenantID db coll cs s))"

definition AdapterInvalidateTags :: "'s invalidator \<Rightarrow> bytes \<Rightarrow> bytes list \<Rightarrow> 's \<Rightarrow> svc_err option \<times> 's" where
  "AdapterInvalidateTags r tenantID tags s = (case iv_Store r of
      None \<Rightarrow> (None, s)
    | Some S \<Rightarrow> (case InvalidateTags (Some S) tenantID tags s of (e, s1) \<Rightarrow> (map_option SvcCache e, s1)))"

definition PolicyGet :: "bytes \<Rightarrow> bytes \<Rightarrow> ControlStore \<Rightarrow> svc_err + CachePolicy" where
  "PolicyGet tenantID connectionID m = (case owned_connection tenantID connectionID m of
      Inl err \<Rightarrow> Inl err
    | Inr c \<Rightarrow> (case GetCachePolicy connectionID m of
        Inl err \<Rightarrow> Inl (SvcStore err)
      | Inr p \<Rightarrow> Inr (p\<lparr>po_ConnectionID := connectionID, po_TenantID := tenantID\<rparr>)))"

text \<open>What the two setters share: read the policy, change it, store it.\<close>

definition update_policy ::
  "bytes \<Rightarrow> bytes \<Rightarrow> (CachePolicy \<Rightarrow> CachePolicy) \<Rightarrow> ControlStore \<Rightarrow> svc_err option \<times> ControlStore" where
  "update_policy tenantID connectionID f m = (case owned_connection tenantID connectionID m of
      Inl err \<Rightarrow> (Some err, m)
    | Inr c \<Rightarrow> (case GetCachePolicy connectionID m of
        Inl err \<Rightarrow> (Some (SvcStore err), m)
      | Inr current \<Rightarrow>
          (case UpsertCachePolicy ((f current)\<lparr>po_ConnectionID := connectionID, po_TenantID := tenantID\<rparr>) m of
             (Some err, m1) \<Rightarrow> (Some (SvcStore err), m1)
           | (None, m1) \<Rightarrow> (None, audit m1))))"

definition SetCollectionPolicy ::
  "bytes \<Rightarrow> bytes \<Rightarrow> bytes \<Rightarrow> CollectionPolicy \<Rightarrow> ControlStore \<Rightarrow> svc_err option \<times> ControlStore" where
  "SetCollectionPolicy tenantID connectionID dbColl pol m =
     update_policy tenantID connectionID (\<lambda>p. p\<lparr>po_Collections := gm_put (po_Collections p) dbColl pol\<rparr>) m"

definition SetDefaults :: "bytes \<Rightarrow> bytes \<Rightarrow> int \<Rightarrow> ControlStore \<Rightarrow> svc_err option \<times> ControlStore" where
  "SetDefaults tenantID connectionID defaultTTL m =
     (if defaultTTL < 1 then (Some (SvcText ''defaultTtlSeconds must be at least 1''), m)
      else update_policy tenantID connectionID (\<lambda>p. p\<lparr>po_DefaultTtlSeconds := defaultTTL\<rparr>) m)"

definition PolicyInvalidate ::
  "'s invalidator option \<Rightarrow> bytes \<Rightarrow> bytes \<Rightarrow> bytes \<Rightarrow> bytes \<Rightarrow> bytes list \<Rightarrow> ControlStore \<Rightarrow> 's
     \<Rightarrow> svc_err option \<times> ControlStore \<times> 's" where
  "PolicyInvalidate cache tenantID connectionID db coll tags m s = (case owned_connection tenantID connectionID m of
      Inl err \<Rightarrow> (Some err, m, s)
    | Inr c \<Rightarrow> (case cache of
        None \<Rightarrow> (None, audit m, s)
      | Some r \<Rightarrow>
          (case (if db \<noteq> '''' \<and> coll \<noteq> '''' then AdapterInvalidateNamespace r m tenantID connectionID db coll s
                 else (None, s)) of
             (Some err, s1) \<Rightarrow> (Some err, m, s1)
           | (None, s1) \<Rightarrow>
               (case (if tags \<noteq> [] then AdapterInvalidateTags r tenantID tags s1 else (None, s1)) of
                  (Some err, s2) \<Rightarrow> (Some err, m, s2)
                | (None, s2) \<Rightarrow> (None, audit m, s2)))))"

section \<open>TokenService\<close>

record token_service =
  ts_proxyPublicEndpoint :: bytes
  ts_reenableWindow :: int

definition NewTokenService :: token_service where
  "NewTokenService = \<lparr>ts_proxyPublicEndpoint = ''127.0.0.1:27018'', ts_reenableWindow = 300000000000\<rparr>"

definition WithProxyPublicEndpoint :: "bytes \<Rightarrow> token_service \<Rightarrow> token_service" where
  "WithProxyPublicEndpoint endpoint s =
     (let e = trim_space endpoint in if e \<noteq> '''' then s\<lparr>ts_proxyPublicEndpoint := e\<rparr> else s)"

definition WithReenableWindow :: "int \<Rightarrow> token_service \<Rightarrow> token_service" where
  "WithReenableWindow d s = s\<lparr>ts_reenableWindow := (if d < 0 then 0 else d)\<rparr>"

text \<open>
  \<open>net/url\<close>: percent-encoding of a byte, and the bytes that user information
  (\<open>keep_userinfo\<close>) and a host (\<open>keep_host\<close>) keep as they are.
\<close>

definition url_unreserved :: "char \<Rightarrow> bool" where
  "url_unreserved c \<longleftrightarrow> (let n = of_char c :: nat in
     (97 \<le> n \<and> n \<le> 122) \<or> (65 \<le> n \<and> n \<le> 90) \<or> (48 \<le> n \<and> n \<le> 57)) \<or> List.member ''-_.~'' c"

definition keep_userinfo :: "char \<Rightarrow> bool" where
  "keep_userinfo c \<longleftrightarrow> url_unreserved c \<or> List.member ''$&+,;='' c"

definition keep_host :: "char \<Rightarrow> bool" where
  "keep_host c \<longleftrightarrow> url_unreserved c \<or> List.member (''!$&()*+,;=:[]<>'' @ [CHR 0x27, CHR 0x22]) c"

definition upper_hex :: "nat \<Rightarrow> char" where
  "upper_hex n = (if n < 10 then char_of (48 + n) else char_of (55 + n))"

definition url_escape :: "(char \<Rightarrow> bool) \<Rightarrow> bytes \<Rightarrow> bytes" where
  "url_escape keep s = concat (map (\<lambda>c. if keep c then [c]
     else let n = of_char c :: nat in [CHR ''%'', upper_hex (n div 16), upper_hex (n mod 16)]) s)"

definition trim_prefix :: "bytes \<Rightarrow> bytes \<Rightarrow> bytes" where
  "trim_prefix s p = (if has_prefix s p then drop (length p) s else s)"

definition trim_suffix :: "bytes \<Rightarrow> bytes \<Rightarrow> bytes" where
  "trim_suffix s p = (if has_suffix s p then take (length s - length p) s else s)"

definition proxy_host :: "bytes \<Rightarrow> bytes" where
  "proxy_host endpoint =
     (let e1 = trim_space endpoint; e2 = trim_prefix e1 ''mongodb://''; e3 = trim_prefix e2 ''mongodb+srv://'';
          e4 = trim_suffix e3 ''/''; e5 = (if e4 = '''' then ''127.0.0.1:27018'' else e4) in
      if contains e5 '':'' then e5 else e5 @ '':27018'')"

definition BuildProxyConnectionURI :: "bytes \<Rightarrow> bytes \<Rightarrow> bytes \<Rightarrow> bytes" where
  "BuildProxyConnectionURI endpoint tenantID rawToken =
     ''mongodb://'' @ url_escape keep_userinfo tenantID @ '':'' @ url_escape keep_userinfo rawToken @ ''@''
       @ url_escape keep_host (proxy_host endpoint)
       @ ''/?authMechanism=PLAIN&authSource=$external&directConnection=true''"

record IssuedAccess =
  is_RawToken :: bytes
  is_Token :: Token
  is_ProxyConnectionURI :: bytes

definition TokenIssue ::
  "token_service \<Rightarrow> bcrypt_lib \<Rightarrow> call_env \<Rightarrow> bytes \<Rightarrow> bytes \<Rightarrow> bytes \<Rightarrow> ControlStore \<Rightarrow> IssuedAccess served" where
  "TokenIssue T B x tenantID connectionID description m = (case owned_connection tenantID connectionID m of
      Inl err \<Rightarrow> (Inl err, m)
    | Inr c \<Rightarrow> (case en_rand x 0 32 of
        None \<Rightarrow> (Inl SvcRandom, m)
      | Some buf \<Rightarrow> (let rawToken = b64url_encode buf in
          case bc_Generate B (en_salt x) rawToken of
            None \<Rightarrow> (Inl SvcBcrypt, m)
          | Some hash \<Rightarrow>
              let lookupHash = ProxyTokenLookupHash rawToken;
                  tok = \<lparr>tk_ID = ''tok_'' @ b64url_encode (take 12 buf), tk_TenantID = tenantID,
                    tk_ConnectionID = connectionID, tk_Description = description, tk_CreatedAt = en_now x,
                    tk_ExpiresAt = None, tk_RevokedAt = None, tk_ReenableUntil = None\<rparr> in
              (case CreateToken tok hash lookupHash m of
                 (Some err, m1) \<Rightarrow> (Inl (SvcStore err), m1)
               | (None, m1) \<Rightarrow> (Inr \<lparr>is_RawToken = rawToken, is_Token = tok,
                   is_ProxyConnectionURI = BuildProxyConnectionURI (ts_proxyPublicEndpoint T) tenantID rawToken\<rparr>,
                   audit m1)))))"

definition annotate_one :: "token_service \<Rightarrow> call_env \<Rightarrow> Token \<Rightarrow> Token" where
  "annotate_one T x t = (case tk_RevokedAt t of
      None \<Rightarrow> t
    | Some r \<Rightarrow> let until = r + ts_reenableWindow T in
        if \<not> en_now x > until then t\<lparr>tk_ReenableUntil := Some until\<rparr> else t)"

definition annotateReenable :: "token_service \<Rightarrow> call_env \<Rightarrow> Token list \<Rightarrow> Token list" where
  "annotateReenable T x ts = (if ts_reenableWindow T \<le> 0 then ts else map (annotate_one T x) ts)"

definition TokenListForConnection ::
  "token_service \<Rightarrow> call_env \<Rightarrow> bytes \<Rightarrow> bytes \<Rightarrow> ControlStore \<Rightarrow> svc_err + Token list" where
  "TokenListForConnection T x tenantID connectionID m = (case owned_connection tenantID connectionID m of
      Inl err \<Rightarrow> Inl err
    | Inr c \<Rightarrow> (case ListTokensForConnection connectionID m of
        Inl err \<Rightarrow> Inl (SvcStore err) | Inr ts \<Rightarrow> Inr (annotateReenable T x ts)))"

definition TokenList :: "token_service \<Rightarrow> call_env \<Rightarrow> bytes \<Rightarrow> ControlStore \<Rightarrow> svc_err + Token list" where
  "TokenList T x tenantID m = (case ListTokensForTenant tenantID m of
      Inl err \<Rightarrow> Inl (SvcStore err) | Inr ts \<Rightarrow> Inr (annotateReenable T x ts))"

definition TokenGet :: "token_service \<Rightarrow> call_env \<Rightarrow> bytes \<Rightarrow> ControlStore \<Rightarrow> svc_err + Token" where
  "TokenGet T x tokenID m = (case GetTokenByID tokenID m of
      Inl ErrNotFound \<Rightarrow> Inl ErrInvalidToken
    | Inl err \<Rightarrow> Inl (SvcStore err)
    | Inr t \<Rightarrow> Inr (hd (annotateReenable T x [t])))"

definition TokenRevoke :: "call_env \<Rightarrow> bytes \<Rightarrow> ControlStore \<Rightarrow> svc_err option \<times> ControlStore" where
  "TokenRevoke x tokenID m = (case RevokeToken (en_now x) tokenID m of (e, m1) \<Rightarrow> (map_option SvcStore e, m1))"

definition TokenReenable :: "token_service \<Rightarrow> call_env \<Rightarrow> bytes \<Rightarrow> ControlStore \<Rightarrow> Token served" where
  "TokenReenable T x tokenID m =
     (if ts_reenableWindow T \<le> 0 then (Inl ErrReenableDisabled, m)
      else case GetTokenByID tokenID m of
        Inl ErrNotFound \<Rightarrow> (Inl ErrInvalidToken, m)
      | Inl err \<Rightarrow> (Inl (SvcStore err), m)
      | Inr tok \<Rightarrow> (case tk_RevokedAt tok of
          None \<Rightarrow> (Inl ErrTokenNotRevoked, m)
        | Some r \<Rightarrow>
            if en_now x > r + ts_reenableWindow T then (Inl ErrReenableWindowExpired, m)
            else (case ClearTokenRevocation tokenID m of
                (Some ErrNotFound, m1) \<Rightarrow> (Inl ErrTokenNotRevoked, m1)
              | (Some err, m1) \<Rightarrow> (Inl (SvcStore err), m1)
              | (None, m1) \<Rightarrow> let m2 = audit m1 in (TokenGet T x tokenID m2, m2))))"

end
