(* ===== verification/Auth_Service.thy ===== *)
theory Auth_Service
  imports Tenant_Service
begin

text \<open>
  \<open>internal/controlplane/service/auth_service.go\<close>: login by e-mailed code or password,
  sessions, password change and reset.  A function that sends e-mail also returns the messages it
  hands to the mailer; whether sending fails is only logged.  The text of a message is reduced to
  the values it is rendered from.  The grammar of \<open>mail.ParseAddress\<close> and the link built from
  the dashboard URL are parameters of the service.
\<close>

section \<open>Messages and configuration\<close>

datatype mail_body =
    OtpBody bytes int | ResetBody bytes int | InviteBody bytes bytes | DeleteBody bytes bytes bytes

record mail =
  ml_to :: bytes
  ml_subject :: bytes
  ml_body :: mail_body

record auth_service =
  as_passwordAuthEnabled :: bool
  as_ParseAddress :: "bytes \<Rightarrow> bool"
  as_resetURL :: "bytes \<Rightarrow> bytes"
  as_bcrypt :: bcrypt_lib

section \<open>Helpers\<close>

text \<open>The pattern \<open>^[^@\s]+@[^@\s]+\.[^@\s]+$\<close>.\<close>

definition re_space :: "char \<Rightarrow> bool" where
  "re_space c \<longleftrightarrow> List.member [CHR 0x09, CHR 0x0A, CHR 0x0C, CHR 0x0D, CHR 0x20] c"

definition email_shape :: "bytes \<Rightarrow> bool" where
  "email_shape s \<longleftrightarrow> \<not> list_ex re_space s \<and> (case split_on (CHR ''@'') s of
      [local, domain] \<Rightarrow> local \<noteq> '''' \<and> List.member (butlast (tl domain)) (CHR ''.'')
    | _ \<Rightarrow> False)"

definition normalizeEmail :: "auth_service \<Rightarrow> bytes \<Rightarrow> svc_err + bytes" where
  "normalizeEmail S email =
     (let email = to_lower (trim_space email) in
      if email = '''' \<or> \<not> email_shape email then Inl ErrInvalidEmail
      else if \<not> as_ParseAddress S email then Inl ErrInvalidEmail
      else Inr email)"

definition validatePassword :: "bytes \<Rightarrow> svc_err option" where
  "validatePassword pw =
     (let pw = trim_space pw in
      if length pw < 8 then Some ErrWeakPassword
      else if length pw > 128 then Some (SvcText ''password is too long'') else None)"

definition hashToken :: "bytes \<Rightarrow> bytes" where
  "hashToken raw = hex_encode (sha256 raw)"

text \<open>The i-th read of randomness of a call; \<open>cryptoRandHex\<close> ignores a failure and keeps zeros.\<close>

definition randomDigits :: "call_env \<Rightarrow> nat \<Rightarrow> nat \<Rightarrow> bytes option" where
  "randomDigits x i n = map_option (map (\<lambda>c. digit (of_char c mod 10))) (en_rand x i n)"

definition randomToken :: "call_env \<Rightarrow> nat \<Rightarrow> nat \<Rightarrow> bytes option" where
  "randomToken x i n = map_option hex_encode (en_rand x i n)"

definition cryptoRandHex :: "call_env \<Rightarrow> nat \<Rightarrow> nat \<Rightarrow> bytes" where
  "cryptoRandHex x i n = hex_encode (case en_rand x i n of None \<Rightarrow> replicate n (CHR 0x00) | Some b \<Rightarrow> b)"

definition minutes :: "int \<Rightarrow> int" where
  "minutes n = n * 60000000000"

section \<open>Login by code\<close>

definition RequestCode ::
  "auth_service \<Rightarrow> call_env \<Rightarrow> bytes \<Rightarrow> ControlStore \<Rightarrow> svc_err option \<times> ControlStore \<times> mail list" where
  "RequestCode S x email m = (case normalizeEmail S email of
      Inl err \<Rightarrow> (Some err, m, [])
    | Inr email \<Rightarrow> (case randomDigits x 0 6 of
        None \<Rightarrow> (Some SvcRandom, m, [])
      | Some code \<Rightarrow> (case bc_Generate (as_bcrypt S) (en_salt x) code of
          None \<Rightarrow> (Some SvcBcrypt, m, [])
        | Some hash \<Rightarrow> (case SetEmailVerificationCode email hash (en_now x + minutes 10) m of
            (Some err, m1) \<Rightarrow> (Some (SvcStore err), m1, [])
          | (None, m1) \<Rightarrow> (None, m1,
              [\<lparr>ml_to = email, ml_subject = ''Your Oxella sign-in code'', ml_body = OtpBody code 10\<rparr>])))))"

definition issueSession :: "call_env \<Rightarrow> bytes \<Rightarrow> ControlStore \<Rightarrow> bytes served" where
  "issueSession x userID m = (case randomToken x 0 32 of
      None \<Rightarrow> (Inl SvcRandom, m)
    | Some raw \<Rightarrow> (case CreateSession (''ses_'' @ cryptoRandHex x 1 12) userID (hashToken raw)
            (en_now x + minutes (30 * 24 * 60)) m of
        (Some err, m1) \<Rightarrow> (Inl (SvcStore err), m1)
      | (None, m1) \<Rightarrow> (Inr raw, m1)))"

text \<open>The checks on a code that \<open>VerifyCode\<close> and the deletion of an organization share.\<close>

definition check_code :: "bcrypt_lib \<Rightarrow> call_env \<Rightarrow> bytes \<Rightarrow> bytes \<Rightarrow> ControlStore \<Rightarrow> svc_err option \<times> ControlStore" where
  "check_code B x key code m =
     (let code = trim_space code in
      if length code < 4 then (Some ErrInvalidCode, m)
      else case GetEmailVerificationCode key m of
        Inl err \<Rightarrow> (Some ErrInvalidCode, m)
      | Inr (hash, expires, attempts) \<Rightarrow>
          if attempts \<ge> 8 then (Some ErrTooManyAttempts, m)
          else if en_now x > expires then (Some ErrInvalidCode, snd (ClearEmailVerificationCode key m))
          else if \<not> bc_Compare B hash code
            then (Some ErrInvalidCode, snd (IncrementEmailVerificationAttempts key m))
          else (None, snd (ClearEmailVerificationCode key m)))"

definition VerifyCode ::
  "auth_service \<Rightarrow> call_env \<Rightarrow> bytes \<Rightarrow> bytes \<Rightarrow> bytes \<Rightarrow> ControlStore \<Rightarrow> (bytes \<times> User) served" where
  "VerifyCode S x email code name m = (case normalizeEmail S email of
      Inl err \<Rightarrow> (Inl err, m)
    | Inr email \<Rightarrow> (case check_code (as_bcrypt S) x email code m of
        (Some err, m1) \<Rightarrow> (Inl err, m1)
      | (None, m1) \<Rightarrow> (case UpsertUserByEmail (en_now x) email (trim_space name) m1 of
          (Inl err, m2) \<Rightarrow> (Inl (SvcStore err), m2)
        | (Inr user, m2) \<Rightarrow> (case issueSession x (us_ID user) m2 of
            (Inl err, m3) \<Rightarrow> (Inl err, m3)
          | (Inr raw, m3) \<Rightarrow> (Inr (raw, user), m3)))))"

section \<open>Sessions and profile\<close>

definition SessionUser :: "call_env \<Rightarrow> bytes \<Rightarrow> ControlStore \<Rightarrow> User served" where
  "SessionUser x rawToken m =
     (let rawToken = trim_space rawToken in
      if rawToken = '''' then (Inl ErrUnauthorized, m)
      else case GetSessionByTokenHash (hashToken rawToken) m of
        Inl err \<Rightarrow> (Inl ErrUnauthorized, m)
      | Inr (sid, uid, expires) \<Rightarrow>
          if en_now x > expires then (Inl ErrUnauthorized, snd (DeleteSession sid m))
          else (case GetUserByID uid m of
              Inl err \<Rightarrow> (Inl ErrUnauthorized, m) | Inr u \<Rightarrow> (Inr u, m)))"

definition Logout :: "bytes \<Rightarrow> ControlStore \<Rightarrow> svc_err option \<times> ControlStore" where
  "Logout rawToken m = (case DeleteSessionByTokenHash (hashToken rawToken) m of (e, m1) \<Rightarrow> (map_option SvcStore e, m1))"

definition Me :: "bytes \<Rightarrow> ControlStore \<Rightarrow> svc_err + User" where
  "Me userID m = (case GetUserByID userID m of
      Inl ErrNotFound \<Rightarrow> Inl ErrUnauthorized | Inl err \<Rightarrow> Inl (SvcStore err) | Inr u \<Rightarrow> Inr u)"

definition read_user :: "bytes \<Rightarrow> ControlStore \<Rightarrow> User served" where
  "read_user userID m = (case GetUserByID userID m of Inl err \<Rightarrow> (Inl (SvcStore err), m) | Inr u \<Rightarrow> (Inr u, m))"

definition UpdateProfile :: "call_env \<Rightarrow> bytes \<Rightarrow> bytes \<Rightarrow> ControlStore \<Rightarrow> User served" where
  "UpdateProfile x userID name m =
     (let name = trim_space name in
      if name = '''' then (Inl (SvcText ''name is required''), m)
      else case UpdateUserName (en_now x) userID name m of
        (Some err, m1) \<Rightarrow> (Inl (SvcStore err), m1)
      | (None, m1) \<Rightarrow> read_user userID m1)"

section \<open>Passwords\<close>

definition LoginWithPassword ::
  "auth_service \<Rightarrow> call_env \<Rightarrow> bytes \<Rightarrow> bytes \<Rightarrow> ControlStore \<Rightarrow> (bytes \<times> User) served" where
  "LoginWithPassword S x email password m =
     (if \<not> as_passwordAuthEnabled S then (Inl ErrPasswordAuthOff, m)
      else case normalizeEmail S email of
        Inl err \<Rightarrow> (Inl ErrInvalidCredentials, m)
      | Inr email \<Rightarrow> (let password = trim_space password in
          if password = '''' then (Inl ErrInvalidCredentials, m)
          else case GetUserByEmail email m of
            Inl err \<Rightarrow> (Inl ErrInvalidCredentials, m)
          | Inr user \<Rightarrow> (case GetUserPasswordHash (us_ID user) m of
              Inl err \<Rightarrow> (Inl ErrInvalidCredentials, m)
            | Inr hash \<Rightarrow>
                if \<not> bc_Compare (as_bcrypt S) hash password then (Inl ErrInvalidCredentials, m)
                else (case issueSession x (us_ID user) m of
                    (Inl err, m1) \<Rightarrow> (Inl err, m1)
                  | (Inr raw, m1) \<Rightarrow> (Inr (raw, user\<lparr>us_HasPassword := True\<rparr>), m1)))))"

text \<open>Hashing a new password and storing it, the end of three operations.\<close>

definition store_password :: "auth_service \<Rightarrow> call_env \<Rightarrow> bytes \<Rightarrow> bytes \<Rightarrow> ControlStore \<Rightarrow> svc_err option \<times> ControlStore" where
  "store_password S x userID newPassword m = (case bc_Generate (as_bcrypt S) (en_salt x) newPassword of
      None \<Rightarrow> (Some SvcBcrypt, m)
    | Some hash \<Rightarrow> (case SetUserPasswordHash userID hash m of (e, m1) \<Rightarrow> (map_option SvcStore e, m1)))"

definition set_and_read :: "auth_service \<Rightarrow> call_env \<Rightarrow> bytes \<Rightarrow> bytes \<Rightarrow> ControlStore \<Rightarrow> User served" where
  "set_and_read S x userID newPassword m = (case store_password S x userID newPassword m of
      (Some err, m1) \<Rightarrow> (Inl err, m1) | (None, m1) \<Rightarrow> read_user userID m1)"

definition UpdatePassword ::
  "auth_service \<Rightarrow> call_env \<Rightarrow> bytes \<Rightarrow> bytes \<Rightarrow> bytes \<Rightarrow> ControlStore \<Rightarrow> User served" where
  "UpdatePassword S x userID currentPassword newPassword m =
     (if \<not> as_passwordAuthEnabled S then (Inl ErrPasswordAuthOff, m)
      else case validatePassword newPassword of
        Some err \<Rightarrow> (Inl err, m)
      | None \<Rightarrow> (case GetUserPasswordHash userID m of
          Inl ErrNotFound \<Rightarrow> (Inl ErrNoPasswordSet, m)
        | Inl err \<Rightarrow> (Inl (SvcStore err), m)
        | Inr hash \<Rightarrow>
            if \<not> bc_Compare (as_bcrypt S) hash currentPassword then (Inl ErrPasswordMismatch, m)
            else set_and_read S x userID newPassword m))"

definition SetPassword ::
  "auth_service \<Rightarrow> call_env \<Rightarrow> bytes \<Rightarrow> bytes \<Rightarrow> bytes \<Rightarrow> ControlStore \<Rightarrow> User served" where
  "SetPassword S x userID currentPassword newPassword m =
     (if \<not> as_passwordAuthEnabled S then (Inl ErrPasswordAuthOff, m)
      else case validatePassword newPassword of
        Some err \<Rightarrow> (Inl err, m)
      | None \<Rightarrow> (case GetUserPasswordHash userID m of
          Inr hash \<Rightarrow> UpdatePassword S x userID currentPassword newPassword m
        | Inl ErrNotFound \<Rightarrow> set_and_read S x userID newPassword m
        | Inl err \<Rightarrow> (Inl (SvcStore err), m)))"

definition RequestPasswordReset ::
  "auth_service \<Rightarrow> call_env \<Rightarrow> bytes \<Rightarrow> ControlStore \<Rightarrow> svc_err option \<times> ControlStore \<times> mail list" where
  "RequestPasswordReset S x email m =
     (if \<not> as_passwordAuthEnabled S then (Some ErrPasswordAuthOff, m, [])
      else case normalizeEmail S email of
        Inl err \<Rightarrow> (None, m, [])
      | Inr email \<Rightarrow> (case GetUserByEmail email m of
          Inl err \<Rightarrow> (None, m, [])
        | Inr user \<Rightarrow> (case GetUserPasswordHash (us_ID user) m of
            Inl err \<Rightarrow> (None, m, [])
          | Inr hash \<Rightarrow> (case randomToken x 0 32 of
              None \<Rightarrow> (Some SvcRandom, m, [])
            | Some raw \<Rightarrow> (case CreatePasswordResetToken (''pwr_'' @ cryptoRandHex x 1 12) (us_ID user) (hashToken raw)
                    (en_now x + minutes 60) m of
                (Some err, m1) \<Rightarrow> (Some (SvcStore err), m1, [])
              | (None, m1) \<Rightarrow> (None, m1, [\<lparr>ml_to = email, ml_subject = ''Reset your Oxella password'',
                  ml_body = ResetBody (as_resetURL S raw) 60\<rparr>]))))))"

definition ResetPassword ::
  "auth_service \<Rightarrow> call_env \<Rightarrow> bytes \<Rightarrow> bytes \<Rightarrow> ControlStore \<Rightarrow> svc_err option \<times> ControlStore" where
  "ResetPassword S x rawToken newPassword m =
     (if \<not> as_passwordAuthEnabled S then (Some ErrPasswordAuthOff, m)
      else let rawToken = trim_space rawToken in
        if rawToken = '''' then (Some ErrInvalidResetToken, m)
        else case validatePassword newPassword of
          Some err \<Rightarrow> (Some err, m)
        | None \<Rightarrow> (case ConsumePasswordResetToken (en_now x) (hashToken rawToken) m of
            (Inl err, m1) \<Rightarrow> (Some ErrInvalidResetToken, m1)
          | (Inr userID, m1) \<Rightarrow> store_password S x userID newPassword m1))"

end
