(* ===== verification/Org_Service.thy ===== *)
theory Org_Service
  imports Auth_Service
begin

text \<open>
  \<open>internal/controlplane/service/org_service.go\<close>: organizations (tenants), their members and
  their invites.  \<open>og_mailer\<close> says whether a mailer is set.
\<close>

record org_service =
  og_auth :: auth_service
  og_mailer :: bool
  og_inviteOnly :: bool

section \<open>Organizations\<close>

text \<open>The pattern \<open>^[a-z0-9]([a-z0-9_-]{1,62}[a-z0-9])?$\<close>.\<close>

definition slug_char :: "char \<Rightarrow> bool" where
  "slug_char c \<longleftrightarrow> (let n = of_char c :: nat in (97 \<le> n \<and> n \<le> 122) \<or> (48 \<le> n \<and> n \<le> 57))"

definition slug_matches :: "bytes \<Rightarrow> bool" where
  "slug_matches s \<longleftrightarrow> s \<noteq> [] \<and> slug_char (hd s) \<and>
     (length s = 1 \<or> 3 \<le> length s \<and> length s \<le> 64 \<and> slug_char (last s)
       \<and> list_all (\<lambda>c. slug_char c \<or> c = CHR ''_'' \<or> c = CHR ''-'') (butlast (tl s)))"

fun slug_chars :: "bool \<Rightarrow> bytes \<Rightarrow> bytes" where
  "slug_chars prevDash [] = []"
| "slug_chars prevDash (c # cs) =
     (if slug_char c then c # slug_chars False cs
      else if \<not> prevDash then CHR ''-'' # slug_chars True cs
      else slug_chars prevDash cs)"

definition trim_dashes :: "bytes \<Rightarrow> bytes" where
  "trim_dashes s = rev (dropWhile (\<lambda>c. c = CHR ''-'') (rev (dropWhile (\<lambda>c. c = CHR ''-'') s)))"

definition slugify :: "call_env \<Rightarrow> bytes \<Rightarrow> bytes" where
  "slugify x name =
     (let out = trim_dashes (slug_chars False (to_lower (trim_space name)));
          out = (if out = '''' then ''org-'' @ cryptoRandHex x 0 4 else out) in
      take 48 out @ ''-'' @ cryptoRandHex x 1 3)"

definition CreateOrganization ::
  "org_service \<Rightarrow> call_env \<Rightarrow> bytes \<Rightarrow> bytes \<Rightarrow> bytes \<Rightarrow> ControlStore \<Rightarrow> OrganizationSummary served" where
  "CreateOrganization G x userID i name m =
     (if og_inviteOnly G then (Inl ErrOrgCreationDisabled, m)
      else let name = trim_space name in
        if name = '''' then (Inl (SvcText ''name is required''), m)
        else let i = trim_space i; i = to_lower (if i = '''' then slugify x name else i) in
          if \<not> slug_matches i
          then (Inl (SvcText ''id must be 3-64 chars: lowercase letters, digits, _ or -''), m)
          else case GetTenant i m of
            Inr _ \<Rightarrow> (Inl (SvcText ''organization id already exists''), m)
          | Inl err \<Rightarrow>
              if err \<noteq> ErrNotFound then (Inl (SvcStore err), m)
              else let t = \<lparr>tn_ID = i, tn_Name = name, tn_Status = ''active'', tn_CreatedAt = en_now x, tn_UpdatedAt = en_now x\<rparr> in
                (case CreateTenant t m of
                   (Some err, m1) \<Rightarrow> (Inl (SvcStore err), m1)
                 | (None, m1) \<Rightarrow> (case AddMember i userID RoleOwner m1 of
                     (Some err, m2) \<Rightarrow> (Inl (SvcStore err), m2)
                   | (None, m2) \<Rightarrow> (Inr \<lparr>os_Tenant = t, os_Role = RoleOwner\<rparr>, audit m2))))"

definition ListOrganizations :: "bytes \<Rightarrow> ControlStore \<Rightarrow> svc_err + OrganizationSummary list" where
  "ListOrganizations userID m = (case ListOrganizationsForUser userID m of
      Inl err \<Rightarrow> Inl (SvcStore err) | Inr os \<Rightarrow> Inr os)"

section \<open>Roles\<close>

definition RequireMember :: "call_env \<Rightarrow> bytes \<Rightarrow> bytes \<Rightarrow> ControlStore \<Rightarrow> svc_err + OrganizationMember" where
  "RequireMember x tenantID userID m = (case GetMember (en_now x) tenantID userID m of
      Inl ErrNotFound \<Rightarrow> Inl ErrForbidden | Inl err \<Rightarrow> Inl (SvcStore err) | Inr om \<Rightarrow> Inr om)"

definition RequireAdmin :: "call_env \<Rightarrow> bytes \<Rightarrow> bytes \<Rightarrow> ControlStore \<Rightarrow> svc_err + OrganizationMember" where
  "RequireAdmin x tenantID userID m = (case RequireMember x tenantID userID m of
      Inl err \<Rightarrow> Inl err
    | Inr om \<Rightarrow> if om_Role om \<noteq> RoleOwner \<and> om_Role om \<noteq> RoleAdmin then Inl ErrForbidden else Inr om)"

definition RequireOwner :: "call_env \<Rightarrow> bytes \<Rightarrow> bytes \<Rightarrow> ControlStore \<Rightarrow> svc_err + OrganizationMember" where
  "RequireOwner x tenantID userID m = (case RequireMember x tenantID userID m of
      Inl err \<Rightarrow> Inl err
    | Inr om \<Rightarrow> if om_Role om \<noteq> RoleOwner then Inl ErrForbidden else Inr om)"

definition CanManageSettings :: "bytes \<Rightarrow> bool" where
  "CanManageSettings role \<longleftrightarrow> role = RoleOwner \<or> role = RoleAdmin"

definition orgDeleteCodeKey :: "bytes \<Rightarrow> bytes \<Rightarrow> bytes" where
  "orgDeleteCodeKey tenantID ownerEmail = ''orgdelete:'' @ tenantID @ '':'' @ to_lower (trim_space ownerEmail)"

definition OrgListMembers :: "bytes \<Rightarrow> ControlStore \<Rightarrow> svc_err + OrganizationMember list" where
  "OrgListMembers tenantID m = (case ListMembers tenantID m of Inl err \<Rightarrow> Inl (SvcStore err) | Inr ms \<Rightarrow> Inr ms)"

definition OrgListInvites :: "call_env \<Rightarrow> bytes \<Rightarrow> ControlStore \<Rightarrow> svc_err + OrganizationInvite list" where
  "OrgListInvites x tenantID m = (case ListPendingInvitesForTenant (en_now x) tenantID m of
      Inl err \<Rightarrow> Inl (SvcStore err) | Inr is \<Rightarrow> Inr is)"

definition OrgListInvitesForUser :: "call_env \<Rightarrow> User \<Rightarrow> ControlStore \<Rightarrow> svc_err + OrganizationInvite list" where
  "OrgListInvitesForUser x user m = (case ListPendingInvitesForEmail (en_now x) (us_Email user) m of
      Inl err \<Rightarrow> Inl (SvcStore err) | Inr is \<Rightarrow> Inr is)"

section \<open>Invites\<close>

text \<open>Who may invite whom; \<open>None\<close> when the invite may be made.\<close>

definition invite_refused :: "bytes \<Rightarrow> bytes \<Rightarrow> svc_err option" where
  "invite_refused role inviterRole =
     (if role \<noteq> RoleMember \<and> role \<noteq> RoleAdmin \<and> role \<noteq> RoleOwner then Some (SvcText ''invalid role'')
      else if inviterRole = RoleOwner then None
      else if inviterRole = RoleAdmin
        then (if role = RoleOwner then Some (SvcText ''only owners can invite another owner'') else None)
      else Some ErrForbidden)"

definition already_member :: "call_env \<Rightarrow> bytes \<Rightarrow> bytes \<Rightarrow> ControlStore \<Rightarrow> bool" where
  "already_member x tenantID email m = (case GetUserByEmail email m of
      Inl _ \<Rightarrow> False
    | Inr u \<Rightarrow> (case GetMember (en_now x) tenantID (us_ID u) m of Inl _ \<Rightarrow> False | Inr _ \<Rightarrow> True))"

definition drop_pending :: "call_env \<Rightarrow> bytes \<Rightarrow> bytes \<Rightarrow> ControlStore \<Rightarrow> ControlStore" where
  "drop_pending x tenantID email m = (case ListPendingInvitesForTenant (en_now x) tenantID m of
      Inl _ \<Rightarrow> m
    | Inr existing \<Rightarrow> fold (\<lambda>e m. if equal_fold (iv_Email e) email then snd (DeleteInvite (iv_ID e) m) else m) existing m)"

definition InviteMember ::
  "org_service \<Rightarrow> call_env \<Rightarrow> bytes \<Rightarrow> bytes \<Rightarrow> bytes \<Rightarrow> bytes \<Rightarrow> bytes \<Rightarrow> ControlStore
     \<Rightarrow> (svc_err + OrganizationInvite) \<times> ControlStore \<times> mail list" where
  "InviteMember G x tenantID inviterID email role inviterRole m = (case normalizeEmail (og_auth G) email of
      Inl err \<Rightarrow> (Inl err, m, [])
    | Inr email \<Rightarrow> (let role = (if role = '''' then RoleMember else role) in
        case invite_refused role inviterRole of
          Some err \<Rightarrow> (Inl err, m, [])
        | None \<Rightarrow>
            if already_member x tenantID email m then (Inl ErrAlreadyMember, m, [])
            else (case randomToken x 0 24 of
                None \<Rightarrow> (Inl SvcRandom, m, [])
              | Some raw \<Rightarrow>
                  let ivt = \<lparr>iv_ID = ''inv_'' @ cryptoRandHex x 1 12, iv_TenantID = tenantID,
                        iv_TenantName = (case GetTenant tenantID m of Inl _ \<Rightarrow> '''' | Inr t \<Rightarrow> tn_Name t),
                        iv_Email = email, iv_Role = role, iv_InvitedBy = inviterID,
                        iv_ExpiresAt = en_now x + minutes (7 * 24 * 60), iv_AcceptedAt = None, iv_CreatedAt = en_now x,
                        iv_RawToken = raw\<rparr> in
                  (case CreateInvite ivt (hashToken raw) (drop_pending x tenantID email m) of
                     (Some err, m1) \<Rightarrow> (Inl (SvcStore err), m1, [])
                   | (None, m1) \<Rightarrow> (Inr ivt, audit m1,
                       if og_mailer G then [\<lparr>ml_to = email, ml_subject = ''Nance organization invite'',
                         ml_body = InviteBody (iv_TenantName ivt) (iv_ID ivt)\<rparr>] else []))))) "

definition AcceptInvite ::
  "call_env \<Rightarrow> User \<Rightarrow> bytes \<Rightarrow> ControlStore \<Rightarrow> OrganizationSummary served" where
  "AcceptInvite x user inviteID m = (case GetInviteByID inviteID m of
      Inl ErrNotFound \<Rightarrow> (Inl ErrInviteNotFound, m)
    | Inl err \<Rightarrow> (Inl (SvcStore err), m)
    | Inr ivt \<Rightarrow>
        if iv_AcceptedAt ivt \<noteq> None then (Inl ErrInviteNotFound, m)
        else if en_now x > iv_ExpiresAt ivt then (Inl ErrInviteExpired, m)
        else if \<not> equal_fold (iv_Email ivt) (us_Email user) then (Inl ErrForbidden, m)
        else (case AddMember (iv_TenantID ivt) (us_ID user) (iv_Role ivt) m of
            (Some err, m1) \<Rightarrow> (Inl (SvcStore err), m1)
          | (None, m1) \<Rightarrow> (let m2 = snd (MarkInviteAccepted (en_now x) (iv_ID ivt) m1) in
              case GetTenant (iv_TenantID ivt) m2 of
                Inl err \<Rightarrow> (Inl (SvcStore err), m2)
              | Inr t \<Rightarrow> (Inr \<lparr>os_Tenant = t, os_Role = iv_Role ivt\<rparr>, audit m2))))"

definition RevokeInvite :: "bytes \<Rightarrow> bytes \<Rightarrow> ControlStore \<Rightarrow> svc_err option \<times> ControlStore" where
  "RevokeInvite tenantID inviteID m = (case GetInviteByID inviteID m of
      Inl ErrNotFound \<Rightarrow> (Some ErrInviteNotFound, m)
    | Inl err \<Rightarrow> (Some (SvcStore err), m)
    | Inr ivt \<Rightarrow>
        if iv_TenantID ivt \<noteq> tenantID then (Some ErrInviteNotFound, m)
        else (case DeleteInvite inviteID m of
            (Some err, m1) \<Rightarrow> (Some (SvcStore err), m1) | (None, m1) \<Rightarrow> (None, audit m1)))"

section \<open>Removing members and organizations\<close>

definition OrgRemoveMember ::
  "call_env \<Rightarrow> bytes \<Rightarrow> bytes \<Rightarrow> bytes \<Rightarrow> ControlStore \<Rightarrow> svc_err option \<times> ControlStore" where
  "OrgRemoveMember x tenantID targetUserID actorRole m = (case GetMember (en_now x) tenantID targetUserID m of
      Inl ErrNotFound \<Rightarrow> (Some ErrNotMember, m)
    | Inl err \<Rightarrow> (Some (SvcStore err), m)
    | Inr target \<Rightarrow>
        if om_Role target = RoleOwner \<and> actorRole \<noteq> RoleOwner
        then (Some (SvcText ''only owners can remove an owner''), m)
        else (case (if om_Role target = RoleOwner
                 then (case ListMembers tenantID m of
                     Inl err \<Rightarrow> Some (SvcStore err)
                   | Inr ms \<Rightarrow> if length (filter (\<lambda>om. om_Role om = RoleOwner) ms) \<le> 1 then Some ErrLastOwner else None)
                 else None) of
            Some err \<Rightarrow> (Some err, m)
          | None \<Rightarrow> (case RemoveMember tenantID targetUserID m of
              (Some err, m1) \<Rightarrow> (Some (SvcStore err), m1) | (None, m1) \<Rightarrow> (None, audit m1))))"

definition RequestDeleteOrganization ::
  "org_service \<Rightarrow> call_env \<Rightarrow> bytes \<Rightarrow> User \<Rightarrow> ControlStore \<Rightarrow> svc_err option \<times> ControlStore \<times> mail list" where
  "RequestDeleteOrganization G x tenantID owner m = (case RequireOwner x tenantID (us_ID owner) m of
      Inl err \<Rightarrow> (Some err, m, [])
    | Inr _ \<Rightarrow> (case GetTenant tenantID m of
        Inl ErrNotFound \<Rightarrow> (Some ErrTenantNotFound, m, [])
      | Inl err \<Rightarrow> (Some (SvcStore err), m, [])
      | Inr t \<Rightarrow> (case randomDigits x 0 6 of
          None \<Rightarrow> (Some SvcRandom, m, [])
        | Some code \<Rightarrow> (case bc_Generate (as_bcrypt (og_auth G)) (en_salt x) code of
            None \<Rightarrow> (Some SvcBcrypt, m, [])
          | Some hash \<Rightarrow> (case SetEmailVerificationCode (orgDeleteCodeKey tenantID (us_Email owner)) hash
                  (en_now x + minutes 15) m of
              (Some err, m1) \<Rightarrow> (Some (SvcStore err), m1, [])
            | (None, m1) \<Rightarrow> (None, audit m1,
                if og_mailer G then [\<lparr>ml_to = us_Email owner, ml_subject = ''Confirm organization deletion '' @ [CHR 0xE2, CHR 0x80, CHR 0x94] @ '' Nance'',
                  ml_body = DeleteBody (tn_Name t) (tn_ID t) code\<rparr>] else []))))))"

definition ConfirmDeleteOrganization ::
  "org_service \<Rightarrow> call_env \<Rightarrow> bytes \<Rightarrow> User \<Rightarrow> bytes \<Rightarrow> ControlStore \<Rightarrow> svc_err option \<times> ControlStore" where
  "ConfirmDeleteOrganization G x tenantID owner code m = (case RequireOwner x tenantID (us_ID owner) m of
      Inl err \<Rightarrow> (Some err, m)
    | Inr _ \<Rightarrow> (case check_code (as_bcrypt (og_auth G)) x (orgDeleteCodeKey tenantID (us_Email owner)) code m of
        (Some err, m1) \<Rightarrow> (Some err, m1)
      | (None, m1) \<Rightarrow> (case DeleteTenant tenantID (audit m1) of
          (Some ErrNotFound, m2) \<Rightarrow> (Some ErrTenantNotFound, m2)
        | (Some err, m2) \<Rightarrow> (Some (SvcStore err), m2)
        | (None, m2) \<Rightarrow> (None, m2))))"

end
