(* ===== verification/Api.thy ===== *)
theory Api
  imports Org_Service
begin

text \<open>
  The HTTP interface of the control plane: \<open>internal/controlplane/auth/middleware.go\<close>,
  \<open>api/handlers/handlers.go\<close> and the routes of \<open>api/server.go\<close>.  A \<open>request\<close> is
  what the router and the JSON decoder deliver: the route with its URL parameters and the decoded
  body, \<open>None\<close> when decoding fails.  A reply is a status code and the value that is encoded;
  an error text built with \<open>err.Error()\<close> is kept as the error.  The Prometheus queries are
  parameters that return the encoded answer or the text of the error.
\<close>

section \<open>Configuration, state, requests and replies\<close>

record metrics_querier =
  mq_Savings :: "bytes \<Rightarrow> bytes \<Rightarrow> bytes + bytes"
  mq_Snapshot :: "bytes \<Rightarrow> bytes \<Rightarrow> bytes + bytes"
  mq_Timeseries :: "bytes \<Rightarrow> bytes \<Rightarrow> bytes \<Rightarrow> bytes \<Rightarrow> bytes + bytes"

record PlatformPublic =
  pf_InviteOnly :: bool
  pf_AllowOrgCreation :: bool
  pf_AllowAdminBootstrap :: bool
  pf_ProxyPublicEndpoint :: bytes
  pf_TokenReenableWindowSeconds :: int
  pf_PasswordAuthEnabled :: bool

record 's Handlers =
  hd_auth :: auth_service
  hd_orgs :: org_service
  hd_tokens :: token_service
  hd_aead :: aead
  hd_masterKey :: bytes
  hd_probe :: mongo_probe
  hd_cache :: "'s invalidator option"
  hd_metrics :: metrics_querier
  hd_platform :: PlatformPublic
  hd_adminToken :: bytes
  hd_requireUserAuth :: bool

text \<open>\<open>NewHandlers\<close>: what it changes in the platform record it is given.\<close>

definition NewHandlersPlatform :: "org_service \<Rightarrow> PlatformPublic \<Rightarrow> PlatformPublic" where
  "NewHandlersPlatform orgs platform =
     (if og_inviteOnly orgs then platform\<lparr>pf_InviteOnly := True, pf_AllowOrgCreation := False\<rparr> else platform)
       \<lparr>pf_AllowAdminBootstrap := True\<rparr>"

record 's Plane =
  pl_store :: ControlStore
  pl_outbox :: "mail list"
  pl_cache :: 's

record Principal =
  pr_User :: "User option"
  pr_IsAdmin :: bool

datatype payload =
    P_Err svc_err | P_Text bytes | P_Status bytes | P_Platform PlatformPublic | P_Login bytes int User | P_User User
  | P_Orgs "OrganizationSummary list" | P_Org OrganizationSummary
  | P_Tenant Tenant | P_Tenants "Tenant list" | P_TenantView Tenant "(bytes \<times> bool \<times> bool) option"
  | P_Members "OrganizationMember list" | P_Invites "OrganizationInvite list" | P_Invite OrganizationInvite
  | P_Connections "Connection list" | P_Connection Connection | P_Policy CachePolicy
  | P_Invalidated bytes bytes bytes bytes "bytes list"
  | P_Issued Token bytes bytes | P_Tokens "Token list" | P_Token Token | P_Json bytes

type_synonym reply = "int \<times> payload"

datatype request =
    GetPlatform | PostRequestCode "bytes option" | PostVerify "(bytes \<times> bytes) option"
  | PostLoginPassword "(bytes \<times> bytes) option" | PostForgotPassword "bytes option"
  | PostResetPassword "(bytes \<times> bytes) option"
  | PostLogout | GetMe | PatchMe "bytes option" | PutPassword "(bytes \<times> bytes) option"
  | GetMyOrganizations | PostMyOrganizations "(bytes \<times> bytes) option" | GetMyInvites | PostAcceptInvite bytes
  | PostTenants "(bytes \<times> bytes) option" | GetTenants | GetTenantById bytes
  | PostDeleteRequest bytes | PostDeleteConfirm bytes "bytes option"
  | GetMembers bytes | PostInvites bytes "(bytes \<times> bytes) option" | GetInvites bytes
  | DeleteInviteById bytes bytes | DeleteMember bytes bytes
  | GetConnections bytes | PostConnections bytes "(bytes \<times> bytes) option" | GetConnectionById bytes bytes
  | PutConnection bytes bytes "(bytes option \<times> bytes option \<times> bool option) option"
  | DeleteConnectionById bytes bytes | PostTest bytes bytes
  | GetTokens bytes bytes | PostTokens bytes bytes bytes | DeleteToken bytes | PostReenable bytes
  | GetPolicy bytes bytes | PutCollectionPolicy bytes bytes bytes "CollectionPolicy option"
  | PutDefaults bytes bytes "int option"
  | PostInvalidate bytes bytes "bytes \<times> bytes \<times> bytes list" "bytes \<times> bytes"
  | GetSavings bytes bytes | GetMetrics bytes bytes | GetTimeseries bytes bytes bytes bytes

section \<open>Helpers\<close>

text \<open>Running a service operation on the store, for its result and for its error only.\<close>

definition on_store :: "(ControlStore \<Rightarrow> 'a \<times> ControlStore) \<Rightarrow> 's Plane \<Rightarrow> 'a \<times> 's Plane" where
  "on_store f w = (case f (pl_store w) of (r, m) \<Rightarrow> (r, w\<lparr>pl_store := m\<rparr>))"

definition on_mailing :: "(ControlStore \<Rightarrow> 'a \<times> ControlStore \<times> mail list) \<Rightarrow> 's Plane \<Rightarrow> 'a \<times> 's Plane" where
  "on_mailing f w = (case f (pl_store w) of (r, m, ms) \<Rightarrow> (r, w\<lparr>pl_store := m, pl_outbox := pl_outbox w @ ms\<rparr>))"

definition bearerToken :: "bytes \<Rightarrow> bytes" where
  "bearerToken authz = (if \<not> has_prefix authz ''Bearer '' then '''' else trim_space (trim_prefix authz ''Bearer ''))"

definition mapAuthErr :: "svc_err \<Rightarrow> reply" where
  "mapAuthErr err = (case err of
      ErrUnauthorized \<Rightarrow> (401, P_Err err)
    | ErrOrgCreationDisabled \<Rightarrow> (403, P_Err err)
    | ErrForbidden \<Rightarrow> (403, P_Text ''forbidden'') | ErrNotMember \<Rightarrow> (403, P_Text ''forbidden'')
    | ErrPasswordAuthOff \<Rightarrow> (404, P_Err err)
    | ErrInvalidCredentials \<Rightarrow> (401, P_Err err)
    | ErrInvalidEmail \<Rightarrow> (400, P_Err err) | ErrInvalidCode \<Rightarrow> (400, P_Err err)
    | ErrTooManyAttempts \<Rightarrow> (400, P_Err err) | ErrInviteExpired \<Rightarrow> (400, P_Err err)
    | ErrAlreadyMember \<Rightarrow> (400, P_Err err) | ErrLastOwner \<Rightarrow> (400, P_Err err)
    | ErrWeakPassword \<Rightarrow> (400, P_Err err) | ErrPasswordMismatch \<Rightarrow> (400, P_Err err)
    | ErrNoPasswordSet \<Rightarrow> (400, P_Err err) | ErrInvalidResetToken \<Rightarrow> (400, P_Err err)
    | ErrInviteNotFound \<Rightarrow> (404, P_Err err) | ErrTenantNotFound \<Rightarrow> (404, P_Err err)
    | _ \<Rightarrow> (500, P_Err err))"

text \<open>The replies to an error of the connection, policy and token services.\<close>

definition connection_err :: "int \<Rightarrow> svc_err \<Rightarrow> reply" where
  "connection_err other err =
     (if err = ErrConnectionNotFound then (404, P_Text ''connection not found'') else (other, P_Err err))"

definition ensureTenantAccess :: "call_env \<Rightarrow> Principal \<Rightarrow> bytes \<Rightarrow> ControlStore \<Rightarrow> svc_err option" where
  "ensureTenantAccess x p tenantID m =
     (if pr_IsAdmin p then None
      else case pr_User p of
        None \<Rightarrow> Some ErrUnauthorized
      | Some u \<Rightarrow> (case RequireMember x tenantID (us_ID u) m of Inl err \<Rightarrow> Some err | Inr _ \<Rightarrow> None))"

definition ensureTenantAdmin :: "call_env \<Rightarrow> Principal \<Rightarrow> bytes \<Rightarrow> ControlStore \<Rightarrow> svc_err option" where
  "ensureTenantAdmin x p tenantID m =
     (if pr_IsAdmin p then None
      else case pr_User p of
        None \<Rightarrow> Some ErrUnauthorized
      | Some u \<Rightarrow> (case RequireAdmin x tenantID (us_ID u) m of Inl err \<Rightarrow> Some err | Inr _ \<Rightarrow> None))"

definition ensureTenantOwner :: "call_env \<Rightarrow> Principal \<Rightarrow> bytes \<Rightarrow> ControlStore \<Rightarrow> svc_err option" where
  "ensureTenantOwner x p tenantID m =
     (if pr_IsAdmin p then None
      else case pr_User p of
        None \<Rightarrow> Some ErrUnauthorized
      | Some u \<Rightarrow> (case RequireOwner x tenantID (us_ID u) m of Inl err \<Rightarrow> Some err | Inr _ \<Rightarrow> None))"

definition actorMembership :: "call_env \<Rightarrow> Principal \<Rightarrow> bytes \<Rightarrow> ControlStore \<Rightarrow> svc_err + OrganizationMember" where
  "actorMembership x p tenantID m =
     (if pr_IsAdmin p \<and> pr_User p = None
      then Inr \<lparr>om_TenantID = tenantID, om_UserID = '''', om_Email = '''', om_Name = '''', om_Role = RoleOwner, om_CreatedAt = 0\<rparr>
      else case pr_User p of
        None \<Rightarrow> Inl ErrUnauthorized
      | Some u \<Rightarrow> RequireMember x tenantID (us_ID u) m)"

text \<open>The actor and the role handed to the operations on members.\<close>

definition acting_as :: "call_env \<Rightarrow> Principal \<Rightarrow> bytes \<Rightarrow> ControlStore \<Rightarrow> bytes \<times> bytes" where
  "acting_as x p tenantID m = (case pr_User p of
      None \<Rightarrow> (''admin'', RoleOwner)
    | Some u \<Rightarrow> (us_ID u, case RequireMember x tenantID (us_ID u) m of Inl _ \<Rightarrow> RoleOwner | Inr om \<Rightarrow> om_Role om))"

text \<open>The two forms in which most handlers begin: with a user, and with a right on a tenant.\<close>

definition with_user :: "Principal \<Rightarrow> (User \<Rightarrow> 's Plane \<Rightarrow> reply \<times> 's Plane) \<Rightarrow> 's Plane \<Rightarrow> reply \<times> 's Plane" where
  "with_user p f w = (case pr_User p of None \<Rightarrow> ((401, P_Text ''unauthorized''), w) | Some u \<Rightarrow> f u w)"

definition guarded :: "svc_err option \<Rightarrow> ('s Plane \<Rightarrow> reply \<times> 's Plane) \<Rightarrow> 's Plane \<Rightarrow> reply \<times> 's Plane" where
  "guarded e f w = (case e of Some err \<Rightarrow> (mapAuthErr err, w) | None \<Rightarrow> f w)"

definition decoded :: "'a option \<Rightarrow> ('a \<Rightarrow> 's Plane \<Rightarrow> reply \<times> 's Plane) \<Rightarrow> 's Plane \<Rightarrow> reply \<times> 's Plane" where
  "decoded body f w = (case body of None \<Rightarrow> ((400, P_Text ''invalid json''), w) | Some b \<Rightarrow> f b w)"

text \<open>Replying to a result, and to a bare error.\<close>

definition answer :: "('a \<Rightarrow> reply) \<Rightarrow> (svc_err \<Rightarrow> reply) \<Rightarrow> (svc_err + 'a) \<times> 's Plane \<Rightarrow> reply \<times> 's Plane" where
  "answer good bad rw = (case rw of (Inl err, w) \<Rightarrow> (bad err, w) | (Inr a, w) \<Rightarrow> (good a, w))"

definition answer_done :: "reply \<Rightarrow> (svc_err \<Rightarrow> reply) \<Rightarrow> svc_err option \<times> 's Plane \<Rightarrow> reply \<times> 's Plane" where
  "answer_done good bad rw = (case rw of (Some err, w) \<Rightarrow> (bad err, w) | (None, w) \<Rightarrow> (good, w))"

section \<open>Login and profile\<close>

definition h_RequestCode :: "'s Handlers \<Rightarrow> call_env \<Rightarrow> bytes option \<Rightarrow> 's Plane \<Rightarrow> reply \<times> 's Plane" where
  "h_RequestCode h x body = decoded body (\<lambda>email w.
     answer_done (200, P_Status ''ok'') mapAuthErr (on_mailing (RequestCode (hd_auth h) x email) w))"

definition session_seconds :: int where "session_seconds = 2592000"

definition h_VerifyCode :: "'s Handlers \<Rightarrow> call_env \<Rightarrow> (bytes \<times> bytes) option \<Rightarrow> 's Plane \<Rightarrow> reply \<times> 's Plane" where
  "h_VerifyCode h x body = decoded body (\<lambda>(email, code) w.
     answer (\<lambda>(token, user). (200, P_Login token session_seconds user)) mapAuthErr
       (on_store (VerifyCode (hd_auth h) x email code '''') w))"

definition h_LoginPassword :: "'s Handlers \<Rightarrow> call_env \<Rightarrow> (bytes \<times> bytes) option \<Rightarrow> 's Plane \<Rightarrow> reply \<times> 's Plane" where
  "h_LoginPassword h x body = decoded body (\<lambda>(email, password) w.
     answer (\<lambda>(token, user). (200, P_Login token session_seconds user)) mapAuthErr
       (on_store (LoginWithPassword (hd_auth h) x email password) w))"

definition h_ForgotPassword :: "'s Handlers \<Rightarrow> call_env \<Rightarrow> bytes option \<Rightarrow> 's Plane \<Rightarrow> reply \<times> 's Plane" where
  "h_ForgotPassword h x body = decoded body (\<lambda>email w.
     answer_done (200, P_Status ''ok'') mapAuthErr (on_mailing (RequestPasswordReset (hd_auth h) x email) w))"

definition h_ResetPassword :: "'s Handlers \<Rightarrow> call_env \<Rightarrow> (bytes \<times> bytes) option \<Rightarrow> 's Plane \<Rightarrow> reply \<times> 's Plane" where
  "h_ResetPassword h x body = decoded body (\<lambda>(token, password) w.
     answer_done (200, P_Status ''ok'') mapAuthErr (on_store (ResetPassword (hd_auth h) x token password) w))"

definition h_SetPassword ::
  "'s Handlers \<Rightarrow> call_env \<Rightarrow> Principal \<Rightarrow> (bytes \<times> bytes) option \<Rightarrow> 's Plane \<Rightarrow> reply \<times> 's Plane" where
  "h_SetPassword h x p body = with_user p (\<lambda>u. decoded body (\<lambda>(current, password) w.
     answer (\<lambda>user. (200, P_User user)) mapAuthErr
       (on_store (SetPassword (hd_auth h) x (us_ID u) current password) w)))"

definition h_Logout :: "bytes \<Rightarrow> 's Plane \<Rightarrow> reply \<times> 's Plane" where
  "h_Logout authz w = ((200, P_Status ''ok''), snd (on_store (Logout (bearerToken authz)) w))"

definition h_Me :: "Principal \<Rightarrow> 's Plane \<Rightarrow> reply \<times> 's Plane" where
  "h_Me p = with_user p (\<lambda>u w. ((200, P_User u), w))"

definition h_UpdateMe :: "call_env \<Rightarrow> Principal \<Rightarrow> bytes option \<Rightarrow> 's Plane \<Rightarrow> reply \<times> 's Plane" where
  "h_UpdateMe x p body = with_user p (\<lambda>u. decoded body (\<lambda>name w.
     answer (\<lambda>user. (200, P_User user)) (\<lambda>err. (400, P_Err err)) (on_store (UpdateProfile x (us_ID u) name) w)))"

section \<open>Organizations\<close>

definition h_ListMyOrganizations :: "Principal \<Rightarrow> 's Plane \<Rightarrow> reply \<times> 's Plane" where
  "h_ListMyOrganizations p = with_user p (\<lambda>u w.
     answer (\<lambda>os. (200, P_Orgs os)) (\<lambda>err. (500, P_Err err)) (ListOrganizations (us_ID u) (pl_store w), w))"

definition h_CreateMyOrganization ::
  "'s Handlers \<Rightarrow> call_env \<Rightarrow> Principal \<Rightarrow> (bytes \<times> bytes) option \<Rightarrow> 's Plane \<Rightarrow> reply \<times> 's Plane" where
  "h_CreateMyOrganization h x p body = with_user p (\<lambda>u. decoded body (\<lambda>(i, name) w.
     answer (\<lambda>org. (201, P_Org org)) mapAuthErr (on_store (CreateOrganization (hd_orgs h) x (us_ID u) i name) w)))"

definition h_ListMyInvites :: "call_env \<Rightarrow> Principal \<Rightarrow> 's Plane \<Rightarrow> reply \<times> 's Plane" where
  "h_ListMyInvites x p = with_user p (\<lambda>u w.
     answer (\<lambda>is. (200, P_Invites is)) (\<lambda>err. (500, P_Err err)) (OrgListInvitesForUser x u (pl_store w), w))"

definition h_AcceptInvite :: "call_env \<Rightarrow> Principal \<Rightarrow> bytes \<Rightarrow> 's Plane \<Rightarrow> reply \<times> 's Plane" where
  "h_AcceptInvite x p inviteID = with_user p (\<lambda>u w.
     answer (\<lambda>org. (200, P_Org org)) mapAuthErr (on_store (AcceptInvite x u inviteID) w))"

definition h_CreateTenant ::
  "'s Handlers \<Rightarrow> call_env \<Rightarrow> Principal \<Rightarrow> (bytes \<times> bytes) option \<Rightarrow> 's Plane \<Rightarrow> reply \<times> 's Plane" where
  "h_CreateTenant h x p body =
     (if \<not> pr_IsAdmin p
      then with_user p (\<lambda>u. decoded body (\<lambda>(i, name) w.
        answer (\<lambda>org. (201, P_Tenant (os_Tenant org))) mapAuthErr
          (on_store (CreateOrganization (hd_orgs h) x (us_ID u) i name) w)))
      else decoded body (\<lambda>(i, name) w.
        answer (\<lambda>t. (201, P_Tenant t)) (\<lambda>err. (400, P_Err err)) (on_store (TenantCreate x i name) w)))"

definition h_GetTenant :: "call_env \<Rightarrow> Principal \<Rightarrow> bytes \<Rightarrow> 's Plane \<Rightarrow> reply \<times> 's Plane" where
  "h_GetTenant x p i w = guarded (ensureTenantAccess x p i (pl_store w)) (\<lambda>w.
     answer (\<lambda>t. (200, P_TenantView t (case actorMembership x p i (pl_store w) of
           Inl _ \<Rightarrow> None
         | Inr om \<Rightarrow> Some (om_Role om, CanManageSettings (om_Role om), om_Role om = RoleOwner \<or> pr_IsAdmin p))))
       (\<lambda>err. if err = ErrTenantNotFound then (404, P_Text ''tenant not found'') else (500, P_Err err))
       (TenantGet i (pl_store w), w)) w"

definition h_ListTenants :: "Principal \<Rightarrow> 's Plane \<Rightarrow> reply \<times> 's Plane" where
  "h_ListTenants p w = (case pr_User p of
      None \<Rightarrow>
        if pr_IsAdmin p
        then answer (\<lambda>ts. (200, P_Tenants ts)) (\<lambda>err. (500, P_Err err)) (TenantList (pl_store w), w)
        else ((401, P_Text ''unauthorized''), w)
    | Some u \<Rightarrow> answer (\<lambda>os. (200, P_Tenants (map os_Tenant os))) (\<lambda>err. (500, P_Err err))
        (ListOrganizations (us_ID u) (pl_store w), w))"

section \<open>Members and invites\<close>

definition h_ListMembers :: "call_env \<Rightarrow> Principal \<Rightarrow> bytes \<Rightarrow> 's Plane \<Rightarrow> reply \<times> 's Plane" where
  "h_ListMembers x p t w = guarded (ensureTenantAccess x p t (pl_store w)) (\<lambda>w.
     answer (\<lambda>ms. (200, P_Members ms)) (\<lambda>err. (500, P_Err err)) (OrgListMembers t (pl_store w), w)) w"

definition h_InviteMember ::
  "'s Handlers \<Rightarrow> call_env \<Rightarrow> Principal \<Rightarrow> bytes \<Rightarrow> (bytes \<times> bytes) option \<Rightarrow> 's Plane \<Rightarrow> reply \<times> 's Plane" where
  "h_InviteMember h x p t body w = guarded (ensureTenantAdmin x p t (pl_store w)) (decoded body (\<lambda>(email, role) w.
     case acting_as x p t (pl_store w) of (actor, actorRole) \<Rightarrow>
       answer (\<lambda>ivt. (201, P_Invite (ivt\<lparr>iv_RawToken := ''''\<rparr>))) mapAuthErr
         (on_mailing (InviteMember (hd_orgs h) x t actor email role actorRole) w))) w"

definition h_ListTenantInvites :: "call_env \<Rightarrow> Principal \<Rightarrow> bytes \<Rightarrow> 's Plane \<Rightarrow> reply \<times> 's Plane" where
  "h_ListTenantInvites x p t w = guarded (ensureTenantAdmin x p t (pl_store w)) (\<lambda>w.
     answer (\<lambda>is. (200, P_Invites is)) (\<lambda>err. (500, P_Err err)) (OrgListInvites x t (pl_store w), w)) w"

definition h_RevokeInvite :: "call_env \<Rightarrow> Principal \<Rightarrow> bytes \<Rightarrow> bytes \<Rightarrow> 's Plane \<Rightarrow> reply \<times> 's Plane" where
  "h_RevokeInvite x p t inviteID w = guarded (ensureTenantAdmin x p t (pl_store w)) (\<lambda>w.
     answer_done (200, P_Status ''ok'') mapAuthErr (on_store (RevokeInvite t inviteID) w)) w"

definition h_RemoveMember :: "call_env \<Rightarrow> Principal \<Rightarrow> bytes \<Rightarrow> bytes \<Rightarrow> 's Plane \<Rightarrow> reply \<times> 's Plane" where
  "h_RemoveMember x p t userID w = guarded (ensureTenantAdmin x p t (pl_store w)) (\<lambda>w.
     answer_done (200, P_Status ''ok'') mapAuthErr
       (on_store (OrgRemoveMember x t userID (snd (acting_as x p t (pl_store w)))) w)) w"

definition h_RequestDelete :: "'s Handlers \<Rightarrow> call_env \<Rightarrow> Principal \<Rightarrow> bytes \<Rightarrow> 's Plane \<Rightarrow> reply \<times> 's Plane" where
  "h_RequestDelete h x p t w = (case pr_User p of
      None \<Rightarrow> ((if \<not> pr_IsAdmin p then (401, P_Text ''unauthorized'')
          else (400, P_Text ''sign in as an organization owner to delete (email verification required)'')), w)
    | Some u \<Rightarrow> answer_done (200, P_Status ''ok'') mapAuthErr
        (on_mailing (RequestDeleteOrganization (hd_orgs h) x t u) w))"

definition h_ConfirmDelete ::
  "'s Handlers \<Rightarrow> call_env \<Rightarrow> Principal \<Rightarrow> bytes \<Rightarrow> bytes option \<Rightarrow> 's Plane \<Rightarrow> reply \<times> 's Plane" where
  "h_ConfirmDelete h x p t body = with_user p (\<lambda>u. decoded body (\<lambda>code w.
     answer_done (200, P_Status ''deleted'') mapAuthErr
       (on_store (ConfirmDeleteOrganization (hd_orgs h) x t u code) w)))"

section \<open>Connections\<close>

definition h_ListConnections :: "call_env \<Rightarrow> Principal \<Rightarrow> bytes \<Rightarrow> 's Plane \<Rightarrow> reply \<times> 's Plane" where
  "h_ListConnections x p t w = guarded (ensureTenantAccess x p t (pl_store w)) (\<lambda>w.
     answer (\<lambda>cs. (200, P_Connections cs)) (\<lambda>err. (500, P_Err err)) (ConnList t (pl_store w), w)) w"

definition h_CreateConnection ::
  "'s Handlers \<Rightarrow> call_env \<Rightarrow> Principal \<Rightarrow> bytes \<Rightarrow> (bytes \<times> bytes) option \<Rightarrow> 's Plane \<Rightarrow> reply \<times> 's Plane" where
  "h_CreateConnection h x p t body w = guarded (ensureTenantAdmin x p t (pl_store w)) (decoded body (\<lambda>(name, uri) w.
     answer (\<lambda>c. (201, P_Connection c))
       (\<lambda>err. if err = ErrTenantNotFound then (404, P_Text ''tenant not found'')
          else if err = ErrDuplicateName then (409, P_Err err) else (400, P_Err err))
       (on_store (ConnCreate (hd_aead h) (hd_masterKey h) x t name uri) w))) w"

definition h_GetConnection :: "call_env \<Rightarrow> Principal \<Rightarrow> bytes \<Rightarrow> bytes \<Rightarrow> 's Plane \<Rightarrow> reply \<times> 's Plane" where
  "h_GetConnection x p t c w = guarded (ensureTenantAccess x p t (pl_store w)) (\<lambda>w.
     answer (\<lambda>c. (200, P_Connection c)) (connection_err 500) (ConnGet t c (pl_store w), w)) w"

text \<open>The three optional changes, in order; the first error is the reply.\<close>

definition put_connection ::
  "'s Handlers \<Rightarrow> call_env \<Rightarrow> bytes \<Rightarrow> bytes \<Rightarrow> bytes option \<Rightarrow> bytes option \<Rightarrow> bool option \<Rightarrow> ControlStore
     \<Rightarrow> reply option \<times> ControlStore" where
  "put_connection h x t c name uri auto m0 =
     (case (case name of None \<Rightarrow> (None, m0) | Some n \<Rightarrow> ConnRename x t c n m0) of
        (Some err, m1) \<Rightarrow> (Some (if err = ErrDuplicateName then (409, P_Err err) else connection_err 400 err), m1)
      | (None, m1) \<Rightarrow>
          (case (case uri of None \<Rightarrow> (None, m1) | Some u \<Rightarrow> ConnUpdateURI (hd_aead h) (hd_masterKey h) x t c u m1) of
             (Some err, m2) \<Rightarrow> (Some (connection_err 400 err), m2)
           | (None, m2) \<Rightarrow>
               (case (case auto of None \<Rightarrow> (None, m2) | Some b \<Rightarrow> ConnSetAutoInvalidate x t c b m2) of
                  (Some err, m3) \<Rightarrow> (Some (connection_err 400 err), m3)
                | (None, m3) \<Rightarrow> (None, m3))))"

definition h_UpdateConnection ::
  "'s Handlers \<Rightarrow> call_env \<Rightarrow> Principal \<Rightarrow> bytes \<Rightarrow> bytes \<Rightarrow> (bytes option \<times> bytes option \<times> bool option) option
     \<Rightarrow> 's Plane \<Rightarrow> reply \<times> 's Plane" where
  "h_UpdateConnection h x p t c body w = guarded (ensureTenantAdmin x p t (pl_store w)) (decoded body (\<lambda>(name, uri, auto) w.
     if name = None \<and> uri = None \<and> auto = None
     then ((400, P_Text ''name, uri, or autoInvalidateOnWrite required''), w)
     else case on_store (put_connection h x t c name uri auto) w of
         (Some r, w1) \<Rightarrow> (r, w1)
       | (None, w1) \<Rightarrow> answer (\<lambda>c. (200, P_Connection c)) (\<lambda>err. (500, P_Err err)) (ConnGet t c (pl_store w1), w1))) w"

definition h_DeleteConnection :: "call_env \<Rightarrow> Principal \<Rightarrow> bytes \<Rightarrow> bytes \<Rightarrow> 's Plane \<Rightarrow> reply \<times> 's Plane" where
  "h_DeleteConnection x p t c w = guarded (ensureTenantAdmin x p t (pl_store w)) (\<lambda>w.
     answer_done (200, P_Status ''deleted'') (connection_err 400) (on_store (ConnDelete t c) w)) w"

definition h_TestConnection :: "'s Handlers \<Rightarrow> call_env \<Rightarrow> Principal \<Rightarrow> bytes \<Rightarrow> bytes \<Rightarrow> 's Plane \<Rightarrow> reply \<times> 's Plane" where
  "h_TestConnection h x p t c w = guarded (ensureTenantAccess x p t (pl_store w)) (\<lambda>w.
     answer_done (200, P_Status ''ok'') (connection_err 400)
       (on_store (ConnTest (hd_probe h) (hd_aead h) (hd_masterKey h) x t c) w)) w"

section \<open>Policies\<close>

definition h_GetPolicy :: "call_env \<Rightarrow> Principal \<Rightarrow> bytes \<Rightarrow> bytes \<Rightarrow> 's Plane \<Rightarrow> reply \<times> 's Plane" where
  "h_GetPolicy x p t c w = guarded (ensureTenantAccess x p t (pl_store w)) (\<lambda>w.
     answer (\<lambda>q. (200, P_Policy q)) (connection_err 500) (PolicyGet t c (pl_store w), w)) w"

definition h_SetCollectionPolicy ::
  "call_env \<Rightarrow> Principal \<Rightarrow> bytes \<Rightarrow> bytes \<Rightarrow> bytes \<Rightarrow> CollectionPolicy option \<Rightarrow> 's Plane \<Rightarrow> reply \<times> 's Plane" where
  "h_SetCollectionPolicy x p t c dbColl body w = guarded (ensureTenantAdmin x p t (pl_store w)) (decoded body (\<lambda>cp w.
     answer_done (200, P_Status ''updated'') (connection_err 400) (on_store (SetCollectionPolicy t c dbColl cp) w))) w"

definition h_SetDefaultTTL ::
  "call_env \<Rightarrow> Principal \<Rightarrow> bytes \<Rightarrow> bytes \<Rightarrow> int option \<Rightarrow> 's Plane \<Rightarrow> reply \<times> 's Plane" where
  "h_SetDefaultTTL x p t c body w = guarded (ensureTenantAdmin x p t (pl_store w)) (decoded body (\<lambda>ttl w.
     answer_done (200, P_Status ''updated'') (connection_err 400) (on_store (SetDefaults t c ttl) w))) w"

definition h_Invalidate ::
  "'s Handlers \<Rightarrow> call_env \<Rightarrow> Principal \<Rightarrow> bytes \<Rightarrow> bytes \<Rightarrow> bytes \<times> bytes \<times> bytes list \<Rightarrow> bytes \<times> bytes
     \<Rightarrow> 's Plane \<Rightarrow> reply \<times> 's Plane" where
  "h_Invalidate h x p t c body query w = guarded (ensureTenantAdmin x p t (pl_store w)) (\<lambda>w.
     case (body, query) of ((bdb, bcoll, tags), (qdb, qcoll)) \<Rightarrow>
       (let db = (if bdb = '''' then qdb else bdb); coll = (if bcoll = '''' then qcoll else bcoll) in
        case PolicyInvalidate (hd_cache h) t c db coll tags (pl_store w) (pl_cache w) of
          (res, m, s) \<Rightarrow> answer_done (200, P_Invalidated t c db coll tags) (connection_err 400)
            (res, w\<lparr>pl_store := m, pl_cache := s\<rparr>))) w"

section \<open>Metrics\<close>

definition json_answer :: "bytes + bytes \<Rightarrow> 's Plane \<Rightarrow> reply \<times> 's Plane" where
  "json_answer r w = (case r of Inl e \<Rightarrow> ((400, P_Text e), w) | Inr j \<Rightarrow> ((200, P_Json j), w))"

definition h_SavingsReport :: "'s Handlers \<Rightarrow> call_env \<Rightarrow> Principal \<Rightarrow> bytes \<Rightarrow> bytes \<Rightarrow> 's Plane \<Rightarrow> reply \<times> 's Plane" where
  "h_SavingsReport h x p t window w =
     guarded (ensureTenantAccess x p t (pl_store w)) (json_answer (mq_Savings (hd_metrics h) t window)) w"

definition h_TenantMetrics :: "'s Handlers \<Rightarrow> call_env \<Rightarrow> Principal \<Rightarrow> bytes \<Rightarrow> bytes \<Rightarrow> 's Plane \<Rightarrow> reply \<times> 's Plane" where
  "h_TenantMetrics h x p t window w =
     guarded (ensureTenantAccess x p t (pl_store w)) (json_answer (mq_Snapshot (hd_metrics h) t window)) w"

definition h_TenantMetricsTimeseries ::
  "'s Handlers \<Rightarrow> call_env \<Rightarrow> Principal \<Rightarrow> bytes \<Rightarrow> bytes \<Rightarrow> bytes \<Rightarrow> bytes \<Rightarrow> 's Plane \<Rightarrow> reply \<times> 's Plane" where
  "h_TenantMetricsTimeseries h x p t metric window step w = guarded (ensureTenantAccess x p t (pl_store w)) (\<lambda>w.
     if metric = '''' then ((400, P_Text ''metric query param required''), w)
     else json_answer (mq_Timeseries (hd_metrics h) t metric window step) w) w"

section \<open>Tokens\<close>

definition h_IssueToken ::
  "'s Handlers \<Rightarrow> call_env \<Rightarrow> Principal \<Rightarrow> bytes \<Rightarrow> bytes \<Rightarrow> bytes \<Rightarrow> 's Plane \<Rightarrow> reply \<times> 's Plane" where
  "h_IssueToken h x p t c description w = guarded (ensureTenantAdmin x p t (pl_store w)) (\<lambda>w.
     answer (\<lambda>a. (201, P_Issued (is_Token a) (is_RawToken a) (is_ProxyConnectionURI a))) (connection_err 400)
       (on_store (TokenIssue (hd_tokens h) (as_bcrypt (hd_auth h)) x t c description) w)) w"

definition h_ListTokens :: "'s Handlers \<Rightarrow> call_env \<Rightarrow> Principal \<Rightarrow> bytes \<Rightarrow> bytes \<Rightarrow> 's Plane \<Rightarrow> reply \<times> 's Plane" where
  "h_ListTokens h x p t c w = guarded (ensureTenantAccess x p t (pl_store w)) (\<lambda>w.
     answer (\<lambda>ts. (200, P_Tokens ts)) (connection_err 500) (TokenListForConnection (hd_tokens h) x t c (pl_store w), w)) w"

definition h_RevokeToken :: "'s Handlers \<Rightarrow> call_env \<Rightarrow> Principal \<Rightarrow> bytes \<Rightarrow> 's Plane \<Rightarrow> reply \<times> 's Plane" where
  "h_RevokeToken h x p tokenID w = (case TokenGet (hd_tokens h) x tokenID (pl_store w) of
      Inl err \<Rightarrow> ((404, P_Text ''token not found''), w)
    | Inr tok \<Rightarrow> guarded (ensureTenantAdmin x p (tk_TenantID tok) (pl_store w)) (\<lambda>w.
        answer_done (200, P_Status ''revoked'') (\<lambda>err. (400, P_Err err)) (on_store (TokenRevoke x tokenID) w)) w)"

definition reenable_err :: "svc_err \<Rightarrow> reply" where
  "reenable_err err = (case err of
      ErrReenableDisabled \<Rightarrow> (403, P_Err err)
    | ErrReenableWindowExpired \<Rightarrow> (409, P_Err err)
    | ErrTokenNotRevoked \<Rightarrow> (400, P_Err err)
    | ErrInvalidToken \<Rightarrow> (404, P_Text ''token not found'')
    | _ \<Rightarrow> (400, P_Err err))"

definition h_ReenableToken :: "'s Handlers \<Rightarrow> call_env \<Rightarrow> Principal \<Rightarrow> bytes \<Rightarrow> 's Plane \<Rightarrow> reply \<times> 's Plane" where
  "h_ReenableToken h x p tokenID w = (case TokenGet (hd_tokens h) x tokenID (pl_store w) of
      Inl err \<Rightarrow> ((404, P_Text ''token not found''), w)
    | Inr tok \<Rightarrow> guarded (ensureTenantAdmin x p (tk_TenantID tok) (pl_store w)) (\<lambda>w.
        answer (\<lambda>tok. (200, P_Token tok)) reenable_err (on_store (TokenReenable (hd_tokens h) x tokenID) w)) w)"

section \<open>Authentication and routing\<close>

text \<open>The middleware: the principal of a request, or \<open>None\<close> when it is refused.\<close>

definition Middleware :: "'s Handlers \<Rightarrow> call_env \<Rightarrow> bytes \<Rightarrow> ControlStore \<Rightarrow> Principal option \<times> ControlStore" where
  "Middleware h x authz m =
     (if \<not> has_prefix authz ''Bearer ''
      then (if hd_adminToken h = '''' \<and> \<not> hd_requireUserAuth h
            then Some \<lparr>pr_User = None, pr_IsAdmin = True\<rparr> else None, m)
      else let token = trim_space (trim_prefix authz ''Bearer '') in
        if hd_adminToken h \<noteq> '''' \<and> token = hd_adminToken h
        then (Some \<lparr>pr_User = None, pr_IsAdmin = True\<rparr>, m)
        else (case SessionUser x token m of
            (Inl err, m1) \<Rightarrow> (None, m1)
          | (Inr u, m1) \<Rightarrow> (Some \<lparr>pr_User = Some u, pr_IsAdmin = False\<rparr>, m1)))"

text \<open>The handlers behind the middleware.\<close>

fun route :: "'s Handlers \<Rightarrow> call_env \<Rightarrow> bytes \<Rightarrow> Principal \<Rightarrow> request \<Rightarrow> 's Plane \<Rightarrow> reply \<times> 's Plane" where
  "route h x authz p PostLogout = h_Logout authz"
| "route h x authz p GetMe = h_Me p"
| "route h x authz p (PatchMe b) = h_UpdateMe x p b"
| "route h x authz p (PutPassword b) = h_SetPassword h x p b"
| "route h x authz p GetMyOrganizations = h_ListMyOrganizations p"
| "route h x authz p (PostMyOrganizations b) = h_CreateMyOrganization h x p b"
| "route h x authz p GetMyInvites = h_ListMyInvites x p"
| "route h x authz p (PostAcceptInvite i) = h_AcceptInvite x p i"
| "route h x authz p (PostTenants b) = h_CreateTenant h x p b"
| "route h x authz p GetTenants = h_ListTenants p"
| "route h x authz p (GetTenantById t) = h_GetTenant x p t"
| "route h x authz p (PostDeleteRequest t) = h_RequestDelete h x p t"
| "route h x authz p (PostDeleteConfirm t b) = h_ConfirmDelete h x p t b"
| "route h x authz p (GetMembers t) = h_ListMembers x p t"
| "route h x authz p (PostInvites t b) = h_InviteMember h x p t b"
| "route h x authz p (GetInvites t) = h_ListTenantInvites x p t"
| "route h x authz p (DeleteInviteById t i) = h_RevokeInvite x p t i"
| "route h x authz p (DeleteMember t u) = h_RemoveMember x p t u"
| "route h x authz p (GetConnections t) = h_ListConnections x p t"
| "route h x authz p (PostConnections t b) = h_CreateConnection h x p t b"
| "route h x authz p (GetConnectionById t c) = h_GetConnection x p t c"
| "route h x authz p (PutConnection t c b) = h_UpdateConnection h x p t c b"
| "route h x authz p (DeleteConnectionById t c) = h_DeleteConnection x p t c"
| "route h x authz p (PostTest t c) = h_TestConnection h x p t c"
| "route h x authz p (GetTokens t c) = h_ListTokens h x p t c"
| "route h x authz p (PostTokens t c d) = h_IssueToken h x p t c d"
| "route h x authz p (DeleteToken k) = h_RevokeToken h x p k"
| "route h x authz p (PostReenable k) = h_ReenableToken h x p k"
| "route h x authz p (GetPolicy t c) = h_GetPolicy x p t c"
| "route h x authz p (PutCollectionPolicy t c k b) = h_SetCollectionPolicy x p t c k b"
| "route h x authz p (PutDefaults t c b) = h_SetDefaultTTL x p t c b"
| "route h x authz p (PostInvalidate t c b q) = h_Invalidate h x p t c b q"
| "route h x authz p (GetSavings t v) = h_SavingsReport h x p t v"
| "route h x authz p (GetMetrics t v) = h_TenantMetrics h x p t v"
| "route h x authz p (GetTimeseries t k v s) = h_TenantMetricsTimeseries h x p t k v s"
| "route h x authz p r = (\<lambda>w. ((404, P_Text ''''), w))"

text \<open>One request: the public routes, or the middleware and then the route.\<close>

definition serve_api :: "'s Handlers \<Rightarrow> call_env \<Rightarrow> bytes \<Rightarrow> request \<Rightarrow> 's Plane \<Rightarrow> reply \<times> 's Plane" where
  "serve_api h x authz r w = (case r of
      GetPlatform \<Rightarrow> ((200, P_Platform (hd_platform h)), w)
    | PostRequestCode b \<Rightarrow> h_RequestCode h x b w
    | PostVerify b \<Rightarrow> h_VerifyCode h x b w
    | PostLoginPassword b \<Rightarrow> h_LoginPassword h x b w
    | PostForgotPassword b \<Rightarrow> h_ForgotPassword h x b w
    | PostResetPassword b \<Rightarrow> h_ResetPassword h x b w
    | _ \<Rightarrow> (case on_store (Middleware h x authz) w of
        (None, w1) \<Rightarrow> ((401, P_Text ''unauthorized''), w1)
      | (Some p, w1) \<Rightarrow> route h x authz p r w1))"

end
