(* ===== verification/Plane_View.thy ===== *)
theory Plane_View
  imports Api
begin

text \<open>
  What a tenant owns in the control-plane store, the integrity of the store, and what each service
  operation does to both.
\<close>

section \<open>The data of a tenant\<close>

text \<open>A connection without the times that a connection test writes.\<close>

definition conn_settings :: "Connection \<Rightarrow> Connection" where
  "conn_settings c = c\<lparr>cn_LastValidatedAt := None, cn_UpdatedAt := 0\<rparr>"

definition conn_view :: "bytes \<Rightarrow> ControlStore \<Rightarrow> bytes \<Rightarrow> Connection option" where
  "conn_view t m i = (case gm_get (m_connections m) i of None \<Rightarrow> None
     | Some c \<Rightarrow> if cn_TenantID c = t then Some (conn_settings c) else None)"

definition token_view :: "bytes \<Rightarrow> ControlStore \<Rightarrow> bytes \<Rightarrow> tokenRow option" where
  "token_view t m i = (case gm_get (m_tokens m) i of None \<Rightarrow> None
     | Some r \<Rightarrow> if tk_TenantID (tr_tok r) = t then Some r else None)"

definition policy_view :: "bytes \<Rightarrow> ControlStore \<Rightarrow> bytes \<Rightarrow> CachePolicy option" where
  "policy_view t m i = (if conn_view t m i = None then None else gm_get (m_policies m) i)"

definition invite_view :: "bytes \<Rightarrow> ControlStore \<Rightarrow> bytes \<Rightarrow> inviteRow option" where
  "invite_view t m i = (case gm_get (m_invites m) i of None \<Rightarrow> None
     | Some r \<Rightarrow> if iv_TenantID (ir_inv r) = t then Some r else None)"

definition member_view :: "bytes \<Rightarrow> ControlStore \<Rightarrow> bytes \<Rightarrow> bytes option" where
  "member_view t m u = gm_get (members_of t m) u"

record tenant_data =
  td_row :: "Tenant option"
  td_conns :: "bytes \<Rightarrow> Connection option"
  td_policies :: "bytes \<Rightarrow> CachePolicy option"
  td_tokens :: "bytes \<Rightarrow> tokenRow option"
  td_invites :: "bytes \<Rightarrow> inviteRow option"
  td_members :: "bytes \<Rightarrow> bytes option"

definition tenant_data :: "bytes \<Rightarrow> ControlStore \<Rightarrow> tenant_data" where
  "tenant_data t m = \<lparr>td_row = gm_get (m_tenants m) t, td_conns = conn_view t m, td_policies = policy_view t m,
     td_tokens = token_view t m, td_invites = invite_view t m, td_members = member_view t m\<rparr>"

section \<open>Integrity\<close>

text \<open>
  Maps have distinct keys, rows are stored under their ids, a token is bound to an existing
  connection of its own tenant, and the e-mail index leads to the user with that e-mail.
\<close>

definition maps_ok :: "ControlStore \<Rightarrow> bool" where
  "maps_ok m \<longleftrightarrow> gm_wf (m_connections m) \<and> gm_wf (m_tokens m) \<and> gm_wf (m_invites m)
     \<and> (\<forall>t ms. gm_get (m_members m) t = Some ms \<longrightarrow> gm_wf ms)"

definition rows_ok :: "ControlStore \<Rightarrow> bool" where
  "rows_ok m \<longleftrightarrow> (\<forall>i c. gm_get (m_connections m) i = Some c \<longrightarrow> cn_ID c = i)
     \<and> (\<forall>i r. gm_get (m_tokens m) i = Some r \<longrightarrow> tk_ID (tr_tok r) = i)
     \<and> (\<forall>i r. gm_get (m_invites m) i = Some r \<longrightarrow> iv_ID (ir_inv r) = i)"

definition tokens_bound :: "ControlStore \<Rightarrow> bool" where
  "tokens_bound m \<longleftrightarrow> (\<forall>i r. gm_get (m_tokens m) i = Some r \<longrightarrow>
     (\<exists>c. gm_get (m_connections m) (tk_ConnectionID (tr_tok r)) = Some c \<and> cn_TenantID c = tk_TenantID (tr_tok r)))"

definition usr_id :: "bytes \<Rightarrow> bytes" where
  "usr_id e = ''usr_mem_'' @ e"

definition emails_ok :: "ControlStore \<Rightarrow> bool" where
  "emails_ok m \<longleftrightarrow> (\<forall>e i. gm_get (m_usersByEmail m) e = Some i \<longrightarrow>
     i = usr_id e \<and> (\<exists>u. gm_get (m_users m) i = Some u \<and> us_ID u = i \<and> us_Email u = e))"

definition plane_ok :: "ControlStore \<Rightarrow> bool" where
  "plane_ok m \<longleftrightarrow> maps_ok m \<and> rows_ok m \<and> tokens_bound m \<and> emails_ok m"

lemmas plane_defs = plane_ok_def maps_ok_def rows_ok_def tokens_bound_def emails_ok_def

lemma plane_ok_initial: "plane_ok NewControlStore"
  by (simp add: plane_defs NewControlStore_def)

lemmas view_defs = tenant_data_def conn_view_def token_view_def policy_view_def invite_view_def member_view_def
  members_of_def

section \<open>Fields that neither looks at\<close>

lemma untouched [simp]:
  "tenant_data t (m\<lparr>m_users := a\<rparr>) = tenant_data t m"
  "tenant_data t (m\<lparr>m_usersByEmail := b\<rparr>) = tenant_data t m"
  "tenant_data t (m\<lparr>m_userPasswords := c\<rparr>) = tenant_data t m"
  "tenant_data t (m\<lparr>m_passwordResets := d\<rparr>) = tenant_data t m"
  "tenant_data t (m\<lparr>m_emailCodes := e\<rparr>) = tenant_data t m"
  "tenant_data t (m\<lparr>m_sessions := f\<rparr>) = tenant_data t m"
  "tenant_data t (m\<lparr>m_audits := g\<rparr>) = tenant_data t m"
  by (simp_all add: view_defs fun_eq_iff)

lemma token_bound:
  "plane_ok m \<Longrightarrow> gm_get (m_tokens m) i = Some r \<Longrightarrow>
   \<exists>c. gm_get (m_connections m) (tk_ConnectionID (tr_tok r)) = Some c \<and> cn_TenantID c = tk_TenantID (tr_tok r)"
  by (simp add: plane_ok_def tokens_bound_def)

lemma untouched_ok [simp]:
  "plane_ok (m\<lparr>m_userPasswords := c\<rparr>) = plane_ok m"
  "plane_ok (m\<lparr>m_passwordResets := d\<rparr>) = plane_ok m"
  "plane_ok (m\<lparr>m_emailCodes := e\<rparr>) = plane_ok m"
  "plane_ok (m\<lparr>m_sessions := f\<rparr>) = plane_ok m"
  "plane_ok (m\<lparr>m_audits := g\<rparr>) = plane_ok m"
  "plane_ok (m\<lparr>m_tenants := h\<rparr>) = plane_ok m"
  "plane_ok (m\<lparr>m_policies := k\<rparr>) = plane_ok m"
  by (simp_all add: plane_defs)

lemma audit_views [simp]: "tenant_data t (audit m) = tenant_data t m" "plane_ok (audit m) = plane_ok m"
  by (simp_all add: audit_def RecordAudit_def)

section \<open>Store operations on other tenants\<close>

lemma conn_put_other:
  assumes "cn_TenantID c \<noteq> t" and "\<And>c'. gm_get (m_connections m) i = Some c' \<Longrightarrow> cn_TenantID c' \<noteq> t"
  shows "tenant_data t (m\<lparr>m_connections := gm_put (m_connections m) i c\<rparr>) = tenant_data t m"
proof -
  have "conn_view t (m\<lparr>m_connections := gm_put (m_connections m) i c\<rparr>) j = conn_view t m j" for j
    using assms by (cases "gm_get (m_connections m) i") (auto simp: conn_view_def)
  thus ?thesis by (simp add: tenant_data_def policy_view_def token_view_def invite_view_def member_view_def
        members_of_def fun_eq_iff)
qed

lemma conn_put_settings:
  assumes "gm_get (m_connections m) i = Some c'" and "conn_settings c = conn_settings c'"
  shows "tenant_data t (m\<lparr>m_connections := gm_put (m_connections m) i c\<rparr>) = tenant_data t m"
proof -
  have "cn_TenantID c = cn_TenantID (conn_settings c)" "cn_TenantID c' = cn_TenantID (conn_settings c')"
    by (simp_all add: conn_settings_def)
  hence "conn_view t (m\<lparr>m_connections := gm_put (m_connections m) i c\<rparr>) j = conn_view t m j" for j
    using assms by (auto simp: conn_view_def)
  thus ?thesis by (simp add: tenant_data_def policy_view_def token_view_def invite_view_def member_view_def
        members_of_def fun_eq_iff)
qed

definition owner_of :: "bytes \<Rightarrow> ControlStore \<Rightarrow> bytes option" where
  "owner_of i m = map_option cn_TenantID (gm_get (m_connections m) i)"

lemma policy_put_other:
  assumes "owner_of (po_ConnectionID p) m \<noteq> Some t"
  shows "tenant_data t (m\<lparr>m_policies := gm_put (m_policies m) (po_ConnectionID p) p\<rparr>) = tenant_data t m"
proof -
  have "policy_view t (m\<lparr>m_policies := gm_put (m_policies m) (po_ConnectionID p) p\<rparr>) j = policy_view t m j" for j
    using assms by (auto simp: policy_view_def conn_view_def owner_of_def split: option.splits)
  thus ?thesis by (simp add: tenant_data_def conn_view_def token_view_def invite_view_def member_view_def
        members_of_def fun_eq_iff)
qed

lemma token_put_other:
  assumes "tk_TenantID (tr_tok r) \<noteq> t" and "\<And>r'. gm_get (m_tokens m) i = Some r' \<Longrightarrow> tk_TenantID (tr_tok r') \<noteq> t"
  shows "tenant_data t (m\<lparr>m_tokens := gm_put (m_tokens m) i r\<rparr>) = tenant_data t m"
proof -
  have "token_view t (m\<lparr>m_tokens := gm_put (m_tokens m) i r\<rparr>) j = token_view t m j" for j
    using assms by (cases "gm_get (m_tokens m) i") (auto simp: token_view_def)
  thus ?thesis by (simp add: tenant_data_def conn_view_def policy_view_def invite_view_def member_view_def
        members_of_def fun_eq_iff)
qed

lemma invite_put_other:
  assumes "iv_TenantID (ir_inv r) \<noteq> t" and "\<And>r'. gm_get (m_invites m) i = Some r' \<Longrightarrow> iv_TenantID (ir_inv r') \<noteq> t"
  shows "tenant_data t (m\<lparr>m_invites := gm_put (m_invites m) i r\<rparr>) = tenant_data t m"
proof -
  have "invite_view t (m\<lparr>m_invites := gm_put (m_invites m) i r\<rparr>) j = invite_view t m j" for j
    using assms by (cases "gm_get (m_invites m) i") (auto simp: invite_view_def)
  thus ?thesis by (simp add: tenant_data_def conn_view_def policy_view_def token_view_def member_view_def
        members_of_def fun_eq_iff)
qed

lemma invite_del_other:
  assumes "\<And>r'. gm_get (m_invites m) i = Some r' \<Longrightarrow> iv_TenantID (ir_inv r') \<noteq> t"
  shows "tenant_data t (m\<lparr>m_invites := gm_del (m_invites m) i\<rparr>) = tenant_data t m"
proof -
  have "invite_view t (m\<lparr>m_invites := gm_del (m_invites m) i\<rparr>) j = invite_view t m j" for j
    using assms by (cases "gm_get (m_invites m) i") (auto simp: invite_view_def)
  thus ?thesis by (simp add: tenant_data_def conn_view_def policy_view_def token_view_def member_view_def
        members_of_def fun_eq_iff)
qed

lemma members_put_other:
  "t' \<noteq> t \<Longrightarrow> tenant_data t (m\<lparr>m_members := gm_put (m_members m) t' ms\<rparr>) = tenant_data t m"
  by (auto simp: view_defs fun_eq_iff)

lemma tenant_put_other:
  "tn_ID tn \<noteq> t \<Longrightarrow> tenant_data t (m\<lparr>m_tenants := gm_put (m_tenants m) (tn_ID tn) tn\<rparr>) = tenant_data t m"
  by (auto simp: view_defs fun_eq_iff)

lemma DeleteConnection_other:
  assumes ok: "plane_ok m" and o: "owner_of i m = Some t'" and "t' \<noteq> t"
  shows "tenant_data t (snd (DeleteConnection i m)) = tenant_data t m"
proof -
  from o obtain c where c: "gm_get (m_connections m) i = Some c" "cn_TenantID c = t'"
    by (auto simp: owner_of_def)
  let ?m = "snd (DeleteConnection i m)"
  have m: "?m = m\<lparr>m_connections := gm_del (m_connections m) i,
      m_tokens := gm_drop (\<lambda>r. tk_ConnectionID (tr_tok r) = i) (m_tokens m)\<rparr>"
    using c by (simp add: DeleteConnection_def)
  have wf: "gm_wf (m_tokens m)" using ok by (simp add: plane_defs)
  have tk: "tk_TenantID (tr_tok r) = t'" if "gm_get (m_tokens m) j = Some r" "tk_ConnectionID (tr_tok r) = i" for j r
    using token_bound [OF ok that(1)] that(2) c by auto
  have "conn_view t ?m j = conn_view t m j" for j
    using c assms(3) by (auto simp: m conn_view_def)
  moreover have "token_view t ?m j = token_view t m j" for j
    using tk assms(3) wf by (auto simp: m token_view_def gm_get_drop split: option.splits)
  ultimately show ?thesis
    by (simp add: m tenant_data_def policy_view_def invite_view_def member_view_def members_of_def fun_eq_iff)
qed

text \<open>The in-memory store drops the policy stored under the tenant's own id; unless a connection has that
  id, this touches nobody else's policies.\<close>

lemma DeleteTenant_other:
  assumes ok: "plane_ok m" and "t' \<noteq> t" and "owner_of t' m \<noteq> Some t"
  shows "tenant_data t (snd (DeleteTenant t' m)) = tenant_data t m"
proof (cases "gm_get (m_tenants m) t'")
  case None
  then show ?thesis by (simp add: DeleteTenant_def)
next
  case (Some tn)
  let ?m = "snd (DeleteTenant t' m)"
  have m: "?m = m\<lparr>m_tenants := gm_del (m_tenants m) t', m_policies := gm_del (m_policies m) t',
        m_members := gm_del (m_members m) t',
        m_connections := gm_drop (\<lambda>c. cn_TenantID c = t') (m_connections m),
        m_invites := gm_drop (\<lambda>r. iv_TenantID (ir_inv r) = t') (m_invites m),
        m_tokens := gm_drop (\<lambda>r. tk_TenantID (tr_tok r) = t') (m_tokens m)\<rparr>"
    using Some by (simp add: DeleteTenant_def)
  have wf: "gm_wf (m_connections m)" "gm_wf (m_tokens m)" "gm_wf (m_invites m)"
    using ok by (simp_all add: plane_defs)
  have cv: "conn_view t ?m j = conn_view t m j" for j
    using assms(2) wf by (auto simp: m conn_view_def gm_get_drop split: option.splits)
  moreover have "token_view t ?m j = token_view t m j" for j
    using assms(2) wf by (auto simp: m token_view_def gm_get_drop split: option.splits)
  moreover have "invite_view t ?m j = invite_view t m j" for j
    using assms(2) wf by (auto simp: m invite_view_def gm_get_drop split: option.splits)
  moreover have "conn_view t m t' = None"
    using assms(3) by (auto simp: conn_view_def owner_of_def split: option.splits)
  hence "policy_view t ?m j = policy_view t m j" for j
    using cv by (auto simp: m policy_view_def)
  ultimately show ?thesis
    using assms(2) by (simp add: m tenant_data_def member_view_def members_of_def fun_eq_iff)
qed

section \<open>Store operations keep the integrity\<close>

lemma conn_put_ok:
  assumes "plane_ok m" and "cn_ID c = i"
    and "\<And>c'. gm_get (m_connections m) i = Some c' \<Longrightarrow> cn_TenantID c' = cn_TenantID c"
  shows "plane_ok (m\<lparr>m_connections := gm_put (m_connections m) i c\<rparr>)"
proof -
  let ?m = "m\<lparr>m_connections := gm_put (m_connections m) i c\<rparr>"
  have "\<exists>c. gm_get (m_connections ?m) (tk_ConnectionID (tr_tok r)) = Some c \<and> cn_TenantID c = tk_TenantID (tr_tok r)"
    if "gm_get (m_tokens m) j = Some r" for j r
    using token_bound [OF assms(1) that] assms(3) by auto
  hence "tokens_bound ?m" by (simp add: tokens_bound_def)
  thus ?thesis using assms(1,2) by (simp add: plane_ok_def maps_ok_def rows_ok_def emails_ok_def)
qed

lemma token_put_ok:
  assumes "plane_ok m" and "tk_ID (tr_tok r) = i"
    and "gm_get (m_connections m) (tk_ConnectionID (tr_tok r)) = Some c" and "cn_TenantID c = tk_TenantID (tr_tok r)"
  shows "plane_ok (m\<lparr>m_tokens := gm_put (m_tokens m) i r\<rparr>)"
  using assms by (auto simp: plane_defs)

lemma invite_put_ok:
  "plane_ok m \<Longrightarrow> iv_ID (ir_inv r) = i \<Longrightarrow> plane_ok (m\<lparr>m_invites := gm_put (m_invites m) i r\<rparr>)"
  by (auto simp: plane_defs)

lemma invite_del_ok: "plane_ok m \<Longrightarrow> plane_ok (m\<lparr>m_invites := gm_del (m_invites m) i\<rparr>)"
  by (auto simp: plane_defs)

lemma members_put_ok: "plane_ok m \<Longrightarrow> gm_wf ms \<Longrightarrow> plane_ok (m\<lparr>m_members := gm_put (m_members m) t ms\<rparr>)"
  by (auto simp: plane_defs)

lemma members_of_wf: "plane_ok m \<Longrightarrow> gm_wf (members_of t m)"
  by (auto simp: plane_defs members_of_def split: option.splits)

lemma DeleteConnection_ok:
  assumes ok: "plane_ok m"
  shows "plane_ok (snd (DeleteConnection i m))"
proof (cases "gm_get (m_connections m) i")
  case None
  with ok show ?thesis by (simp add: DeleteConnection_def)
next
  case (Some c)
  have wf: "gm_wf (m_tokens m)" using ok by (simp add: plane_defs)
  show ?thesis
    using ok wf unfolding DeleteConnection_def Some
    by (auto simp: plane_defs gm_get_drop split: option.splits if_splits)
qed

lemma DeleteTenant_ok:
  assumes ok: "plane_ok m"
  shows "plane_ok (snd (DeleteTenant i m))"
proof (cases "gm_get (m_tenants m) i")
  case None
  with ok show ?thesis by (simp add: DeleteTenant_def)
next
  case (Some tn)
  have wf: "gm_wf (m_tokens m)" "gm_wf (m_connections m)" "gm_wf (m_invites m)" using ok by (simp_all add: plane_defs)
  have tb: "\<exists>c. gm_get (m_connections m) (tk_ConnectionID (tr_tok r)) = Some c \<and> cn_TenantID c = tk_TenantID (tr_tok r)"
    if "gm_get (m_tokens m) j = Some r" for j r by (rule token_bound [OF ok that])
  have "maps_ok (snd (DeleteTenant i m))" "rows_ok (snd (DeleteTenant i m))" "emails_ok (snd (DeleteTenant i m))"
    using ok wf unfolding DeleteTenant_def Some
    by (auto simp: plane_defs gm_get_drop split: option.splits if_splits)
  moreover have "tokens_bound (snd (DeleteTenant i m))"
    using wf tb unfolding DeleteTenant_def Some
    by (fastforce simp: tokens_bound_def gm_get_drop split: option.splits if_splits)
  ultimately show ?thesis by (simp add: plane_ok_def)
qed

lemma emails_okD:
  "emails_ok m \<Longrightarrow> gm_get (m_usersByEmail m) e = Some i \<Longrightarrow>
   i = usr_id e \<and> (\<exists>u. gm_get (m_users m) i = Some u \<and> us_ID u = i \<and> us_Email u = e)"
  by (simp add: emails_ok_def)

lemma users_put_ok:
  assumes "plane_ok m" and u: "gm_get (m_users m) i = Some u" "us_ID u' = us_ID u" "us_Email u' = us_Email u"
  shows "plane_ok (m\<lparr>m_users := gm_put (m_users m) i u'\<rparr>)"
proof -
  have "emails_ok (m\<lparr>m_users := gm_put (m_users m) i u'\<rparr>)"
    unfolding emails_ok_def
  proof (intro allI impI)
    fix e j assume "gm_get (m_usersByEmail (m\<lparr>m_users := gm_put (m_users m) i u'\<rparr>)) e = Some j"
    hence "gm_get (m_usersByEmail m) e = Some j" by simp
    from emails_okD [OF _ this] assms(1)
    have "j = usr_id e \<and> (\<exists>v. gm_get (m_users m) j = Some v \<and> us_ID v = j \<and> us_Email v = e)"
      unfolding plane_ok_def by blast
    with u show "j = usr_id e \<and> (\<exists>v. gm_get (m_users (m\<lparr>m_users := gm_put (m_users m) i u'\<rparr>)) j = Some v \<and> us_ID v = j \<and> us_Email v = e)"
      by auto
  qed
  with assms(1) show ?thesis by (simp add: plane_ok_def maps_ok_def rows_ok_def tokens_bound_def)
qed

lemma UpsertUserByEmail_ok:
  assumes ok: "plane_ok m"
  shows "plane_ok (snd (UpsertUserByEmail now e n m)) \<and> tenant_data t (snd (UpsertUserByEmail now e n m)) = tenant_data t m"
proof (cases "gm_get (m_usersByEmail m) (norm_email e)")
  case None
  define i where "i = usr_id (norm_email e)"
  define u where "u = \<lparr>us_ID = i, us_Email = norm_email e, us_Name = n, us_CreatedAt = now, us_UpdatedAt = now,
    us_HasPassword = False\<rparr>"
  define m' where "m' = m\<lparr>m_users := gm_put (m_users m) i u, m_usersByEmail := gm_put (m_usersByEmail m) (norm_email e) i\<rparr>"
  have m': "snd (UpsertUserByEmail now e n m) = m'"
    by (simp add: UpsertUserByEmail_def None Let_def m'_def u_def i_def usr_id_def)
  have "j = usr_id f \<and> (\<exists>v. gm_get (m_users m') j = Some v \<and> us_ID v = j \<and> us_Email v = f)"
    if "gm_get (m_usersByEmail m') f = Some j" for f j
  proof (cases "f = norm_email e")
    case True
    with that show ?thesis by (simp add: m'_def i_def u_def)
  next
    case False
    with that have "gm_get (m_usersByEmail m) f = Some j" by (simp add: m'_def)
    from emails_okD [OF _ this] ok
    have "j = usr_id f \<and> (\<exists>v. gm_get (m_users m) j = Some v \<and> us_ID v = j \<and> us_Email v = f)"
      unfolding plane_ok_def by blast
    with False show ?thesis by (auto simp: m'_def i_def usr_id_def)
  qed
  hence "emails_ok m'" by (simp add: emails_ok_def)
  with ok show ?thesis
    unfolding m' by (simp add: m'_def plane_ok_def maps_ok_def rows_ok_def tokens_bound_def)
next
  case (Some i)
  with ok emails_okD [of m _ i] obtain u where u: "gm_get (m_users m) i = Some u" by (auto simp: plane_ok_def)
  show ?thesis using ok users_put_ok [OF ok u] by (simp add: UpsertUserByEmail_def Some u Let_def)
qed

end
