(* ===== verification/Plane_Ops.thy ===== *)
theory Plane_Ops
  imports Plane_View
begin

text \<open>
  What the operations of the services do to the integrity of the store and to the data of a tenant
  they are not about.
\<close>

text \<open>From \<open>m\<close> to \<open>m'\<close> the integrity and the data of \<open>t\<close> are kept.\<close>

definition kept :: "bytes \<Rightarrow> ControlStore \<Rightarrow> ControlStore \<Rightarrow> bool" where
  "kept t m m' \<longleftrightarrow> plane_ok m' \<and> tenant_data t m' = tenant_data t m"

lemma kept_refl [simp]: "kept t m m \<longleftrightarrow> plane_ok m"
  by (simp add: kept_def)

lemma kept_audit [simp]: "kept t m (audit m') \<longleftrightarrow> kept t m m'"
  by (simp add: kept_def)

lemma kept_trans: "kept t m m' \<Longrightarrow> kept t m' m'' \<Longrightarrow> kept t m m''"
  by (simp add: kept_def)

lemma kept_ok: "kept t m m' \<Longrightarrow> plane_ok m'"
  by (simp add: kept_def)

lemma kept_untouched [simp]:
  "kept t m (m'\<lparr>m_userPasswords := c\<rparr>) = kept t m m'"
  "kept t m (m'\<lparr>m_passwordResets := d\<rparr>) = kept t m m'"
  "kept t m (m'\<lparr>m_emailCodes := e\<rparr>) = kept t m m'"
  "kept t m (m'\<lparr>m_sessions := f\<rparr>) = kept t m m'"
  "kept t m (m'\<lparr>m_audits := g\<rparr>) = kept t m m'"
  by (simp_all add: kept_def)

text \<open>The ids an operation may draw are not in use.\<close>

definition fresh_draws :: "call_env \<Rightarrow> ControlStore \<Rightarrow> bool" where
  "fresh_draws x m \<longleftrightarrow>
     (\<forall>b. en_rand x 1 12 = Some b \<longrightarrow> gm_get (m_connections m) (''conn_'' @ b64url_encode b) = None) \<and>
     (\<forall>b. en_rand x 0 32 = Some b \<longrightarrow> gm_get (m_tokens m) (''tok_'' @ b64url_encode (take 12 b)) = None) \<and>
     gm_get (m_invites m) (''inv_'' @ cryptoRandHex x 1 12) = None"

lemma owned_connection_iff:
  "owned_connection t c m = Inr r \<longleftrightarrow> gm_get (m_connections m) c = Some r \<and> cn_TenantID r = t"
  by (auto simp: owned_connection_def GetConnection_def split: option.splits)

section \<open>Connections\<close>

lemma update_connection_kept:
  assumes "plane_ok m" and "owned_connection t' c m = Inr r" and "t' \<noteq> t"
    and "\<And>r. cn_TenantID (f r) = cn_TenantID r" and "\<And>r. cn_ID (f r) = cn_ID r"
  shows "kept t m (snd (update_connection c f m))"
proof -
  have r: "gm_get (m_connections m) c = Some r" "cn_TenantID r = t'"
    using assms(2) by (simp_all add: owned_connection_iff)
  have "cn_ID r = c" using assms(1) r by (simp add: plane_defs)
  thus ?thesis
    using conn_put_other [of "f r" t m c] conn_put_ok [of m "f r" c] assms r
    by (simp add: update_connection_def kept_def)
qed

lemma updates_kept:
  assumes "plane_ok m" and "owned_connection t' c m = Inr r" and "t' \<noteq> t"
  shows "kept t m (snd (UpdateConnectionURI now c ct n v m))"
    and "kept t m (snd (UpdateConnectionName now c nm m))"
    and "kept t m (snd (UpdateConnectionAutoInvalidate now c b m))"
proof -
  note up = update_connection_kept [OF assms]
  show "kept t m (snd (UpdateConnectionURI now c ct n v m))"
    and "kept t m (snd (UpdateConnectionAutoInvalidate now c b m))"
    by (simp_all add: UpdateConnectionURI_def UpdateConnectionAutoInvalidate_def up)
  have "kept t m (snd (update_connection c (\<lambda>c. c\<lparr>cn_Name := nm, cn_UpdatedAt := now\<rparr>) m))" by (rule up) simp_all
  with assms(1) show "kept t m (snd (UpdateConnectionName now c nm m))"
    by (simp add: UpdateConnectionName_def split: option.splits)
qed

lemma snd_kept: "f m = (e, m') \<Longrightarrow> kept t m (snd (f m)) \<Longrightarrow> kept t m m'"
  by simp

lemma ConnUpdateURI_kept:
  assumes "plane_ok m" and "t' \<noteq> t"
  shows "kept t m (snd (ConnUpdateURI A k x t' c uri m))"
proof (cases "owned_connection t' c m")
  case (Inr r)
  show ?thesis
    using updates_kept(1) [OF assms(1) Inr assms(2)] assms(1)
    by (auto simp: ConnUpdateURI_def Inr split: sum.splits prod.splits option.splits) (metis snd_conv)+
qed (use assms in \<open>simp add: ConnUpdateURI_def\<close>)

lemma ConnRename_kept:
  assumes "plane_ok m" and "t' \<noteq> t"
  shows "kept t m (snd (ConnRename x t' c n m))"
proof (cases "owned_connection t' c m")
  case (Inr r)
  show ?thesis
    using updates_kept(2) [OF assms(1) Inr assms(2)] assms(1)
    by (auto simp: ConnRename_def Let_def Inr split: prod.splits option.splits) (metis snd_conv)+
qed (use assms in \<open>simp add: ConnRename_def Let_def\<close>)

lemma ConnSetAutoInvalidate_kept:
  assumes "plane_ok m" and "t' \<noteq> t"
  shows "kept t m (snd (ConnSetAutoInvalidate x t' c b m))"
proof (cases "owned_connection t' c m")
  case (Inr r)
  show ?thesis
    using updates_kept(3) [OF assms(1) Inr assms(2)] assms(1)
    by (auto simp: ConnSetAutoInvalidate_def Inr split: prod.splits option.splits) (metis snd_conv)+
qed (use assms in \<open>simp add: ConnSetAutoInvalidate_def\<close>)

lemma conn_new_kept:
  "plane_ok m \<Longrightarrow> gm_get (m_connections m) i = None \<Longrightarrow> cn_ID c = i \<Longrightarrow> cn_TenantID c \<noteq> t \<Longrightarrow>
   kept t m (m\<lparr>m_connections := gm_put (m_connections m) i c\<rparr>)"
  using conn_put_other [of c t m i] conn_put_ok [of m c i] by (simp add: kept_def)

lemma ConnCreate_kept:
  assumes "plane_ok m" and "t' \<noteq> t" and "fresh_draws x m"
  shows "kept t m (snd (ConnCreate A k x t' n uri m))"
  using assms unfolding ConnCreate_def
  by (auto simp: Let_def CreateConnection_def fresh_draws_def intro!: conn_new_kept
      split: sum.splits store_err.splits option.splits)

lemma ConnDelete_kept:
  assumes "plane_ok m" and "t' \<noteq> t"
  shows "kept t m (snd (ConnDelete t' c m))"
proof (cases "owned_connection t' c m")
  case (Inl e)
  with assms show ?thesis by (simp add: ConnDelete_def)
next
  case (Inr r)
  hence "owner_of c m = Some t'" by (simp add: owned_connection_iff owner_of_def)
  hence "kept t m (snd (DeleteConnection c m))"
    using DeleteConnection_other DeleteConnection_ok assms by (simp add: kept_def)
  thus ?thesis by (auto simp: ConnDelete_def Inr split: prod.splits option.splits)
qed

text \<open>A test of a connection keeps the settings of every tenant, its own included.\<close>

lemma ConnTest_kept:
  assumes "plane_ok m"
  shows "kept t m (snd (ConnTest P A k x t' c m))"
proof -
  have "kept t m (snd (UpdateConnectionValidated (en_now x) c m))"
  proof (cases "gm_get (m_connections m) c")
    case None
    with assms show ?thesis by (simp add: UpdateConnectionValidated_def update_connection_def)
  next
    case (Some r)
    have "cn_ID r = c" using assms Some by (simp add: plane_defs)
    with Some assms show ?thesis
      using conn_put_settings [OF Some] conn_put_ok [of m _ c]
      by (simp add: UpdateConnectionValidated_def update_connection_def kept_def conn_settings_def)
  qed
  with assms show ?thesis by (auto simp: ConnTest_def split: sum.splits option.splits)
qed

section \<open>Policies and tokens\<close>

lemma update_policy_kept:
  assumes "plane_ok m" and "t' \<noteq> t"
  shows "kept t m (snd (update_policy t' c f m))"
proof (cases "owned_connection t' c m")
  case (Inl e)
  with assms show ?thesis by (simp add: update_policy_def)
next
  case (Inr r)
  hence o: "owner_of c m = Some t'" by (simp add: owned_connection_iff owner_of_def)
  show ?thesis
    using assms o policy_put_other [of "p\<lparr>po_ConnectionID := c, po_TenantID := t'\<rparr>" m t for p]
    by (auto simp: update_policy_def Inr UpsertCachePolicy_def kept_def split: sum.splits)
qed

lemma token_new_kept:
  "plane_ok m \<Longrightarrow> gm_get (m_tokens m) i = None \<Longrightarrow> tk_ID (tr_tok r) = i \<Longrightarrow> tk_TenantID (tr_tok r) \<noteq> t \<Longrightarrow>
   owned_connection (tk_TenantID (tr_tok r)) (tk_ConnectionID (tr_tok r)) m = Inr c \<Longrightarrow>
   kept t m (m\<lparr>m_tokens := gm_put (m_tokens m) i r\<rparr>)"
  using token_put_other [of r t m i] token_put_ok [of m r i c] by (simp add: kept_def owned_connection_iff)

lemma TokenIssue_kept:
  assumes "plane_ok m" and "t' \<noteq> t" and "fresh_draws x m"
  shows "kept t m (snd (TokenIssue T B x t' c d m))"
  using assms unfolding TokenIssue_def
  by (auto simp: Let_def CreateToken_def fresh_draws_def intro!: token_new_kept split: sum.splits option.splits)

lemma token_write_kept:
  assumes ok: "plane_ok m" and r: "gm_get (m_tokens m) i = Some r" "tk_TenantID (tr_tok r) \<noteq> t"
    and k: "tk_ID k = tk_ID (tr_tok r)" "tk_TenantID k = tk_TenantID (tr_tok r)" "tk_ConnectionID k = tk_ConnectionID (tr_tok r)"
  shows "kept t m (m\<lparr>m_tokens := gm_put (m_tokens m) i (r\<lparr>tr_tok := k\<rparr>)\<rparr>)"
proof -
  have "tk_ID (tr_tok r) = i" using ok r by (simp add: plane_defs)
  with token_bound [OF ok r(1)] show ?thesis
    using token_put_other [of "r\<lparr>tr_tok := k\<rparr>" t m i] token_put_ok [of m "r\<lparr>tr_tok := k\<rparr>" i] ok r k
    by (auto simp: kept_def)
qed

lemma TokenGet_iff:
  "TokenGet T x i m = Inr k \<Longrightarrow> \<exists>r. gm_get (m_tokens m) i = Some r \<and> tk_TenantID (tr_tok r) = tk_TenantID k"
  by (auto simp: TokenGet_def GetTokenByID_def annotateReenable_def annotate_one_def Let_def split: option.splits if_splits)

lemma TokenRevoke_kept:
  assumes "plane_ok m" and "TokenGet T y i m = Inr k" and "tk_TenantID k \<noteq> t"
  shows "kept t m (snd (TokenRevoke x i m))"
  using TokenGet_iff [OF assms(2)] assms(1,3)
  by (auto simp: TokenRevoke_def RevokeToken_def split: prod.splits intro!: token_write_kept)

lemma TokenReenable_kept:
  assumes "plane_ok m" and "TokenGet T y i m = Inr k" and "tk_TenantID k \<noteq> t"
  shows "kept t m (snd (TokenReenable T x i m))"
proof -
  from TokenGet_iff [OF assms(2)] obtain r where r: "gm_get (m_tokens m) i = Some r" "tk_TenantID (tr_tok r) = tk_TenantID k"
    by blast
  have "kept t m (snd (ClearTokenRevocation i m))"
    using r assms(1,3) token_write_kept [OF assms(1) r(1), of t "(tr_tok r)\<lparr>tk_RevokedAt := None\<rparr>"]
    by (auto simp: ClearTokenRevocation_def)
  with r assms(1) show ?thesis
    by (auto simp: TokenReenable_def GetTokenByID_def Let_def split: option.splits prod.splits store_err.splits)
qed

section \<open>Login\<close>

lemma check_code_kept: "plane_ok m \<Longrightarrow> kept t m (snd (check_code B x k c m))"
  by (auto simp: check_code_def Let_def ClearEmailVerificationCode_def IncrementEmailVerificationAttempts_def
      split: sum.splits option.splits)

lemma issueSession_kept: "plane_ok m \<Longrightarrow> kept t m (snd (issueSession x u m))"
  by (auto simp: issueSession_def CreateSession_def split: option.splits)

lemma Upsert_kept: "plane_ok m \<Longrightarrow> kept t m (snd (UpsertUserByEmail now e n m))"
  using UpsertUserByEmail_ok by (simp add: kept_def)

lemma RequestCode_kept: "plane_ok m \<Longrightarrow> kept t m (fst (snd (RequestCode S x e m)))"
  by (auto simp: RequestCode_def SetEmailVerificationCode_def split: sum.splits option.splits)

lemma VerifyCode_kept:
  assumes "plane_ok m"
  shows "kept t m (snd (VerifyCode S x e c n m))"
proof (cases "normalizeEmail S e")
  case (Inl err)
  with assms show ?thesis by (simp add: VerifyCode_def)
next
  case (Inr e')
  obtain r m1 where 1: "check_code (as_bcrypt S) x e' c m = (r, m1)" by fastforce
  hence k1: "kept t m m1" using check_code_kept [OF assms, of t "as_bcrypt S" x e' c] by simp
  obtain u m2 where 2: "UpsertUserByEmail (en_now x) e' (trim_space n) m1 = (u, m2)" by fastforce
  hence k2: "kept t m m2" using Upsert_kept [OF kept_ok [OF k1], of t "en_now x" e' "trim_space n"] k1
    by (auto intro: kept_trans)
  have k3: "kept t m (snd (issueSession x i m2))" for i
    using issueSession_kept [OF kept_ok [OF k2]] k2 by (blast intro: kept_trans)
  show ?thesis
  proof (cases "\<exists>v. r = None \<and> u = Inr v")
    case True
    then obtain v where rv: "r = None" "u = Inr v" by blast
    from k3 [of "us_ID v"] show ?thesis
      by (cases "issueSession x (us_ID v) m2") (auto simp: VerifyCode_def Inr 1 2 rv split: sum.splits)
  next
    case False
    with k1 k2 show ?thesis by (auto simp: VerifyCode_def Inr 1 2 split: option.splits sum.splits)
  qed
qed

lemma SessionUser_kept: "plane_ok m \<Longrightarrow> kept t m (snd (SessionUser x tok m))"
  by (auto simp: SessionUser_def Let_def DeleteSession_def split: sum.splits)

lemma Logout_kept: "plane_ok m \<Longrightarrow> kept t m (snd (Logout tok m))"
  by (simp add: Logout_def DeleteSessionByTokenHash_def)

lemma read_user_kept [simp]: "snd (read_user u m) = m"
  by (simp add: read_user_def split: sum.splits)

lemma UpdateProfile_kept: "plane_ok m \<Longrightarrow> kept t m (snd (UpdateProfile x u n m))"
  by (auto simp: UpdateProfile_def Let_def UpdateUserName_def kept_def users_put_ok split: option.splits)

lemma set_and_read_kept: "plane_ok m \<Longrightarrow> kept t m (snd (set_and_read S x u p m))"
  by (auto simp: set_and_read_def store_password_def SetUserPasswordHash_def split: option.splits)

lemma UpdatePassword_kept: "plane_ok m \<Longrightarrow> kept t m (snd (UpdatePassword S x u c p m))"
  by (auto simp: UpdatePassword_def set_and_read_kept split: option.splits sum.splits store_err.splits)

lemma SetPassword_kept: "plane_ok m \<Longrightarrow> kept t m (snd (SetPassword S x u c p m))"
  by (auto simp: SetPassword_def set_and_read_kept UpdatePassword_kept split: option.splits sum.splits store_err.splits)

lemma LoginWithPassword_kept:
  assumes "plane_ok m"
  shows "kept t m (snd (LoginWithPassword S x e p m))"
proof -
  have "kept t m m1" if "issueSession x u m = (r, m1)" for u r m1
    using issueSession_kept [OF assms, of t x u] that by simp
  with assms show ?thesis
    by (auto simp: LoginWithPassword_def Let_def split: sum.splits prod.splits)
qed

lemma RequestPasswordReset_kept: "plane_ok m \<Longrightarrow> kept t m (fst (snd (RequestPasswordReset S x e m)))"
  by (auto simp: RequestPasswordReset_def CreatePasswordResetToken_def split: sum.splits option.splits)

lemma ResetPassword_kept: "plane_ok m \<Longrightarrow> kept t m (snd (ResetPassword S x tok p m))"
  by (auto simp: ResetPassword_def Let_def ConsumePasswordResetToken_def store_password_def SetUserPasswordHash_def
      split: option.splits)

section \<open>Organizations\<close>

lemma TenantCreate_kept: "plane_ok m \<Longrightarrow> i \<noteq> t \<Longrightarrow> kept t m (snd (TenantCreate x i n m))"
  using tenant_put_other [of "\<lparr>tn_ID = i, tn_Name = n, tn_Status = ''active'', tn_CreatedAt = en_now x, tn_UpdatedAt = en_now x\<rparr>" t m]
  by (auto simp: TenantCreate_def CreateTenant_def Let_def kept_def)

lemma AddMember_kept: "plane_ok m \<Longrightarrow> t' \<noteq> t \<Longrightarrow> kept t m (snd (AddMember t' u r m))"
  by (simp add: AddMember_def kept_def members_put_other members_put_ok members_of_wf)

lemma RemoveMember_kept: "plane_ok m \<Longrightarrow> t' \<noteq> t \<Longrightarrow> kept t m (snd (RemoveMember t' u m))"
  using members_of_wf [of m t']
  by (auto simp: RemoveMember_def kept_def members_put_other members_of_def intro!: members_put_ok split: option.splits)

lemma CreateOrganization_kept:
  assumes "plane_ok m" and "gm_get (m_tenants m) t \<noteq> None"
  shows "kept t m (snd (CreateOrganization G x u i n m))"
proof -
  have "kept t m (snd (AddMember (tn_ID tn) u r (m\<lparr>m_tenants := gm_put (m_tenants m) (tn_ID tn) tn\<rparr>)))"
    if "GetTenant (tn_ID tn) m = Inl e" for tn r e
  proof -
    have "tn_ID tn \<noteq> t" using that assms(2) by (auto simp: GetTenant_def split: option.splits)
    thus ?thesis using AddMember_kept [of "m\<lparr>m_tenants := gm_put (m_tenants m) (tn_ID tn) tn\<rparr>"] assms(1)
        tenant_put_other [of tn t m] by (simp add: kept_def)
  qed
  from this [of "\<lparr>tn_ID = i', tn_Name = n', tn_Status = s, tn_CreatedAt = a, tn_UpdatedAt = b\<rparr>" for i' n' s a b]
  show ?thesis using assms unfolding CreateOrganization_def
    by (auto simp: Let_def CreateTenant_def AddMember_def split: sum.splits)
qed

lemma drop_pending_kept:
  assumes "plane_ok m" and "t' \<noteq> t"
  shows "kept t m (drop_pending x t' e m)"
proof -
  have del: "kept t m (fold (\<lambda>v m. if equal_fold (iv_Email v) e then snd (DeleteInvite (iv_ID v) m) else m) vs m')"
    if "kept t m m'" and "\<forall>v \<in> set vs. \<forall>r. gm_get (m_invites m') (iv_ID v) = Some r \<longrightarrow> iv_TenantID (ir_inv r) = t'"
    for vs m'
    using that
  proof (induction vs arbitrary: m')
    case (Cons v vs)
    have "kept t m' (snd (DeleteInvite (iv_ID v) m'))"
      using Cons.prems assms(2) invite_del_other [of m' "iv_ID v" t] invite_del_ok [of m' "iv_ID v"]
      by (auto simp: DeleteInvite_def kept_def)
    hence "kept t m (snd (DeleteInvite (iv_ID v) m'))" using Cons.prems(1) by (rule kept_trans [rotated])
    with Cons show ?case by (auto simp: DeleteInvite_def)
  qed simp
  have same: "iv_TenantID (ir_inv r') = t'"
    if "(i, r) \<in> set (m_invites m)" "iv_TenantID (ir_inv r) = t'" "gm_get (m_invites m) (iv_ID (ir_inv r)) = Some r'" for i r r'
  proof -
    have "gm_get (m_invites m) i = Some r" using that(1) assms(1) by (simp add: plane_defs gm_get_in_set)
    moreover hence "iv_ID (ir_inv r) = i" using assms(1) by (simp add: plane_defs)
    ultimately show ?thesis using that by simp
  qed
  show ?thesis
    unfolding drop_pending_def ListPendingInvitesForTenant_def sum.case
  proof (rule del)
    show "kept t m m" using assms(1) by simp
    show "\<forall>v \<in> set (filter (\<lambda>v. iv_TenantID v = t' \<and> iv_AcceptedAt v = None \<and> \<not> iv_ExpiresAt v < en_now x)
        (map (ir_inv \<circ> snd) (m_invites m))).
        \<forall>r. gm_get (m_invites m) (iv_ID v) = Some r \<longrightarrow> iv_TenantID (ir_inv r) = t'"
    proof (intro ballI allI impI)
      fix v r assume v: "v \<in> set (filter (\<lambda>v. iv_TenantID v = t' \<and> iv_AcceptedAt v = None \<and> \<not> iv_ExpiresAt v < en_now x)
          (map (ir_inv \<circ> snd) (m_invites m)))" and r: "gm_get (m_invites m) (iv_ID v) = Some r"
      then obtain i q where "(i, q) \<in> set (m_invites m)" "v = ir_inv q" "iv_TenantID v = t'" by auto
      with same r show "iv_TenantID (ir_inv r) = t'" by blast
    qed
  qed
qed

lemma drop_pending_none:
  assumes "gm_get (m_invites m) i = None"
  shows "gm_get (m_invites (drop_pending x t e m)) i = None"
proof -
  have "gm_get (m_invites m') i = None \<Longrightarrow>
      gm_get (m_invites (fold (\<lambda>v m. if equal_fold (iv_Email v) e then snd (DeleteInvite (iv_ID v) m) else m) vs m')) i = None" for vs m'
    by (induction vs arbitrary: m') (auto simp: DeleteInvite_def split: if_splits)
  from this [OF assms] show ?thesis by (simp add: drop_pending_def ListPendingInvitesForTenant_def)
qed

lemma InviteMember_kept:
  assumes "plane_ok m" and "t' \<noteq> t" and "fresh_draws x m"
  shows "kept t m (fst (snd (InviteMember G x t' a e r ar m)))"
proof -
  have k: "kept t m (drop_pending x t' e' m)" for e' by (rule drop_pending_kept [OF assms(1,2)])
  have "gm_get (m_invites (drop_pending x t' e' m)) (''inv_'' @ cryptoRandHex x 1 12) = None" for e'
    by (rule drop_pending_none) (use assms(3) in \<open>simp add: fresh_draws_def\<close>)
  hence "kept t m (snd (CreateInvite ivt h (drop_pending x t' e' m)))"
    if "iv_ID ivt = ''inv_'' @ cryptoRandHex x 1 12" "iv_TenantID ivt = t'" for ivt h e'
    using that assms(2) k [of e'] invite_put_other [of "\<lparr>ir_inv = ivt, ir_hash = h\<rparr>" t "drop_pending x t' e' m" "iv_ID ivt"]
      invite_put_ok [OF kept_ok [OF k], of "\<lparr>ir_inv = ivt, ir_hash = h\<rparr>" "iv_ID ivt"]
    by (simp add: CreateInvite_def kept_def)
  with assms(1) show ?thesis unfolding InviteMember_def
    by (auto simp: Let_def CreateInvite_def split: sum.splits option.splits)
qed

lemma RevokeInvite_kept:
  assumes "plane_ok m" and "t' \<noteq> t"
  shows "kept t m (snd (RevokeInvite t' i m))"
proof -
  have "kept t m (snd (DeleteInvite i m))" if "GetInviteByID i m = Inr v" "iv_TenantID v = t'" for v
    using that assms invite_del_other [of m i t] invite_del_ok [of m i]
    by (auto simp: DeleteInvite_def GetInviteByID_def with_tenant_name_def kept_def split: option.splits)
  with assms(1) show ?thesis by (auto simp: RevokeInvite_def DeleteInvite_def split: sum.splits store_err.splits)
qed

lemma OrgRemoveMember_kept:
  assumes "plane_ok m" and "t' \<noteq> t"
  shows "kept t m (snd (OrgRemoveMember x t' u ar m))"
proof -
  have "kept t m m1" if "RemoveMember t' u m = (e, m1)" for e m1
    using RemoveMember_kept [OF assms, of u] that by simp
  with assms(1) show ?thesis
    by (auto simp: OrgRemoveMember_def split: sum.splits store_err.splits prod.splits option.splits)
qed

lemma AcceptInvite_kept:
  assumes "plane_ok m" and "\<And>r. gm_get (m_invites m) i = Some r \<Longrightarrow> iv_TenantID (ir_inv r) \<noteq> t"
  shows "kept t m (snd (AcceptInvite x u i m))"
proof (cases "gm_get (m_invites m) i")
  case None
  with assms(1) show ?thesis by (simp add: AcceptInvite_def GetInviteByID_def)
next
  case (Some r)
  let ?v = "with_tenant_name m (ir_inv r)"
  have v: "iv_TenantID ?v = iv_TenantID (ir_inv r)" "iv_ID ?v = i"
    using assms(1) Some by (auto simp: with_tenant_name_def plane_defs split: option.splits)
  obtain m1 where 1: "AddMember (iv_TenantID ?v) (us_ID u) (iv_Role ?v) m = (None, m1)" and same: "m_invites m1 = m_invites m"
    by (simp add: AddMember_def)
  have k1: "kept t m m1" using AddMember_kept [OF assms(1) assms(2) [OF Some], of "us_ID u" "iv_Role ?v"] 1 v by simp
  have ri: "iv_ID (ir_inv r) = i" using assms(1) Some by (simp add: plane_defs)
  let ?r = "r\<lparr>ir_inv := (ir_inv r)\<lparr>iv_AcceptedAt := Some (en_now x)\<rparr>\<rparr>"
  have "kept t m1 (m1\<lparr>m_invites := gm_put (m_invites m1) i ?r\<rparr>)"
    using invite_put_other [of ?r t m1 i] invite_put_ok [OF kept_ok [OF k1], of ?r i] assms(2) Some same ri
    by (auto simp: kept_def)
  hence "kept t m (snd (MarkInviteAccepted (en_now x) (iv_ID ?v) m1))"
    using k1 Some same unfolding v by (auto simp: MarkInviteAccepted_def intro: kept_trans)
  with assms(1) k1 show ?thesis
    by (auto simp: AcceptInvite_def GetInviteByID_def Some 1 Let_def split: sum.splits)
qed

lemma RequestDelete_kept: "plane_ok m \<Longrightarrow> kept t m (fst (snd (RequestDeleteOrganization G x t' u m)))"
  by (auto simp: RequestDeleteOrganization_def SetEmailVerificationCode_def
      split: sum.splits option.splits store_err.splits)

lemma ConfirmDelete_kept:
  assumes "plane_ok m" and "t' \<noteq> t" and "owner_of t' m = Some t \<longrightarrow> gm_get (m_tenants m) t' = None"
  shows "kept t m (snd (ConfirmDeleteOrganization G x t' u c m))"
proof -
  obtain r m1 where 1: "check_code (as_bcrypt (og_auth G)) x (orgDeleteCodeKey t' (us_Email u)) c m = (r, m1)" by fastforce
  hence k1: "kept t m m1" using check_code_kept [OF assms(1)] by (metis snd_conv)
  have same: "m_connections m1 = m_connections m" "m_tenants m1 = m_tenants m" using 1
    by (auto simp: check_code_def Let_def ClearEmailVerificationCode_def IncrementEmailVerificationAttempts_def
        split: sum.splits option.splits if_splits)
  have "kept t m1 (snd (DeleteTenant t' (audit m1)))"
  proof (cases "owner_of t' m = Some t")
    case True
    with assms(3) same have "gm_get (m_tenants (audit m1)) t' = None" by (simp add: audit_def RecordAudit_def)
    thus ?thesis using kept_ok [OF k1] by (simp add: DeleteTenant_def)
  next
    case False
    with same show ?thesis
      using DeleteTenant_other [of "audit m1" t' t] DeleteTenant_ok [of "audit m1" t'] kept_ok [OF k1] assms(2)
      by (simp add: kept_def owner_of_def audit_def RecordAudit_def)
  qed
  hence "kept t m (snd (DeleteTenant t' (audit m1)))" using k1 by (blast intro: kept_trans)
  with assms(1) k1 show ?thesis
    by (auto simp: ConfirmDeleteOrganization_def 1 split: sum.splits option.splits prod.splits store_err.splits)
qed

end
