(* ===== verification/Plane_Props.thy ===== *)
theory Plane_Props
  imports Plane_Ops
begin

text \<open>
  Properties of the HTTP interface: who can change what a tenant owns, and the integrity of the store
  over every sequence of requests.
\<close>

section \<open>The shape of a handler\<close>

lemma plane_simps [simp]:
  "snd (answer g b rw) = snd rw" "snd (answer_done r b rw') = snd rw'"
  "pl_store (snd (on_store f w)) = snd (f (pl_store w))"
  "pl_store (snd (on_mailing f' w)) = fst (snd (f' (pl_store w)))"
  "fst (on_store f w) = fst (f (pl_store w))"
  "snd (json_answer j w) = w"
  by (simp_all add: answer_def answer_done_def on_store_def on_mailing_def json_answer_def split: prod.splits sum.splits option.splits)

abbreviation kept_by :: "bytes \<Rightarrow> ('s Plane \<Rightarrow> reply \<times> 's Plane) \<Rightarrow> 's Plane \<Rightarrow> bool" where
  "kept_by t f w \<equiv> kept t (pl_store w) (pl_store (snd (f w)))"

lemma kept_with_user:
  "plane_ok (pl_store w) \<Longrightarrow> (\<And>u. pr_User p = Some u \<Longrightarrow> kept_by t (f u) w) \<Longrightarrow> kept_by t (with_user p f) w"
  by (simp add: with_user_def split: option.splits)

lemma kept_decoded: "plane_ok (pl_store w) \<Longrightarrow> (\<And>b. body = Some b \<Longrightarrow> kept_by t (f b) w) \<Longrightarrow> kept_by t (decoded body f) w"
  by (simp add: decoded_def split: option.splits)

lemma kept_guarded: "plane_ok (pl_store w) \<Longrightarrow> (e = None \<Longrightarrow> kept_by t f w) \<Longrightarrow> kept_by t (guarded e f) w"
  by (simp add: guarded_def split: option.splits)

text \<open>The principal may manage the tenant: platform admin, or an owner or admin of it.\<close>

definition manages :: "Principal \<Rightarrow> bytes \<Rightarrow> ControlStore \<Rightarrow> bool" where
  "manages p t m \<longleftrightarrow> pr_IsAdmin p \<or>
     (\<exists>u. pr_User p = Some u \<and> member_view t m (us_ID u) \<in> {Some RoleOwner, Some RoleAdmin})"

lemma RequireMember_iff: "RequireMember x t u m = Inr om \<Longrightarrow> member_view t m u = Some (om_Role om)"
  by (auto simp: RequireMember_def GetMember_def member_view_def member_row_def split: option.splits)

lemma RequireOwner_iff: "RequireOwner x t u m = Inr om \<Longrightarrow> member_view t m u = Some RoleOwner"
  by (auto simp: RequireOwner_def dest!: RequireMember_iff split: sum.splits if_splits)

lemma ensureTenantAdmin_manages: "ensureTenantAdmin x p t m = None \<Longrightarrow> manages p t m"
  by (auto simp: ensureTenantAdmin_def manages_def RequireAdmin_def dest!: RequireMember_iff
      split: if_splits option.splits sum.splits)

lemma kept_managed:
  assumes "plane_ok (pl_store w)" and "t' \<noteq> t \<or> \<not> manages p t (pl_store w)" and "t' \<noteq> t \<Longrightarrow> kept_by t f w"
  shows "kept_by t (guarded (ensureTenantAdmin x p t' (pl_store w)) f) w"
proof (rule kept_guarded [OF assms(1)])
  assume "ensureTenantAdmin x p t' (pl_store w) = None"
  hence "manages p t' (pl_store w)" by (rule ensureTenantAdmin_manages)
  with assms(2) have "t' \<noteq> t" by blast
  thus "kept_by t f w" by (rule assms(3))
qed

section \<open>Handlers\<close>

text \<open>Handlers that only read.\<close>

lemma readers [simp]:
  "plane_ok (pl_store w) \<Longrightarrow> kept_by t (h_Me p) w"
  "plane_ok (pl_store w) \<Longrightarrow> kept_by t (h_ListMyOrganizations p) w"
  "plane_ok (pl_store w) \<Longrightarrow> kept_by t (h_ListMyInvites x p) w"
  "plane_ok (pl_store w) \<Longrightarrow> kept_by t (h_GetTenant x p t') w"
  "plane_ok (pl_store w) \<Longrightarrow> kept_by t (h_ListTenants p) w"
  "plane_ok (pl_store w) \<Longrightarrow> kept_by t (h_ListMembers x p t') w"
  "plane_ok (pl_store w) \<Longrightarrow> kept_by t (h_ListTenantInvites x p t') w"
  "plane_ok (pl_store w) \<Longrightarrow> kept_by t (h_ListConnections x p t') w"
  "plane_ok (pl_store w) \<Longrightarrow> kept_by t (h_GetConnection x p t' c) w"
  "plane_ok (pl_store w) \<Longrightarrow> kept_by t (h_GetPolicy x p t' c) w"
  "plane_ok (pl_store w) \<Longrightarrow> kept_by t (h_SavingsReport h x p t' v) w"
  "plane_ok (pl_store w) \<Longrightarrow> kept_by t (h_TenantMetrics h x p t' v) w"
  "plane_ok (pl_store w) \<Longrightarrow> kept_by t (h_TenantMetricsTimeseries h x p t' k v s) w"
  "plane_ok (pl_store w) \<Longrightarrow> kept_by t (h_ListTokens h x p t' c) w"
  by (simp_all add: h_Me_def h_ListMyOrganizations_def h_ListMyInvites_def h_GetTenant_def h_ListTenants_def
      h_ListMembers_def h_ListTenantInvites_def h_ListConnections_def h_GetConnection_def h_GetPolicy_def
      h_SavingsReport_def h_TenantMetrics_def h_TenantMetricsTimeseries_def h_ListTokens_def
      with_user_def guarded_def split: option.splits)

text \<open>Handlers that change only users, sessions and codes.\<close>

lemma account_handlers:
  assumes "plane_ok (pl_store w)"
  shows "kept_by t (h_RequestCode h x b) w" and "kept_by t (h_VerifyCode h x b2) w"
    and "kept_by t (h_LoginPassword h x b2) w" and "kept_by t (h_ForgotPassword h x b) w"
    and "kept_by t (h_ResetPassword h x b2) w" and "kept_by t (h_SetPassword h x p b2) w"
    and "kept_by t (h_Logout authz) w" and "kept_by t (h_UpdateMe x p b) w"
    and "kept_by t (h_RequestDelete h x p t') w" and "kept_by t (h_TestConnection h x p t' c) w"
proof -
  note ok = assms
  show "kept_by t (h_RequestCode h x b) w" "kept_by t (h_VerifyCode h x b2) w"
    "kept_by t (h_LoginPassword h x b2) w" "kept_by t (h_ForgotPassword h x b) w"
    "kept_by t (h_ResetPassword h x b2) w"
    unfolding h_RequestCode_def h_VerifyCode_def h_LoginPassword_def h_ForgotPassword_def h_ResetPassword_def
    by (rule kept_decoded [OF ok]; auto simp: RequestCode_kept VerifyCode_kept LoginWithPassword_kept
        RequestPasswordReset_kept ResetPassword_kept ok split: prod.splits)+
  show "kept_by t (h_SetPassword h x p b2) w" "kept_by t (h_UpdateMe x p b) w"
    unfolding h_SetPassword_def h_UpdateMe_def
    by (rule kept_with_user [OF ok]; rule kept_decoded [OF ok];
        auto simp: SetPassword_kept UpdateProfile_kept ok split: prod.splits)+
  show "kept_by t (h_Logout authz) w" by (simp add: h_Logout_def Logout_kept ok)
  show "kept_by t (h_RequestDelete h x p t') w"
    by (simp add: h_RequestDelete_def RequestDelete_kept ok split: option.splits)
  show "kept_by t (h_TestConnection h x p t' c) w"
    unfolding h_TestConnection_def by (rule kept_guarded [OF ok]) (simp add: ConnTest_kept ok)
qed

lemma put_connection_kept:
  assumes "plane_ok m" and "t' \<noteq> t"
  shows "kept t m (snd (put_connection h x t' c n u a m))"
proof -
  obtain e1 m1 where 1: "(case n of None \<Rightarrow> (None, m) | Some n \<Rightarrow> ConnRename x t' c n m) = (e1, m1)" by fastforce
  hence k1: "kept t m m1" using ConnRename_kept [OF assms] assms(1) by (cases n) (auto, metis snd_conv)
  obtain e2 m2 where 2: "(case u of None \<Rightarrow> (None, m1)
      | Some u \<Rightarrow> ConnUpdateURI (hd_aead h) (hd_masterKey h) x t' c u m1) = (e2, m2)" by fastforce
  hence "kept t m1 m2" using ConnUpdateURI_kept [OF kept_ok [OF k1] assms(2)] kept_ok [OF k1]
    by (cases u) (auto, metis snd_conv)
  with k1 have k2: "kept t m m2" by (rule kept_trans)
  obtain e3 m3 where 3: "(case a of None \<Rightarrow> (None, m2) | Some b \<Rightarrow> ConnSetAutoInvalidate x t' c b m2) = (e3, m3)" by fastforce
  hence "kept t m2 m3" using ConnSetAutoInvalidate_kept [OF kept_ok [OF k2] assms(2)] kept_ok [OF k2]
    by (cases a) (auto, metis snd_conv)
  with k2 have "kept t m m3" by (rule kept_trans)
  with k1 k2 show ?thesis by (simp add: put_connection_def 1 2 3 split: option.splits)
qed

lemma managing_handlers:
  assumes ok: "plane_ok (pl_store w)" and fr: "fresh_draws x (pl_store w)"
    and no: "t' \<noteq> t \<or> \<not> manages p t (pl_store w)"
  shows "kept_by t (h_InviteMember h x p t' b2) w" and "kept_by t (h_RevokeInvite x p t' i) w"
    and "kept_by t (h_RemoveMember x p t' i) w" and "kept_by t (h_CreateConnection h x p t' b2) w"
    and "kept_by t (h_UpdateConnection h x p t' c b3) w" and "kept_by t (h_DeleteConnection x p t' c) w"
    and "kept_by t (h_SetCollectionPolicy x p t' c k cp) w" and "kept_by t (h_SetDefaultTTL x p t' c n) w"
    and "kept_by t (h_Invalidate h x p t' c b4 q) w" and "kept_by t (h_IssueToken h x p t' c d) w"
proof -
  note managed = kept_managed [OF ok no]
  show "kept_by t (h_InviteMember h x p t' b2) w"
    unfolding h_InviteMember_def
    by (rule managed, rule kept_decoded [OF ok]) (auto simp: InviteMember_kept ok fr split: prod.splits)
  show "kept_by t (h_RevokeInvite x p t' i) w"
    unfolding h_RevokeInvite_def by (rule managed) (simp add: RevokeInvite_kept ok)
  show "kept_by t (h_RemoveMember x p t' i) w"
    unfolding h_RemoveMember_def by (rule managed) (simp add: OrgRemoveMember_kept ok)
  show "kept_by t (h_CreateConnection h x p t' b2) w"
    unfolding h_CreateConnection_def
    by (rule managed, rule kept_decoded [OF ok]) (auto simp: ConnCreate_kept ok fr split: prod.splits)
  show "kept_by t (h_UpdateConnection h x p t' c b3) w"
    unfolding h_UpdateConnection_def
  proof (rule managed, rule kept_decoded [OF ok])
    fix b :: "bytes option \<times> bytes option \<times> bool option" assume "t' \<noteq> t"
    obtain n u a where b: "b = (n, u, a)" by (cases b)
    obtain e w1 where e: "on_store (put_connection h x t' c n u a) w = (e, w1)" by fastforce
    hence "kept t (pl_store w) (pl_store w1)" using put_connection_kept [OF ok \<open>t' \<noteq> t\<close>]
      by (metis plane_simps(3) snd_conv)
    thus "kept_by t (case b of (name, uri, auto) \<Rightarrow> \<lambda>w.
        if name = None \<and> uri = None \<and> auto = None
        then ((400, P_Text ''name, uri, or autoInvalidateOnWrite required''), w)
        else case on_store (put_connection h x t' c name uri auto) w of
            (Some r, w1) \<Rightarrow> (r, w1)
          | (None, w1) \<Rightarrow> answer (\<lambda>c. (200, P_Connection c)) (\<lambda>err. (500, P_Err err)) (ConnGet t' c (pl_store w1), w1)) w"
      using ok by (simp add: b e split: option.splits)
  qed
  show "kept_by t (h_DeleteConnection x p t' c) w"
    unfolding h_DeleteConnection_def by (rule managed) (simp add: ConnDelete_kept ok)
  show "kept_by t (h_SetCollectionPolicy x p t' c k cp) w"
    unfolding h_SetCollectionPolicy_def
    by (rule managed, rule kept_decoded [OF ok]) (simp add: SetCollectionPolicy_def update_policy_kept ok)
  show "kept_by t (h_SetDefaultTTL x p t' c n) w"
    unfolding h_SetDefaultTTL_def
    by (rule managed, rule kept_decoded [OF ok]) (simp add: SetDefaults_def update_policy_kept ok)
  show "kept_by t (h_IssueToken h x p t' c d) w"
    unfolding h_IssueToken_def by (rule managed) (simp add: TokenIssue_kept ok fr)
  have pi: "fst (snd (PolicyInvalidate ca a1 a2 a3 a4 a5 m s)) \<in> {m, audit m}" for ca a1 a2 a3 a4 a5 m and s :: 'a
    by (auto simp: PolicyInvalidate_def split: sum.splits option.splits prod.splits)
  show "kept_by t (h_Invalidate h x p t' c b4 q) w"
    unfolding h_Invalidate_def
  proof (rule managed)
    obtain db coll tags qdb qcoll where b: "b4 = (db, coll, tags)" "q = (qdb, qcoll)" by (metis prod_cases3 surj_pair)
    let ?d = "if db = '''' then qdb else db" and ?c = "if coll = '''' then qcoll else coll"
    obtain res m s where r: "PolicyInvalidate (hd_cache h) t' c ?d ?c tags (pl_store w) (pl_cache w) = (res, m, s)"
      by (metis prod_cases3)
    hence "m \<in> {pl_store w, audit (pl_store w)}" using pi by (metis fst_conv snd_conv)
    hence "kept t (pl_store w) m" using ok by auto
    thus "kept_by t (\<lambda>w. case (b4, q) of ((bdb, bcoll, tags), (qdb, qcoll)) \<Rightarrow>
       (let db = (if bdb = '''' then qdb else bdb); coll = (if bcoll = '''' then qcoll else bcoll) in
        case PolicyInvalidate (hd_cache h) t' c db coll tags (pl_store w) (pl_cache w) of
          (res, m, s) \<Rightarrow> answer_done (200, P_Invalidated t' c db coll tags) (connection_err 400)
            (res, w\<lparr>pl_store := m, pl_cache := s\<rparr>))) w"
      by (simp only: b r Let_def prod.case plane_simps snd_conv fst_conv) simp
  qed
qed


lemma token_handlers:
  assumes ok: "plane_ok (pl_store w)"
    and no: "(\<forall>i r. gm_get (m_tokens (pl_store w)) i = Some r \<longrightarrow> tk_TenantID (tr_tok r) \<noteq> t) \<or> \<not> manages p t (pl_store w)"
  shows "kept_by t (h_RevokeToken h x p i) w" and "kept_by t (h_ReenableToken h x p i) w"
proof -
  have managed: "kept_by t (guarded (ensureTenantAdmin x p (tk_TenantID k) (pl_store w)) f) w"
    if "TokenGet T y i (pl_store w) = Inr k" "tk_TenantID k \<noteq> t \<Longrightarrow> kept_by t f w" for T y k f
    using no TokenGet_iff [OF that(1)] that(2) by (intro kept_managed [OF ok]) auto
  show "kept_by t (h_RevokeToken h x p i) w"
  proof (cases "TokenGet (hd_tokens h) x i (pl_store w)")
    case (Inl e)
    with ok show ?thesis by (simp add: h_RevokeToken_def)
  next
    case (Inr k)
    have "kept_by t (guarded (ensureTenantAdmin x p (tk_TenantID k) (pl_store w)) (\<lambda>w.
        answer_done (200, P_Status ''revoked'') (\<lambda>err. (400, P_Err err)) (on_store (TokenRevoke x i) w))) w"
      by (rule managed [OF Inr]) (simp add: TokenRevoke_kept [OF ok Inr])
    thus ?thesis by (simp add: h_RevokeToken_def Inr)
  qed
  show "kept_by t (h_ReenableToken h x p i) w"
  proof (cases "TokenGet (hd_tokens h) x i (pl_store w)")
    case (Inl e)
    with ok show ?thesis by (simp add: h_ReenableToken_def)
  next
    case (Inr k)
    have "kept_by t (guarded (ensureTenantAdmin x p (tk_TenantID k) (pl_store w)) (\<lambda>w.
        answer (\<lambda>tok. (200, P_Token tok)) reenable_err (on_store (TokenReenable (hd_tokens h) x i) w))) w"
      by (rule managed [OF Inr]) (simp add: TokenReenable_kept [OF ok Inr])
    thus ?thesis by (simp add: h_ReenableToken_def Inr)
  qed
qed

section \<open>One request\<close>

fun tenant_of_request :: "request \<Rightarrow> bytes option" where
  "tenant_of_request (PostDeleteConfirm t b) = Some t"
| "tenant_of_request (PostInvites t b) = Some t"
| "tenant_of_request (DeleteInviteById t i) = Some t"
| "tenant_of_request (DeleteMember t u) = Some t"
| "tenant_of_request (PostConnections t b) = Some t"
| "tenant_of_request (PutConnection t c b) = Some t"
| "tenant_of_request (DeleteConnectionById t c) = Some t"
| "tenant_of_request (PostTokens t c d) = Some t"
| "tenant_of_request (PutCollectionPolicy t c k b) = Some t"
| "tenant_of_request (PutDefaults t c b) = Some t"
| "tenant_of_request (PostInvalidate t c b q) = Some t"
| "tenant_of_request r = None"

fun creates :: "request \<Rightarrow> bool" where
  "creates (PostMyOrganizations b) = True"
| "creates (PostTenants b) = True"
| "creates r = False"

fun accepts :: "request \<Rightarrow> bytes option" where
  "accepts (PostAcceptInvite i) = Some i"
| "accepts r = None"

lemma h_ConfirmDelete_kept:
  assumes ok: "plane_ok (pl_store w)" and no: "t' \<noteq> t \<or> \<not> manages p t (pl_store w)"
    and ap: "owner_of t' (pl_store w) = Some t \<longrightarrow> gm_get (m_tenants (pl_store w)) t' = None"
  shows "kept_by t (h_ConfirmDelete h x p t' b) w"
  unfolding h_ConfirmDelete_def
proof (rule kept_with_user [OF ok], rule kept_decoded [OF ok])
  fix u code assume u: "pr_User p = Some u"
  have "kept t (pl_store w) (snd (ConfirmDeleteOrganization (hd_orgs h) x t' u code (pl_store w)))"
  proof (cases "t' = t")
    case True
    have "member_view t (pl_store w) (us_ID u) \<noteq> Some RoleOwner" using no True u by (auto simp: manages_def)
    hence "\<exists>e. RequireOwner x t' (us_ID u) (pl_store w) = Inl e"
      using True by (metis RequireOwner_iff sumE)
    with ok show ?thesis by (auto simp: ConfirmDeleteOrganization_def)
  next
    case False
    show ?thesis by (rule ConfirmDelete_kept [OF ok False ap])
  qed
  thus "kept_by t (\<lambda>w. answer_done (200, P_Status ''deleted'') mapAuthErr
      (on_store (ConfirmDeleteOrganization (hd_orgs h) x t' u code) w)) w" by simp
qed

lemma creating_handlers:
  assumes ok: "plane_ok (pl_store w)" and "gm_get (m_tenants (pl_store w)) t \<noteq> None" and "\<not> pr_IsAdmin p"
  shows "kept_by t (h_CreateMyOrganization h x p b) w" and "kept_by t (h_CreateTenant h x p b) w"
proof -
  note co = CreateOrganization_kept [OF ok assms(2)]
  show "kept_by t (h_CreateMyOrganization h x p b) w" "kept_by t (h_CreateTenant h x p b) w"
    unfolding h_CreateMyOrganization_def h_CreateTenant_def if_P [OF assms(3)]
    by (rule kept_with_user [OF ok]; rule kept_decoded [OF ok]; auto simp: co split: prod.splits)+
qed

lemma h_AcceptInvite_kept:
  assumes "plane_ok (pl_store w)" and "\<And>r. gm_get (m_invites (pl_store w)) i = Some r \<Longrightarrow> iv_TenantID (ir_inv r) \<noteq> t"
  shows "kept_by t (h_AcceptInvite x p i) w"
  unfolding h_AcceptInvite_def by (rule kept_with_user [OF assms(1)]) (simp add: AcceptInvite_kept assms)

lemma route_kept:
  assumes ok: "plane_ok (pl_store w)" and fr: "fresh_draws x (pl_store w)"
    and no: "tenant_of_request r \<noteq> Some t \<or> \<not> manages p t (pl_store w)"
    and tk: "(\<forall>i r. gm_get (m_tokens (pl_store w)) i = Some r \<longrightarrow> tk_TenantID (tr_tok r) \<noteq> t) \<or> \<not> manages p t (pl_store w)"
    and iv: "\<And>i v. accepts r = Some i \<Longrightarrow> gm_get (m_invites (pl_store w)) i = Some v \<Longrightarrow> iv_TenantID (ir_inv v) \<noteq> t"
    and cr: "creates r \<Longrightarrow> gm_get (m_tenants (pl_store w)) t \<noteq> None \<and> \<not> pr_IsAdmin p"
    and ap: "\<And>t'. owner_of t' (pl_store w) = Some t \<Longrightarrow> gm_get (m_tenants (pl_store w)) t' = None"
  shows "kept_by t (route h x authz p r) w"
proof (cases r)
  case (PostAcceptInvite i)
  with iv show ?thesis using h_AcceptInvite_kept [OF ok] by simp
next
  case (PostMyOrganizations b)
  with cr show ?thesis using creating_handlers [OF ok] by simp
next
  case (PostTenants b)
  with cr show ?thesis using creating_handlers [OF ok] by simp
next
  case (PostDeleteConfirm t' b)
  with no show ?thesis using h_ConfirmDelete_kept [OF ok _ ] ap by simp
qed (use no tk ok fr in \<open>simp_all add: account_handlers managing_handlers token_handlers\<close>)

text \<open>The middleware changes at most the sessions.\<close>

lemma Middleware_sessions: "\<exists>ss. snd (Middleware h x authz m) = m\<lparr>m_sessions := ss\<rparr>"
proof -
  have "\<exists>ss. snd (SessionUser x k m) = m\<lparr>m_sessions := ss\<rparr>" for k
  proof -
    have "m = m\<lparr>m_sessions := m_sessions m\<rparr>" by simp
    thus ?thesis unfolding SessionUser_def Let_def DeleteSession_def
      by (auto split: sum.splits intro: exI [of _ "m_sessions m"])
  qed
  thus ?thesis unfolding Middleware_def Let_def
    by (auto split: sum.splits prod.splits intro: exI [of _ "m_sessions m"]) (metis snd_conv)+
qed

lemma same_but_sessions [simp]:
  "manages p t (m\<lparr>m_sessions := ss\<rparr>) = manages p t m"
  "fresh_draws x (m\<lparr>m_sessions := ss\<rparr>) = fresh_draws x m"
  "owner_of i (m\<lparr>m_sessions := ss\<rparr>) = owner_of i m"
  by (simp_all add: manages_def member_view_def members_of_def fresh_draws_def owner_of_def)

lemma serve_kept:
  assumes ok: "plane_ok (pl_store w)" and fr: "fresh_draws x (pl_store w)"
    and no: "\<And>p. fst (Middleware h x authz (pl_store w)) = Some p \<Longrightarrow>
      (tenant_of_request r \<noteq> Some t \<or> \<not> manages p t (pl_store w)) \<and>
      ((\<forall>i r. gm_get (m_tokens (pl_store w)) i = Some r \<longrightarrow> tk_TenantID (tr_tok r) \<noteq> t) \<or> \<not> manages p t (pl_store w)) \<and>
      (creates r \<longrightarrow> gm_get (m_tenants (pl_store w)) t \<noteq> None \<and> \<not> pr_IsAdmin p)"
    and iv: "\<And>i v. accepts r = Some i \<Longrightarrow> gm_get (m_invites (pl_store w)) i = Some v \<Longrightarrow> iv_TenantID (ir_inv v) \<noteq> t"
    and ap: "\<And>t'. owner_of t' (pl_store w) = Some t \<Longrightarrow> gm_get (m_tenants (pl_store w)) t' = None"
  shows "kept t (pl_store w) (pl_store (snd (serve_api h x authz r w)))"
proof -
  obtain po m1 where mw: "Middleware h x authz (pl_store w) = (po, m1)" by fastforce
  then obtain ss where ss: "m1 = (pl_store w)\<lparr>m_sessions := ss\<rparr>" using Middleware_sessions by (metis snd_conv)
  have k1: "kept t (pl_store w) m1" using ok ss by simp
  have os: "on_store (Middleware h x authz) w = (po, w\<lparr>pl_store := m1\<rparr>)" by (simp add: on_store_def mw)
  have behind: "kept t (pl_store w) (pl_store (snd (case on_store (Middleware h x authz) w of
      (None, w1) \<Rightarrow> ((401, P_Text ''unauthorized''), w1) | (Some p, w1) \<Rightarrow> route h x authz p r w1)))"
  proof (cases po)
    case None
    with k1 show ?thesis by (simp add: os)
  next
    case (Some p)
    have "kept_by t (route h x authz p r) (w\<lparr>pl_store := m1\<rparr>)"
      using no [of p] iv ap ok fr by (intro route_kept) (auto simp: mw Some ss)
    hence "kept t m1 (pl_store (snd (route h x authz p r (w\<lparr>pl_store := m1\<rparr>))))" by simp
    from kept_trans [OF k1 this] show ?thesis by (simp add: os Some)
  qed
  have public: "kept_by t (h_RequestCode h x b) w" "kept_by t (h_VerifyCode h x b2) w"
    "kept_by t (h_LoginPassword h x b2) w" "kept_by t (h_ForgotPassword h x b) w" "kept_by t (h_ResetPassword h x b2) w" for b b2
    by (rule account_handlers [OF ok])+
  show ?thesis unfolding serve_api_def
    by (cases r; use behind public ok in \<open>simp only: request.case kept_refl snd_conv\<close>)
qed

section \<open>Integrity over all requests\<close>

text \<open>
  The states the control plane reaches from an empty store.  The ids a request draws are taken to be
  unused: they are random strings of 96 bits.
\<close>

inductive api_reach :: "'s Handlers \<Rightarrow> 's Plane \<Rightarrow> bool" for h where
  api_start: "api_reach h \<lparr>pl_store = NewControlStore, pl_outbox = [], pl_cache = s\<rparr>"
| api_step: "api_reach h w \<Longrightarrow> fresh_draws x (pl_store w) \<Longrightarrow> api_reach h (snd (serve_api h x authz r w))"

lemma CreateOrganization_ok:
  assumes ok: "plane_ok m"
  shows "plane_ok (snd (CreateOrganization G x u i n m))"
proof -
  define added where "added = (\<lambda>t u r m. snd (AddMember t u r m))"
  have eq: "AddMember t u r m = (None, added t u r m)" for t u r m by (simp add: added_def AddMember_def)
  have "plane_ok (added t u r m)" if "plane_ok m" for t u r m
    using that by (simp add: added_def AddMember_def members_put_ok members_of_wf)
  with ok show ?thesis
    by (simp add: CreateOrganization_def Let_def CreateTenant_def eq split: sum.splits)
qed

lemma TenantCreate_ok: "plane_ok m \<Longrightarrow> plane_ok (snd (TenantCreate x i n m))"
  by (simp add: TenantCreate_def CreateTenant_def Let_def)

lemma creates_ok:
  assumes "plane_ok (pl_store w)" and "creates r"
  shows "plane_ok (pl_store (snd (route h x authz p r w)))"
  using assms by (cases r) (auto simp: h_CreateMyOrganization_def h_CreateTenant_def with_user_def decoded_def
      CreateOrganization_ok TenantCreate_ok split: option.splits prod.splits)

lemma serve_creates_ok:
  assumes ok: "plane_ok (pl_store w)" and "creates r"
  shows "plane_ok (pl_store (snd (serve_api h x authz r w)))"
proof -
  obtain po m1 where mw: "Middleware h x authz (pl_store w) = (po, m1)" by fastforce
  then obtain ss where "m1 = (pl_store w)\<lparr>m_sessions := ss\<rparr>" using Middleware_sessions by (metis snd_conv)
  with ok have "plane_ok (pl_store (w\<lparr>pl_store := m1\<rparr>))" by simp
  from creates_ok [OF this assms(2)] this assms(2) show ?thesis
    by (cases r) (simp_all add: serve_api_def on_store_def mw split: option.splits)
qed

lemma gm_get_image: "gm_wf m \<Longrightarrow> gm_get m i = Some v \<Longrightarrow> f v \<in> (\<lambda>(i, v). f v) ` set m"
  by (auto simp: gm_get_in_set intro: rev_image_eqI)

lemma serve_ok:
  assumes ok: "plane_ok (pl_store w)" and fr: "fresh_draws x (pl_store w)"
  shows "plane_ok (pl_store (snd (serve_api h x authz r w)))"
proof (cases "creates r")
  case True
  with ok show ?thesis by (rule serve_creates_ok)
next
  case False
  let ?m = "pl_store w"
  let ?used = "set_option (tenant_of_request r) \<union> (\<lambda>(i, r). tk_TenantID (tr_tok r)) ` set (m_tokens ?m)
    \<union> (\<lambda>(i, v). iv_TenantID (ir_inv v)) ` set (m_invites ?m) \<union> (\<lambda>(i, c). cn_TenantID c) ` set (m_connections ?m)"
  have fin: "finite ?used" by simp
  obtain t where t: "t \<notin> ?used" using ex_new_if_finite [OF infinite_UNIV_listI fin] by (rule exE)
  have wf: "gm_wf (m_tokens ?m)" "gm_wf (m_invites ?m)" "gm_wf (m_connections ?m)" using ok by (simp_all add: plane_defs)
  have "kept t ?m (pl_store (snd (serve_api h x authz r w)))"
  proof (rule serve_kept [OF ok fr])
    have "tk_TenantID (tr_tok q) \<noteq> t" if "gm_get (m_tokens ?m) i = Some q" for i q
      using gm_get_image [OF wf(1) that, of "\<lambda>r. tk_TenantID (tr_tok r)"] t by auto
    thus "(tenant_of_request r \<noteq> Some t \<or> \<not> manages p t ?m) \<and>
        ((\<forall>i r. gm_get (m_tokens ?m) i = Some r \<longrightarrow> tk_TenantID (tr_tok r) \<noteq> t) \<or> \<not> manages p t ?m) \<and>
        (creates r \<longrightarrow> gm_get (m_tenants ?m) t \<noteq> None \<and> \<not> pr_IsAdmin p)" for p
      using t False by auto
    show "iv_TenantID (ir_inv v) \<noteq> t" if "gm_get (m_invites ?m) i = Some v" for i v
      using gm_get_image [OF wf(2) that, of "\<lambda>v. iv_TenantID (ir_inv v)"] t by auto
    show "gm_get (m_tenants ?m) t' = None" if "owner_of t' ?m = Some t" for t'
    proof -
      from that obtain c where "gm_get (m_connections ?m) t' = Some c" "cn_TenantID c = t" by (auto simp: owner_of_def)
      with gm_get_image [OF wf(3) this(1), of cn_TenantID] t show ?thesis by auto
    qed
  qed
  thus ?thesis by (rule kept_ok)
qed

lemma api_reach_ok: "api_reach h w \<Longrightarrow> plane_ok (pl_store w)"
  by (induction rule: api_reach.induct) (simp_all add: plane_ok_initial serve_ok)

end
