(* ===== verification/Plane_Demo.thy ===== *)
theory Plane_Demo
  imports Plane_Props
begin

text \<open>
  A small run of the control plane on which the properties are shown to apply: the platform admin
  creates a tenant, and a user who is no member of it logs in by code.
\<close>

definition demo_bcrypt :: bcrypt_lib where
  "demo_bcrypt = \<lparr>bc_Generate = (\<lambda>s p. if length p > 72 then None else Some (''h:'' @ p)),
     bc_Compare = (\<lambda>h p. h = ''h:'' @ p)\<rparr>"

definition demo_auth :: auth_service where
  "demo_auth = \<lparr>as_passwordAuthEnabled = True, as_ParseAddress = (\<lambda>e. True),
     as_resetURL = (\<lambda>raw. ''https://app/reset-password?token='' @ raw), as_bcrypt = demo_bcrypt\<rparr>"

definition demo_handlers :: "MemoryStore Handlers" where
  "demo_handlers = \<lparr>hd_auth = demo_auth,
     hd_orgs = \<lparr>og_auth = demo_auth, og_mailer = True, og_inviteOnly = False\<rparr>, hd_tokens = NewTokenService,
     hd_aead = toy_aead, hd_masterKey = replicate 32 (CHR ''k''),
     hd_probe = \<lparr>mp_Connect = (\<lambda>u. None), mp_Ping = (\<lambda>u. None), mp_ListDatabases = (\<lambda>u. None)\<rparr>, hd_cache = None,
     hd_metrics = \<lparr>mq_Savings = (\<lambda>t v. Inr ''''), mq_Snapshot = (\<lambda>t v. Inr ''''), mq_Timeseries = (\<lambda>t k v s. Inr '''')\<rparr>,
     hd_platform = \<lparr>pf_InviteOnly = False, pf_AllowOrgCreation = True, pf_AllowAdminBootstrap = True,
       pf_ProxyPublicEndpoint = ''127.0.0.1:27018'', pf_TokenReenableWindowSeconds = 300, pf_PasswordAuthEnabled = True\<rparr>,
     hd_adminToken = '''', hd_requireUserAuth = False\<rparr>"

definition demo_env :: call_env where
  "demo_env = \<lparr>en_now = 1000, en_rand = (\<lambda>i n. Some (replicate n (CHR 0x00))), en_salt = ''''\<rparr>"

definition demo_start :: "MemoryStore Plane" where
  "demo_start = \<lparr>pl_store = NewControlStore, pl_outbox = [], pl_cache = NewMemoryStore\<rparr>"

definition demo_raw :: bytes where
  "demo_raw = hex_encode (replicate 32 (CHR 0x00))"

definition demo_run :: "(bytes \<times> request) list \<Rightarrow> MemoryStore Plane \<Rightarrow> MemoryStore Plane" where
  "demo_run rs w = fold (\<lambda>(authz, r) w. snd (serve_api demo_handlers demo_env authz r w)) rs w"

definition demo_plane :: "MemoryStore Plane" where
  "demo_plane = demo_run [('''', PostTenants (Some (''acme'', ''Acme''))), ('''', PostRequestCode (Some ''m@x.y'')),
     ('''', PostVerify (Some (''m@x.y'', ''000000'')))] demo_start"

lemma ds0: "normalizeEmail demo_auth ''m@x.y'' = Inr ''m@x.y''"
  by code_simp

lemma ds1: "trim_space ''000000'' = ''000000''"
  by code_simp

lemma ds2: "to_lower ''m@x.y'' = ''m@x.y''"
  by code_simp

lemma ds3: "norm_email ''m@x.y'' = ''m@x.y''"
  by code_simp

lemma ds4: "trim_space '''' = ''''"
  by code_simp

lemma ds5: "randomDigits demo_env 0 6 = Some ''000000''"
  by code_simp

lemma ds6: "trim_space demo_raw = demo_raw"
  by code_simp

lemma ds7: "has_prefix '''' ''Bearer '' = False"
  by code_simp

lemma ds8: "has_prefix (''Bearer '' @ demo_raw) ''Bearer ''"
  by code_simp

lemma ds9: "trim_prefix (''Bearer '' @ demo_raw) ''Bearer '' = demo_raw"
  by code_simp

lemma ds10: "demo_raw \<noteq> ''''"
  by code_simp


lemma ds11: "map ascii_lower ''m@x.y'' = ''m@x.y''"
  by code_simp

lemmas demo_strings = ds11[simplified] ds0 ds1 ds2 ds3 ds4 ds5 ds6 ds7 ds8 ds9 ds10

lemma demo_token: "randomToken demo_env 0 32 = Some demo_raw"
  by (simp add: randomToken_def demo_env_def demo_raw_def)

text \<open>The three steps of the run and the states between them.\<close>

definition acme_tenant :: Tenant where
  "acme_tenant = \<lparr>tn_ID = ''acme'', tn_Name = ''Acme'', tn_Status = ''active'', tn_CreatedAt = 1000, tn_UpdatedAt = 1000\<rparr>"

definition demo_store1 :: ControlStore where
  "demo_store1 = NewControlStore\<lparr>m_tenants := [(''acme'', acme_tenant)], m_audits := 1\<rparr>"

definition demo_code :: emailCode where
  "demo_code = \<lparr>ec_hash = ''h:000000'', ec_expires = 1000 + minutes 10, ec_attempts = 0\<rparr>"

definition demo_user :: User where
  "demo_user = \<lparr>us_ID = ''usr_mem_m@x.y'', us_Email = ''m@x.y'', us_Name = '''', us_CreatedAt = 1000, us_UpdatedAt = 1000,
     us_HasPassword = False\<rparr>"

definition demo_session :: sessionRow where
  "demo_session = \<lparr>sr_id = ''ses_'' @ cryptoRandHex demo_env 1 12, sr_userID = ''usr_mem_m@x.y'',
     sr_expiresAt = 1000 + minutes (30 * 24 * 60)\<rparr>"

definition demo_store3 :: ControlStore where
  "demo_store3 = demo_store1\<lparr>m_users := [(''usr_mem_m@x.y'', demo_user)], m_usersByEmail := [(''m@x.y'', ''usr_mem_m@x.y'')],
     m_sessions := [(hashToken demo_raw, demo_session)]\<rparr>"

lemma demo_admin: "Middleware demo_handlers x '''' m = (Some \<lparr>pr_User = None, pr_IsAdmin = True\<rparr>, m)"
  by (simp add: Middleware_def demo_strings demo_handlers_def)

lemma put_new: "gm_put [] k v = [(k, v)]" "gm_del [(k, v)] k = []" "gm_put [(k, v)] k v' = [(k, v')]"
  by (simp_all add: gm_put_def gm_del_def)

lemma demo_sel:
  "en_now demo_env = 1000" "hd_auth demo_handlers = demo_auth" "hd_adminToken demo_handlers = ''''"
  "hd_orgs demo_handlers = \<lparr>og_auth = demo_auth, og_mailer = True, og_inviteOnly = False\<rparr>"
  "us_ID demo_user = ''usr_mem_m@x.y''" "as_passwordAuthEnabled demo_auth" "as_bcrypt demo_auth = demo_bcrypt"
  "bc_Generate demo_bcrypt s p = (if length p > 72 then None else Some (''h:'' @ p))"
  "bc_Compare demo_bcrypt g p = (g = ''h:'' @ p)"
  by (simp_all add: demo_env_def demo_handlers_def demo_auth_def demo_bcrypt_def demo_user_def)

lemma demo_step1:
  "snd (serve_api demo_handlers demo_env '''' (PostTenants (Some (''acme'', ''Acme''))) (w\<lparr>pl_store := NewControlStore\<rparr>))
    = w\<lparr>pl_store := demo_store1\<rparr>"
  by (simp add: serve_api_def on_store_def demo_admin h_CreateTenant_def decoded_def answer_def TenantCreate_def Let_def
      CreateTenant_def NewControlStore_def put_new demo_store1_def acme_tenant_def audit_def RecordAudit_def demo_sel wrap64_def)

lemma demo_step2:
  "snd (serve_api demo_handlers demo_env '''' (PostRequestCode (Some ''m@x.y'')) (w\<lparr>pl_store := demo_store1\<rparr>))
    = w\<lparr>pl_store := demo_store1\<lparr>m_emailCodes := [(''m@x.y'', demo_code)]\<rparr>,
        pl_outbox := pl_outbox w @ [\<lparr>ml_to = ''m@x.y'', ml_subject = ''Your Oxella sign-in code'', ml_body = OtpBody ''000000'' 10\<rparr>]\<rparr>"
  apply (simp add: serve_api_def h_RequestCode_def decoded_def on_mailing_def RequestCode_def demo_strings demo_sel answer_done_def
      SetEmailVerificationCode_def demo_store1_def NewControlStore_def put_new demo_code_def)
  done

lemma demo_check:
  "check_code demo_bcrypt demo_env ''m@x.y'' ''000000'' (demo_store1\<lparr>m_emailCodes := [(''m@x.y'', demo_code)]\<rparr>)
    = (None, demo_store1)"
  apply (simp add: check_code_def demo_strings demo_sel demo_code_def minutes_def put_new demo_store1_def NewControlStore_def
      Let_def GetEmailVerificationCode_def ClearEmailVerificationCode_def gm_get_def)
  done

lemma demo_upsert:
  "UpsertUserByEmail 1000 ''m@x.y'' '''' demo_store1 = (Inr demo_user, demo_store1\<lparr>m_users := [(''usr_mem_m@x.y'', demo_user)], m_usersByEmail := [(''m@x.y'', ''usr_mem_m@x.y'')]\<rparr>)"
  apply (simp add: UpsertUserByEmail_def demo_strings demo_sel demo_user_def put_new demo_store1_def NewControlStore_def Let_def gm_get_def)
  done

lemma demo_issue:
  "issueSession demo_env ''usr_mem_m@x.y'' (demo_store1\<lparr>m_users := u, m_usersByEmail := e\<rparr>) = (Inr demo_raw,
    demo_store1\<lparr>m_users := u, m_usersByEmail := e, m_sessions := [(hashToken demo_raw, demo_session)]\<rparr>)"
  apply (simp add: issueSession_def demo_token demo_sel demo_session_def CreateSession_def put_new demo_store1_def NewControlStore_def Let_def)
  done

lemma demo_step3:
  "snd (serve_api demo_handlers demo_env '''' (PostVerify (Some (''m@x.y'', ''000000''))) (w\<lparr>pl_store := demo_store1\<lparr>m_emailCodes := [(''m@x.y'', demo_code)]\<rparr>\<rparr>))
    = w\<lparr>pl_store := demo_store3\<rparr>"
  apply (simp add: serve_api_def h_VerifyCode_def decoded_def on_store_def VerifyCode_def demo_strings demo_sel answer_def
      demo_check demo_upsert demo_issue demo_store3_def)
  done

lemma acme_login: "Middleware demo_handlers demo_env (''Bearer '' @ demo_raw) demo_store3
    = (Some \<lparr>pr_User = Some demo_user, pr_IsAdmin = False\<rparr>, demo_store3)"
  apply (simp only: Middleware_def demo_strings demo_sel)
  apply (simp add: SessionUser_def demo_strings Let_def GetSessionByTokenHash_def demo_sel)
  apply (simp add: demo_store3_def demo_session_def gm_get_def demo_store1_def NewControlStore_def minutes_def GetUserByID_def demo_sel demo_user_def)
  done

end
