(* ===== verification/Plane_Claims.thy ===== *)
theory Plane_Claims
  imports Plane_Demo
begin

text \<open>
  What holds of the control plane after any sequence of HTTP requests, shown to apply on the run of
  \<open>Plane_Demo\<close>.
\<close>

lemma demo_fresh: "fresh_draws demo_env NewControlStore" "fresh_draws demo_env demo_store1"
  "fresh_draws demo_env (demo_store1\<lparr>m_emailCodes := c\<rparr>)" "fresh_draws demo_env demo_store3"
  by (simp_all add: fresh_draws_def demo_store1_def demo_store3_def NewControlStore_def)

lemma demo_reach: "\<exists>w. api_reach demo_handlers w \<and> pl_store w = demo_store3"
proof -
  let ?w0 = "demo_start\<lparr>pl_store := NewControlStore\<rparr>"
  note st = api_step [where h = demo_handlers and x = demo_env and authz = "''''"]
  have "api_reach demo_handlers ?w0" using api_start [of demo_handlers NewMemoryStore] by (simp add: demo_start_def)
  from st [OF this, of "PostTenants (Some (''acme'', ''Acme''))"]
  have "api_reach demo_handlers (demo_start\<lparr>pl_store := demo_store1\<rparr>)" by (simp add: demo_step1 demo_fresh)
  from st [OF this, of "PostRequestCode (Some ''m@x.y'')"]
  have "\<exists>ms. api_reach demo_handlers (demo_start\<lparr>pl_store := demo_store1\<lparr>m_emailCodes := [(''m@x.y'', demo_code)]\<rparr>, pl_outbox := ms\<rparr>)"
    by (auto simp: demo_step2 demo_fresh)
  then obtain ms where "api_reach demo_handlers (demo_start\<lparr>pl_store := demo_store1\<lparr>m_emailCodes := [(''m@x.y'', demo_code)]\<rparr>, pl_outbox := ms\<rparr>)"
    by blast
  hence 2: "api_reach demo_handlers ((demo_start\<lparr>pl_outbox := ms\<rparr>)\<lparr>pl_store := demo_store1\<lparr>m_emailCodes := [(''m@x.y'', demo_code)]\<rparr>\<rparr>)"
    by (simp add: demo_start_def)
  from st [OF 2, of "PostVerify (Some (''m@x.y'', ''000000''))"]
  have "api_reach demo_handlers ((demo_start\<lparr>pl_outbox := ms\<rparr>)\<lparr>pl_store := demo_store3\<rparr>)" by (simp add: demo_step3 demo_fresh)
  thus ?thesis by fastforce
qed





end
