(* ===== verification/Plane_Access.thy ===== *)
theory Plane_Access
  imports Plane_Claims
begin

text \<open>
  The two planes together: what a request to the control plane means for the next login at the
  proxy, which reads the same store.
\<close>

section \<open>Issued tokens\<close>

text \<open>The row a successful request for a token adds.\<close>

definition issued_row :: "Token \<Rightarrow> bytes \<Rightarrow> bytes \<Rightarrow> bytes \<Rightarrow> bytes \<Rightarrow> tokenRow \<Rightarrow> bool" where
  "issued_row tok raw t c d r \<longleftrightarrow> tr_tok r = tok \<and> tr_lookup r = ProxyTokenLookupHash raw \<and> tk_TenantID tok = t \<and>
     tk_ConnectionID tok = c \<and> tk_Description tok = d \<and> tk_ExpiresAt tok = None \<and> tk_RevokedAt tok = None"

lemma TokenIssue_row:
  assumes "TokenIssue T B x t c d m = (Inr a, m')"
  obtains r where "gm_get (m_tokens m') (tk_ID (is_Token a)) = Some r" "issued_row (is_Token a) (is_RawToken a) t c d r"
    "m_tenants m' = m_tenants m"
  using assms that by (auto simp: TokenIssue_def CreateToken_def issued_row_def Let_def audit_def RecordAudit_def
      split: sum.splits option.splits)

lemma serve_issue_row:
  assumes "serve_api h x authz (PostTokens t c d) w = ((code, P_Issued tok raw uri), w')"
  obtains r where "gm_get (m_tokens (pl_store w')) (tk_ID tok) = Some r" "issued_row tok raw t c d r"
    "m_tenants (pl_store w') = m_tenants (pl_store w)"
proof -
  obtain po m1 where mw: "Middleware h x authz (pl_store w) = (po, m1)" by fastforce
  then obtain ss where ss: "m1 = (pl_store w)\<lparr>m_sessions := ss\<rparr>" using Middleware_sessions by (metis snd_conv)
  obtain q m2 where q: "TokenIssue (hd_tokens h) (as_bcrypt (hd_auth h)) x t c d m1 = (q, m2)" by fastforce
  with assms mw obtain a where "q = Inr a" "is_Token a = tok" "is_RawToken a = raw" "pl_store w' = m2"
    by (auto simp: serve_api_def on_store_def h_IssueToken_def guarded_def answer_def connection_err_def mapAuthErr_def
        split: option.splits sum.splits if_splits svc_err.splits)
  note a = this
  from q a(1) obtain r where "gm_get (m_tokens m2) (tk_ID (is_Token a)) = Some r"
    "issued_row (is_Token a) (is_RawToken a) t c d r" "m_tenants m2 = m_tenants m1" by (auto elim: TokenIssue_row)
  with a ss that show thesis by simp
qed

lemma issued_login:
  assumes "api_reach h w" and "fresh_draws x (pl_store w)"
    and issue: "serve_api h x authz (PostTokens t c d) w = ((code, P_Issued tok raw uri), w')"
    and "GetTenant t (pl_store w) = Inr tn" and "tn_Status tn = ''active''"
    and "trim_space t = t" and "t \<noteq> ''''" and "c \<noteq> ''''" and "raw \<noteq> ''''"
  shows "\<exists>tc v'. Authenticate control_auth_reads bc now t raw v (pl_store w') = (Inr tc, v')"
proof -
  have "api_reach h w'" using api_step [OF assms(1,2), of authz "PostTokens t c d"] issue by simp
  hence ok: "plane_ok (pl_store w')" by (rule api_reach_ok)
  obtain r where r: "gm_get (m_tokens (pl_store w')) (tk_ID tok) = Some r" "issued_row tok raw t c d r"
    "m_tenants (pl_store w') = m_tenants (pl_store w)" using issue by (rule serve_issue_row)
  have wf: "gm_wf (m_tokens (pl_store w'))" using ok by (simp add: plane_defs)
  have "(tk_ID tok, r) \<in> set (m_tokens (pl_store w'))" using gm_get_in_set [OF wf] r(1) by metis
  hence "r \<in> set (map snd (m_tokens (pl_store w')))" by (simp add: rev_image_eqI)
  moreover have "\<forall>r \<in> set (map snd (m_tokens (pl_store w'))). \<exists>c. GetConnection (tk_ConnectionID (tr_tok r)) (pl_store w') = Inr c"
  proof
    fix q assume "q \<in> set (map snd (m_tokens (pl_store w')))"
    then obtain i where "gm_get (m_tokens (pl_store w')) i = Some q" by (auto simp: gm_get_in_set [OF wf])
    with token_bound [OF ok] show "\<exists>c. GetConnection (tk_ConnectionID (tr_tok q)) (pl_store w') = Inr c"
      by (fastforce simp: GetConnection_def)
  qed
  ultimately show ?thesis
    using r assms(4-) by (intro auth_accepts_issued_token [where t = tn and r = r])
      (auto simp: GetTenant_def issued_row_def token_active_def)
qed

section \<open>What a login grants\<close>

text \<open>The token a login names is in the store, active and bound to the connection of the login.\<close>

definition backed :: "time \<Rightarrow> TenantContext \<Rightarrow> ControlStore \<Rightarrow> bool" where
  "backed now tc m \<longleftrightarrow> (\<exists>r. gm_get (m_tokens m) (tc_TokenID tc) = Some r \<and> token_active now (tr_tok r) \<and>
     tk_TenantID (tr_tok r) = tc_TenantID tc \<and> tk_ConnectionID (tr_tok r) = tc_ConnectionID tc)"

lemma accept_row_backed:
  assumes "plane_ok m" and "r \<in> set (map snd (m_tokens m))" and "token_active now (tr_tok r)" and "tk_TenantID (tr_tok r) = u"
    and "accept_row control_auth_reads now u key (hash_row r) v m = (Inr tc, v')"
  shows "backed now tc m"
proof -
  from assms(1,2) obtain i where "gm_get (m_tokens m) i = Some r" by (auto simp: plane_defs gm_get_in_set)
  moreover hence "tk_ID (tr_tok r) = i" using assms(1) by (simp add: plane_defs)
  ultimately show ?thesis
    using assms(3-) by (auto simp: backed_def accept_row_def tenantContextFromRow_def hash_row_def split: sum.splits store_err.splits if_splits)
qed

lemma authenticate_store_backed:
  assumes ok: "plane_ok m" and a: "authenticate_store control_auth_reads bc now u p v m = (Inr tc, v')"
  shows "backed now tc m"
proof (cases "GetActiveTokenByLookup now u (ProxyTokenLookupHash p) m")
  case (Inr row)
  obtain r where "r \<in> set (map snd (m_tokens m))" "row = hash_row r" "tk_TenantID (tr_tok r) = u" "token_active now (tr_tok r)"
    using lookup_row [OF Inr] by metis
  with a Inr accept_row_backed [OF ok] show ?thesis
    by (auto simp: authenticate_store_def Let_def control_auth_reads_def split: sum.splits store_err.splits if_splits)
next
  case (Inl e)
  with a obtain rows row where rows: "ListActiveTokenHashes now u m = Inr rows" "legacy_match bc p rows = Some row"
    and acc: "accept_row control_auth_reads now u (u @ [CHR 0x00] @ ProxyTokenLookupHash p) row v m = (Inr tc, v')"
    by (auto simp: authenticate_store_def Let_def control_auth_reads_def split: sum.splits store_err.splits if_splits option.splits)
  obtain r where "r \<in> set (map snd (m_tokens m))" "row = hash_row r" "tk_TenantID (tr_tok r) = u" "token_active now (tr_tok r)"
    using list_row [OF rows(1)] legacy_match_in [OF rows(2)] by metis
  with acc accept_row_backed [OF ok] show ?thesis by metis
qed

lemma Authenticate_backed:
  assumes "plane_ok m" and "Authenticate control_auth_reads bc now u p v m = (Inr tc, v')"
  shows "backed now tc m"
proof -
  have "backed now tc' m" if "revalidateToken control_auth_reads now tc0 m = Inr tc'" for tc0 tc'
    using that by (auto simp: revalidateToken_def control_auth_reads_def GetTokenByID_def backed_def token_active_def
        split: option.splits if_splits sum.splits)
  with assms authenticate_store_backed [OF assms(1)] show ?thesis
    by (auto simp: Authenticate_def Let_def split: if_splits option.splits sum.splits)
qed

lemma serve_revoke_row:
  assumes "serve_api h x authz (DeleteToken i) w = ((200, rep), w')"
  shows "gm_get (m_tokens (pl_store w')) i = Some r \<longrightarrow> tk_RevokedAt (tr_tok r) \<noteq> None"
proof -
  obtain po m1 where mw: "Middleware h x authz (pl_store w) = (po, m1)" by fastforce
  obtain q m2 where q: "TokenRevoke x i m1 = (q, m2)" by fastforce
  with assms mw have "q = None" "pl_store w' = m2"
    by (auto simp: serve_api_def on_store_def h_RevokeToken_def guarded_def answer_done_def mapAuthErr_def
        split: option.splits sum.splits if_splits svc_err.splits)
  with q have "pl_store w' = snd (RevokeToken (en_now x) i m1)" "fst (RevokeToken (en_now x) i m1) = None"
    by (auto simp: TokenRevoke_def split: prod.splits)
  thus ?thesis by (auto simp: RevokeToken_def split: option.splits)
qed

section \<open>A run\<close>

text \<open>The platform admin of \<open>Plane_Demo\<close> creates a connection for its tenant, issues a token and revokes it.\<close>

definition acme_conn :: Connection where
  "acme_conn = \<lparr>cn_ID = ''conn_'' @ b64url_encode (replicate 12 (CHR 0x00)), cn_TenantID = ''acme'', cn_Name = ''main'',
     cn_URICiphertext = ''mongodb://h'' @ replicate 16 (CHR ''t''), cn_Nonce = replicate 12 (CHR 0x00), cn_DEKVersion = ''v1'',
     cn_AutoInvalidateOnWrite = False, cn_LastValidatedAt = None, cn_CreatedAt = 1000, cn_UpdatedAt = 1000\<rparr>"

definition acme_raw :: bytes where
  "acme_raw = b64url_encode (replicate 32 (CHR ''z''))"

definition acme_token :: Token where
  "acme_token = \<lparr>tk_ID = ''tok_'' @ b64url_encode (replicate 12 (CHR ''z'')), tk_TenantID = ''acme'', tk_ConnectionID = cn_ID acme_conn,
     tk_Description = ''app'', tk_CreatedAt = 1000, tk_ExpiresAt = None, tk_RevokedAt = None, tk_ReenableUntil = None\<rparr>"

definition acme_store2 :: ControlStore where
  "acme_store2 = demo_store1\<lparr>m_connections := [(cn_ID acme_conn, acme_conn)], m_audits := 2\<rparr>"

definition acme_store3 :: ControlStore where
  "acme_store3 = acme_store2\<lparr>m_tokens := [(tk_ID acme_token,
     \<lparr>tr_tok = acme_token, tr_hash = ''h:'' @ acme_raw, tr_lookup = ProxyTokenLookupHash acme_raw\<rparr>)], m_audits := 3\<rparr>"

lemma trim_main: "trim_space ''main'' = ''main''"
  by code_simp

lemma length_acme_raw: "length acme_raw = 43"
  by code_simp

lemma demo_sel2: "en_rand demo_env i n = Some (replicate n (CHR 0x00))" "en_salt demo_env = ''''" "hd_aead demo_handlers = toy_aead"
  "hd_masterKey demo_handlers = replicate 32 (CHR ''k'')" "hd_tokens demo_handlers = NewTokenService"
  by (simp_all add: demo_env_def demo_handlers_def)

lemma acme_step2:
  "snd (serve_api demo_handlers demo_env '''' (PostConnections ''acme'' (Some (''main'', ''mongodb://h''))) (w\<lparr>pl_store := demo_store1\<rparr>))
    = w\<lparr>pl_store := acme_store2\<rparr>"
  by (simp add: serve_api_def on_store_def demo_admin h_CreateConnection_def ensureTenantAdmin_def guarded_def decoded_def answer_def)
    (simp add: ConnCreate_def trim_main GetTenant_def gm_get_def CreateConnection_def acme_store2_def demo_sel demo_sel2
      Encrypt_def toy_aead_def acme_conn_def demo_store1_def NewControlStore_def audit_def RecordAudit_def put_new Let_def wrap64_def)

text \<open>The later requests draw other bytes.\<close>

definition acme_env :: call_env where
  "acme_env = demo_env\<lparr>en_rand := (\<lambda>i n. Some (replicate n (CHR ''z'')))\<rparr>"

lemma acme_sel: "en_rand acme_env i n = Some (replicate n (CHR ''z''))" "en_salt acme_env = ''''" "en_now acme_env = 1000"
  by (simp_all add: acme_env_def demo_env_def)

lemma acme_draws: "b64url_encode (replicate 12 (CHR 0x00)) \<noteq> b64url_encode (replicate 12 (CHR ''z''))"
  by code_simp

lemma acme_fresh: "fresh_draws demo_env demo_store1" "fresh_draws acme_env acme_store2"
  using acme_draws
  by (simp_all add: fresh_draws_def demo_sel2 acme_sel acme_store2_def demo_store1_def NewControlStore_def gm_get_def acme_conn_def)

lemma acme_issue:
  "TokenIssue NewTokenService demo_bcrypt acme_env ''acme'' (cn_ID acme_conn) ''app'' acme_store2 =
    (Inr \<lparr>is_RawToken = acme_raw, is_Token = acme_token,
       is_ProxyConnectionURI = BuildProxyConnectionURI ''127.0.0.1:27018'' ''acme'' acme_raw\<rparr>, acme_store3)"
proof -
  have o: "owned_connection ''acme'' (cn_ID acme_conn) acme_store2 = Inr acme_conn"
    by (simp add: owned_connection_iff acme_store2_def gm_get_def) (simp add: acme_conn_def)
  show ?thesis unfolding TokenIssue_def o
    by (simp add: demo_sel acme_sel acme_raw_def [symmetric] length_acme_raw CreateToken_def Let_def NewTokenService_def
        acme_store3_def acme_token_def acme_store2_def demo_store1_def NewControlStore_def put_new audit_def RecordAudit_def wrap64_def)
qed

lemma acme_step3:
  "serve_api demo_handlers acme_env '''' (PostTokens ''acme'' (cn_ID acme_conn) ''app'') (w\<lparr>pl_store := acme_store2\<rparr>)
    = ((201, P_Issued acme_token acme_raw (BuildProxyConnectionURI ''127.0.0.1:27018'' ''acme'' acme_raw)), w\<lparr>pl_store := acme_store3\<rparr>)"
  by (simp add: serve_api_def on_store_def demo_admin h_IssueToken_def ensureTenantAdmin_def guarded_def answer_def demo_sel demo_sel2 acme_issue)

lemma acme_reach2: "api_reach demo_handlers (demo_start\<lparr>pl_store := acme_store2\<rparr>)"
proof -
  note st = api_step [where h = demo_handlers and x = demo_env and authz = "''''"]
  have "api_reach demo_handlers (demo_start\<lparr>pl_store := NewControlStore\<rparr>)"
    using api_start [of demo_handlers NewMemoryStore] by (simp add: demo_start_def)
  from st [OF this, of "PostTenants (Some (''acme'', ''Acme''))"]
  have "api_reach demo_handlers (demo_start\<lparr>pl_store := demo_store1\<rparr>)" by (simp add: demo_step1 demo_fresh)
  from st [OF this, of "PostConnections ''acme'' (Some (''main'', ''mongodb://h''))"] show ?thesis
    by (simp add: acme_step2 demo_fresh)
qed

lemma acme_reach3: "api_reach demo_handlers (demo_start\<lparr>pl_store := acme_store3\<rparr>)"
  using api_step [OF acme_reach2, of acme_env "''''" "PostTokens ''acme'' (cn_ID acme_conn) ''app''"] acme_fresh
  by (simp add: acme_step3)

lemma acme_tenant_stored: "GetTenant ''acme'' acme_store2 = Inr acme_tenant"
  by (simp add: GetTenant_def gm_get_def acme_store2_def demo_store1_def)

definition acme_store4 :: ControlStore where
  "acme_store4 = acme_store3\<lparr>m_tokens := [(tk_ID acme_token, \<lparr>tr_tok = acme_token\<lparr>tk_RevokedAt := Some 1000\<rparr>,
     tr_hash = ''h:'' @ acme_raw, tr_lookup = ProxyTokenLookupHash acme_raw\<rparr>)]\<rparr>"

definition idle_env :: call_env where
  "idle_env = acme_env\<lparr>en_rand := (\<lambda>i n. None)\<rparr>"

lemma acme_fresh3: "fresh_draws idle_env (pl_store (demo_start\<lparr>pl_store := acme_store3\<rparr>))"
  by (simp add: fresh_draws_def idle_env_def acme_store3_def acme_store2_def demo_store1_def NewControlStore_def)

lemma acme_step4:
  "serve_api demo_handlers idle_env '''' (DeleteToken (tk_ID acme_token)) (demo_start\<lparr>pl_store := acme_store3\<rparr>)
    = ((200, P_Status ''revoked''), demo_start\<lparr>pl_store := acme_store4\<rparr>)"
proof -
  have g: "gm_get (m_tokens acme_store3) (tk_ID acme_token) = Some \<lparr>tr_tok = acme_token, tr_hash = ''h:'' @ acme_raw,
      tr_lookup = ProxyTokenLookupHash acme_raw\<rparr>" by (simp add: acme_store3_def gm_get_def)
  have "TokenGet NewTokenService idle_env (tk_ID acme_token) acme_store3 = Inr acme_token"
    by (simp add: TokenGet_def GetTokenByID_def g annotateReenable_def annotate_one_def) (simp add: acme_token_def)
  moreover have "TokenRevoke idle_env (tk_ID acme_token) acme_store3 = (None, acme_store4)"
    by (simp add: TokenRevoke_def RevokeToken_def g) (simp add: acme_store4_def acme_store3_def put_new idle_env_def acme_sel)
  ultimately show ?thesis
    by (simp add: serve_api_def on_store_def demo_admin h_RevokeToken_def demo_sel demo_sel2 guarded_def ensureTenantAdmin_def answer_done_def)
qed

lemma acme_token_login:
  "\<exists>tc v'. Authenticate control_auth_reads (\<lambda>h p. False) 2000 ''acme'' acme_raw NewValidator acme_store3 = (Inr tc, v')"
proof -
  have "raw = acme_raw \<Longrightarrow> raw \<noteq> ''''" for raw using length_acme_raw by force
  from this [OF refl] issued_login [OF acme_reach2 _ acme_step3, where tn = acme_tenant and v = NewValidator
      and now = 2000 and bc = "\<lambda>h p. False"] acme_fresh show ?thesis
    by (simp add: acme_tenant_stored) (simp add: acme_tenant_def acme_conn_def)
qed

section \<open>Properties\<close>

text \<open>C12. An issued token opens the proxy: in every reachable state of the control plane, when a request for a token of
  a connection is answered with a token, the proxy accepts the next login with the tenant's id and the token's secret,
  whatever its positive cache holds and at whatever time, provided the tenant is active and its id is free of
  surrounding white space.\<close>

theorem issued_token_logs_in:
  assumes "api_reach h w" and "fresh_draws x (pl_store w)"
    and issue: "serve_api h x authz (PostTokens t c d) w = ((code, P_Issued tok raw uri), w')"
    and "GetTenant t (pl_store w) = Inr tn" and "tn_Status tn = ''active''"
    and "trim_space t = t" and "t \<noteq> ''''" and "c \<noteq> ''''" and "raw \<noteq> ''''"
  shows "\<exists>tc v'. Authenticate control_auth_reads bc now t raw v (pl_store w') = (Inr tc, v')"
  using assms by (rule issued_login)

theorem issued_token_logs_in_witness:
  "\<exists>tc v'. Authenticate control_auth_reads (\<lambda>h p. False) 2000 ''acme'' acme_raw NewValidator acme_store3 = (Inr tc, v')"
proof -
  have "raw = acme_raw \<Longrightarrow> raw \<noteq> ''''" for raw using length_acme_raw by force
  from this [OF refl] issued_token_logs_in [OF acme_reach2 _ acme_step3, where tn = acme_tenant and v = NewValidator
      and now = 2000 and bc = "\<lambda>h p. False"] acme_fresh show ?thesis
    by (simp add: acme_tenant_stored) (simp add: acme_tenant_def acme_conn_def)
qed

text \<open>C9. Isolation of tenants across the planes: in every reachable state of the control plane a successful login at
  the proxy, from its positive cache or not, is given a connection that exists and belongs to the tenant it is logged
  in as, so no sequence of requests, deletions and re-enabled tokens included, leads a tenant to the backend of another.\<close>

theorem login_reaches_own_connection:
  assumes "api_reach h w" and "Authenticate control_auth_reads bc now u p v (pl_store w) = (Inr tc, v')"
  shows "\<exists>c. GetConnection (tc_ConnectionID tc) (pl_store w) = Inr c \<and> cn_TenantID c = tc_TenantID tc"
proof -
  have ok: "plane_ok (pl_store w)" using assms(1) by (rule api_reach_ok)
  from Authenticate_backed [OF this assms(2)] token_bound [OF ok] show ?thesis
    by (fastforce simp: backed_def GetConnection_def)
qed

theorem login_reaches_own_connection_witness:
  "\<exists>tc v' c. Authenticate control_auth_reads (\<lambda>h p. False) 2000 ''acme'' acme_raw NewValidator acme_store3 = (Inr tc, v') \<and>
     GetConnection (tc_ConnectionID tc) acme_store3 = Inr c \<and> cn_TenantID c = tc_TenantID tc"
proof -
  obtain tc v' where a: "Authenticate control_auth_reads (\<lambda>h p. False) 2000 ''acme'' acme_raw NewValidator acme_store3 = (Inr tc, v')"
    using acme_token_login by blast
  with login_reaches_own_connection [OF acme_reach3, of _ _ _ _ _ tc v'] show ?thesis by simp
qed

text \<open>C11. Revoking a token takes effect at the proxy at once: after a request that revokes a token is answered with
  success, no login is granted that token, not even one that is in the positive cache of the proxy.\<close>

theorem revoked_token_refused:
  assumes "api_reach h w" and "fresh_draws x (pl_store w)" and "serve_api h x authz (DeleteToken i) w = ((200, rep), w')"
  shows "fst (Authenticate control_auth_reads bc now u p v (pl_store w')) \<noteq> Inr \<lparr>tc_TenantID = t, tc_ConnectionID = c, tc_TokenID = i\<rparr>"
proof
  assume "fst (Authenticate control_auth_reads bc now u p v (pl_store w')) = Inr \<lparr>tc_TenantID = t, tc_ConnectionID = c, tc_TokenID = i\<rparr>"
  then obtain v' where a: "Authenticate control_auth_reads bc now u p v (pl_store w') = (Inr \<lparr>tc_TenantID = t, tc_ConnectionID = c, tc_TokenID = i\<rparr>, v')"
    by (metis prod.collapse)
  have "api_reach h w'" using api_step [OF assms(1,2), of authz "DeleteToken i"] assms(3) by simp
  from Authenticate_backed [OF api_reach_ok [OF this] a] obtain r where
    "gm_get (m_tokens (pl_store w')) i = Some r" "tk_RevokedAt (tr_tok r) = None"
    by (auto simp: backed_def token_active_def)
  with serve_revoke_row [OF assms(3), of r] show False by auto
qed

theorem revoked_token_refused_witness:
  "fst (Authenticate control_auth_reads (\<lambda>h p. True) 2000 ''acme'' acme_raw
      (cachePut 1000 (''acme'' @ [CHR 0x00] @ ProxyTokenLookupHash acme_raw)
        \<lparr>tc_TenantID = ''acme'', tc_ConnectionID = cn_ID acme_conn, tc_TokenID = tk_ID acme_token\<rparr> NewValidator)
      acme_store4) \<noteq> Inr \<lparr>tc_TenantID = ''acme'', tc_ConnectionID = cn_ID acme_conn, tc_TokenID = tk_ID acme_token\<rparr>"
  using revoked_token_refused [OF acme_reach3 acme_fresh3 acme_step4] by simp

end
