(* ===== verification/Plane_Owners.thy ===== *)
theory Plane_Owners
  imports Plane_Claims
begin

text \<open>
  Membership: which requests change the members of an organization, and why it keeps an owner.
\<close>

section \<open>Operations that leave the members alone\<close>

text \<open>Of the primitive operations only \<open>AddMember\<close>, \<open>RemoveMember\<close> and \<open>DeleteTenant\<close> write the members.\<close>

lemmas primitives = CreateTenant_def CreateConnection_def update_connection_def UpdateConnectionURI_def UpdateConnectionName_def
  UpdateConnectionAutoInvalidate_def UpdateConnectionValidated_def DeleteConnection_def UpsertCachePolicy_def CreateToken_def
  RevokeToken_def ClearTokenRevocation_def UpsertUserByEmail_def UpdateUserName_def SetUserPasswordHash_def
  CreatePasswordResetToken_def ConsumePasswordResetToken_def SetEmailVerificationCode_def IncrementEmailVerificationAttempts_def
  ClearEmailVerificationCode_def CreateSession_def DeleteSession_def DeleteSessionByTokenHash_def CreateInvite_def
  MarkInviteAccepted_def DeleteInvite_def audit_def RecordAudit_def

lemma primitive_members [simp]:
  "m_members (snd (CreateTenant tn m)) = m_members m"
  "m_members (snd (CreateConnection cn m)) = m_members m"
  "m_members (snd (UpdateConnectionURI now c ct n v m)) = m_members m"
  "m_members (snd (UpdateConnectionName now c nm m)) = m_members m"
  "m_members (snd (UpdateConnectionAutoInvalidate now c b m)) = m_members m"
  "m_members (snd (UpdateConnectionValidated now c m)) = m_members m"
  "m_members (snd (DeleteConnection c m)) = m_members m"
  "m_members (snd (UpsertCachePolicy po m)) = m_members m"
  "m_members (snd (CreateToken tk g l m)) = m_members m"
  "m_members (snd (RevokeToken now i m)) = m_members m"
  "m_members (snd (ClearTokenRevocation i m)) = m_members m"
  "m_members (snd (UpsertUserByEmail now e nm m)) = m_members m"
  "m_members (snd (UpdateUserName now u nm m)) = m_members m"
  "m_members (snd (SetUserPasswordHash u g m)) = m_members m"
  "m_members (snd (CreatePasswordResetToken i u g ex m)) = m_members m"
  "m_members (snd (ConsumePasswordResetToken now g m)) = m_members m"
  "m_members (snd (SetEmailVerificationCode e g ex m)) = m_members m"
  "m_members (snd (IncrementEmailVerificationAttempts e m)) = m_members m"
  "m_members (snd (ClearEmailVerificationCode e m)) = m_members m"
  "m_members (snd (CreateSession i u g ex m)) = m_members m"
  "m_members (snd (DeleteSession i m)) = m_members m"
  "m_members (snd (DeleteSessionByTokenHash g m)) = m_members m"
  "m_members (snd (CreateInvite iv g m)) = m_members m"
  "m_members (snd (MarkInviteAccepted now i m)) = m_members m"
  "m_members (snd (DeleteInvite i m)) = m_members m"
  by (auto simp: primitives Let_def split: option.splits)

lemma audit_members [simp]: "m_members (audit m) = m_members m"
  by (simp add: primitives)

lemma same_members: "f m = (r, m') \<Longrightarrow> m_members (snd (f m)) = m_members m \<Longrightarrow> m_members m' = m_members m"
  by simp

lemmas primitive_member_steps = primitive_members [THEN same_members [rotated]]

lemma tenant_service_members [simp]:
  "m_members (snd (TenantCreate x i n m)) = m_members m"
  "m_members (snd (ConnCreate A k x t n uri m)) = m_members m"
  "m_members (snd (ConnUpdateURI A k x t c uri m)) = m_members m"
  "m_members (snd (ConnRename x t c n m)) = m_members m"
  "m_members (snd (ConnSetAutoInvalidate x t c b m)) = m_members m"
  "m_members (snd (ConnDelete t c m)) = m_members m"
  "m_members (snd (ConnTest P A k x t c m)) = m_members m"
  "m_members (snd (update_policy t c g m)) = m_members m"
  "m_members (snd (TokenIssue T B x t c d m)) = m_members m"
  "m_members (snd (TokenRevoke x i m)) = m_members m"
  "m_members (snd (TokenReenable T x i m)) = m_members m"
  unfolding TenantCreate_def ConnCreate_def ConnUpdateURI_def ConnRename_def ConnSetAutoInvalidate_def ConnDelete_def ConnTest_def
    update_policy_def TokenIssue_def TokenRevoke_def TokenReenable_def Let_def
  by (auto dest: primitive_member_steps split: sum.splits option.splits prod.splits store_err.splits)

lemma check_code_members [simp]: "m_members (snd (check_code B x k c m)) = m_members m"
  by (auto simp: check_code_def Let_def dest: primitive_member_steps split: sum.splits option.splits)

lemma issueSession_members [simp]: "m_members (snd (issueSession x u m)) = m_members m"
  by (auto simp: issueSession_def dest: primitive_member_steps split: option.splits prod.splits)

lemma store_password_members [simp]: "m_members (snd (store_password S x u p m)) = m_members m"
  by (auto simp: store_password_def dest: primitive_member_steps split: option.splits prod.splits)

lemma set_and_read_members [simp]: "m_members (snd (set_and_read S x u p m)) = m_members m"
  by (auto simp: set_and_read_def dest: store_password_members [THEN same_members [rotated]] split: option.splits prod.splits)

lemma UpdatePassword_members [simp]: "m_members (snd (UpdatePassword S x u c p m)) = m_members m"
  by (auto simp: UpdatePassword_def split: sum.splits option.splits store_err.splits)

lemmas login_member_steps = check_code_members [THEN same_members [rotated]] issueSession_members [THEN same_members [rotated]]

lemma auth_service_members [simp]:
  "m_members (fst (snd (RequestCode S x e m))) = m_members m"
  "m_members (snd (VerifyCode S x e c n m)) = m_members m"
  "m_members (snd (SessionUser x k m)) = m_members m"
  "m_members (snd (Logout k m)) = m_members m"
  "m_members (snd (UpdateProfile x u n m)) = m_members m"
  "m_members (snd (LoginWithPassword S x e p m)) = m_members m"
  "m_members (snd (SetPassword S x u c p m)) = m_members m"
  "m_members (fst (snd (RequestPasswordReset S x e m))) = m_members m"
  "m_members (snd (ResetPassword S x k p m)) = m_members m"
  unfolding RequestCode_def VerifyCode_def SessionUser_def Logout_def UpdateProfile_def LoginWithPassword_def SetPassword_def
    RequestPasswordReset_def ResetPassword_def Let_def
  by (auto dest!: primitive_member_steps login_member_steps split: sum.splits option.splits prod.splits store_err.splits)

lemma drop_pending_members [simp]: "m_members (drop_pending x t e m) = m_members m"
proof -
  have "m_members (fold (\<lambda>v m. if equal_fold (iv_Email v) e then snd (DeleteInvite (iv_ID v) m) else m) vs m') = m_members m'"
    for vs m' by (induction vs arbitrary: m') simp_all
  thus ?thesis by (simp add: drop_pending_def ListPendingInvitesForTenant_def)
qed

lemma org_service_members [simp]:
  "m_members (fst (snd (InviteMember G x t a e r ar m))) = m_members m"
  "m_members (snd (RevokeInvite t i m)) = m_members m"
  "m_members (fst (snd (RequestDeleteOrganization G x t o' m))) = m_members m"
  unfolding InviteMember_def RevokeInvite_def RequestDeleteOrganization_def Let_def
  by (auto dest: primitive_member_steps split: sum.splits option.splits prod.splits store_err.splits)

section \<open>Requests that leave the members alone\<close>

text \<open>The requests that can change who is a member of what.\<close>

fun on_members :: "request \<Rightarrow> bool" where
  "on_members (PostMyOrganizations b) = True"
| "on_members (PostTenants b) = True"
| "on_members (PostAcceptInvite i) = True"
| "on_members (DeleteMember t u) = True"
| "on_members (PostDeleteConfirm t b) = True"
| "on_members r = False"

abbreviation members_by :: "('s Plane \<Rightarrow> reply \<times> 's Plane) \<Rightarrow> 's Plane \<Rightarrow> bool" where
  "members_by f w \<equiv> m_members (pl_store (snd (f w))) = m_members (pl_store w)"

lemma members_with_user: "(\<And>u. members_by (f u) w) \<Longrightarrow> members_by (with_user p f) w"
  by (simp add: with_user_def split: option.splits)

lemma members_decoded: "(\<And>b. members_by (f b) w) \<Longrightarrow> members_by (decoded body f) w"
  by (simp add: decoded_def split: option.splits)

lemma members_guarded: "members_by f w \<Longrightarrow> members_by (guarded e f) w"
  by (simp add: guarded_def split: option.splits)

lemmas members_intros = members_with_user members_decoded members_guarded

lemmas connection_member_steps = tenant_service_members(3-5) [THEN same_members [rotated]]

lemma put_connection_members [simp]: "m_members (snd (put_connection h x t c n u a m)) = m_members m"
  by (cases n; cases u; cases a)
    (auto simp: put_connection_def dest!: connection_member_steps split: option.splits prod.splits)

lemma PolicyInvalidate_members [simp]: "m_members (fst (snd (PolicyInvalidate ca t c db coll tags m s))) = m_members m"
  by (auto simp: PolicyInvalidate_def split: sum.splits option.splits prod.splits)

lemma reader_members [simp]:
  "members_by (h_Me p) w" "members_by (h_ListMyOrganizations p) w" "members_by (h_ListMyInvites x p) w"
  "members_by (h_GetTenant x p t) w" "members_by (h_ListTenants p) w" "members_by (h_ListMembers x p t) w"
  "members_by (h_ListTenantInvites x p t) w" "members_by (h_ListConnections x p t) w" "members_by (h_GetConnection x p t c) w"
  "members_by (h_GetPolicy x p t c) w" "members_by (h_SavingsReport h x p t v) w" "members_by (h_TenantMetrics h x p t v) w"
  "members_by (h_TenantMetricsTimeseries h x p t k v s) w" "members_by (h_ListTokens h x p t c) w"
  by (simp_all add: h_Me_def h_ListMyOrganizations_def h_ListMyInvites_def h_GetTenant_def h_ListTenants_def
      h_ListMembers_def h_ListTenantInvites_def h_ListConnections_def h_GetConnection_def h_GetPolicy_def
      h_SavingsReport_def h_TenantMetrics_def h_TenantMetricsTimeseries_def h_ListTokens_def
      with_user_def guarded_def split: option.splits)

lemma account_members [simp]:
  "members_by (h_RequestCode h x b) w" "members_by (h_VerifyCode h x b2) w" "members_by (h_LoginPassword h x b2) w"
  "members_by (h_ForgotPassword h x b) w" "members_by (h_ResetPassword h x b2) w" "members_by (h_SetPassword h x p b2) w"
  "members_by (h_Logout authz) w" "members_by (h_UpdateMe x p b) w" "members_by (h_RequestDelete h x p t) w"
  unfolding h_RequestCode_def h_VerifyCode_def h_LoginPassword_def h_ForgotPassword_def h_ResetPassword_def h_SetPassword_def
    h_Logout_def h_UpdateMe_def h_RequestDelete_def
  by (auto intro!: members_intros split: prod.splits option.splits)

lemma tenant_members [simp]:
  "members_by (h_InviteMember h x p t b2) w" "members_by (h_RevokeInvite x p t i) w" "members_by (h_CreateConnection h x p t b2) w"
  "members_by (h_DeleteConnection x p t c) w" "members_by (h_TestConnection h x p t c) w"
  "members_by (h_SetCollectionPolicy x p t c k cp) w" "members_by (h_SetDefaultTTL x p t c n) w" "members_by (h_IssueToken h x p t c d) w"
  "members_by (h_RevokeToken h x p i) w" "members_by (h_ReenableToken h x p i) w"
  unfolding h_InviteMember_def h_RevokeInvite_def h_CreateConnection_def h_DeleteConnection_def h_TestConnection_def
    h_SetCollectionPolicy_def h_SetDefaultTTL_def h_IssueToken_def h_RevokeToken_def h_ReenableToken_def SetCollectionPolicy_def SetDefaults_def
  by (auto intro!: members_intros split: prod.splits sum.splits)

lemma UpdateConnection_members [simp]: "members_by (h_UpdateConnection h x p t c b3) w"
  unfolding h_UpdateConnection_def
proof (intro members_intros)
  fix b :: "bytes option \<times> bytes option \<times> bool option"
  obtain n u a where b: "b = (n, u, a)" by (cases b)
  obtain e w1 where e: "on_store (put_connection h x t c n u a) w = (e, w1)" by fastforce
  hence "m_members (pl_store w1) = m_members (pl_store w)" using put_connection_members by (metis plane_simps(3) snd_conv)
  thus "members_by (case b of (name, uri, auto) \<Rightarrow> \<lambda>w.
      if name = None \<and> uri = None \<and> auto = None
      then ((400, P_Text ''name, uri, or autoInvalidateOnWrite required''), w)
      else case on_store (put_connection h x t c name uri auto) w of
          (Some r, w1) \<Rightarrow> (r, w1)
        | (None, w1) \<Rightarrow> answer (\<lambda>c. (200, P_Connection c)) (\<lambda>err. (500, P_Err err)) (ConnGet t c (pl_store w1), w1)) w"
    by (simp add: b e split: option.splits)
qed

lemma Invalidate_members [simp]: "members_by (h_Invalidate h x p t c b4 q) w"
proof -
  obtain bdb bcoll tags qdb qcoll where b: "b4 = (bdb, bcoll, tags)" "q = (qdb, qcoll)" by (metis prod_cases3 surj_pair)
  let ?d = "if bdb = '''' then qdb else bdb" and ?c = "if bcoll = '''' then qcoll else bcoll"
  obtain res m s where r: "PolicyInvalidate (hd_cache h) t c ?d ?c tags (pl_store w) (pl_cache w) = (res, m, s)"
    by (metis prod_cases3)
  hence "m_members m = m_members (pl_store w)" using PolicyInvalidate_members by (metis fst_conv snd_conv)
  thus ?thesis unfolding h_Invalidate_def
    by (intro members_intros) (simp only: b r Let_def prod.case plane_simps snd_conv, simp)
qed

lemma route_members: "\<not> on_members r \<Longrightarrow> members_by (route h x authz p r) w"
  by (cases r) simp_all

section \<open>Owners\<close>

definition has_owner :: "bytes \<Rightarrow> ControlStore \<Rightarrow> bool" where
  "has_owner t m \<longleftrightarrow> (\<exists>u. gm_get (members_of t m) u = Some RoleOwner)"

lemma another_owner:
  assumes "gm_wf ms" and "length (filter (\<lambda>(u, r). r = RoleOwner) ms) > 1"
  shows "\<exists>v. v \<noteq> u \<and> gm_get ms v = Some RoleOwner"
proof -
  let ?os = "filter (\<lambda>(u, r). r = RoleOwner) ms"
  obtain a b rest where os: "?os = a # b # rest" using assms(2) by (cases ?os; cases "tl ?os") auto
  have "distinct (map fst ?os)" using assms(1) by (simp add: gm_wf_def distinct_map_filter)
  hence d: "fst a \<noteq> fst b" by (simp add: os)
  have "a \<in> set ?os" "b \<in> set ?os" by (simp_all add: os)
  hence "(fst a, RoleOwner) \<in> set ms" "(fst b, RoleOwner) \<in> set ms" by auto
  with assms(1) d show ?thesis by (metis gm_get_in_set)
qed

lemma member_role [simp]: "om_Role (member_row now t u role m) = role"
  by (simp add: member_row_def split: option.splits)

lemma owner_rows [simp]: "((\<lambda>om. om_Role om = RoleOwner) \<circ> (\<lambda>(u, role). member_row now t u role m)) = (\<lambda>(u, r). r = RoleOwner)"
  by (simp add: fun_eq_iff)

lemma OrgRemoveMember_cases:
  "snd (OrgRemoveMember x t u ar m) = m \<or>
   snd (OrgRemoveMember x t u ar m) = audit (snd (RemoveMember t u m)) \<and> (\<exists>role. gm_get (members_of t m) u = Some role \<and>
     (role = RoleOwner \<longrightarrow> 1 < length (filter (\<lambda>(u, r). r = RoleOwner) (members_of t m))))"
proof -
  have rm: "RemoveMember t u m = (None, snd (RemoveMember t u m))" by (simp add: RemoveMember_def split: option.splits)
  show ?thesis unfolding OrgRemoveMember_def GetMember_def ListMembers_def
    by (subst rm) (auto simp: filter_map split: option.splits)
qed

lemma OrgRemoveMember_owner:
  assumes ok: "plane_ok m" and own: "has_owner t m"
  shows "has_owner t (snd (OrgRemoveMember x t' u ar m))"
  using OrgRemoveMember_cases [of x t' u ar m]
proof
  assume "snd (OrgRemoveMember x t' u ar m) = m"
  with own show ?thesis by simp
next
  assume "snd (OrgRemoveMember x t' u ar m) = audit (snd (RemoveMember t' u m)) \<and> (\<exists>role. gm_get (members_of t' m) u = Some role \<and>
     (role = RoleOwner \<longrightarrow> 1 < length (filter (\<lambda>(u, r). r = RoleOwner) (members_of t' m))))"
  then obtain role where s: "snd (OrgRemoveMember x t' u ar m) = audit (snd (RemoveMember t' u m))"
    and r: "gm_get (members_of t' m) u = Some role"
    and many: "role = RoleOwner \<Longrightarrow> 1 < length (filter (\<lambda>(u, r). r = RoleOwner) (members_of t' m))" by blast
  have "\<exists>v. v \<noteq> u \<and> gm_get (members_of t' m) v = Some RoleOwner" if "t' = t"
  proof (cases "role = RoleOwner")
    case True
    from another_owner [OF members_of_wf [OF ok] many [OF True]] show ?thesis .
  next
    case False
    with own r that show ?thesis by (metis has_owner_def option.inject)
  qed
  with own show ?thesis unfolding s
    by (cases "t' = t") (auto simp: RemoveMember_def has_owner_def members_of_def split: option.splits)
qed

lemma has_owner_audit [simp]: "has_owner t (audit m) = has_owner t m"
  by (simp add: has_owner_def members_of_def)

lemma TenantCreate_owner: "has_owner t m \<Longrightarrow> has_owner t (snd (TenantCreate x i n m))"
  by (simp add: has_owner_def members_of_def)

lemma CreateOrganization_owner: "has_owner t m \<Longrightarrow> has_owner t (snd (CreateOrganization G x u i n m))"
proof -
  have add: "has_owner t (snd (AddMember i u RoleOwner m'))" if "m_members m' = m_members m" "has_owner t m" for m' i u
    using that by (auto simp: AddMember_def has_owner_def members_of_def)
  have "has_owner t m'' " if "AddMember i u RoleOwner m' = (e, m'')" "CreateTenant tn m = (e', m')" "has_owner t m" for m' m'' i u e e' tn
    using add [of m' i u] that primitive_members(1) [of tn m] by simp
  moreover have "has_owner t m'" if "CreateTenant tn m = (e', m')" "has_owner t m" for m' e' tn
    using that primitive_members(1) [of tn m] by (simp add: has_owner_def members_of_def)
  ultimately show "has_owner t m \<Longrightarrow> ?thesis"
    unfolding CreateOrganization_def Let_def
    by (auto simp: has_owner_audit split: sum.splits prod.splits option.splits)
qed

lemma ConfirmDelete_owner:
  assumes own: "has_owner t m" and "t' \<noteq> t"
  shows "has_owner t (snd (ConfirmDeleteOrganization G x t' u c m))"
proof -
  obtain e m1 where c: "check_code (as_bcrypt (og_auth G)) x (orgDeleteCodeKey t' (us_Email u)) c m = (e, m1)" by fastforce
  hence m1: "m_members m1 = m_members m" using check_code_members by (metis snd_conv)
  hence 1: "has_owner t m1" using own by (simp add: has_owner_def members_of_def)
  obtain e2 m2 where d: "DeleteTenant t' (audit m1) = (e2, m2)" by fastforce
  have "has_owner t (snd (DeleteTenant t' (audit m1)))"
    using own assms(2) m1 by (auto simp: DeleteTenant_def has_owner_def members_of_def split: option.splits)
  with d have "has_owner t m2" by simp
  with own 1 show ?thesis
    by (simp add: ConfirmDeleteOrganization_def c d split: sum.splits option.splits store_err.splits)
qed

lemma members_handlers_owner:
  assumes ok: "plane_ok (pl_store w)" and own: "has_owner t (pl_store w)"
  shows "has_owner t (pl_store (snd (h_CreateMyOrganization h x p b w)))"
    and "has_owner t (pl_store (snd (h_CreateTenant h x p b w)))"
    and "has_owner t (pl_store (snd (h_RemoveMember x p t' u w)))"
    and "t' \<noteq> t \<Longrightarrow> has_owner t (pl_store (snd (h_ConfirmDelete h x p t' c w)))"
  unfolding h_CreateMyOrganization_def h_CreateTenant_def h_RemoveMember_def h_ConfirmDelete_def with_user_def decoded_def guarded_def
  using own ok by (simp_all add: CreateOrganization_owner OrgRemoveMember_owner ConfirmDelete_owner TenantCreate_owner split: option.splits prod.splits)

fun deletes :: "request \<Rightarrow> bytes option" where
  "deletes (PostDeleteConfirm t b) = Some t"
| "deletes r = None"

lemma route_owner:
  assumes ok: "plane_ok (pl_store w)" and own: "has_owner t (pl_store w)"
    and "accepts r = None" and "deletes r \<noteq> Some t"
  shows "has_owner t (pl_store (snd (route h x authz p r w)))"
proof (cases "on_members r")
  case False
  from route_members [OF this, of h x authz p w] own show ?thesis by (simp add: has_owner_def members_of_def)
next
  case True
  with assms(3,4) show ?thesis by (cases r) (auto simp: members_handlers_owner [OF ok own])
qed

text \<open>C13. An organization keeps an owner: in every reachable state of the control plane, no request takes the last owner
  away from an organization, whoever makes it, the platform admin included, except accepting an invite, which may
  overwrite the role of an owner, and confirming the deletion of that organization.\<close>

theorem organization_keeps_owner:
  assumes "api_reach h w" and own: "\<exists>u. gm_get (members_of t (pl_store w)) u = Some RoleOwner"
    and "accepts r = None" and "deletes r \<noteq> Some t"
  shows "\<exists>u. gm_get (members_of t (pl_store (snd (serve_api h x authz r w)))) u = Some RoleOwner"
proof -
  have ok: "plane_ok (pl_store w)" using assms(1) by (rule api_reach_ok)
  have own: "has_owner t (pl_store w)" using own by (simp add: has_owner_def)
  obtain po m1 where mw: "Middleware h x authz (pl_store w) = (po, m1)" by fastforce
  then obtain ss where ss: "m1 = (pl_store w)\<lparr>m_sessions := ss\<rparr>" using Middleware_sessions by (metis snd_conv)
  have os: "on_store (Middleware h x authz) w = (po, w\<lparr>pl_store := m1\<rparr>)" by (simp add: on_store_def mw)
  have own1: "has_owner t m1" using own by (simp add: ss has_owner_def members_of_def)
  have "has_owner t (pl_store (snd (case on_store (Middleware h x authz) w of
      (None, w1) \<Rightarrow> ((401, P_Text ''unauthorized''), w1) | (Some p, w1) \<Rightarrow> route h x authz p r w1)))"
    using own1 ok ss assms(3,4) route_owner [of "w\<lparr>pl_store := m1\<rparr>" t r] by (cases po) (simp_all add: os)
  moreover have "has_owner t (pl_store (snd (h_RequestCode h x b w)))" "has_owner t (pl_store (snd (h_VerifyCode h x b2 w)))"
    "has_owner t (pl_store (snd (h_LoginPassword h x b2 w)))" "has_owner t (pl_store (snd (h_ForgotPassword h x b w)))"
    "has_owner t (pl_store (snd (h_ResetPassword h x b2 w)))" for b b2
    using own account_members(1-5) [where w = w] unfolding has_owner_def members_of_def by simp_all
  ultimately have "has_owner t (pl_store (snd (serve_api h x authz r w)))" using own unfolding serve_api_def
    by (cases r) (simp_all only: request.case snd_conv)
  thus ?thesis by (simp add: has_owner_def)
qed


lemma org_strings: "trim_space ''team1'' = ''team1''" "to_lower ''team1'' = ''team1''" "slug_matches ''team1''"
  by code_simp+

lemma org_lower: "map ascii_lower ''team1'' = ''team1''"
  by code_simp

lemma owner_store:
  "members_of ''team1'' (snd (CreateOrganization \<lparr>og_auth = a, og_mailer = b, og_inviteOnly = False\<rparr> x u ''team1'' ''team1'' demo_store3))
    = [(u, RoleOwner)]"
  by (simp add: CreateOrganization_def org_strings org_lower [simplified] GetTenant_def demo_store3_def demo_store1_def NewControlStore_def gm_get_def
      CreateTenant_def AddMember_def members_of_def put_new audit_def RecordAudit_def Let_def)

lemma owner_reach: "\<exists>w. api_reach demo_handlers w \<and> members_of ''team1'' (pl_store w) = [(''usr_mem_m@x.y'', RoleOwner)]"
proof -
  obtain w where w: "api_reach demo_handlers w" "pl_store w = demo_store3" using demo_reach by blast
  let ?w = "snd (serve_api demo_handlers demo_env (''Bearer '' @ demo_raw) (PostMyOrganizations (Some (''team1'', ''team1''))) w)"
  have "api_reach demo_handlers ?w" by (rule api_step [OF w(1)]) (simp add: w demo_fresh)
  moreover have "members_of ''team1'' (pl_store ?w) = [(''usr_mem_m@x.y'', RoleOwner)]"
    unfolding serve_api_def on_store_def w acme_login
    using owner_store [where u = "us_ID demo_user"] by (simp add: h_CreateMyOrganization_def with_user_def decoded_def demo_sel)
  ultimately show ?thesis by blast
qed

theorem organization_keeps_owner_witness:
  "\<exists>w. members_of ''team1'' (pl_store w) = [(''usr_mem_m@x.y'', RoleOwner)] \<and>
     (\<exists>u. gm_get (members_of ''team1'' (pl_store (snd (serve_api demo_handlers demo_env (''Bearer '' @ demo_raw)
        (DeleteMember ''team1'' ''usr_mem_m@x.y'') w)))) u = Some RoleOwner)"
proof -
  obtain w where w: "api_reach demo_handlers w" "members_of ''team1'' (pl_store w) = [(''usr_mem_m@x.y'', RoleOwner)]"
    using owner_reach by blast
  hence "\<exists>u. gm_get (members_of ''team1'' (pl_store (snd (serve_api demo_handlers demo_env (''Bearer '' @ demo_raw)
        (DeleteMember ''team1'' ''usr_mem_m@x.y'') w)))) u = Some RoleOwner"
    by (intro organization_keeps_owner) (auto simp: gm_get_def)
  with w show ?thesis by blast
qed

end
