(* ===== verification/Plane_Login.thy ===== *)
theory Plane_Login
  imports Plane_Claims
begin

text \<open>
  Login by code and by password through the HTTP interface: guessing a code, resetting a password
  and logging in with it.
\<close>

section \<open>Guessing a code\<close>

text \<open>A sequence of attempts to log in with an address, each with its environment, credentials and code.\<close>

definition guess :: "'s Handlers \<Rightarrow> bytes \<Rightarrow> (call_env \<times> bytes \<times> bytes) list \<Rightarrow> 's Plane \<Rightarrow> 's Plane" where
  "guess h email tries w = fold (\<lambda>(x, authz, code) w. snd (serve_api h x authz (PostVerify (Some (email, code))) w)) tries w"

text \<open>A guess that is refused for being wrong: long enough, in time, but not the code that was sent.\<close>

definition wrong_guess :: "'s Handlers \<Rightarrow> emailCode \<Rightarrow> call_env \<times> bytes \<times> bytes \<Rightarrow> bool" where
  "wrong_guess h ec = (\<lambda>(x, authz, code). en_now x \<le> ec_expires ec \<and> 4 \<le> length (trim_space code) \<and>
     \<not> bc_Compare (as_bcrypt (hd_auth h)) (ec_hash ec) (trim_space code))"

lemma serve_verify:
  "serve_api h x authz (PostVerify (Some (email, code))) w =
    answer (\<lambda>(token, user). (200, P_Login token session_seconds user)) mapAuthErr
       (on_store (VerifyCode (hd_auth h) x email code '''') w)"
  by (simp add: serve_api_def h_VerifyCode_def decoded_def)

lemma wrong_guess_counts:
  assumes "normalizeEmail (hd_auth h) email = Inr e" and "gm_get (m_emailCodes (pl_store w)) (to_lower e) = Some ec"
    and "0 \<le> ec_attempts ec" and "ec_attempts ec \<le> 8" and "wrong_guess h ec (x, authz, code)"
  shows "gm_get (m_emailCodes (pl_store (snd (serve_api h x authz (PostVerify (Some (email, code))) w)))) (to_lower e)
    = Some (ec\<lparr>ec_attempts := min 8 (ec_attempts ec + 1)\<rparr>)"
  using assms unfolding serve_verify
  by (auto simp: wrong_guess_def VerifyCode_def check_code_def Let_def GetEmailVerificationCode_def
      IncrementEmailVerificationAttempts_def wrap64_def)

lemma wrong_guess_attempts: "wrong_guess h (ec\<lparr>ec_attempts := n\<rparr>) g = wrong_guess h ec g"
  by (simp add: wrong_guess_def)

lemma guess_counts:
  assumes "normalizeEmail (hd_auth h) email = Inr e"
  shows "gm_get (m_emailCodes (pl_store w)) (to_lower e) = Some ec \<Longrightarrow> 0 \<le> ec_attempts ec \<Longrightarrow> ec_attempts ec \<le> 8 \<Longrightarrow>
    list_all (wrong_guess h ec) tries \<Longrightarrow>
    gm_get (m_emailCodes (pl_store (guess h email tries w))) (to_lower e)
      = Some (ec\<lparr>ec_attempts := min 8 (ec_attempts ec + int (length tries))\<rparr>)"
proof (induction tries arbitrary: w ec)
  case Nil
  thus ?case by (simp add: guess_def)
next
  case (Cons g tries)
  obtain x authz code where g: "g = (x, authz, code)" by (cases g)
  let ?w = "snd (serve_api h x authz (PostVerify (Some (email, code))) w)"
  let ?ec = "ec\<lparr>ec_attempts := min 8 (ec_attempts ec + 1)\<rparr>"
  have "gm_get (m_emailCodes (pl_store ?w)) (to_lower e) = Some ?ec"
    using Cons.prems g by (intro wrong_guess_counts [OF assms]) simp_all
  hence "gm_get (m_emailCodes (pl_store (guess h email tries ?w))) (to_lower e)
      = Some (?ec\<lparr>ec_attempts := min 8 (ec_attempts ?ec + int (length tries))\<rparr>)"
    using Cons.prems by (intro Cons.IH) (auto simp: wrong_guess_attempts)
  moreover have "min 8 (ec_attempts ?ec + int (length tries)) = min 8 (ec_attempts ec + int (length (g # tries)))" by simp
  ultimately show ?case by (simp add: guess_def g)
qed

text \<open>C14. A login code cannot be guessed: after eight wrong codes for an address, in whatever requests they were sent, no
  further code is accepted for it, not even the one that was sent, until a new one is requested.\<close>

theorem code_guessing_bounded:
  assumes "normalizeEmail (hd_auth h) email = Inr e" and "gm_get (m_emailCodes (pl_store w)) (to_lower e) = Some ec"
    and "ec_attempts ec = 0" and "list_all (wrong_guess h ec) tries" and "8 \<le> length tries"
  shows "fst (serve_api h x authz (PostVerify (Some (email, code))) (guess h email tries w)) =
    (400, P_Err (if length (trim_space code) < 4 then ErrInvalidCode else ErrTooManyAttempts))"
proof -
  have "gm_get (m_emailCodes (pl_store (guess h email tries w))) (to_lower e) = Some (ec\<lparr>ec_attempts := 8\<rparr>)"
    using guess_counts [OF assms(1,2), of tries] assms(3-5) by simp
  thus ?thesis using assms(1) unfolding serve_verify
    by (simp add: VerifyCode_def check_code_def Let_def GetEmailVerificationCode_def answer_def on_store_def mapAuthErr_def)
qed

lemma nines: "trim_space ''999999'' = ''999999''"
  by code_simp

theorem code_guessing_bounded_witness:
  "fst (serve_api demo_handlers demo_env '''' (PostVerify (Some (''m@x.y'', ''000000'')))
     (guess demo_handlers ''m@x.y'' (replicate 8 (demo_env, '''', ''999999''))
       (demo_start\<lparr>pl_store := demo_store1\<lparr>m_emailCodes := [(''m@x.y'', demo_code)]\<rparr>\<rparr>))) = (400, P_Err ErrTooManyAttempts)"
proof -
  have wrong: "wrong_guess demo_handlers demo_code (demo_env, '''', ''999999'')"
    by (simp add: wrong_guess_def demo_code_def demo_sel nines minutes_def)
  have "gm_get [(''m@x.y'', demo_code)] (to_lower ''m@x.y'') = Some demo_code" by (simp only: demo_strings) (simp add: gm_get_def)
  thus ?thesis using wrong
    by (subst code_guessing_bounded [where e = "''m@x.y''" and ec = demo_code]) (simp_all add: demo_sel ds0 ds1 list_all_iff, simp add: demo_code_def)
qed

section \<open>Passwords\<close>

text \<open>What the code relies on of bcrypt: a hash compares equal to the password it was generated from only.\<close>

definition bcrypt_ok :: "bcrypt_lib \<Rightarrow> bool" where
  "bcrypt_ok B \<longleftrightarrow> (\<forall>s p g q. bc_Generate B s p = Some g \<longrightarrow> g \<noteq> '''' \<and> (bc_Compare B g q \<longleftrightarrow> q = p))"

lemma serve_reset:
  "serve_api h x authz (PostResetPassword (Some (k, p))) w =
    answer_done (200, P_Status ''ok'') mapAuthErr (on_store (ResetPassword (hd_auth h) x k p) w)"
  by (simp add: serve_api_def h_ResetPassword_def decoded_def)

lemma mapAuthErr_not_ok [simp]: "mapAuthErr e \<noteq> (200, p)"
  by (simp add: mapAuthErr_def split: svc_err.splits)

lemma reset_ok:
  assumes "serve_api h x authz (PostResetPassword (Some (k, p))) w = ((200, rep), w')"
  obtains r g where "gm_get (m_passwordResets (pl_store w)) (hashToken (trim_space k)) = Some r" "\<not> pr_used r"
    "en_now x \<le> pr_expiresAt r" "bc_Generate (as_bcrypt (hd_auth h)) (en_salt x) p = Some g" "as_passwordAuthEnabled (hd_auth h)"
    "validatePassword p = None"
    "pl_store w' = (pl_store w)\<lparr>m_passwordResets := gm_put (m_passwordResets (pl_store w)) (hashToken (trim_space k)) (r\<lparr>pr_used := True\<rparr>),
       m_userPasswords := gm_put (m_userPasswords (pl_store w)) (pr_userID r) g\<rparr>"
proof -
  obtain e m where q: "ResetPassword (hd_auth h) x k p (pl_store w) = (e, m)" by fastforce
  with assms have "e = None" "pl_store w' = m"
    by (auto simp: serve_reset on_store_def answer_done_def split: option.splits)
  with q that show thesis
    by (auto simp: ResetPassword_def ConsumePasswordResetToken_def store_password_def SetUserPasswordHash_def Let_def
        split: if_splits option.splits)
qed

text \<open>A reset link works once: after a password has been reset with a token, every further request to reset a
  password with that token is refused, whatever password it carries.\<close>

theorem reset_token_single_use:
  assumes "serve_api h x authz (PostResetPassword (Some (k, p))) w = ((200, rep), w')"
  shows "fst (fst (serve_api h y authz' (PostResetPassword (Some (k, q))) w')) \<noteq> 200"
proof
  assume "fst (fst (serve_api h y authz' (PostResetPassword (Some (k, q))) w')) = 200"
  then obtain rep2 w2 where 2: "serve_api h y authz' (PostResetPassword (Some (k, q))) w' = ((200, rep2), w2)"
    by (metis prod.collapse)
  show False using assms by (rule reset_ok) (rule reset_ok [OF 2], auto)
qed
section \<open>A run\<close>

text \<open>The user of \<open>Plane_Demo\<close> has asked for a reset; \<open>reset_store\<close> is the store after the reset.\<close>

definition reset_row :: pwResetRow where
  "reset_row = \<lparr>pr_id = ''pwr_1'', pr_userID = ''usr_mem_m@x.y'', pr_expiresAt = 2000, pr_used = False\<rparr>"

definition asked_store :: ControlStore where
  "asked_store = demo_store3\<lparr>m_passwordResets := [(hashToken demo_raw, reset_row)]\<rparr>"

definition reset_store :: ControlStore where
  "reset_store = asked_store\<lparr>m_passwordResets := [(hashToken demo_raw, reset_row\<lparr>pr_used := True\<rparr>)],
     m_userPasswords := [(''usr_mem_m@x.y'', ''h:long password'')]\<rparr>"

lemma demo_bcrypt_ok: "bcrypt_ok demo_bcrypt"
  by (auto simp: bcrypt_ok_def demo_bcrypt_def)

lemma demo_found:
  "GetUserByEmail ''m@x.y'' asked_store = Inr demo_user" "gm_get (m_passwordResets asked_store) (hashToken demo_raw) = Some reset_row"
  "pr_userID reset_row = us_ID demo_user"
  by (simp_all add: asked_store_def GetUserByEmail_def ds3 demo_store3_def demo_store1_def NewControlStore_def gm_get_def reset_row_def
      demo_user_def)

lemma demo_sel0: "trim_space demo_raw = demo_raw" "en_rand demo_env i n = Some (replicate n (CHR 0x00))"
  by (simp_all add: ds6 demo_env_def)

lemma valid_demo: "validatePassword ''long password'' = None" "trim_space ''long password'' = ''long password''"
  by code_simp+

lemma reset_demo:
  "serve_api demo_handlers demo_env '''' (PostResetPassword (Some (demo_raw, ''long password''))) (demo_start\<lparr>pl_store := asked_store\<rparr>)
    = ((200, P_Status ''ok''), demo_start\<lparr>pl_store := reset_store\<rparr>)"
proof -
  have "ResetPassword demo_auth demo_env demo_raw ''long password'' asked_store = (None, reset_store)"
    unfolding ResetPassword_def Let_def demo_strings
    by (simp add: demo_sel demo_strings valid_demo ConsumePasswordResetToken_def)
      (simp add: store_password_def SetUserPasswordHash_def demo_sel asked_store_def reset_store_def reset_row_def gm_get_def put_new demo_store3_def demo_store1_def NewControlStore_def)
  thus ?thesis by (simp add: serve_reset demo_sel on_store_def answer_done_def)
qed


theorem reset_token_single_use_witness:
  "fst (fst (serve_api demo_handlers demo_env '''' (PostResetPassword (Some (demo_raw, ''another password'')))
     (demo_start\<lparr>pl_store := reset_store\<rparr>))) \<noteq> 200"
  by (rule reset_token_single_use [OF reset_demo])

lemma serve_password:
  "serve_api h x authz (PostLoginPassword (Some (email, p))) w =
    answer (\<lambda>(token, user). (200, P_Login token session_seconds user)) mapAuthErr
       (on_store (LoginWithPassword (hd_auth h) x email p) w)"
  by (simp add: serve_api_def h_LoginPassword_def decoded_def)

lemma login_ok:
  assumes "normalizeEmail S email = Inr e" and "GetUserByEmail e m = Inr u" and "GetUserPasswordHash (us_ID u) m = Inr g"
    and "en_rand y 0 32 \<noteq> None" and "as_passwordAuthEnabled S"
  shows "(\<exists>a. fst (LoginWithPassword S y email q m) = Inr a) \<longleftrightarrow> trim_space q \<noteq> '''' \<and> bc_Compare (as_bcrypt S) g (trim_space q)"
    and "fst (LoginWithPassword S y email q m) = Inl er \<Longrightarrow> er = ErrInvalidCredentials"
  using assms by (auto simp: LoginWithPassword_def Let_def issueSession_def randomToken_def CreateSession_def split: if_splits)



end
