(* ===== verification/Plane_Replies.thy ===== *)
theory Plane_Replies
  imports Plane_Props
begin

text \<open>
  The types of the replies of the HTTP interface, which the dashboard relies on: what a route
  encodes on success, and that every failure carries an error.
\<close>

datatype reply_kind =
    K_Error | K_Status | K_Platform | K_Login | K_User | K_Orgs
  | K_Org | K_Tenant | K_Tenants | K_TenantView | K_Members | K_Invites
  | K_Invite | K_Connections | K_Connection | K_Policy | K_Invalidated | K_Issued
  | K_Tokens | K_Token | K_Json

fun payload_kind :: "payload \<Rightarrow> reply_kind" where
  "payload_kind (P_Err e) = K_Error"
| "payload_kind (P_Text s) = K_Error"
| "payload_kind (P_Status s) = K_Status"
| "payload_kind (P_Platform f) = K_Platform"
| "payload_kind (P_Login k n u) = K_Login"
| "payload_kind (P_User u) = K_User"
| "payload_kind (P_Orgs os) = K_Orgs"
| "payload_kind (P_Org s) = K_Org"
| "payload_kind (P_Tenant t) = K_Tenant"
| "payload_kind (P_Tenants ts) = K_Tenants"
| "payload_kind (P_TenantView t v) = K_TenantView"
| "payload_kind (P_Members ms) = K_Members"
| "payload_kind (P_Invites vs) = K_Invites"
| "payload_kind (P_Invite v) = K_Invite"
| "payload_kind (P_Connections cs) = K_Connections"
| "payload_kind (P_Connection c) = K_Connection"
| "payload_kind (P_Policy q) = K_Policy"
| "payload_kind (P_Invalidated t c d k ts) = K_Invalidated"
| "payload_kind (P_Issued k a b) = K_Issued"
| "payload_kind (P_Tokens ks) = K_Tokens"
| "payload_kind (P_Token k) = K_Token"
| "payload_kind (P_Json j) = K_Json"

text \<open>What a route encodes when it succeeds.\<close>

fun promised :: "request \<Rightarrow> reply_kind" where
  "promised GetPlatform = K_Platform"
| "promised (PostRequestCode b) = K_Status"
| "promised (PostVerify b) = K_Login"
| "promised (PostLoginPassword b) = K_Login"
| "promised (PostForgotPassword b) = K_Status"
| "promised (PostResetPassword b) = K_Status"
| "promised PostLogout = K_Status"
| "promised GetMe = K_User"
| "promised (PatchMe b) = K_User"
| "promised (PutPassword b) = K_User"
| "promised GetMyOrganizations = K_Orgs"
| "promised (PostMyOrganizations b) = K_Org"
| "promised GetMyInvites = K_Invites"
| "promised (PostAcceptInvite i) = K_Org"
| "promised (PostTenants b) = K_Tenant"
| "promised GetTenants = K_Tenants"
| "promised (GetTenantById t) = K_TenantView"
| "promised (PostDeleteRequest t) = K_Status"
| "promised (PostDeleteConfirm t b) = K_Status"
| "promised (GetMembers t) = K_Members"
| "promised (PostInvites t b) = K_Invite"
| "promised (GetInvites t) = K_Invites"
| "promised (DeleteInviteById t i) = K_Status"
| "promised (DeleteMember t u) = K_Status"
| "promised (GetConnections t) = K_Connections"
| "promised (PostConnections t b) = K_Connection"
| "promised (GetConnectionById t c) = K_Connection"
| "promised (PutConnection t c b) = K_Connection"
| "promised (DeleteConnectionById t c) = K_Status"
| "promised (PostTest t c) = K_Status"
| "promised (GetTokens t c) = K_Tokens"
| "promised (PostTokens t c d) = K_Issued"
| "promised (DeleteToken i) = K_Status"
| "promised (PostReenable i) = K_Token"
| "promised (GetPolicy t c) = K_Policy"
| "promised (PutCollectionPolicy t c k b) = K_Status"
| "promised (PutDefaults t c b) = K_Status"
| "promised (PostInvalidate t c b q) = K_Invalidated"
| "promised (GetSavings t v) = K_Json"
| "promised (GetMetrics t v) = K_Json"
| "promised (GetTimeseries t k v s) = K_Json"

definition typed_reply :: "request \<Rightarrow> reply \<Rightarrow> bool" where
  "typed_reply r cp = (case cp of (c, p) \<Rightarrow> payload_kind p = (if c < 400 then promised r else K_Error))"

lemma typed_errors [simp]:
  "typed_reply r (mapAuthErr e)" "typed_reply r (reenable_err e)" "c \<ge> 400 \<Longrightarrow> typed_reply r (connection_err c e)"
  by (simp_all add: typed_reply_def mapAuthErr_def reenable_err_def connection_err_def split: svc_err.splits)

lemma typed_answer [intro!]:
  "(\<And>a. typed_reply r (good a)) \<Longrightarrow> (\<And>e. typed_reply r (bad e)) \<Longrightarrow> typed_reply r (fst (answer good bad rw))"
  "typed_reply r done' \<Longrightarrow> (\<And>e. typed_reply r (bad e)) \<Longrightarrow> typed_reply r (fst (answer_done done' bad rw'))"
  by (auto simp: answer_def answer_done_def split: prod.splits sum.splits option.splits)

lemma typed_shapes [intro!]:
  "(\<And>u. typed_reply r (fst (f u w))) \<Longrightarrow> typed_reply r (fst (with_user p f w))"
  "typed_reply r (fst (g w)) \<Longrightarrow> typed_reply r (fst (guarded e g w))"
  "(\<And>b. typed_reply r (fst (k b w))) \<Longrightarrow> typed_reply r (fst (decoded body k w))"
  by (auto simp: with_user_def guarded_def decoded_def typed_reply_def [of r "(_, P_Text _)"] split: option.splits)

lemma typed_json [intro!]: "promised r = K_Json \<Longrightarrow> typed_reply r (fst (json_answer j w))"
  by (simp add: json_answer_def typed_reply_def split: sum.splits)

lemma typed_simps [simp]:
  "typed_reply r (c, p) \<longleftrightarrow> payload_kind p = (if c < 400 then promised r else K_Error)"
  by (simp add: typed_reply_def)

lemma typed_put_connection: "fst (put_connection h x t c n u a m) = Some rep \<Longrightarrow> typed_reply r rep"
  by (auto simp: put_connection_def split: option.splits prod.splits if_splits)

lemma typed_put:
  "on_store (put_connection h x t c n u a) w = (e, w1) \<Longrightarrow> promised r = K_Connection \<Longrightarrow>
   typed_reply r (fst (case e of None \<Rightarrow> answer (\<lambda>c. (200, P_Connection c)) (\<lambda>err. (500, P_Err err)) (ConnGet t c (pl_store w1), w1)
     | Some q \<Rightarrow> (q, w1)))"
  using typed_put_connection [of h x t c n u a "pl_store w" _ r]
  by (auto simp: on_store_def split: prod.splits option.splits)

lemma typed_handlers:
  "typed_reply (PostRequestCode b1) (fst (h_RequestCode h x b1 w))"
  "typed_reply (PostVerify b2) (fst (h_VerifyCode h x b2 w))"
  "typed_reply (PostLoginPassword b2) (fst (h_LoginPassword h x b2 w))"
  "typed_reply (PostForgotPassword b1) (fst (h_ForgotPassword h x b1 w))"
  "typed_reply (PostResetPassword b2) (fst (h_ResetPassword h x b2 w))"
  unfolding h_RequestCode_def h_VerifyCode_def h_LoginPassword_def h_ForgotPassword_def h_ResetPassword_def
  by (auto split: prod.splits)

lemma typed_route: "typed_reply r (fst (route h x authz p r w))"
proof (cases r)
  case (PutConnection t c b)
  show ?thesis unfolding PutConnection route.simps h_UpdateConnection_def
    by (intro typed_shapes) (auto simp: typed_put split: prod.splits)
next
  case (PostInvalidate t c b q)
  show ?thesis unfolding PostInvalidate route.simps h_Invalidate_def
    by (intro typed_shapes) (auto simp: Let_def split: prod.splits)
qed (auto simp: h_Logout_def h_Me_def h_UpdateMe_def h_SetPassword_def h_ListMyOrganizations_def h_CreateMyOrganization_def
    h_ListMyInvites_def h_AcceptInvite_def h_CreateTenant_def h_ListTenants_def h_GetTenant_def h_RequestDelete_def h_ConfirmDelete_def
    h_ListMembers_def h_InviteMember_def h_ListTenantInvites_def h_RevokeInvite_def h_RemoveMember_def h_ListConnections_def
    h_CreateConnection_def h_GetConnection_def h_DeleteConnection_def h_TestConnection_def h_ListTokens_def h_IssueToken_def
    h_RevokeToken_def h_ReenableToken_def h_GetPolicy_def h_SetCollectionPolicy_def h_SetDefaultTTL_def h_SavingsReport_def
    h_TenantMetrics_def h_TenantMetricsTimeseries_def split: prod.splits option.splits sum.splits)

text \<open>C22. Replies are well typed: whatever the request and the state, the answer is a success code with a value of the
  type its route promises, or an error code with an error.\<close>

theorem replies_typed: "typed_reply r (fst (serve_api h x authz r w))"
proof -
  have behind: "typed_reply r (fst (case on_store (Middleware h x authz) w of
      (None, w1) \<Rightarrow> ((401, P_Text ''unauthorized''), w1) | (Some p, w1) \<Rightarrow> route h x authz p r w1))"
    by (simp add: typed_route split: option.splits prod.splits)
  have "typed_reply GetPlatform (200, P_Platform f)" for f by simp
  with behind show ?thesis unfolding serve_api_def
    by (cases r) (simp_all only: request.case typed_handlers fst_conv)
qed

end
