(* ===== verification/Setup.thy ===== *)
theory Setup
  imports Api Config
begin

text \<open>
  Putting the control plane together: \<open>Config.PlatformPublic\<close> of \<open>internal/config/config.go\<close>
  and the wiring of the services in \<open>cmd/controlplane/main.go\<close> and \<open>api.NewServer\<close>.  What is
  not configuration (the libraries, the invalidator and the metrics queries) is an argument.
\<close>

definition PlatformPublicOf :: "PlaneConfig option \<Rightarrow> PlatformPublic" where
  "PlatformPublicOf c =
     (let inviteOnly = (case c of None \<Rightarrow> False | Some c \<Rightarrow> pc_InviteOnly c) in
      \<lparr>pf_InviteOnly = inviteOnly, pf_AllowOrgCreation = (\<not> inviteOnly), pf_AllowAdminBootstrap = True,
        pf_ProxyPublicEndpoint = (case c of None \<Rightarrow> ''127.0.0.1:27018''
          | Some c \<Rightarrow> if pc_ProxyPublicEndpoint c \<noteq> '''' then pc_ProxyPublicEndpoint c else ''127.0.0.1:27018''),
        pf_TokenReenableWindowSeconds = (case c of None \<Rightarrow> 300
          | Some c \<Rightarrow> (if pc_TokenReenableWindow c < 0 then 0 else pc_TokenReenableWindow c) div 1000000000),
        pf_PasswordAuthEnabled = (case c of None \<Rightarrow> True | Some c \<Rightarrow> pc_PasswordAuthEnabled c)\<rparr>)"

text \<open>Which mailer is used: \<open>True\<close> for SMTP, \<open>False\<close> for the one that logs.  Either is a mailer.\<close>

definition newMailer :: "PlaneConfig option \<Rightarrow> bool" where
  "newMailer c = SMTPConfigured c"

text \<open>The services and handlers of \<open>main\<close>; \<open>mkURL\<close> builds the reset link from the dashboard's URL.\<close>

definition main_handlers ::
  "PlaneConfig \<Rightarrow> bool \<Rightarrow> bcrypt_lib \<Rightarrow> (bytes \<Rightarrow> bool) \<Rightarrow> (bytes \<Rightarrow> bytes \<Rightarrow> bytes) \<Rightarrow> aead \<Rightarrow> bytes \<Rightarrow> mongo_probe
     \<Rightarrow> 's invalidator option \<Rightarrow> metrics_querier \<Rightarrow> 's Handlers" where
  "main_handlers cfg requireUserAuth bc parseAddress mkURL A masterKey probe cache mq =
     (let tokenSvc = WithReenableWindow (pc_TokenReenableWindow cfg)
            (WithProxyPublicEndpoint (pc_ProxyPublicEndpoint cfg) NewTokenService);
          authSvc = \<lparr>as_passwordAuthEnabled = pc_PasswordAuthEnabled cfg, as_ParseAddress = parseAddress,
            as_resetURL = mkURL (pc_AppPublicURL cfg), as_bcrypt = bc\<rparr>;
          orgSvc = \<lparr>og_auth = authSvc, og_mailer = True, og_inviteOnly = pc_InviteOnly cfg\<rparr> in
      \<lparr>hd_auth = authSvc, hd_orgs = orgSvc, hd_tokens = tokenSvc, hd_aead = A, hd_masterKey = masterKey, hd_probe = probe,
        hd_cache = cache, hd_metrics = mq, hd_platform = NewHandlersPlatform orgSvc (PlatformPublicOf (Some cfg)),
        hd_adminToken = pc_AdminToken cfg, hd_requireUserAuth = requireUserAuth\<rparr>)"

lemma trim_endpoint: "trim_space ''127.0.0.1:27018'' = ''127.0.0.1:27018''"
  by code_simp

text \<open>The platform page tells the truth: what the control plane publishes about itself, for every environment it can
  be started in, is how its services behave: whether organizations may be created and passwords used, the end point
  in the connection strings of issued tokens, and, in whole seconds, the time in which a revoked token can be
  enabled again.\<close>

theorem platform_is_truthful:
  "let h = main_handlers (LoadPlane mul env) requireUserAuth bc parseAddress mkURL A masterKey probe cache mq in
   hd_platform h = \<lparr>pf_InviteOnly = og_inviteOnly (hd_orgs h), pf_AllowOrgCreation = (\<not> og_inviteOnly (hd_orgs h)),
     pf_AllowAdminBootstrap = True, pf_ProxyPublicEndpoint = ts_proxyPublicEndpoint (hd_tokens h),
     pf_TokenReenableWindowSeconds = ts_reenableWindow (hd_tokens h) div 1000000000,
     pf_PasswordAuthEnabled = as_passwordAuthEnabled (hd_auth h)\<rparr>"
  by (simp add: main_handlers_def LoadPlane_def PlatformPublicOf_def NewHandlersPlatform_def WithReenableWindow_def
      WithProxyPublicEndpoint_def NewTokenService_def or_default_def Let_def trim_endpoint)

end
