(* ===== verification/Mailer.thy ===== *)
theory Mailer
  imports Auth_Service
begin

text \<open>
  What is handed to the SMTP library: \<open>internal/controlplane/service/mailer.go\<close>.  The sending
  itself, its deadline and the mailer that only logs are I/O.
\<close>

section \<open>The message\<close>

record SMTPMailer =
  sm_Host :: bytes
  sm_Port :: bytes
  sm_Username :: bytes
  sm_Password :: bytes
  sm_From :: bytes
  sm_FromName :: bytes

abbreviation CR :: char where "CR \<equiv> CHR 0x0D"
abbreviation LF :: char where "LF \<equiv> CHR 0x0A"

text \<open>\<open>strings.ReplaceAll\<close> for the patterns used: deleting a byte, and CRLF and CR to LF and back.\<close>

definition sanitizeHeader :: "bytes \<Rightarrow> bytes" where
  "sanitizeHeader s = filter (\<lambda>c. c \<noteq> LF) (filter (\<lambda>c. c \<noteq> CR) s)"

fun crlf_to_lf :: "bytes \<Rightarrow> bytes" where
  "crlf_to_lf (a # b # s) = (if a = CR \<and> b = LF then LF # crlf_to_lf s else a # crlf_to_lf (b # s))"
| "crlf_to_lf s = s"

definition cr_to_lf :: "bytes \<Rightarrow> bytes" where
  "cr_to_lf s = map (\<lambda>c. if c = CR then LF else c) s"

definition lf_to_crlf :: "bytes \<Rightarrow> bytes" where
  "lf_to_crlf s = concat (map (\<lambda>c. if c = LF then [CR, LF] else [c]) s)"

definition normalizeBodyNewlines :: "bytes \<Rightarrow> bytes" where
  "normalizeBodyNewlines body = lf_to_crlf (cr_to_lf (crlf_to_lf body))"

definition looksLikeHTML :: "bytes \<Rightarrow> bool" where
  "looksLikeHTML body = (let lower = to_lower body in contains lower ''<html'' \<or> contains lower ''<!doctype html'')"

definition buildSMTPMessage :: "bytes \<Rightarrow> bytes \<Rightarrow> bytes \<Rightarrow> bytes \<Rightarrow> bytes \<Rightarrow> bytes" where
  "buildSMTPMessage fromName from dest subject body =
     (let fromHeader = (if trim_space fromName \<noteq> '''' then sanitizeHeader fromName @ '' <'' @ from @ ''>'' else from);
          contentType = (if looksLikeHTML body then ''text/html; charset=UTF-8'' else ''text/plain; charset=UTF-8'') in
      ''From: '' @ fromHeader @ [CR, LF] @ ''To: '' @ dest @ [CR, LF] @ ''Subject: '' @ sanitizeHeader subject @ [CR, LF]
        @ ''MIME-Version: 1.0'' @ [CR, LF] @ ''Content-Type: '' @ contentType @ [CR, LF] @ [CR, LF] @ normalizeBodyNewlines body)"

text \<open>
  What \<open>Send\<close> passes to \<open>smtp.SendMail\<close>: the address of the relay, the credentials, the
  envelope and the message, or the error it returns before.
\<close>

definition smtp_send :: "SMTPMailer \<Rightarrow> bytes \<Rightarrow> bytes \<Rightarrow> bytes \<Rightarrow> bytes + (bytes \<times> bytes) \<times> (bytes \<times> bytes \<times> bytes) \<times> bytes \<times> bytes \<times> bytes" where
  "smtp_send m dest subject body =
     (let host = trim_space (sm_Host m); port = trim_space (sm_Port m);
          host = (if host = '''' then ''smtp.sendgrid.net'' else host);
          port = (if port = '''' then ''587'' else port);
          from = trim_space (sm_From m) in
      if from = '''' then Inl ''smtp from address is required''
      else let dest = trim_space dest in
        if dest = '''' then Inl ''smtp recipient is required''
        else Inr ((host, port), (sm_Username m, sm_Password m, host), from, dest, buildSMTPMessage (sm_FromName m) from dest subject body))"

section \<open>Reading a message back\<close>

text \<open>The lines of a message up to the first empty one, and what follows it, as a mail program reads them.\<close>

fun header_lines :: "bytes \<Rightarrow> bytes \<Rightarrow> bytes list \<times> bytes" where
  "header_lines cur (a # b # s) =
     (if a = CR \<and> b = LF
      then (if cur = [] then ([], s) else (case header_lines [] s of (hs, rest) \<Rightarrow> (rev cur # hs, rest)))
      else header_lines (a # cur) (b # s))"
| "header_lines cur s = ([rev cur @ s], [])"

lemma header_line:
  assumes "LF \<notin> set l" and "l \<noteq> [] \<or> cur \<noteq> []"
  shows "header_lines cur (l @ CR # LF # s) = (case header_lines [] s of (hs, rest) \<Rightarrow> ((rev cur @ l) # hs, rest))"
  using assms
proof (induction l arbitrary: cur)
  case (Cons a l)
  have "hd (l @ CR # LF # s) \<noteq> LF" using Cons.prems by (cases l) auto
  then obtain b t where bt: "l @ CR # LF # s = b # t" "b \<noteq> LF" by (cases "l @ CR # LF # s") auto
  have "header_lines cur ((a # l) @ CR # LF # s) = header_lines (a # cur) (l @ CR # LF # s)" by (simp add: bt)
  with Cons show ?case by simp
qed simp

lemma header_end: "header_lines [] (CR # LF # s) = ([], s)"
  by simp

lemma sanitizeHeader_no_LF [simp]: "LF \<notin> set (sanitizeHeader s)"
  by (simp add: sanitizeHeader_def)

lemma normalizeEmail_no_LF: "normalizeEmail S e = Inr dest \<Longrightarrow> LF \<notin> set dest"
  by (auto simp: normalizeEmail_def Let_def email_shape_def list_ex_iff re_space_def split: if_splits)

lemma five_headers:
  assumes "LF \<notin> set a" "LF \<notin> set b" "LF \<notin> set c" "LF \<notin> set d" "LF \<notin> set e"
    and "a \<noteq> []" "b \<noteq> []" "c \<noteq> []" "d \<noteq> []" "e \<noteq> []"
  shows "header_lines [] (a @ CR # LF # b @ CR # LF # c @ CR # LF # d @ CR # LF # e @ CR # LF # CR # LF # s) = ([a, b, c, d, e], s)"
  using assms by (simp add: header_line)

text \<open>C21. No header can be forged: the message sent for an address that passed the check of the login service has exactly
  the five headers the program writes, in their order, and then the body, whatever the subject, the name of the
  sender and the body contain.\<close>

theorem mail_headers_intact:
  assumes "normalizeEmail S e = Inr dest" and "LF \<notin> set from"
  shows "header_lines [] (buildSMTPMessage fromName from dest subject body) =
    ([''From: '' @ (if trim_space fromName \<noteq> '''' then sanitizeHeader fromName @ '' <'' @ from @ ''>'' else from), ''To: '' @ dest,
      ''Subject: '' @ sanitizeHeader subject, ''MIME-Version: 1.0'',
      ''Content-Type: '' @ (if looksLikeHTML body then ''text/html; charset=UTF-8'' else ''text/plain; charset=UTF-8'')],
     normalizeBodyNewlines body)"
proof -
  define f where "f = (if trim_space fromName \<noteq> '''' then sanitizeHeader fromName @ '' <'' @ from @ ''>'' else from)"
  define ct where "ct = (if looksLikeHTML body then ''text/html; charset=UTF-8'' else ''text/plain; charset=UTF-8'')"
  have m: "buildSMTPMessage fromName from dest subject body =
      (''From: '' @ f) @ CR # LF # (''To: '' @ dest) @ CR # LF # (''Subject: '' @ sanitizeHeader subject) @ CR # LF #
      ''MIME-Version: 1.0'' @ CR # LF # (''Content-Type: '' @ ct) @ CR # LF # CR # LF # normalizeBodyNewlines body"
    by (simp add: buildSMTPMessage_def Let_def f_def ct_def)
  have "header_lines [] ((''From: '' @ f) @ CR # LF # (''To: '' @ dest) @ CR # LF # (''Subject: '' @ sanitizeHeader subject) @ CR # LF #
      ''MIME-Version: 1.0'' @ CR # LF # (''Content-Type: '' @ ct) @ CR # LF # CR # LF # normalizeBodyNewlines body) =
      ([''From: '' @ f, ''To: '' @ dest, ''Subject: '' @ sanitizeHeader subject, ''MIME-Version: 1.0'', ''Content-Type: '' @ ct],
       normalizeBodyNewlines body)"
    using assms(2) normalizeEmail_no_LF [OF assms(1)] by (intro five_headers) (simp_all add: f_def ct_def)
  thus ?thesis by (simp only: m f_def ct_def)
qed

definition mail_auth :: auth_service where
  "mail_auth = \<lparr>as_passwordAuthEnabled = True, as_ParseAddress = (\<lambda>e. True), as_resetURL = (\<lambda>raw. raw),
     as_bcrypt = \<lparr>bc_Generate = (\<lambda>s p. Some p), bc_Compare = (\<lambda>g p. g = p)\<rparr>\<rparr>"

lemma mail_example: "normalizeEmail mail_auth '' M@x.y '' = Inr ''m@x.y''"
  by code_simp

theorem mail_headers_intact_witness:
  "fst (header_lines [] (buildSMTPMessage ''Oxella'' ''no@ox.co'' ''m@x.y'' (''Hi'' @ [CR, LF] @ ''Bcc: z@z.z'') ''text'')) ! 2
    = ''Subject: '' @ sanitizeHeader (''Hi'' @ [CR, LF] @ ''Bcc: z@z.z'')"
  by (subst mail_headers_intact [OF mail_example]) simp_all

end
