(* ===== verification/Metrics_Query.thy ===== *)
theory Metrics_Query
  imports Config
begin

text \<open>
  The metrics page: \<open>internal/controlplane/service/metrics_query.go\<close>, which asks Prometheus for
  the numbers of one tenant.  What Prometheus, the JSON decoder and \<open>strconv.ParseFloat\<close> answer is
  the record \<open>prom\<close>; within one call an answer depends on the request alone.  One call reads one
  value of the clock, and a time is kept where the code formats it.
\<close>

section \<open>Prometheus\<close>

text \<open>A decoded JSON value: \<open>JOther\<close> carries the name of its Go type.\<close>

datatype json_any = JString bytes | JNumber f64 | JOther bytes

text \<open>Of an answer only the fields that are read; a series is its \<open>value\<close> and its \<open>values\<close>.\<close>

record promAPIResponse =
  pr_Status :: bytes
  pr_Error :: bytes
  pr_Result :: "(json_any list \<times> json_any list list) list"

datatype credentials = NoAuth | Bearer bytes | BasicAuth bytes bytes

record prom =
  pm_do :: "bytes \<Rightarrow> (bytes \<times> bytes) list \<Rightarrow> credentials \<Rightarrow> bytes + int \<times> bytes"
  pm_Unmarshal :: "bytes \<Rightarrow> bytes + promAPIResponse"
  pm_ParseFloat :: "bytes \<Rightarrow> bytes + f64"

section \<open>Data\<close>

record ConnectionsMetrics =
  nm_ClientAuthenticated :: "f64 option"
  nm_ClientBusy :: "f64 option"
  nm_BackendInUse :: "f64 option"
  nm_BackendIdle :: "f64 option"
  nm_MaxPerPod :: int
  nm_LimitNote :: bytes

record CacheMetrics =
  cm_Hits :: "f64 option"
  cm_Misses :: "f64 option"
  cm_Bypass :: "f64 option"
  cm_HitRatio :: "f64 option"
  cm_BytesFromCache :: "f64 option"
  cm_BytesFromBackend :: "f64 option"
  cm_QueriesSaved :: "f64 option"

record ThroughputMetrics =
  tp_CommandsPerSecond :: "f64 option"
  tp_RateLimitedPerSecond :: "f64 option"

record FieldError =
  fe_Field :: bytes
  fe_Error :: bytes

text \<open>The list of collections, which is always empty, is left out.\<close>

record TenantMetrics =
  tm_TenantID :: bytes
  tm_AsOf :: time
  tm_Window :: bytes
  tm_Source :: bytes
  tm_Degraded :: bool
  tm_Note :: bytes
  tm_Errors :: "FieldError list"
  tm_Connections :: ConnectionsMetrics
  tm_Cache :: CacheMetrics
  tm_Throughput :: ThroughputMetrics
  tm_Collections :: bytes

record MetricsQuerier =
  pq_baseURL :: bytes
  pq_timeout :: int
  pq_bearer :: bytes
  pq_basicUser :: bytes
  pq_basicPass :: bytes
  pq_cacheTTL :: int
  pq_maxPerPod :: int
  pq_cache :: "(bytes, time \<times> TenantMetrics) gomap"

definition trim_right_slashes :: "bytes \<Rightarrow> bytes" where
  "trim_right_slashes s = rev (dropWhile (\<lambda>c. c = CHR ''/'') (rev s))"

definition NewMetricsQuerierFromEnv :: "(int \<Rightarrow> int \<Rightarrow> int \<Rightarrow> int) \<Rightarrow> (bytes \<Rightarrow> bytes) \<Rightarrow> MetricsQuerier" where
  "NewMetricsQuerierFromEnv mul env =
     (let v = trim_space (env ''NANCE_METRICS_PROM_TIMEOUT'');
          timeout = (if v \<noteq> '''' then (case ParseDuration mul v of Some d \<Rightarrow> if d > 0 then d else 3000000000 | None \<Rightarrow> 3000000000)
            else 3000000000);
          v = trim_space (env ''NANCE_METRICS_CACHE_TTL'');
          ttl = (if v \<noteq> '''' then (case ParseDuration mul v of Some d \<Rightarrow> if d \<ge> 0 then d else 10000000000 | None \<Rightarrow> 10000000000)
            else 10000000000);
          v = trim_space (env ''NANCE_PROXY_MAX_CONNS_PER_TENANT'');
          maxPerPod = (if v \<noteq> '''' then (case Atoi v of Some n \<Rightarrow> if n \<ge> 0 then n else 200 | None \<Rightarrow> 200) else 200) in
      \<lparr>pq_baseURL = trim_right_slashes (trim_space (env ''NANCE_METRICS_PROM_URL'')), pq_timeout = timeout,
        pq_bearer = trim_space (env ''NANCE_METRICS_PROM_BEARER_TOKEN''),
        pq_basicUser = trim_space (env ''NANCE_METRICS_PROM_BASIC_USER''),
        pq_basicPass = trim_space (env ''NANCE_METRICS_PROM_BASIC_PASS''),
        pq_cacheTTL = ttl, pq_maxPerPod = maxPerPod, pq_cache = []\<rparr>)"

datatype metrics_err = InvalidWindow bytes | InvalidStep bytes | InvalidMetric bytes

definition allowedWindows :: "bytes list" where
  "allowedWindows = [''5m'', ''15m'', ''1h'', ''6h'', ''24h'', ''7d'']"

definition NormalizeWindow :: "bytes \<Rightarrow> bytes \<Rightarrow> metrics_err + bytes" where
  "NormalizeWindow w def =
     (let w = trim_space w; w = (if w = '''' then def else w) in
      if \<not> List.member allowedWindows w then Inl (InvalidWindow w) else Inr w)"

section \<open>Requests\<close>

text \<open>\<open>strings.ReplaceAll\<close> with a pattern of one byte.\<close>

definition replace_byte :: "char \<Rightarrow> bytes \<Rightarrow> bytes \<Rightarrow> bytes" where
  "replace_byte c r s = concat (map (\<lambda>d. if d = c then r else [d]) s)"

definition escapePromLabelValue :: "bytes \<Rightarrow> bytes" where
  "escapePromLabelValue s =
     (let s = replace_byte (CHR 0x5C) [CHR 0x5C, CHR 0x5C] s;
          s = replace_byte (CHR 0x22) [CHR 0x5C, CHR 0x22] s in
      replace_byte (CHR 0x0A) [CHR 0x5C, CHR ''n''] s)"

definition prom_auth :: "MetricsQuerier \<Rightarrow> credentials" where
  "prom_auth q = (if pq_bearer q \<noteq> '''' then Bearer (pq_bearer q)
     else if pq_basicUser q \<noteq> '''' then BasicAuth (pq_basicUser q) (pq_basicPass q) else NoAuth)"

definition truncate_text :: "bytes \<Rightarrow> nat \<Rightarrow> bytes" where
  "truncate_text s n = (if length s \<le> n then s else take n s @ ''...'')"

definition parsePromSample :: "prom \<Rightarrow> json_any list \<Rightarrow> bytes + f64" where
  "parsePromSample P value =
     (if length value < 2 then Inl ''empty sample''
      else case value ! 1 of
        JString s \<Rightarrow> pm_ParseFloat P s
      | JNumber f \<Rightarrow> Inr f
      | JOther t \<Rightarrow> Inl (''unexpected sample type '' @ t))"

text \<open>What \<open>instant\<close> and \<open>rangeQuery\<close> share: the exchange up to the decoded series.\<close>

definition prom_result ::
  "prom \<Rightarrow> MetricsQuerier \<Rightarrow> bytes \<Rightarrow> (bytes \<times> bytes) list \<Rightarrow> nat \<Rightarrow> bytes + (json_any list \<times> json_any list list) list" where
  "prom_result P q path vals limit = (case pm_do P (pq_baseURL q @ path) vals (prom_auth q) of
      Inl err \<Rightarrow> Inl err
    | Inr (code, body) \<Rightarrow>
        let body = take limit body in
        if code \<noteq> 200 then Inl (''prometheus status '' @ itoa code @ '': '' @ truncate_text body 200)
        else case pm_Unmarshal P body of
          Inl err \<Rightarrow> Inl err
        | Inr pr \<Rightarrow> if pr_Status pr \<noteq> ''success'' then Inl (''prometheus error: '' @ pr_Error pr) else Inr (pr_Result pr))"

definition instant :: "prom \<Rightarrow> MetricsQuerier \<Rightarrow> bytes \<Rightarrow> bytes + f64" where
  "instant P q query = (case prom_result P q ''/api/v1/query'' [(''query'', query)] (2 ^ 20) of
      Inl err \<Rightarrow> Inl err
    | Inr [] \<Rightarrow> Inr (F64 0)
    | Inr ((value, values) # rs) \<Rightarrow> parsePromSample P value)"

record TimeseriesPoint =
  pt_T :: int
  pt_V :: "f64 option"

text \<open>\<open>impl\<close> is the conversion of a float out of range; a time stamp that is no number counts as zero.\<close>

definition range_point :: "prom \<Rightarrow> (f64 \<Rightarrow> int) \<Rightarrow> json_any list \<Rightarrow> TimeseriesPoint option" where
  "range_point P impl pair =
     (if length pair < 2 then None
      else let ts = (case pair ! 0 of JNumber f \<Rightarrow> f | _ \<Rightarrow> F64 0); vstr = (case pair ! 1 of JString s \<Rightarrow> s | _ \<Rightarrow> '''') in
        Some \<lparr>pt_T = f64_int64 impl ts, pt_V = (case pm_ParseFloat P vstr of Inl _ \<Rightarrow> None | Inr v \<Rightarrow> Some v)\<rparr>)"

definition rangeQuery ::
  "prom \<Rightarrow> (f64 \<Rightarrow> int) \<Rightarrow> MetricsQuerier \<Rightarrow> bytes \<Rightarrow> time \<Rightarrow> time \<Rightarrow> bytes \<Rightarrow> bytes + TimeseriesPoint list" where
  "rangeQuery P impl q query start end step =
     (case prom_result P q ''/api/v1/query_range'' [(''query'', query), (''start'', itoa (start div 1000000000)),
        (''end'', itoa (end div 1000000000)), (''step'', step)] (2 ^ 22) of
      Inl err \<Rightarrow> Inl err
    | Inr [] \<Rightarrow> Inr []
    | Inr ((value, values) # rs) \<Rightarrow> Inr (List.map_filter (range_point P impl) values))"

section \<open>The snapshot of a tenant\<close>

text \<open>
  \<open>float64\<close> addition and division, the divisor being positive; \<open>rnd\<close> rounds an exact result,
  and \<open>F64_Inf True\<close> is the positive infinity.
\<close>

fun f64_add :: "(rat \<Rightarrow> f64) \<Rightarrow> f64 \<Rightarrow> f64 \<Rightarrow> f64" where
  "f64_add rnd (F64 a) (F64 b) = rnd (a + b)"
| "f64_add rnd (F64_Inf s) (F64_Inf t) = (if s = t then F64_Inf s else F64_NaN)"
| "f64_add rnd (F64_Inf s) (F64 b) = F64_Inf s"
| "f64_add rnd (F64 a) (F64_Inf t) = F64_Inf t"
| "f64_add rnd a b = F64_NaN"

fun f64_div :: "(rat \<Rightarrow> f64) \<Rightarrow> f64 \<Rightarrow> f64 \<Rightarrow> f64" where
  "f64_div rnd (F64 a) (F64 b) = rnd (a / b)"
| "f64_div rnd (F64_Inf s) (F64 b) = F64_Inf s"
| "f64_div rnd (F64 a) (F64_Inf t) = F64 0"
| "f64_div rnd a b = F64_NaN"

fun f64_pos :: "f64 \<Rightarrow> bool" where
  "f64_pos (F64 a) = (0 < a)"
| "f64_pos (F64_Inf s) = s"
| "f64_pos F64_NaN = False"

text \<open>\<open>fmt.Sprintf\<close> of the queries: \<open>gauge\<close>, and \<open>counter\<close> over a window.\<close>

definition gauge_query :: "bytes \<Rightarrow> bytes \<Rightarrow> bytes \<Rightarrow> bytes" where
  "gauge_query name labels tEsc = ''sum('' @ name @ ''{tenant='' @ [CHR 0x22] @ tEsc @ [CHR 0x22] @ labels @ ''}) or vector(0)''"

definition counter_query :: "bytes \<Rightarrow> bytes \<Rightarrow> bytes \<Rightarrow> bytes \<Rightarrow> bytes \<Rightarrow> bytes" where
  "counter_query f name labels tEsc window =
     ''sum('' @ f @ ''('' @ name @ ''{tenant='' @ [CHR 0x22] @ tEsc @ [CHR 0x22] @ labels @ ''}['' @ window @ ''])) or vector(0)''"

definition label :: "bytes \<Rightarrow> bytes \<Rightarrow> bytes" where
  "label name v = '','' @ name @ ''='' @ [CHR 0x22] @ v @ [CHR 0x22]"

text \<open>The calls of \<open>setF\<close>: the field, the assignment and the query of each.\<close>

definition snapshot_fields :: "bytes \<Rightarrow> bytes \<Rightarrow> (bytes \<times> (f64 \<Rightarrow> TenantMetrics \<Rightarrow> TenantMetrics) \<times> bytes) list" where
  "snapshot_fields tEsc window =
    (let conn = (\<lambda>f out. out\<lparr>tm_Connections := f (tm_Connections out)\<rparr>); cache = (\<lambda>f out. out\<lparr>tm_Cache := f (tm_Cache out)\<rparr>);
         thru = (\<lambda>f out. out\<lparr>tm_Throughput := f (tm_Throughput out)\<rparr>) in
     [(''connections.clientAuthenticated'', \<lambda>v. conn (nm_ClientAuthenticated_update (\<lambda>_. Some v)),
         gauge_query ''nance_proxy_client_connections_authenticated'' '''' tEsc),
      (''connections.clientBusy'', \<lambda>v. conn (nm_ClientBusy_update (\<lambda>_. Some v)),
         gauge_query ''nance_proxy_client_connections_busy'' '''' tEsc),
      (''connections.backendInUse'', \<lambda>v. conn (nm_BackendInUse_update (\<lambda>_. Some v)),
         gauge_query ''nance_proxy_backend_clients'' (label ''state'' ''in_use'') tEsc),
      (''connections.backendIdle'', \<lambda>v. conn (nm_BackendIdle_update (\<lambda>_. Some v)),
         gauge_query ''nance_proxy_backend_clients'' (label ''state'' ''idle'') tEsc),
      (''cache.hits'', \<lambda>v. cache (cm_Hits_update (\<lambda>_. Some v)),
         counter_query ''increase'' ''nance_cache_requests_total'' (label ''result'' ''hit'') tEsc window),
      (''cache.misses'', \<lambda>v. cache (cm_Misses_update (\<lambda>_. Some v)),
         counter_query ''increase'' ''nance_cache_requests_total'' (label ''result'' ''miss'') tEsc window),
      (''cache.bypass'', \<lambda>v. cache (cm_Bypass_update (\<lambda>_. Some v)),
         counter_query ''increase'' ''nance_cache_requests_total'' (label ''result'' ''bypass'') tEsc window),
      (''cache.bytesFromCache'', \<lambda>v. cache (cm_BytesFromCache_update (\<lambda>_. Some v)),
         counter_query ''increase'' ''nance_cache_bytes_served_total'' (label ''source'' ''cache'') tEsc window),
      (''cache.bytesFromBackend'', \<lambda>v. cache (cm_BytesFromBackend_update (\<lambda>_. Some v)),
         counter_query ''increase'' ''nance_cache_bytes_served_total'' (label ''source'' ''backend'') tEsc window),
      (''throughput.commandsPerSecond'', \<lambda>v. thru (tp_CommandsPerSecond_update (\<lambda>_. Some v)),
         counter_query ''rate'' ''nance_proxy_commands_total'' '''' tEsc window),
      (''throughput.rateLimitedPerSecond'', \<lambda>v. thru (tp_RateLimitedPerSecond_update (\<lambda>_. Some v)),
         counter_query ''rate'' ''nance_proxy_rate_limited_total'' '''' tEsc window)])"

definition setF ::
  "prom \<Rightarrow> MetricsQuerier \<Rightarrow> bytes \<times> (f64 \<Rightarrow> TenantMetrics \<Rightarrow> TenantMetrics) \<times> bytes
     \<Rightarrow> TenantMetrics \<times> FieldError list \<Rightarrow> TenantMetrics \<times> FieldError list" where
  "setF P q = (\<lambda>(field, put, query) (out, errs). case instant P q query of
      Inl err \<Rightarrow> (out\<lparr>tm_Degraded := True\<rparr>, errs @ [\<lparr>fe_Field = field, fe_Error = err\<rparr>])
    | Inr v \<Rightarrow> (put v out, errs))"

definition derived_fields :: "(rat \<Rightarrow> f64) \<Rightarrow> CacheMetrics \<Rightarrow> CacheMetrics" where
  "derived_fields rnd c = (case cm_Hits c of None \<Rightarrow> c | Some h \<Rightarrow>
     let c = c\<lparr>cm_QueriesSaved := Some h\<rparr> in
     (case cm_Misses c of None \<Rightarrow> c | Some m \<Rightarrow>
       if f64_pos (f64_add rnd h m) then c\<lparr>cm_HitRatio := Some (f64_div rnd h (f64_add rnd h m))\<rparr> else c))"

definition new_snapshot :: "int \<Rightarrow> time \<Rightarrow> bytes \<Rightarrow> bytes \<Rightarrow> TenantMetrics" where
  "new_snapshot maxPerPod now tenantID window =
     \<lparr>tm_TenantID = tenantID, tm_AsOf = now, tm_Window = window, tm_Source = ''none'', tm_Degraded = True, tm_Note = '''', tm_Errors = [],
       tm_Connections = \<lparr>nm_ClientAuthenticated = None, nm_ClientBusy = None, nm_BackendInUse = None, nm_BackendIdle = None,
         nm_MaxPerPod = maxPerPod, nm_LimitNote = ''Connection limits are enforced per proxy pod, not cluster-wide.''\<rparr>,
       tm_Cache = \<lparr>cm_Hits = None, cm_Misses = None, cm_Bypass = None, cm_HitRatio = None, cm_BytesFromCache = None,
         cm_BytesFromBackend = None, cm_QueriesSaved = None\<rparr>,
       tm_Throughput = \<lparr>tp_CommandsPerSecond = None, tp_RateLimitedPerSecond = None\<rparr>,
       tm_Collections = ''Collection breakdown is not multi-pod aggregated in v1''\<rparr>"

definition snapshot_key :: "bytes \<Rightarrow> bytes \<Rightarrow> bytes" where
  "snapshot_key tenantID window = ''snap:'' @ tenantID @ '':'' @ window"

text \<open>The queries, and the entry written to the cache of snapshots.\<close>

definition snapshot_fetch ::
  "prom \<Rightarrow> (rat \<Rightarrow> f64) \<Rightarrow> time \<Rightarrow> bytes \<Rightarrow> bytes \<Rightarrow> bytes \<Rightarrow> MetricsQuerier \<Rightarrow> TenantMetrics
     \<Rightarrow> (panic + metrics_err + TenantMetrics) \<times> MetricsQuerier option" where
  "snapshot_fetch P rnd now key tenantID window q out =
     (let (out, errs) = fold (setF P q) (snapshot_fields (escapePromLabelValue tenantID) window)
            (out\<lparr>tm_Source := ''prometheus'', tm_Degraded := False, tm_Note := ''''\<rparr>, []);
          out = out\<lparr>tm_Cache := derived_fields rnd (tm_Cache out), tm_Errors := errs\<rparr> in
      (Inr (Inr out), Some (if pq_cacheTTL q > 0 then q\<lparr>pq_cache := gm_put (pq_cache q) key (now, out)\<rparr> else q)))"

text \<open>A missing querier is dereferenced before it is tested, so the test of the code never decides.\<close>

definition SnapshotTenant ::
  "prom \<Rightarrow> (rat \<Rightarrow> f64) \<Rightarrow> time \<Rightarrow> bytes \<Rightarrow> bytes \<Rightarrow> MetricsQuerier option
     \<Rightarrow> (panic + metrics_err + TenantMetrics) \<times> MetricsQuerier option" where
  "SnapshotTenant P rnd now tenantID window qo = (case NormalizeWindow window ''1h'' of
      Inl err \<Rightarrow> (Inr (Inl err), qo)
    | Inr window \<Rightarrow> (case qo of None \<Rightarrow> (Inl NilDereference, qo) | Some q \<Rightarrow>
        let out = new_snapshot (pq_maxPerPod q) now tenantID window;
            key = snapshot_key tenantID window in
        if pq_baseURL q = ''''
        then (Inr (Inr (out\<lparr>tm_Note := ''Metrics require Prometheus (NANCE_METRICS_PROM_URL). Proxy process-local counters are not visible to the control plane.''\<rparr>)), qo)
        else case (if pq_cacheTTL q > 0 then gm_get (pq_cache q) key else None) of
          Some (fetched, body) \<Rightarrow> if now - fetched < pq_cacheTTL q then (Inr (Inr body), qo) else snapshot_fetch P rnd now key tenantID window q out
        | None \<Rightarrow> snapshot_fetch P rnd now key tenantID window q out))"

section \<open>The series of a metric\<close>

record TimeseriesResponse =
  tr_Metric :: bytes
  tr_Window :: bytes
  tr_Step :: bytes
  tr_Points :: "TimeseriesPoint list"
  tr_Source :: bytes
  tr_Degraded :: bool
  tr_Note :: bytes

definition rate_query :: "bytes \<Rightarrow> bytes \<Rightarrow> bytes \<Rightarrow> bytes \<Rightarrow> bytes" where
  "rate_query name labels t step =
     ''sum(rate('' @ name @ ''{tenant='' @ [CHR 0x22] @ t @ [CHR 0x22] @ labels @ ''}['' @ step @ '']))''"

definition allowedMetrics :: "(bytes, bytes \<Rightarrow> bytes \<Rightarrow> bytes) gomap" where
  "allowedMetrics =
     [(''hit_ratio'', \<lambda>t step. rate_query ''nance_cache_requests_total'' (label ''result'' ''hit'') t step @ '' / clamp_min(''
         @ rate_query ''nance_cache_requests_total'' ('',result=~'' @ [CHR 0x22] @ ''hit|miss'' @ [CHR 0x22]) t step @ '', 1e-9)''),
      (''hits'', rate_query ''nance_cache_requests_total'' (label ''result'' ''hit'')),
      (''misses'', rate_query ''nance_cache_requests_total'' (label ''result'' ''miss'')),
      (''commands_per_second'', rate_query ''nance_proxy_commands_total'' ''''),
      (''client_authenticated'', \<lambda>t step. ''sum(nance_proxy_client_connections_authenticated{tenant='' @ [CHR 0x22] @ t @ [CHR 0x22] @ ''})''),
      (''bytes_from_cache'', rate_query ''nance_cache_bytes_served_total'' (label ''source'' ''cache''))]"

definition allowedSteps :: "bytes list" where
  "allowedSteps = [''1m'', ''5m'', ''15m'', ''1h'']"

definition autoStep :: "bytes \<Rightarrow> bytes" where
  "autoStep window =
     (if window = ''5m'' \<or> window = ''15m'' then ''1m''
      else if window = ''1h'' \<or> window = ''6h'' then ''5m''
      else if window = ''24h'' then ''15m'' else ''1h'')"

text \<open>\<open>strconv.Atoi\<close> returns zero, or the nearest 64-bit integer, beside its error; of the windows only \<open>7d\<close> gets there.\<close>

definition parseWindow :: "(int \<Rightarrow> int \<Rightarrow> int \<Rightarrow> int) \<Rightarrow> (bytes \<Rightarrow> int) \<Rightarrow> bytes \<Rightarrow> int" where
  "parseWindow mul atoi_err w = (case ParseDuration mul w of
      Some d \<Rightarrow> d
    | None \<Rightarrow> if has_suffix w ''d''
        then let s = butlast w; n = (case Atoi s of Some n \<Rightarrow> n | None \<Rightarrow> atoi_err s) in wrap64 (n * 24 * 3600000000000)
        else 3600000000000)"

definition Timeseries ::
  "prom \<Rightarrow> (f64 \<Rightarrow> int) \<Rightarrow> (int \<Rightarrow> int \<Rightarrow> int \<Rightarrow> int) \<Rightarrow> (bytes \<Rightarrow> int) \<Rightarrow> time \<Rightarrow> bytes \<Rightarrow> bytes \<Rightarrow> bytes \<Rightarrow> bytes
     \<Rightarrow> MetricsQuerier option \<Rightarrow> metrics_err + TimeseriesResponse" where
  "Timeseries P impl mul atoi_err now tenantID metric window step qo = (case NormalizeWindow window ''24h'' of
      Inl err \<Rightarrow> Inl err
    | Inr window \<Rightarrow>
        let step = (if step = '''' then autoStep window else step) in
        if \<not> List.member allowedSteps step then Inl (InvalidStep step)
        else case gm_get allowedMetrics metric of
          None \<Rightarrow> Inl (InvalidMetric metric)
        | Some build \<Rightarrow>
            let out = \<lparr>tr_Metric = metric, tr_Window = window, tr_Step = step, tr_Points = [], tr_Source = ''none'',
                  tr_Degraded = True, tr_Note = ''''\<rparr> in
            case qo of
              None \<Rightarrow> Inr (out\<lparr>tr_Note := ''Metrics require Prometheus (NANCE_METRICS_PROM_URL).''\<rparr>)
            | Some q \<Rightarrow>
                if pq_baseURL q = '''' then Inr (out\<lparr>tr_Note := ''Metrics require Prometheus (NANCE_METRICS_PROM_URL).''\<rparr>)
                else case rangeQuery P impl q (build (escapePromLabelValue tenantID) step) (now - parseWindow mul atoi_err window) now step of
                  Inl err \<Rightarrow> Inr (out\<lparr>tr_Degraded := True, tr_Source := ''prometheus'', tr_Note := err\<rparr>)
                | Inr points \<Rightarrow> Inr (out\<lparr>tr_Source := ''prometheus'', tr_Degraded := False, tr_Points := points\<rparr>))"

section \<open>Reading a query\<close>

text \<open>
  The string literals of a PromQL expression and the text around them.  The reader knows double
  quotes and the escapes of a backslash, a quote and a new line; other escapes, comments and the
  other kinds of quotes it refuses.
\<close>

datatype prom_token = Text bytes | Str bytes

fun prom_lex :: "bool \<Rightarrow> bytes \<Rightarrow> bytes \<Rightarrow> prom_token list option" where
  "prom_lex False acc [] = Some [Text (rev acc)]"
| "prom_lex False acc (c # cs) =
     (if c = CHR 0x22 then map_option ((#) (Text (rev acc))) (prom_lex True [] cs)
      else if c = CHR 0x27 \<or> c = CHR 0x60 \<or> c = CHR ''#'' then None
      else prom_lex False (c # acc) cs)"
| "prom_lex True acc [] = None"
| "prom_lex True acc (c # cs) =
     (if c = CHR 0x22 then map_option ((#) (Str (rev acc))) (prom_lex False [] cs)
      else if c = CHR 0x0A then None
      else if c = CHR 0x5C
        then (case cs of [] \<Rightarrow> None
          | d # ds \<Rightarrow> if d = CHR 0x5C \<or> d = CHR 0x22 then prom_lex True (d # acc) ds
              else if d = CHR ''n'' then prom_lex True (CHR 0x0A # acc) ds else None)
      else prom_lex True (c # acc) cs)"

text \<open>Every selector begins with a matcher for the tenant, and that is the one asked for.\<close>

fun selectors_of :: "bytes \<Rightarrow> prom_token list \<Rightarrow> bool" where
  "selectors_of t [] = True"
| "selectors_of t (Str s # toks) = selectors_of t toks"
| "selectors_of t (Text x # toks) =
     ((if List.member x (CHR ''{'')
       then x = takeWhile (\<lambda>c. c \<noteq> CHR ''{'') x @ ''{tenant='' \<and> (case toks of Str s # _ \<Rightarrow> s = t | _ \<Rightarrow> False)
       else True) \<and> selectors_of t toks)"

definition query_about :: "bytes \<Rightarrow> bytes \<Rightarrow> bool" where
  "query_about t query = (case prom_lex False [] query of None \<Rightarrow> False | Some toks \<Rightarrow> selectors_of t toks)"

lemma lex_escaped:
  "prom_lex True acc (escapePromLabelValue t @ CHR 0x22 # rest) = map_option ((#) (Str (rev acc @ t))) (prom_lex False [] rest)"
  by (induction t arbitrary: acc) (simp_all add: escapePromLabelValue_def replace_byte_def)

definition plain :: "bytes \<Rightarrow> bool" where
  "plain x \<longleftrightarrow> list_all (\<lambda>c. \<not> List.member [CHR 0x22, CHR 0x27, CHR 0x60, CHR ''#''] c) x"

lemma lex_plain: "plain x \<Longrightarrow> prom_lex False acc (x @ y) = prom_lex False (rev x @ acc) y"
  by (induction x arbitrary: acc) (auto simp: plain_def)


lemma window_plain: "List.member allowedWindows w \<Longrightarrow> plain w \<and> \<not> List.member w (CHR ''{'')"
  by (auto simp: allowedWindows_def plain_def)

lemma step_plain: "List.member allowedSteps w \<Longrightarrow> plain w \<and> \<not> List.member w (CHR ''{'')"
  by (auto simp: allowedSteps_def plain_def)

lemma takeWhile_skip: "x \<notin> set s \<Longrightarrow> takeWhile (\<lambda>c. c \<noteq> x) (s @ r) = s @ takeWhile (\<lambda>c. c \<noteq> x) r"
  by (induction s) auto

lemma snapshot_queries_about:
  assumes "List.member allowedWindows w" and "(field, put, query) \<in> set (snapshot_fields (escapePromLabelValue t) w)"
  shows "query_about t query"
  using assms window_plain [OF assms(1)]
  by (auto simp: snapshot_fields_def gauge_query_def counter_query_def label_def query_about_def lex_plain lex_escaped)

lemma series_query_about:
  assumes "List.member allowedSteps step" and "gm_get allowedMetrics metric = Some build"
  shows "query_about t (build (escapePromLabelValue t) step)"
  using assms step_plain [OF assms(1)]
  by (auto simp: allowedMetrics_def gm_get_def rate_query_def label_def query_about_def lex_plain lex_escaped
      takeWhile_skip split: if_splits)


section \<open>What an answer depends on\<close>

text \<open>Two environments that answer the queries about a tenant alike, and decode answers alike.\<close>

definition same_about :: "bytes \<Rightarrow> prom \<Rightarrow> prom \<Rightarrow> bool" where
  "same_about t P1 P2 \<longleftrightarrow> pm_Unmarshal P1 = pm_Unmarshal P2 \<and> pm_ParseFloat P1 = pm_ParseFloat P2 \<and>
     (\<forall>url vals auth query. map_of vals ''query'' = Some query \<longrightarrow> query_about t query \<longrightarrow>
        pm_do P1 url vals auth = pm_do P2 url vals auth)"

lemma prom_result_same:
  assumes "same_about t P1 P2" and "map_of vals ''query'' = Some query" and "query_about t query"
  shows "prom_result P1 q path vals limit = prom_result P2 q path vals limit"
proof -
  have "pm_do P1 url vals auth = pm_do P2 url vals auth" "pm_Unmarshal P1 = pm_Unmarshal P2" for url auth
    using assms by (auto simp: same_about_def)
  thus ?thesis unfolding prom_result_def by presburger
qed

lemma instant_same:
  assumes "same_about t P1 P2" and "query_about t query"
  shows "instant P1 q query = instant P2 q query"
proof -
  have p: "parsePromSample P1 = parsePromSample P2"
    using assms(1) by (simp add: fun_eq_iff parsePromSample_def same_about_def split: json_any.split)
  show ?thesis unfolding instant_def p by (subst prom_result_same [OF assms(1) _ assms(2)]) simp_all
qed

lemma rangeQuery_same:
  assumes "same_about t P1 P2" and "query_about t query"
  shows "rangeQuery P1 impl q query a b step = rangeQuery P2 impl q query a b step"
proof -
  have p: "range_point P1 impl = range_point P2 impl"
    using assms(1) by (simp add: fun_eq_iff range_point_def same_about_def)
  show ?thesis unfolding rangeQuery_def p by (subst prom_result_same [OF assms(1) _ assms(2)]) simp_all
qed

lemma fetch_same:
  assumes "same_about t P1 P2" and "List.member allowedWindows w"
  shows "snapshot_fetch P1 rnd now key t w q out = snapshot_fetch P2 rnd now key t w q out"
proof -
  have "fold (setF P1 q) fs acc = fold (setF P2 q) fs acc"
    if "\<forall>(field, put, query) \<in> set fs. query_about t query" for fs acc
    using that by (induction fs arbitrary: acc) (auto simp: setF_def instant_same [OF assms(1)])
  hence "fold (setF P1 q) (snapshot_fields (escapePromLabelValue t) w) acc
      = fold (setF P2 q) (snapshot_fields (escapePromLabelValue t) w) acc" for acc
    using snapshot_queries_about [OF assms(2)] by blast
  thus ?thesis by (simp add: snapshot_fetch_def)
qed

lemma NormalizeWindow_allowed: "NormalizeWindow w d = Inr v \<Longrightarrow> List.member allowedWindows v"
  by (auto simp: NormalizeWindow_def Let_def split: if_splits)

text \<open>C10. The metrics page of a tenant shows that tenant's numbers only: whatever characters the id of the tenant has, the
  snapshot and the series of every metric are determined by what Prometheus answers to queries all of whose selectors
  ask for exactly that tenant, so no id can break out of its quotes and read the numbers of another.\<close>

theorem metrics_of_one_tenant:
  assumes "same_about t P1 P2"
  shows "SnapshotTenant P1 rnd now t window qo = SnapshotTenant P2 rnd now t window qo \<and>
    Timeseries P1 impl mul atoi_err now t metric window step qo = Timeseries P2 impl mul atoi_err now t metric window step qo"
proof
  show "SnapshotTenant P1 rnd now t window qo = SnapshotTenant P2 rnd now t window qo"
    using fetch_same [OF assms NormalizeWindow_allowed]
    by (auto simp: SnapshotTenant_def Let_def split: sum.split option.split)
  have r: "rangeQuery P1 impl q (build (escapePromLabelValue t) s) a b s = rangeQuery P2 impl q (build (escapePromLabelValue t) s) a b s"
    if "s \<in> set allowedSteps" "gm_get allowedMetrics metric = Some build" for build s q a b
    using that by (intro rangeQuery_same [OF assms] series_query_about) auto
  show "Timeseries P1 impl mul atoi_err now t metric window step qo = Timeseries P2 impl mul atoi_err now t metric window step qo"
    unfolding Timeseries_def Let_def by (auto simp: r split: sum.split option.split)
qed

definition prom_down :: prom where
  "prom_down = \<lparr>pm_do = (\<lambda>url vals auth. Inl ''down''), pm_Unmarshal = (\<lambda>b. Inl ''''), pm_ParseFloat = (\<lambda>s. Inl '''')\<rparr>"

text \<open>An environment that answers only what is not about \<open>a"b\<close>.\<close>

definition prom_others :: prom where
  "prom_others = prom_down\<lparr>pm_do := (\<lambda>url vals auth. case map_of vals ''query'' of
     Some query \<Rightarrow> if query_about [CHR ''a'', CHR 0x22, CHR ''b''] query then Inl ''down'' else Inr (200, ''secret'') | None \<Rightarrow> Inl '''')\<rparr>"

theorem metrics_of_one_tenant_witness:
  "fst (SnapshotTenant prom_others F64 5 [CHR ''a'', CHR 0x22, CHR ''b''] '''' (Some (NewMetricsQuerierFromEnv (\<lambda>_ _ _. 0) (\<lambda>_. ''http://prom''))))
    = fst (SnapshotTenant prom_down F64 5 [CHR ''a'', CHR 0x22, CHR ''b''] '''' (Some (NewMetricsQuerierFromEnv (\<lambda>_ _ _. 0) (\<lambda>_. ''http://prom''))))"
proof -
  have "same_about [CHR ''a'', CHR 0x22, CHR ''b''] prom_others prom_down"
    by (simp add: same_about_def prom_others_def prom_down_def)
  from metrics_of_one_tenant [OF this] show ?thesis by (metis (no_types))
qed


section \<open>The cache of snapshots\<close>

text \<open>A sequence of snapshots, each with its environment, time, tenant and window.\<close>

definition snapshot_history ::
  "(rat \<Rightarrow> f64) \<Rightarrow> (prom \<times> time \<times> bytes \<times> bytes) list \<Rightarrow> MetricsQuerier option \<Rightarrow> MetricsQuerier option" where
  "snapshot_history rnd calls qo = fold (\<lambda>(P, now, t, window) qo. snd (SnapshotTenant P rnd now t window qo)) calls qo"

definition snapshots_ok :: "MetricsQuerier \<Rightarrow> bool" where
  "snapshots_ok q \<longleftrightarrow> (\<forall>k fetched tm. gm_get (pq_cache q) k = Some (fetched, tm) \<longrightarrow>
     k = snapshot_key (tm_TenantID tm) (tm_Window tm) \<and> List.member allowedWindows (tm_Window tm) \<and> tm_AsOf tm = fetched)"

lemma window_no_colon: "List.member allowedWindows w \<Longrightarrow> CHR '':'' \<notin> set w"
  by (auto simp: allowedWindows_def)

text \<open>The id of a tenant may contain a colon, a window does not.\<close>

lemma snapshot_key_inj:
  assumes "snapshot_key t w = snapshot_key t' w'" and "List.member allowedWindows w" "List.member allowedWindows w'"
  shows "t = t' \<and> w = w'"
proof -
  have "rev w @ CHR '':'' # rev t = rev w' @ CHR '':'' # rev t'"
    using arg_cong [OF assms(1), of rev] by (simp add: snapshot_key_def)
  with window_no_colon [OF assms(2)] window_no_colon [OF assms(3)] show ?thesis
    by (simp add: split_first)
qed

definition same_head :: "TenantMetrics \<Rightarrow> TenantMetrics \<Rightarrow> bool" where
  "same_head a b \<longleftrightarrow> tm_TenantID a = tm_TenantID b \<and> tm_Window a = tm_Window b \<and> tm_AsOf a = tm_AsOf b"

lemma fields_head: "(field, put, query) \<in> set (snapshot_fields t w) \<Longrightarrow> same_head (put v out) out"
  by (auto simp: snapshot_fields_def same_head_def)

lemma setF_head: "(\<And>v out. same_head (put v out) out) \<Longrightarrow> same_head (fst (setF P q (field, put, query) acc)) (fst acc)"
  by (cases acc) (simp add: setF_def same_head_def split: sum.split)

lemma fold_head:
  assumes "set fs \<subseteq> set (snapshot_fields t w)"
  shows "same_head (fst (fold (setF P q) fs acc)) (fst acc)"
  using assms
proof (induction fs arbitrary: acc)
  case (Cons f fs)
  obtain field put query where f: "f = (field, put, query)" by (cases f) blast
  have "same_head (fst (setF P q f acc)) (fst acc)"
    using Cons.prems fields_head unfolding f by (intro setF_head) auto
  moreover have "same_head (fst (fold (setF P q) fs (setF P q f acc))) (fst (setF P q f acc))"
    using Cons.prems by (intro Cons.IH) auto
  ultimately show ?case by (simp add: same_head_def)
qed (simp add: same_head_def)

lemma fetch_head:
  assumes "snapshot_fetch P rnd now key t w q out = (res, q')"
  obtains tm where "res = Inr (Inr tm)" "same_head tm out"
    "q' = Some (if pq_cacheTTL q > 0 then q\<lparr>pq_cache := gm_put (pq_cache q) key (now, tm)\<rparr> else q)"
proof -
  obtain o1 errs where f: "fold (setF P q) (snapshot_fields (escapePromLabelValue t) w)
      (out\<lparr>tm_Source := ''prometheus'', tm_Degraded := False, tm_Note := ''''\<rparr>, []) = (o1, errs)" by fastforce
  have "same_head o1 out"
    using fold_head [OF order_refl, of P q "escapePromLabelValue t" w "(out\<lparr>tm_Source := ''prometheus'', tm_Degraded := False, tm_Note := ''''\<rparr>, [])"]
      f by (simp add: same_head_def)
  with f assms show thesis
    by (intro that [of "o1\<lparr>tm_Cache := derived_fields rnd (tm_Cache o1), tm_Errors := errs\<rparr>"])
      (simp_all add: snapshot_fetch_def same_head_def Let_def)
qed

lemma SnapshotTenant_cases:
  assumes "SnapshotTenant P rnd now t window (Some q) = (res, q')" and "NormalizeWindow window ''1h'' = Inr w"
  obtains (off) tm where "res = Inr (Inr tm)" "q' = Some q" "same_head tm (new_snapshot (pq_maxPerPod q) now t w)"
  | (hit) fetched tm where "res = Inr (Inr tm)" "q' = Some q" "gm_get (pq_cache q) (snapshot_key t w) = Some (fetched, tm)"
      "now - fetched < pq_cacheTTL q"
  | (fetch) tm where "res = Inr (Inr tm)" "same_head tm (new_snapshot (pq_maxPerPod q) now t w)"
      "q' = Some (if pq_cacheTTL q > 0 then q\<lparr>pq_cache := gm_put (pq_cache q) (snapshot_key t w) (now, tm)\<rparr> else q)"
proof -
  have "thesis" if "snapshot_fetch P rnd now (snapshot_key t w) t w q (new_snapshot (pq_maxPerPod q) now t w) = (res, q')"
    using fetch_head [OF that] fetch by metis
  with assms off hit show thesis
    by (auto simp: SnapshotTenant_def Let_def same_head_def split: if_splits option.splits)
qed

lemma SnapshotTenant_ok:
  assumes "snapshots_ok q"
  obtains q' where "snd (SnapshotTenant P rnd now t window (Some q)) = Some q'" "snapshots_ok q'" "pq_cacheTTL q' = pq_cacheTTL q"
proof (cases "NormalizeWindow window ''1h''")
  case (Inl e)
  with assms that show ?thesis by (simp add: SnapshotTenant_def)
next
  case (Inr w)
  obtain res q' where s: "SnapshotTenant P rnd now t window (Some q) = (res, q')" by fastforce
  from s Inr show ?thesis
  proof (cases rule: SnapshotTenant_cases)
    case (fetch tm)
    have "snapshots_ok (q\<lparr>pq_cache := gm_put (pq_cache q) (snapshot_key t w) (now, tm)\<rparr>)"
      using assms fetch(2) NormalizeWindow_allowed [OF Inr]
      by (auto simp: snapshots_ok_def same_head_def new_snapshot_def split: if_splits)
    with fetch(3) s assms that show ?thesis by (simp split: if_splits)
  qed (use s assms that in simp_all)
qed

lemma history_ok:
  assumes "snapshots_ok q"
  shows "\<exists>q'. snapshot_history rnd calls (Some q) = Some q' \<and> snapshots_ok q' \<and> pq_cacheTTL q' = pq_cacheTTL q"
  using assms
proof (induction calls arbitrary: q)
  case (Cons c calls)
  obtain P now t window where c: "c = (P, now, t, window)" by (cases c) blast
  from SnapshotTenant_ok [OF Cons.prems, of P rnd now t window] obtain q' where
    "snd (SnapshotTenant P rnd now t window (Some q)) = Some q'" "snapshots_ok q'" "pq_cacheTTL q' = pq_cacheTTL q" .
  with Cons.IH [of q'] show ?case by (simp add: snapshot_history_def c)
qed (simp add: snapshot_history_def)



definition prom_env :: "bytes \<Rightarrow> bytes" where
  "prom_env k = (if k = ''NANCE_METRICS_PROM_URL'' then ''http://prom/'' else '''')"

lemma prom_env_ttl: "pq_cacheTTL (NewMetricsQuerierFromEnv (\<lambda>_ _ _. 0) prom_env) = 10000000000"
  by code_simp

lemma window_example: "NormalizeWindow '' 5m '' ''1h'' = Inr ''5m''"
  by code_simp



end
