(* ===== verification/Spec2Isabelle.thy ===== *)
theory Spec2Isabelle
  imports Prelude Go_Lang Sha256 Bson Wire Command Cache_Key Cache_Store Coordinator Generation
    Scoped_Cursors Cached_Cursor Cursor_Registry Cache_Result Reply Cache_Stats Metrics Region
    Rate_Limit Model Control_Store Policy Proxy_Auth Crypto Pool Command_Doc Handler
    Handler_Props Handler_Cache Handler_Cursors Server Server_Props Server_Ends Cache_History
    Plane_Claims Plane_Access Plane_Owners Plane_Login Plane_Replies Config Setup Mailer
    Metrics_Query
begin

text \<open>
  Verification of the Nance accelerator, the Go program under \<open>apps/accelerator\<close>.  File names
  below are relative to \<open>apps/accelerator/internal\<close> unless they begin with \<open>cmd\<close>.

  \<^bold>\<open>The program.\<close>  It has two processes that share one database.  The \<^emph>\<open>proxy\<close>
  speaks the MongoDB wire protocol: a client logs in with SASL PLAIN, its tenant id and a token, and
  every command is forwarded to the MongoDB deployment of the connection the token is bound to.
  Reads that opt in (by the suffix \<open>_cache\<close> of the collection or by a policy) are answered from a
  result cache, and a write can invalidate the namespace it touches.  The \<^emph>\<open>control
  plane\<close> is an HTTP interface with which users log in (by code or by password), form
  organizations, and manage the connections, cache policies and tokens the proxy reads.

  \<^bold>\<open>Ground.\<close>
  \<^item> \<open>Prelude\<close>: Go strings and byte slices as byte lists, Go maps as association lists
    with distinct keys, wrap-around of fixed-width integers, and the lemmas about them.
  \<^item> \<open>Go_Lang\<close>, \<open>Sha256\<close>, \<open>Bson\<close>: what the program uses of the Go language, its standard
    library and the data of the BSON package.  Slicing and indexing return a panic out of range.

  \<^bold>\<open>The proxy.\<close>
  \<^item> \<open>Wire\<close> (\<open>proxy/wire\<close>): headers and \<open>OP_MSG\<close>.  A well laid out message is read as its
    sections, no input makes the parser index out of range, and a written message is read back.
  \<^item> \<open>Command\<close>, \<open>Command_Doc\<close>, \<open>Reply\<close> (\<open>proxy/command\<close> and the document helpers of
    \<open>proxy/handler\<close>): classification of commands, the opt-in suffix, merging document sequences,
    the reply documents.
  \<^item> \<open>Cache_Key\<close>, \<open>Cache_Store\<close>, \<open>Coordinator\<close>, \<open>Cache_History\<close>, \<open>Generation\<close>,
    \<open>Cache_Result\<close> (\<open>proxy/cache\<close>): what a cache key separates and what it identifies; the
    contract of a result store as the locale \<open>result_store\<close>, with the in-memory store as its
    interpretation; invalidation is exact, and the store refines a specification in which a lookup is
    a function of the history of stores and invalidations.
  \<^item> \<open>Scoped_Cursors\<close> (the locale \<open>scoped_cursors\<close>) with its interpretations
    \<open>Cached_Cursor\<close> (\<open>proxy/cachedcursor\<close>) and \<open>Cursor_Registry\<close> (\<open>proxy/cursor\<close>): cursors
    belong to one tenant and one client connection; paging, byte budget, conservation of cursors.
  \<^item> \<open>Cache_Stats\<close>, \<open>Metrics\<close>, \<open>Region\<close>, \<open>Rate_Limit\<close>, \<open>Policy\<close>, \<open>Pool\<close>, \<open>Crypto\<close>,
    \<open>Proxy_Auth\<close>: the packages of these names.  The limiter's bound names the rounding error of \<open>float64\<close> it
    assumes; \<open>Pool.Get\<close> is split at its lock
    boundaries and its properties hold for all interleavings of the parts; the login holds over every
    history of logins and changes of the store, the locale \<open>token_store\<close> being the contract with
    the store and \<open>Control_Store\<close> its interpretation.
  \<^item> \<open>Handler\<close> (\<open>proxy/handler/handler.go\<close>): the dispatch of one message with all handlers.
    \<open>Handler_Props\<close>: without a cache the answers are those of a plain proxy, and a client without a
    tenant reaches nothing.  \<open>Handler_Cache\<close>: a repeated read comes from the cache, a write clears
    its namespace, and a find through the cache loses what follows the first batch.
    \<open>Handler_Cursors\<close>: no message touches a cursor of somebody else.
  \<^item> \<open>Server\<close> (\<open>proxy/server/server.go\<close>): the loop of a connection, limits and gauges, cleanup.
    \<open>Server_Props\<close>: the step relation \<open>srv_step\<close> interleaves any number of connections; the
    per-tenant counts are exact in every reachable state, and a message panics exactly when a
    logged-in client logs out.  \<open>Server_Ends\<close>: the loop of a connection ends.

  \<^bold>\<open>The control plane.\<close>
  \<^item> \<open>Model\<close> (\<open>model\<close>), \<open>Control_Store\<close> (\<open>controlplane/store/memory.go\<close>): the rows and the
    operations of the in-memory store.
  \<^item> \<open>Tenant_Service\<close>, \<open>Auth_Service\<close>, \<open>Org_Service\<close> (\<open>controlplane/service\<close>): every
    operation of the services, with the mails they send as values; \<open>Mailer\<close>: the message handed
    to the SMTP library.
  \<^item> \<open>Api\<close> (\<open>controlplane/api\<close>, \<open>controlplane/auth\<close>): middleware, routes and every handler;
    \<open>serve_api\<close> answers one request.
  \<^item> \<open>Plane_View\<close>, \<open>Plane_Ops\<close>, \<open>Plane_Props\<close>: what a tenant owns, the integrity of the store,
    and what each operation does to both; \<open>api_reach\<close> are the states reachable by any requests.
    \<open>Plane_Demo\<close> is a concrete run.  On them rest \<open>Plane_Claims\<close> (integrity; who can change what
    a tenant owns), \<open>Plane_Owners\<close> (an organization keeps an owner), \<open>Plane_Login\<close> (guessing a code,
    resetting a password), \<open>Plane_Replies\<close> (the types of the replies) and \<open>Plane_Access\<close>, which
    connects the planes: what an answer of the control plane means for the next login at the proxy.
  \<^item> \<open>Config\<close> (\<open>config\<close>, \<open>proxy/config\<close>, \<open>dotenv\<close>) and \<open>Setup\<close>
    (\<open>cmd/controlplane/main.go\<close>): the configuration from the environment and the services built
    from it.
  \<^item> \<open>Metrics_Query\<close> (\<open>controlplane/service/metrics_query.go\<close>): the queries to Prometheus behind the metrics
    page.  They ask for exactly one tenant, read back with a reader of PromQL strings, and the cache of
    snapshots mixes up neither tenants nor windows.  \<open>Api\<close> takes the encoded answers as a parameter.

  \<^bold>\<open>Time, randomness, concurrency.\<close>  One call of a service, of \<open>Handle\<close> or of the login reads
  one value of the clock.  Random bytes are an argument; \<open>api_reach\<close> assumes that ids drawn for
  new rows are not in use.  Operations that hold one mutex throughout are atomic; the shared result of
  a \<open>singleflight\<close> is kept as a flag of the call.

  \<^bold>\<open>Bounds and fuel.\<close>  The loops are structural recursions or have a termination proof:
  the loop of a connection by the bytes left to read, the one that evicts cached cursors by the entries left.  The one
  use of fuel is \<open>time.ParseDuration\<close>, with one turn more than there are bytes; every turn takes a
  byte, and \<open>Config\<close> proves that more fuel changes nothing.

  \<^bold>\<open>Parameters.\<close>  Code that is not part of the repository is an argument: the BSON codec, the
  MongoDB driver, AES-GCM, bcrypt, go-redis, godotenv, Prometheus and the JSON of its answers, the address grammar of
  \<open>net/mail\<close>, the rendering of a reset link from the dashboard's URL, and the rounding of \<open>float64\<close>.
  \<open>strings.ToLower\<close> is exact for ASCII and for the two other characters that lower to ASCII letters.

  \<^bold>\<open>Not modelled.\<close>
  \<^item> \<open>controlplane/store/store.go\<close>, \<open>users.go\<close>: SQL that the database runs; the services are
    modelled on the in-memory store, which has the same interface.
  \<^item> \<open>otp_email.go\<close>, \<open>password_email.go\<close>: fixed text; a mail is the code or link it is rendered from.
  \<^item> \<open>proxy/health\<close>, \<open>cmd/proxy/main.go\<close>, migrations, listeners, tickers, signals, logging and
    the transport of mail: I/O around the components above.
\<close>

end
